(* ===== verification/Prelude.thy ===== *)
theory Prelude
  imports Main
begin

text \<open>
  Shared vocabulary of the development: thrown errors as values of a sum type, the sequencing
  of fallible steps, fallible traversals of lists (with and without a threaded state), and
  the fact collections that the component theories extend.
\<close>

named_theorems result_simps "when a sequence of fallible steps returns a value"
named_theorems decode_defs "the decoders of one component, unfolded together"

subsection \<open>Errors\<close>

text \<open>
  A thrown \<open>Error\<close> carries its message. \<open>TypeError\<close> is what the language itself throws.
\<close>

datatype error = Error string | TypeError string

type_synonym 'a result = "error + 'a"

definition andThen :: "'e + 'a \<Rightarrow> ('a \<Rightarrow> 'e + 'b) \<Rightarrow> 'e + 'b" where
  "andThen m f = (case m of Inl e \<Rightarrow> Inl e | Inr x \<Rightarrow> f x)"

definition throw_if :: "bool \<Rightarrow> string \<Rightarrow> unit result" where
  "throw_if c message = (if c then Inl (Error message) else Inr ())"

definition is_ok :: "'e + 'a \<Rightarrow> bool" where
  "is_ok r = (case r of Inl e \<Rightarrow> False | Inr x \<Rightarrow> True)"

lemma andThen_Inl [simp]: "andThen (Inl e) f = Inl e"
  by (simp add: andThen_def)

lemma andThen_Inr [simp]: "andThen (Inr x) f = f x"
  by (simp add: andThen_def)

lemma andThen_eq_Inr [result_simps]:
  "andThen m f = Inr y \<longleftrightarrow> (\<exists>x. m = Inr x \<and> f x = Inr y)"
  by (cases m) auto

lemma andThenE:
  "andThen m f = Inr y \<Longrightarrow> (\<And>x. m = Inr x \<Longrightarrow> f x = Inr y \<Longrightarrow> P) \<Longrightarrow> P"
  by (cases m) auto

lemma andThen_eq_Inl:
  "andThen m f = Inl e \<longleftrightarrow> m = Inl e \<or> (\<exists>x. m = Inr x \<and> f x = Inl e)"
  by (cases m) auto

lemma andThen_assoc: "andThen (andThen m f) g = andThen m (\<lambda>x. andThen (f x) g)"
  by (cases m) auto

lemma andThen_cong [fundef_cong]:
  "m = m' \<Longrightarrow> (\<And>x. m' = Inr x \<Longrightarrow> f x = g x) \<Longrightarrow> andThen m f = andThen m' g"
  by (cases m') auto

lemma throw_if_eq_Inr [result_simps]: "throw_if c message = Inr u \<longleftrightarrow> \<not> c"
  by (simp add: throw_if_def)

lemma throw_if_simps [simp]:
  "throw_if True message = Inl (Error message)" "throw_if False message = Inr ()"
  by (simp_all add: throw_if_def)

lemma is_ok_simps [simp]: "is_ok (Inr x)" "\<not> is_ok (Inl e)"
  by (simp_all add: is_ok_def)

lemma is_ok_iff: "is_ok r \<longleftrightarrow> (\<exists>x. r = Inr x)"
  by (cases r) auto

subsection \<open>Fallible traversals\<close>

text \<open>\<open>values.map(decode)\<close> where \<open>decode\<close> may throw: the first error wins.\<close>

primrec traverse :: "('a \<Rightarrow> 'e + 'b) \<Rightarrow> 'a list \<Rightarrow> 'e + 'b list" where
  "traverse f [] = Inr []"
| "traverse f (x # xs) = andThen (f x) (\<lambda>y. andThen (traverse f xs) (\<lambda>ys. Inr (y # ys)))"

text \<open>The same with a variable that the callback mutates.\<close>

primrec traverse_st :: "('s \<Rightarrow> 'a \<Rightarrow> 'e + 'b \<times> 's) \<Rightarrow> 's \<Rightarrow> 'a list \<Rightarrow> 'e + 'b list \<times> 's" where
  "traverse_st f s [] = Inr ([], s)"
| "traverse_st f s (x # xs) = andThen (f s x)
     (\<lambda>(y, s'). andThen (traverse_st f s' xs) (\<lambda>(ys, s''). Inr (y # ys, s'')))"

text \<open>A loop that folds a fallible step over a list and stops at the first error.\<close>

primrec fold_result :: "('s \<Rightarrow> 'a \<Rightarrow> 'e + 's) \<Rightarrow> 's \<Rightarrow> 'a list \<Rightarrow> 'e + 's" where
  "fold_result f s [] = Inr s"
| "fold_result f s (x # xs) = andThen (f s x) (\<lambda>s'. fold_result f s' xs)"

lemma traverse_eq_Inr:
  "traverse f xs = Inr ys \<longleftrightarrow> list_all2 (\<lambda>x y. f x = Inr y) xs ys"
  by (induction xs arbitrary: ys) (auto simp: result_simps list_all2_Cons1)

lemma traverse_length: "traverse f xs = Inr ys \<Longrightarrow> length ys = length xs"
  by (auto simp: traverse_eq_Inr dest: list_all2_lengthD)

lemma traverse_set:
  "traverse f xs = Inr ys \<Longrightarrow> y \<in> set ys \<Longrightarrow> \<exists>x \<in> set xs. f x = Inr y"
  by (induction xs arbitrary: ys) (auto simp: result_simps)

lemma traverse_cong [fundef_cong]:
  assumes "xs = ys" and "\<And>x. x \<in> set ys \<Longrightarrow> f x = g x"
  shows "traverse f xs = traverse g ys"
  unfolding assms(1) using assms(2) by (induction ys) auto

lemma traverse_ok: "(\<And>x. x \<in> set xs \<Longrightarrow> f x = Inr (g x)) \<Longrightarrow> traverse f xs = Inr (map g xs)"
  by (induction xs) auto

lemma traverse_st_cong [fundef_cong]:
  "xs = ys \<Longrightarrow> s = t \<Longrightarrow> (\<And>x s. x \<in> set ys \<Longrightarrow> f s x = g s x)
    \<Longrightarrow> traverse_st f s xs = traverse_st g t ys"
proof (induction ys arbitrary: xs s t)
  case Nil
  then show ?case by simp
next
  case (Cons y ys)
  have "traverse_st f u ys = traverse_st g u ys" for u
    using Cons.prems(3) by (intro Cons.IH) auto
  moreover have "f s y = g s y" using Cons.prems(3) by simp
  ultimately show ?case using Cons.prems(1,2) by simp
qed

lemma fold_result_inv:
  assumes "fold_result f s xs = Inr s'" and "P s"
    and "\<And>s x s'. x \<in> set xs \<Longrightarrow> P s \<Longrightarrow> f s x = Inr s' \<Longrightarrow> P s'"
  shows "P s'"
  using assms
proof (induction xs arbitrary: s)
  case Nil
  then show ?case by simp
next
  case (Cons x xs)
  then obtain t where t: "f s x = Inr t" and r: "fold_result f t xs = Inr s'"
    by (auto simp: result_simps)
  have "P t" using Cons.prems(2,3) t by auto
  with r show ?case using Cons.prems(3) by (intro Cons.IH) auto
qed

lemma fold_result_append:
  "fold_result f s (xs @ ys) = andThen (fold_result f s xs) (\<lambda>s'. fold_result f s' ys)"
  by (induction xs arbitrary: s) (auto simp: andThen_assoc)

subsection \<open>Optional values\<close>

text \<open>
  A property that may be absent is an \<open>option\<close>. \<open>a ?? b\<close> is \<open>or_else a b\<close>: the right
  operand only where the left one is \<open>undefined\<close>.
\<close>

definition or_else :: "'a option \<Rightarrow> 'a option \<Rightarrow> 'a option" where
  "or_else a b = (case a of None \<Rightarrow> b | Some x \<Rightarrow> Some x)"

definition get_or :: "'a \<Rightarrow> 'a option \<Rightarrow> 'a" where
  "get_or d a = (case a of None \<Rightarrow> d | Some x \<Rightarrow> x)"

lemma or_else_simps [simp]: "or_else None b = b" "or_else (Some x) b = Some x"
  by (simp_all add: or_else_def)

lemma get_or_simps [simp]: "get_or d None = d" "get_or d (Some x) = x"
  by (simp_all add: get_or_def)

lemma or_else_eq_None [simp]: "or_else a b = None \<longleftrightarrow> a = None \<and> b = None"
  by (cases a) auto

subsection \<open>Contracts of fallible steps\<close>

text \<open>
  Any component with a fallible step function and an invariant: what one step keeps, a run
  of steps keeps. The stream reducer and the decoders with a threaded budget are instances.
\<close>

locale fallible_machine =
  fixes step :: "'s \<Rightarrow> 'a \<Rightarrow> 'e + 's"
    and inv :: "'s \<Rightarrow> bool"
  assumes step_inv: "inv s \<Longrightarrow> step s a = Inr s' \<Longrightarrow> inv s'"
begin

lemma run_inv: "inv s \<Longrightarrow> fold_result step s as = Inr s' \<Longrightarrow> inv s'"
  by (rule fold_result_inv [of step s as s' inv]) (auto intro: step_inv)

end

text \<open>The contract extended by a position that no step moves backwards.\<close>

locale monotone_machine = fallible_machine step inv
  for step :: "'s \<Rightarrow> 'a \<Rightarrow> 'e + 's" and inv :: "'s \<Rightarrow> bool" +
  fixes position :: "'s \<Rightarrow> nat"
  assumes step_mono: "inv s \<Longrightarrow> step s a = Inr s' \<Longrightarrow> position s \<le> position s'"
begin

lemma run_mono: "inv s \<Longrightarrow> fold_result step s as = Inr s' \<Longrightarrow> position s \<le> position s'"
proof (induction as arbitrary: s)
  case Nil
  then show ?case by simp
next
  case (Cons a as)
  then obtain t where "step s a = Inr t" "fold_result step t as = Inr s'"
    by (auto simp: result_simps)
  with Cons show ?case by (meson order_trans step_inv step_mono)
qed

end

end
