(* ===== verification/Js_Text.thy ===== *)
theory Js_Text
  imports Prelude "HOL-Library.Word"
begin

text \<open>
  JavaScript strings: sequences of 16-bit code units, with the operations of the language's
  library that the sources use (\<open>trim\<close>, \<open>startsWith\<close>, \<open>indexOf\<close>, \<open>slice\<close>, the code point count
  of \<open>[...text]\<close>) and the character classes of the sources' regular expressions. A literal
  of the sources is written \<open>js ''text''\<close>.
\<close>

unbundle bit_operations_syntax

type_synonym code_unit = "16 word"
type_synonym jstr = "code_unit list"

definition js :: "string \<Rightarrow> jstr" where
  "js s = map of_char s"

lemma of_char_code_unit_inject: "(of_char a :: code_unit) = of_char b \<longleftrightarrow> a = b"
proof
  assume h: "(of_char a :: code_unit) = of_char b"
  have "unat (of_char c :: code_unit) = of_char c" for c
  proof -
    have "(of_char c :: code_unit) = of_nat (of_char c)"
      by (simp add: of_nat_of_char)
    moreover have "(of_char c :: nat) < 2 ^ 16"
      by (rule less_trans [OF nat_of_char_less_256]) simp
    ultimately show ?thesis by (simp add: unat_of_nat)
  qed
  with h have "(of_char a :: nat) = of_char b" by metis
  then show "a = b" by simp
qed simp

lemma js_eq_iff [simp]: "js a = js b \<longleftrightarrow> a = b"
  by (auto simp: js_def of_char_code_unit_inject inj_map_eq_map inj_on_def)

lemma js_eq_Nil_iff [simp]: "js s = [] \<longleftrightarrow> s = []" "[] = js s \<longleftrightarrow> s = []"
  by (auto simp: js_def)

lemma length_js [simp]: "length (js s) = length s"
  by (simp add: js_def)

lemma js_append: "js (a @ b) = js a @ js b"
  by (simp add: js_def)

subsection \<open>Character classes\<close>

definition is_digit :: "code_unit \<Rightarrow> bool" where
  "is_digit u \<longleftrightarrow> 48 \<le> u \<and> u \<le> 57"

definition is_upper :: "code_unit \<Rightarrow> bool" where
  "is_upper u \<longleftrightarrow> 65 \<le> u \<and> u \<le> 90"

definition is_lower :: "code_unit \<Rightarrow> bool" where
  "is_lower u \<longleftrightarrow> 97 \<le> u \<and> u \<le> 122"

definition is_alnum :: "code_unit \<Rightarrow> bool" where
  "is_alnum u \<longleftrightarrow> is_upper u \<or> is_lower u \<or> is_digit u"

text \<open>White space and line terminators, as \<open>trim\<close> and \<open>\s\<close> know them.\<close>

definition is_space :: "code_unit \<Rightarrow> bool" where
  "is_space u \<longleftrightarrow> (9 \<le> u \<and> u \<le> 13) \<or> u = 32 \<or> u = 160 \<or> u = 5760 \<or> (8192 \<le> u \<and> u \<le> 8202)
     \<or> u = 8232 \<or> u = 8233 \<or> u = 8239 \<or> u = 8287 \<or> u = 12288 \<or> u = 65279"

text \<open>\<open>\p{Cc}\<close>: the control characters, all of them single code units.\<close>

definition is_control :: "code_unit \<Rightarrow> bool" where
  "is_control u \<longleftrightarrow> u \<le> 31 \<or> (127 \<le> u \<and> u \<le> 159)"

definition is_high_surrogate :: "code_unit \<Rightarrow> bool" where
  "is_high_surrogate u \<longleftrightarrow> 55296 \<le> u \<and> u \<le> 56319"

definition is_low_surrogate :: "code_unit \<Rightarrow> bool" where
  "is_low_surrogate u \<longleftrightarrow> 56320 \<le> u \<and> u \<le> 57343"

lemmas char_class_defs = is_digit_def is_upper_def is_lower_def is_alnum_def is_space_def
  is_control_def is_high_surrogate_def is_low_surrogate_def

subsection \<open>Library operations\<close>

definition trimStart :: "jstr \<Rightarrow> jstr" where
  "trimStart s = dropWhile is_space s"

definition trimEnd :: "jstr \<Rightarrow> jstr" where
  "trimEnd s = rev (dropWhile is_space (rev s))"

definition trim :: "jstr \<Rightarrow> jstr" where
  "trim s = trimEnd (trimStart s)"

definition startsWith :: "jstr \<Rightarrow> jstr \<Rightarrow> bool" where
  "startsWith s p \<longleftrightarrow> take (length p) s = p"

definition endsWith :: "jstr \<Rightarrow> jstr \<Rightarrow> bool" where
  "endsWith s p \<longleftrightarrow> length p \<le> length s \<and> drop (length s - length p) s = p"

text \<open>The number of code points: \<open>[...text].length\<close> counts a surrogate pair once.\<close>

fun code_points :: "jstr \<Rightarrow> nat" where
  "code_points [] = 0"
| "code_points [u] = 1"
| "code_points (u # v # s) =
     (if is_high_surrogate u \<and> is_low_surrogate v then Suc (code_points s)
      else Suc (code_points (v # s)))"

text \<open>\<open>parts.join(separator)\<close>.\<close>

fun join :: "jstr \<Rightarrow> jstr list \<Rightarrow> jstr" where
  "join sep [] = []"
| "join sep [x] = x"
| "join sep (x # y # zs) = x @ sep @ join sep (y # zs)"

text \<open>\<open>[...new Set(values)]\<close>: the first occurrence of each value, in order.\<close>

fun uniq :: "'a list \<Rightarrow> 'a list" where
  "uniq [] = []"
| "uniq (x # xs) = x # filter (\<lambda>y. y \<noteq> x) (uniq xs)"

text \<open>A string is true where it is not empty, an absent one is false.\<close>

definition truthy :: "jstr option \<Rightarrow> bool" where
  "truthy s = (case s of None \<Rightarrow> False | Some t \<Rightarrow> t \<noteq> [])"

text \<open>\<open>a || b\<close> on optional strings.\<close>

definition or_text :: "jstr option \<Rightarrow> jstr option \<Rightarrow> jstr option" where
  "or_text a b = (if truthy a then a else b)"

lemma truthy_simps [simp]: "\<not> truthy None" "truthy (Some t) \<longleftrightarrow> t \<noteq> []"
  by (simp_all add: truthy_def)

lemma code_points_le: "code_points s \<le> length s"
  by (induction s rule: code_points.induct) auto

lemma set_uniq [simp]: "set (uniq xs) = set xs"
  by (induction xs) auto

lemma distinct_uniq [simp]: "distinct (uniq xs)"
  by (induction xs) auto

lemma uniq_id: "distinct xs \<Longrightarrow> uniq xs = xs"
  by (induction xs) (auto simp: filter_id_conv)

lemma length_uniq_le: "length (uniq xs) \<le> length xs"
  by (induction xs) (auto intro: le_trans [OF length_filter_le])

lemma length_uniq_eq_iff: "length (uniq xs) = length xs \<longleftrightarrow> distinct xs"
  by (metis card_distinct distinct_card distinct_uniq set_uniq)

subsection \<open>Trimming\<close>

lemma dropWhile_eq_Nil_iff: "dropWhile P xs = [] \<longleftrightarrow> list_all P xs"
  by (induction xs) auto

lemma trim_eq_Nil_iff: "trim s = [] \<longleftrightarrow> list_all is_space s"
proof -
  have "(\<forall>u \<in> set (dropWhile is_space s). is_space u) \<longleftrightarrow> (\<forall>u \<in> set s. is_space u)"
    by (induction s) auto
  then show ?thesis
    by (simp add: trim_def trimEnd_def trimStart_def list_all_iff)
qed

lemma trim_prefix: "\<exists>r. dropWhile is_space s = trim s @ r"
proof -
  let ?t = "rev (dropWhile is_space s)"
  have "?t = takeWhile is_space ?t @ dropWhile is_space ?t" by simp
  then have "rev ?t = rev (dropWhile is_space ?t) @ rev (takeWhile is_space ?t)"
    by (metis rev_append)
  then show ?thesis by (auto simp: trim_def trimEnd_def trimStart_def)
qed

lemma trim_ends:
  assumes "trim s \<noteq> []"
  shows "\<not> is_space (hd (trim s))" and "\<not> is_space (last (trim s))"
proof -
  obtain r where r: "dropWhile is_space s = trim s @ r"
    using trim_prefix by blast
  with assms have "dropWhile is_space s \<noteq> []" by simp
  then have "\<not> is_space (hd (dropWhile is_space s))" by (rule hd_dropWhile)
  with r assms show "\<not> is_space (hd (trim s))" by simp
  have "dropWhile is_space (rev (dropWhile is_space s)) \<noteq> []"
    using assms by (simp add: trim_def trimEnd_def trimStart_def)
  then have "\<not> is_space (hd (dropWhile is_space (rev (dropWhile is_space s))))"
    by (rule hd_dropWhile)
  with assms show "\<not> is_space (last (trim s))"
    by (simp add: trim_def trimEnd_def trimStart_def last_rev)
qed

lemma trim_trim [simp]: "trim (trim s) = trim s"
proof (cases "trim s = []")
  case True
  have "trim [] = []" by (simp add: trim_def trimEnd_def trimStart_def)
  with True show ?thesis by simp
next
  case False
  then have h: "dropWhile is_space (trim s) = trim s" and l: "dropWhile is_space (rev (trim s)) = rev (trim s)"
    using trim_ends [OF False] by (simp_all add: dropWhile_eq_self_iff hd_rev)
  then show ?thesis by (simp add: trim_def [of "trim s"] trimEnd_def trimStart_def)
qed

end
