(* ===== verification/Js_Value.thy ===== *)
theory Js_Value
  imports Js_Text
begin

text \<open>
  JavaScript values as the sources meet them: what \<open>JSON.parse\<close> yields, or \<open>undefined\<close>.
  Objects are lists of properties in the order of the language, so that \<open>Object.entries\<close> and
  \<open>JSON.stringify\<close> are functions of the value. The theory holds the property operations with
  their contract \<open>js_record\<close>, \<open>String(x)\<close>, \<open>Number.isSafeInteger\<close> and \<open>JSON.stringify\<close>.
\<close>

subsection \<open>Property lists\<close>

type_synonym 'v js_record = "(jstr \<times> 'v) list"

definition digits_value :: "jstr \<Rightarrow> nat" where
  "digits_value s = foldl (\<lambda>n u. 10 * n + (unat u - 48)) 0 s"

text \<open>Array index keys come first in an object, in numeric order; other keys follow in insertion order.\<close>

definition is_index :: "jstr \<Rightarrow> bool" where
  "is_index k \<longleftrightarrow> k \<noteq> [] \<and> list_all is_digit k \<and> (hd k = 48 \<longrightarrow> length k = 1)
     \<and> digits_value k < 2 ^ 32 - 1"

fun insert_index :: "jstr \<Rightarrow> 'v \<Rightarrow> 'v js_record \<Rightarrow> 'v js_record" where
  "insert_index k v [] = [(k, v)]"
| "insert_index k v ((k', w) # m) =
     (if is_index k' \<and> digits_value k' < digits_value k then (k', w) # insert_index k v m
      else (k, v) # (k', w) # m)"

fun replace_prop :: "jstr \<Rightarrow> 'v \<Rightarrow> 'v js_record \<Rightarrow> 'v js_record" where
  "replace_prop k v [] = []"
| "replace_prop k v ((k', w) # m) =
     (if k' = k then (k', v) # m else (k', w) # replace_prop k v m)"

definition prop_get :: "'v js_record \<Rightarrow> jstr \<Rightarrow> 'v option" where
  "prop_get m k = map_of m k"

text \<open>\<open>{ ...m, [k]: v }\<close>: an own property, whatever the key.\<close>

definition prop_put :: "jstr \<Rightarrow> 'v \<Rightarrow> 'v js_record \<Rightarrow> 'v js_record" where
  "prop_put k v m = (if k \<in> fst ` set m then replace_prop k v m
     else if is_index k then insert_index k v m else m @ [(k, v)])"

text \<open>\<open>m[k] = v\<close>: as above, but assigning to \<open>__proto__\<close> sets no own property.\<close>

definition prop_assign :: "jstr \<Rightarrow> 'v \<Rightarrow> 'v js_record \<Rightarrow> 'v js_record" where
  "prop_assign k v m = (if k = js ''__proto__'' then m else prop_put k v m)"

definition prop_delete :: "jstr \<Rightarrow> 'v js_record \<Rightarrow> 'v js_record" where
  "prop_delete k m = filter (\<lambda>p. fst p \<noteq> k) m"

definition prop_values :: "'v js_record \<Rightarrow> 'v list" where
  "prop_values m = map snd m"

definition distinct_keys :: "'v js_record \<Rightarrow> bool" where
  "distinct_keys m \<longleftrightarrow> distinct (map fst m)"

text \<open>
  What \<open>m[k]\<close> finds without an own property: the members of \<open>Object.prototype\<close>, all of them
  true values and none of them one of the program's own.
\<close>

definition object_prototype_keys :: "jstr list" where
  "object_prototype_keys = map js [''constructor'', ''__defineGetter__'', ''__defineSetter__'',
     ''hasOwnProperty'', ''__lookupGetter__'', ''__lookupSetter__'', ''isPrototypeOf'',
     ''propertyIsEnumerable'', ''toString'', ''valueOf'', ''__proto__'', ''toLocaleString'']"

datatype 'v member = Own 'v | Inherited | Missing

definition member_get :: "'v js_record \<Rightarrow> jstr \<Rightarrow> 'v member" where
  "member_get m k = (case prop_get m k of Some v \<Rightarrow> Own v
     | None \<Rightarrow> if k \<in> set object_prototype_keys then Inherited else Missing)"

lemma set_insert_index: "set (insert_index k v m) = insert (k, v) (set m)"
  by (induction k v m rule: insert_index.induct) auto

lemma map_of_insert_index:
  "k \<notin> fst ` set m \<Longrightarrow> map_of (insert_index k v m) k' = (if k' = k then Some v else map_of m k')"
  by (induction k v m rule: insert_index.induct) auto

lemma distinct_insert_index:
  "k \<notin> fst ` set m \<Longrightarrow> distinct (map fst m) \<Longrightarrow> distinct (map fst (insert_index k v m))"
proof (induction k v m rule: insert_index.induct)
  case (2 k v k' w m)
  have "fst ` set (insert_index k v m) = insert k (fst ` set m)"
    by (simp add: set_insert_index)
  with 2 show ?case by auto
qed simp

lemma map_of_replace_prop:
  "map_of (replace_prop k v m) k' = (if k' = k \<and> k \<in> fst ` set m then Some v else map_of m k')"
  by (induction k v m rule: replace_prop.induct) (auto simp: rev_image_eqI)

lemma map_of_snoc:
  "k \<notin> fst ` set m \<Longrightarrow> map_of (m @ [(k, v)]) k' = (if k' = k then Some v else map_of m k')"
  by (induction m) auto

lemma keys_replace_prop [simp]: "map fst (replace_prop k v m) = map fst m"
  by (induction k v m rule: replace_prop.induct) auto

lemma map_of_prop_delete: "map_of (prop_delete k m) k' = (if k' = k then None else map_of m k')"
  unfolding prop_delete_def by (induction m) auto

subsection \<open>The contract of a property record\<close>

text \<open>
  What the stream reducer and the presentation rely on: lookups after each operation, and
  the values a record lists are the ones its lookups find.
\<close>

locale js_record =
  fixes empty :: "'m"
    and get :: "'m \<Rightarrow> jstr \<Rightarrow> 'v option"
    and put :: "jstr \<Rightarrow> 'v \<Rightarrow> 'm \<Rightarrow> 'm"
    and delete :: "jstr \<Rightarrow> 'm \<Rightarrow> 'm"
    and values_of :: "'m \<Rightarrow> 'v list"
    and inv :: "'m \<Rightarrow> bool"
  assumes get_empty: "get empty k = None"
    and get_put: "get (put k v m) k' = (if k' = k then Some v else get m k')"
    and get_delete: "get (delete k m) k' = (if k' = k then None else get m k')"
    and inv_empty: "inv empty"
    and inv_put: "inv m \<Longrightarrow> inv (put k v m)"
    and inv_delete: "inv m \<Longrightarrow> inv (delete k m)"
    and values_get: "inv m \<Longrightarrow> v \<in> set (values_of m) \<longleftrightarrow> (\<exists>k. get m k = Some v)"
begin

lemma get_put_same: "get (put k v m) k = Some v"
  by (simp add: get_put)

lemma get_delete_same: "get (delete k m) k = None"
  by (simp add: get_delete)

lemma values_empty: "values_of empty = []"
  using values_get [OF inv_empty] by (metis all_not_in_conv get_empty option.distinct(1) set_empty)

lemma every_put:
  "(\<And>k' w. get m k' = Some w \<Longrightarrow> P k' w) \<Longrightarrow> P k v \<Longrightarrow> get (put k v m) k' = Some w \<Longrightarrow> P k' w"
  by (simp add: get_put split: if_splits)

lemma every_delete:
  "(\<And>k' w. get m k' = Some w \<Longrightarrow> P k' w) \<Longrightarrow> get (delete k m) k' = Some w \<Longrightarrow> P k' w"
  by (simp add: get_delete split: if_splits)

lemma put_values:
  assumes "inv m"
  shows "set (values_of (put k v m)) = insert v {w. \<exists>k'. k' \<noteq> k \<and> get m k' = Some w}"
  using values_get [OF inv_put [OF assms]] by (auto simp: get_put split: if_splits)

end

interpretation props: js_record "[]" prop_get prop_put prop_delete prop_values distinct_keys
proof
  fix m :: "'v js_record" and k k' :: jstr and v :: 'v
  show "prop_get [] k = None" by (simp add: prop_get_def)
  show "prop_get (prop_put k v m) k' = (if k' = k then Some v else prop_get m k')"
    by (simp add: prop_get_def prop_put_def map_of_replace_prop map_of_insert_index
        map_of_snoc del: map_of_append)
  show "prop_get (prop_delete k m) k' = (if k' = k then None else prop_get m k')"
    by (simp add: prop_get_def map_of_prop_delete)
  show "distinct_keys []" by (simp add: distinct_keys_def)
  show "distinct_keys (prop_put k v m)" if "distinct_keys m"
    using that by (auto simp: distinct_keys_def prop_put_def distinct_insert_index)
  show "distinct_keys (prop_delete k m)" if "distinct_keys m"
    using that by (simp add: distinct_keys_def prop_delete_def distinct_map_filter)
  show "v \<in> set (prop_values m) \<longleftrightarrow> (\<exists>k. prop_get m k = Some v)" if "distinct_keys m"
    using that by (force simp: distinct_keys_def prop_values_def prop_get_def)
qed

lemmas prop_simps [simp] = props.get_empty props.get_put props.get_delete

lemma prop_get_map:
  "prop_get (map (\<lambda>(k, v). (k, f k v)) m) k = map_option (f k) (prop_get m k)"
  unfolding prop_get_def by (induction m) auto

lemma distinct_keys_map [simp]: "distinct_keys (map (\<lambda>(k, v). (k, f k v)) m) = distinct_keys m"
proof -
  have "map fst (map (\<lambda>(k, v). (k, f k v)) m) = map fst m" by (induction m) auto
  then show ?thesis by (simp only: distinct_keys_def)
qed

lemmas distinct_keys_intros [simp] = props.inv_empty props.inv_put props.inv_delete

subsection \<open>Numbers\<close>

text \<open>
  A number is identified by its shortest decimal form, the one \<open>Number.prototype.toString\<close>
  prints and \<open>JSON.parse\<close> reads back: an integer, a decimal fraction
  \<open>FracNum s k = s / 10 ^ (k + 1)\<close> whose last digit is not 0, or an infinity (what
  \<open>JSON.parse\<close> makes of \<open>1e999\<close>).
\<close>

datatype js_number = IntNum int | FracNum int nat | InfNum bool

definition max_safe :: int where
  "max_safe = 2 ^ 53 - 1"

definition isSafeInteger :: "js_number \<Rightarrow> bool" where
  "isSafeInteger n = (case n of IntNum i \<Rightarrow> \<bar>i\<bar> \<le> max_safe | _ \<Rightarrow> False)"

definition isFinite :: "js_number \<Rightarrow> bool" where
  "isFinite n = (case n of InfNum _ \<Rightarrow> False | _ \<Rightarrow> True)"

fun decimal :: "nat \<Rightarrow> jstr" where
  "decimal n = (if n < 10 then [48 + of_nat n] else decimal (n div 10) @ [48 + of_nat (n mod 10)])"

declare decimal.simps [simp del]

text \<open>The digits of a mantissa, with the point after the first one where there are more.\<close>

definition pointed :: "jstr \<Rightarrow> jstr" where
  "pointed ds = (if length ds \<le> 1 then ds else hd ds # 46 # tl ds)"

definition whole_text :: "nat \<Rightarrow> jstr" where
  "whole_text n = (let ds = decimal n in
     if length ds \<le> 21 then ds
     else pointed (rev (dropWhile (\<lambda>u. u = 48) (rev ds))) @ js ''e+'' @ decimal (length ds - 1))"

definition fraction_text :: "nat \<Rightarrow> nat \<Rightarrow> jstr" where
  "fraction_text s k = (let ds = decimal s; n = int (length ds) - int (Suc k) in
     if 0 < n then take (nat n) ds @ [46] @ drop (nat n) ds
     else if - 6 < n then js ''0.'' @ replicate (nat (- n)) 48 @ ds
     else pointed ds @ js ''e-'' @ decimal (nat (1 - n)))"

definition signed_text :: "int \<Rightarrow> (nat \<Rightarrow> jstr) \<Rightarrow> jstr" where
  "signed_text i f = (if i < 0 then 45 # f (nat (- i)) else f (nat i))"

definition number_text :: "js_number \<Rightarrow> jstr" where
  "number_text x = (case x of IntNum i \<Rightarrow> signed_text i whole_text
     | FracNum s k \<Rightarrow> signed_text s (\<lambda>n. fraction_text n k)
     | InfNum negative \<Rightarrow> js (if negative then ''-Infinity'' else ''Infinity''))"

subsection \<open>Values\<close>

datatype json =
    JNull
  | JBool bool
  | JNum js_number
  | JStr jstr
  | JArr "json list"
  | JObj "(jstr \<times> json) list"

type_synonym js_object = "json js_record"

text \<open>The type \<open>unknown\<close>: \<open>None\<close> is \<open>undefined\<close>.\<close>

type_synonym unknown = "json option"

text \<open>\<open>source.key\<close> for a key the sources write out (none of them is on \<open>Object.prototype\<close>).\<close>

definition field :: "js_object \<Rightarrow> string \<Rightarrow> unknown" where
  "field source key = prop_get source (js key)"

lemma json_pair_size [termination_simp]:
  "(k, v) \<in> set ps \<Longrightarrow> size v < Suc (size_list (size_prod (\<lambda>_. 0) size) ps)"
  by (induction ps) auto

text \<open>\<open>String(x)\<close>: an array joins its elements, an object with an own \<open>toString\<close> cannot be converted.\<close>

fun to_string :: "json \<Rightarrow> jstr result" where
  "to_string JNull = Inr (js ''null'')"
| "to_string (JBool b) = Inr (js (if b then ''true'' else ''false''))"
| "to_string (JNum n) = Inr (number_text n)"
| "to_string (JStr s) = Inr s"
| "to_string (JArr xs) = andThen (traverse (\<lambda>x. if x = JNull then Inr [] else to_string x) xs)
     (\<lambda>parts. Inr (join [44] parts))"
| "to_string (JObj ps) = (if js ''toString'' \<in> fst ` set ps
     then Inl (TypeError ''Cannot convert object to primitive value'')
     else Inr (js ''[object Object]''))"

definition String_of :: "unknown \<Rightarrow> jstr result" where
  "String_of x = (case x of None \<Rightarrow> Inr (js ''undefined'') | Some v \<Rightarrow> to_string v)"

subsection \<open>JSON.stringify\<close>

definition hex_digit :: "code_unit \<Rightarrow> code_unit" where
  "hex_digit d = (if d < 10 then 48 + d else 87 + d)"

definition unicode_escape :: "code_unit \<Rightarrow> jstr" where
  "unicode_escape u = [92, 117, hex_digit (drop_bit 12 u), hex_digit (drop_bit 8 u AND 15),
     hex_digit (drop_bit 4 u AND 15), hex_digit (u AND 15)]"

definition quote_unit :: "code_unit \<Rightarrow> jstr" where
  "quote_unit u = (if u = 8 then [92, 98] else if u = 9 then [92, 116] else if u = 10 then [92, 110]
     else if u = 12 then [92, 102] else if u = 13 then [92, 114] else if u = 34 then [92, 34]
     else if u = 92 then [92, 92] else if u < 32 then unicode_escape u else [u])"

text \<open>A surrogate that has no partner is escaped (well-formed \<open>JSON.stringify\<close>).\<close>

fun quote_units :: "jstr \<Rightarrow> jstr" where
  "quote_units [] = []"
| "quote_units (u # s) =
     (if is_high_surrogate u then
        (case s of [] \<Rightarrow> unicode_escape u
         | v # t \<Rightarrow> if is_low_surrogate v then u # v # quote_units t
                    else unicode_escape u @ quote_units s)
      else if is_low_surrogate u then unicode_escape u @ quote_units s
      else quote_unit u @ quote_units s)"

definition quote :: "jstr \<Rightarrow> jstr" where
  "quote s = [34] @ quote_units s @ [34]"

fun stringify :: "json \<Rightarrow> jstr" where
  "stringify JNull = js ''null''"
| "stringify (JBool b) = js (if b then ''true'' else ''false'')"
| "stringify (JNum n) = (if isFinite n then number_text n else js ''null'')"
| "stringify (JStr s) = quote s"
| "stringify (JArr xs) = [91] @ join [44] (map stringify xs) @ [93]"
| "stringify (JObj ps) = [123] @ join [44] (map (\<lambda>(k, v). quote k @ [58] @ stringify v) ps) @ [125]"

end
