(* ===== verification/Protocol.thy ===== *)
theory Protocol
  imports Js_Value
begin

text \<open>
  The data of the protocol \<open>xgc.agent-runtime/v1\<close> as \<open>web/src/state.ts\<close> declares it: providers,
  worker states, turn options, requests, decisions, sessions, prompt queues, events, timeline
  items and the display state. An optional property is an \<open>option\<close>.
\<close>

definition agent_runtime_schema :: jstr where
  "agent_runtime_schema = js ''xgc.agent-runtime/v1''"

subsection \<open>Enumerations\<close>

datatype agent_provider = Codex | Claude | Cursor | Opencode | Grok

datatype worker_state =
  Starting | Ready | Running | AwaitingInput | Cancelling | Disconnected | Closed

datatype role = UserRole | AssistantRole | ToolRole | PlanRole | ActivityRole

datatype event_kind =
    PromptQueueEv
  | SessionState | SessionIdentity | SessionMetadata | SessionRuntime
  | ItemDelta | ItemSnapshot | ItemPatch
  | InputRequest | InputSubmitted | InputResolved
  | TurnEnd
  | Notice

primrec provider_name :: "agent_provider \<Rightarrow> string" where
  "provider_name Codex = ''codex''"
| "provider_name Claude = ''claude''"
| "provider_name Cursor = ''cursor''"
| "provider_name Opencode = ''opencode''"
| "provider_name Grok = ''grok''"

definition providers :: "agent_provider list" where
  "providers = [Codex, Claude, Cursor, Opencode, Grok]"

primrec worker_name :: "worker_state \<Rightarrow> string" where
  "worker_name Starting = ''starting''"
| "worker_name Ready = ''ready''"
| "worker_name Running = ''running''"
| "worker_name AwaitingInput = ''awaiting-input''"
| "worker_name Cancelling = ''cancelling''"
| "worker_name Disconnected = ''disconnected''"
| "worker_name Closed = ''closed''"

definition workerStates :: "worker_state list" where
  "workerStates = [Starting, Ready, Running, AwaitingInput, Cancelling, Disconnected, Closed]"

primrec kind_name :: "event_kind \<Rightarrow> string" where
  "kind_name PromptQueueEv = ''prompt.queue''"
| "kind_name SessionState = ''session.state''"
| "kind_name SessionIdentity = ''session.identity''"
| "kind_name SessionMetadata = ''session.metadata''"
| "kind_name SessionRuntime = ''session.runtime''"
| "kind_name ItemDelta = ''item.delta''"
| "kind_name ItemSnapshot = ''item.snapshot''"
| "kind_name ItemPatch = ''item.patch''"
| "kind_name InputRequest = ''input.request''"
| "kind_name InputSubmitted = ''input.submitted''"
| "kind_name InputResolved = ''input.resolved''"
| "kind_name TurnEnd = ''turn.end''"
| "kind_name Notice = ''notice''"

definition kinds :: "event_kind list" where
  "kinds = [PromptQueueEv, SessionState, SessionIdentity, SessionMetadata, SessionRuntime, ItemDelta,
     ItemSnapshot, ItemPatch, InputRequest, InputSubmitted, InputResolved, TurnEnd, Notice]"

primrec role_name :: "role \<Rightarrow> string" where
  "role_name UserRole = ''user''"
| "role_name AssistantRole = ''assistant''"
| "role_name ToolRole = ''tool''"
| "role_name PlanRole = ''plan''"
| "role_name ActivityRole = ''activity''"

definition roles :: "role list" where
  "roles = [UserRole, AssistantRole, ToolRole, PlanRole, ActivityRole]"

text \<open>\<open>AgentTurnStatus\<close>; a turn's status stays text until a \<open>turn.end\<close> event is admitted.\<close>

definition turn_statuses :: "jstr list" where
  "turn_statuses = map js [''completed'', ''failed'', ''cancelled'', ''unknown'', ''incomplete'',
     ''refused'', ''blocked'']"

text \<open>\<open>kind.startsWith('item.')\<close> and \<open>kind.startsWith('input.')\<close>.\<close>

definition is_item_kind :: "event_kind \<Rightarrow> bool" where
  "is_item_kind k \<longleftrightarrow> take 5 (kind_name k) = ''item.''"

definition is_input_kind :: "event_kind \<Rightarrow> bool" where
  "is_input_kind k \<longleftrightarrow> take 6 (kind_name k) = ''input.''"

lemma is_item_kind_iff: "is_item_kind k \<longleftrightarrow> k \<in> {ItemDelta, ItemSnapshot, ItemPatch}"
  by (cases k) (simp_all add: is_item_kind_def)

lemma is_input_kind_iff: "is_input_kind k \<longleftrightarrow> k \<in> {InputRequest, InputSubmitted, InputResolved}"
  by (cases k) (simp_all add: is_input_kind_def)

text \<open>
  Some enumerations are admitted through \<open>String(x)\<close>. An array whose only element is a
  listed name prints as that name, passes the test and is stored as it is: \<open>Printed\<close>
  with the array's elements.
\<close>

datatype 'e printed = Exactly 'e | Printed "json list"

datatype action_kind = ReadAction | ListFilesAction | SearchAction | UnknownAction
datatype change_kind = AddChange | DeleteChange | UpdateChange
datatype image_type = Jpeg | Png
datatype request_kind = PermissionReq | QuestionReq | PlanReq
datatype decision_outcome = AllowOutcome | DenyOutcome | CancelOutcome | AnswerOutcome

primrec action_name :: "action_kind \<Rightarrow> string" where
  "action_name ReadAction = ''read''"
| "action_name ListFilesAction = ''listFiles''"
| "action_name SearchAction = ''search''"
| "action_name UnknownAction = ''unknown''"

definition action_kinds :: "action_kind list" where
  "action_kinds = [ReadAction, ListFilesAction, SearchAction, UnknownAction]"

primrec change_name :: "change_kind \<Rightarrow> string" where
  "change_name AddChange = ''add''"
| "change_name DeleteChange = ''delete''"
| "change_name UpdateChange = ''update''"

definition change_kinds :: "change_kind list" where
  "change_kinds = [AddChange, DeleteChange, UpdateChange]"

primrec image_name :: "image_type \<Rightarrow> string" where
  "image_name Jpeg = ''image/jpeg''"
| "image_name Png = ''image/png''"

definition image_types :: "image_type list" where
  "image_types = [Jpeg, Png]"

primrec request_kind_name :: "request_kind \<Rightarrow> string" where
  "request_kind_name PermissionReq = ''permission''"
| "request_kind_name QuestionReq = ''question''"
| "request_kind_name PlanReq = ''plan''"

definition request_kinds :: "request_kind list" where
  "request_kinds = [PermissionReq, QuestionReq, PlanReq]"

primrec outcome_name :: "decision_outcome \<Rightarrow> string" where
  "outcome_name AllowOutcome = ''allow''"
| "outcome_name DenyOutcome = ''deny''"
| "outcome_name CancelOutcome = ''cancel''"
| "outcome_name AnswerOutcome = ''answer''"

definition decision_outcomes :: "decision_outcome list" where
  "decision_outcomes = [AllowOutcome, DenyOutcome, CancelOutcome, AnswerOutcome]"

subsection \<open>The contract of a named enumeration\<close>

text \<open>
  A decoder looks a text up among the names of an enumeration. With distinct names and a
  complete list the lookup is the inverse of naming.
\<close>

definition lookup_name :: "('e \<Rightarrow> string) \<Rightarrow> 'e list \<Rightarrow> jstr \<Rightarrow> 'e option" where
  "lookup_name name members s = find (\<lambda>x. js (name x) = s) members"

locale named_enum =
  fixes name :: "'e \<Rightarrow> string" and members :: "'e list"
  assumes name_inject: "name x = name y \<Longrightarrow> x = y"
    and members_complete: "x \<in> set members"
begin

lemma lookup_name_iff: "lookup_name name members s = Some x \<longleftrightarrow> s = js (name x)"
proof
  assume "lookup_name name members s = Some x"
  then show "s = js (name x)" by (auto simp: lookup_name_def find_Some_iff)
next
  assume s: "s = js (name x)"
  have "find (\<lambda>y. js (name y) = s) ys = Some x" if "x \<in> set ys" for ys
    using that by (induction ys) (auto simp: s dest: name_inject)
  then show "lookup_name name members s = Some x"
    by (simp add: lookup_name_def members_complete)
qed

lemma lookup_name_self: "lookup_name name members (js (name x)) = Some x"
  by (simp add: lookup_name_iff)

end

interpretation provider_enum: named_enum provider_name providers
proof
  show "provider_name x = provider_name y \<Longrightarrow> x = y" for x y by (cases x; cases y) simp_all
  show "x \<in> set providers" for x by (cases x) (simp_all add: providers_def)
qed

interpretation worker_enum: named_enum worker_name workerStates
proof
  show "worker_name x = worker_name y \<Longrightarrow> x = y" for x y by (cases x; cases y) simp_all
  show "x \<in> set workerStates" for x by (cases x) (simp_all add: workerStates_def)
qed

interpretation kind_enum: named_enum kind_name kinds
proof
  show "kind_name x = kind_name y \<Longrightarrow> x = y" for x y by (cases x; cases y) simp_all
  show "x \<in> set kinds" for x by (cases x) (simp_all add: kinds_def)
qed

interpretation role_enum: named_enum role_name roles
proof
  show "role_name x = role_name y \<Longrightarrow> x = y" for x y by (cases x; cases y) simp_all
  show "x \<in> set roles" for x by (cases x) (simp_all add: roles_def)
qed

interpretation action_enum: named_enum action_name action_kinds
proof
  show "action_name x = action_name y \<Longrightarrow> x = y" for x y by (cases x; cases y) simp_all
  show "x \<in> set action_kinds" for x by (cases x) (simp_all add: action_kinds_def)
qed

interpretation change_enum: named_enum change_name change_kinds
proof
  show "change_name x = change_name y \<Longrightarrow> x = y" for x y by (cases x; cases y) simp_all
  show "x \<in> set change_kinds" for x by (cases x) (simp_all add: change_kinds_def)
qed

interpretation image_enum: named_enum image_name image_types
proof
  show "image_name x = image_name y \<Longrightarrow> x = y" for x y by (cases x; cases y) simp_all
  show "x \<in> set image_types" for x by (cases x) (simp_all add: image_types_def)
qed

interpretation request_enum: named_enum request_kind_name request_kinds
proof
  show "request_kind_name x = request_kind_name y \<Longrightarrow> x = y" for x y by (cases x; cases y) simp_all
  show "x \<in> set request_kinds" for x by (cases x) (simp_all add: request_kinds_def)
qed

interpretation outcome_enum: named_enum outcome_name decision_outcomes
proof
  show "outcome_name x = outcome_name y \<Longrightarrow> x = y" for x y by (cases x; cases y) simp_all
  show "x \<in> set decision_outcomes" for x by (cases x) (simp_all add: decision_outcomes_def)
qed

lemmas enum_lookups = provider_enum.lookup_name_iff worker_enum.lookup_name_iff
  kind_enum.lookup_name_iff role_enum.lookup_name_iff action_enum.lookup_name_iff
  change_enum.lookup_name_iff image_enum.lookup_name_iff request_enum.lookup_name_iff
  outcome_enum.lookup_name_iff

lemmas enum_selfs [simp] = provider_enum.lookup_name_self worker_enum.lookup_name_self
  kind_enum.lookup_name_self role_enum.lookup_name_self action_enum.lookup_name_self
  change_enum.lookup_name_self image_enum.lookup_name_self request_enum.lookup_name_self
  outcome_enum.lookup_name_self

subsection \<open>Turn options, requests and decisions\<close>

record turn_options =
  opt_model :: "jstr option"
  opt_effort :: "jstr option"
  opt_permission :: "jstr option"

definition no_options :: turn_options where
  "no_options = \<lparr>opt_model = None, opt_effort = None, opt_permission = None\<rparr>"

record decision_option =
  do_id :: jstr
  do_label :: jstr
  do_kind :: jstr
  do_description :: "jstr option"

record agent_question =
  qu_id :: jstr
  qu_text :: jstr
  qu_options :: "decision_option list"
  qu_multiple :: bool
  qu_freeText :: bool
  qu_header :: "jstr option"

record request_details =
  rd_command :: "jstr option"
  rd_cwd :: "jstr option"
  rd_reason :: "jstr option"
  rd_grantRoot :: "jstr option"
  rd_toolName :: "jstr option"
  rd_target :: "jstr option"
  rd_preview :: "jstr option"
  rd_truncated :: "bool option"
  rd_network :: "(jstr \<times> jstr) option" \<comment> \<open>protocol, host\<close>

record agent_request =
  rq_id :: jstr
  rq_kind :: "request_kind printed"
  rq_title :: jstr
  rq_text :: "jstr option"
  rq_options :: "decision_option list"
  rq_questions :: "agent_question list"
  rq_sourceMethod :: "jstr option"
  rq_providerThreadId :: "jstr option"
  rq_providerTurnId :: "jstr option"
  rq_providerItemId :: "jstr option"
  rq_createdAt :: "jstr option"
  rq_details :: "request_details option"

record agent_decision =
  de_outcome :: "decision_outcome printed"
  de_optionId :: "jstr option"
  de_optionKind :: "jstr option"
  de_policyId :: "jstr option"
  de_policyRevision :: "jstr option"
  de_actor :: "(jstr \<times> jstr option) option" \<comment> \<open>id, label\<close>

subsection \<open>Structured item details\<close>

record command_action =
  ca_type :: "action_kind printed"
  ca_command :: jstr
  ca_name :: "jstr option"
  ca_path :: "jstr option"
  ca_query :: "jstr option"

record file_change =
  fc_path :: jstr
  fc_kind :: "change_kind printed"
  fc_movePath :: "jstr option"
  fc_diff :: jstr

datatype tool_content =
    TextContent (tc_text: jstr)
  | ResourceLink (tc_uri: jstr) (tc_name: "jstr option") (tc_linkType: "jstr option")
      (tc_description: "jstr option")
  | ImageContent (tc_mimeType: "image_type printed") (tc_data: jstr) (tc_width: int) (tc_height: int)

record tool_result =
  tr_content :: "tool_content list"
  tr_structuredContent :: unknown

record web_action =
  wa_type :: jstr
  wa_query :: "jstr option"
  wa_url :: "jstr option"
  wa_pattern :: "jstr option"
  wa_queries :: "jstr list option"

datatype message_phase = Commentary | FinalAnswer

datatype item_details =
    UserMessage turn_options
  | AgentMessage "bool option" "message_phase option"
  | CommandExecution "bool option" jstr "jstr option" "int option" "int option" "command_action list option"
      \<comment> \<open>truncated, command, cwd, exitCode, durationMs, commandActions\<close>
  | FileChange "bool option" "file_change list"
  | McpToolCall "bool option" jstr jstr unknown "int option" "jstr option" "tool_result option"
      \<comment> \<open>truncated, server, tool, arguments, durationMs, error message, result\<close>
  | WebSearch "bool option" jstr "web_action option"
  | ReasoningSummary "bool option" "int option"

text \<open>The \<open>type\<close> tag of an item's details, and its optional \<open>truncated\<close> mark.\<close>

datatype details_type = UserMessageType | AgentMessageType | CommandExecutionType | FileChangeType
  | McpToolCallType | WebSearchType | ReasoningSummaryType

fun details_type_of :: "item_details \<Rightarrow> details_type" where
  "details_type_of (UserMessage _) = UserMessageType"
| "details_type_of (AgentMessage _ _) = AgentMessageType"
| "details_type_of (CommandExecution _ _ _ _ _ _) = CommandExecutionType"
| "details_type_of (FileChange _ _) = FileChangeType"
| "details_type_of (McpToolCall _ _ _ _ _ _ _) = McpToolCallType"
| "details_type_of (WebSearch _ _ _) = WebSearchType"
| "details_type_of (ReasoningSummary _ _) = ReasoningSummaryType"

fun details_truncated :: "item_details \<Rightarrow> bool option" where
  "details_truncated (UserMessage _) = None"
| "details_truncated (AgentMessage t _) = t"
| "details_truncated (CommandExecution t _ _ _ _ _) = t"
| "details_truncated (FileChange t _) = t"
| "details_truncated (McpToolCall t _ _ _ _ _ _) = t"
| "details_truncated (WebSearch t _ _) = t"
| "details_truncated (ReasoningSummary t _) = t"

subsection \<open>Sessions, queues and profiles\<close>

record scope =
  sc_profileId :: jstr
  sc_context :: "jstr \<times> jstr" \<comment> \<open>kind, id\<close>
  sc_workspace :: "jstr \<times> jstr" \<comment> \<open>id, revision\<close>
  sc_accessConfirmed :: bool
  sc_options :: "turn_options option"

record metadata =
  md_title :: jstr
  md_archived :: bool
  md_revision :: nat

record agent_session =
  se_id :: jstr
  se_scope :: scope
  se_options :: "turn_options option"
  se_provider :: agent_provider
  se_state :: worker_state
  se_providerSessionId :: "jstr option"
  se_createdAt :: jstr
  se_lastSeq :: nat
  se_metadata :: metadata
  se_runtimeId :: "jstr option"

record agent_profile =
  pf_id :: jstr
  pf_provider :: agent_provider
  pf_protocol :: jstr
  pf_available :: bool
  pf_detail :: jstr
  pf_reviewedVersion :: jstr
  pf_interactiveRequests :: bool
  pf_toolMode :: jstr

record queued_prompt =
  qp_id :: jstr
  qp_text :: jstr
  qp_options :: turn_options
  qp_requestOptions :: turn_options
  qp_createdAt :: jstr

record prompt_queue =
  pq_revision :: nat
  pq_paused :: bool
  pq_items :: "queued_prompt list"

subsection \<open>Events\<close>

record agent_event =
  ev_sessionId :: jstr
  ev_provider :: agent_provider
  ev_kind :: event_kind
  ev_seq :: nat
  ev_turnId :: "jstr option"
  ev_itemId :: "jstr option"
  ev_text :: "jstr option"
  ev_title :: "jstr option"
  ev_status :: "jstr option"
  ev_sourceMethod :: "jstr option"
  ev_providerSessionId :: "jstr option"
  ev_providerThreadId :: "jstr option"
  ev_providerTurnId :: "jstr option"
  ev_createdAt :: "jstr option"
  ev_runtimeId :: "jstr option"
  ev_queue :: "prompt_queue option"
  ev_metadata :: "metadata option"
  ev_decision :: "agent_decision option"
  ev_details :: "item_details option"
  ev_role :: "role option"
  ev_request :: "agent_request option"

subsection \<open>Display state\<close>

record agent_item =
  it_key :: jstr
  it_turnId :: jstr
  it_id :: jstr
  it_role :: role
  it_text :: jstr
  it_title :: jstr
  it_status :: jstr
  it_truncated :: bool
  it_turnStatus :: "jstr option"
  it_sourceMethod :: "jstr option"
  it_createdAt :: "jstr option"
  it_updatedAt :: "jstr option"
  it_providerThreadId :: "jstr option"
  it_providerTurnId :: "jstr option"
  it_details :: "item_details option"

text \<open>
  A pending request with its \<open>submitted\<close> mark. A \<open>Stray\<close> entry holds the mark alone: it is what
  spreading an inherited member of \<open>Object.prototype\<close> leaves.
\<close>

datatype pending_entry = Pending agent_request bool | Stray bool

datatype decision_status = PendingDecision | SubmittedDecision | AnsweredDecision | ExpiredDecision

record decision_record =
  dr_request :: "agent_request option" \<comment> \<open>\<open>None\<close> only for a stray entry\<close>
  dr_turnId :: "jstr option"
  dr_status :: decision_status
  dr_decision :: "agent_decision option"
  dr_updatedAt :: "jstr option"

record turn_failure =
  tf_message :: jstr
  tf_createdAt :: "jstr option"

type_synonym byte = "8 word"

record stream_state =
  st_queue :: "prompt_queue option"
  st_options :: "turn_options option"
  st_sessionId :: jstr
  st_provider :: agent_provider
  st_cursor :: nat
  st_worker :: worker_state
  st_activeTurnId :: jstr
  st_providerSessionId :: jstr
  st_items :: "agent_item list"
  st_pending :: "pending_entry js_record"
  st_decisions :: "decision_record js_record"
  st_runtimeId :: jstr
  st_metadata :: "metadata option"
  st_notices :: "jstr list"
  st_lastTurnStatus :: jstr
  st_recent :: "nat \<rightharpoonup> byte list"
  st_historyBefore :: "nat option"
  st_turnFailures :: "turn_failure js_record option"

end
