(* ===== verification/Decode.thy ===== *)
theory Decode
  imports Protocol
begin

text \<open>
  The validating decoders of \<open>web/src/state.ts\<close>: every value that reaches the display state
  passes one of them. A decoder takes an \<open>unknown\<close> and returns the typed value or the error it
  throws, in the source's order of checks. \<open>Date.parse\<close> is an argument (\<open>None\<close> for \<open>NaN\<close>),
  because the language leaves its result open for most texts.
\<close>

type_synonym date_parser = "jstr \<Rightarrow> int option"

subsection \<open>Primitive decoders\<close>

definition record_of :: "unknown \<Rightarrow> js_object result" where
  "record_of value = (case value of Some (JObj ps) \<Rightarrow> Inr ps
     | _ \<Rightarrow> Inl (Error ''Invalid protocol object.''))"

definition string_of :: "nat \<Rightarrow> unknown \<Rightarrow> jstr result" where
  "string_of limit value = (case value of
       Some (JStr s) \<Rightarrow> if limit < length s then Inl (Error ''Invalid or oversized protocol text.'') else Inr s
     | _ \<Rightarrow> Inl (Error ''Invalid or oversized protocol text.''))"

definition text_limit :: nat where
  "text_limit = 262144"

text \<open>The pattern \<open>/^[A-Za-z0-9][A-Za-z0-9._-]{0,95}$/\<close>.\<close>

definition is_safe_id :: "jstr \<Rightarrow> bool" where
  "is_safe_id s = (case s of [] \<Rightarrow> False | u # us \<Rightarrow> is_alnum u \<and> length us \<le> 95
     \<and> list_all (\<lambda>v. is_alnum v \<or> v = 46 \<or> v = 95 \<or> v = 45) us)"

definition safeId :: "unknown \<Rightarrow> jstr result" where
  "safeId value = andThen (string_of 96 value) (\<lambda>i.
     if is_safe_id i then Inr i else Inl (Error ''Invalid conversation identity.''))"

definition boolean_of :: "unknown \<Rightarrow> bool result" where
  "boolean_of value = (case value of Some (JBool b) \<Rightarrow> Inr b
     | _ \<Rightarrow> Inl (Error ''Invalid protocol boolean.''))"

definition safe_int :: "unknown \<Rightarrow> int option" where
  "safe_int value = (case value of Some (JNum (IntNum i)) \<Rightarrow> if isSafeInteger (IntNum i) then Some i else None
     | _ \<Rightarrow> None)"

definition integer_of :: "unknown \<Rightarrow> nat result" where
  "integer_of value = (case safe_int value of
       Some i \<Rightarrow> if i < 0 then Inl (Error ''Invalid event sequence number.'') else Inr (nat i)
     | None \<Rightarrow> Inl (Error ''Invalid event sequence number.''))"

definition list_of :: "nat \<Rightarrow> (unknown \<Rightarrow> 'a result) \<Rightarrow> unknown \<Rightarrow> 'a list result" where
  "list_of limit decode value = (case value of
       Some (JArr xs) \<Rightarrow> if limit < length xs then Inl (Error ''Invalid protocol collection.'')
                       else traverse (\<lambda>x. decode (Some x)) xs
     | _ \<Rightarrow> Inl (Error ''Invalid protocol collection.''))"

text \<open>An enumeration tested with \<open>names.includes(value)\<close>: only the text itself passes.\<close>

definition exact_of :: "('e \<Rightarrow> string) \<Rightarrow> 'e list \<Rightarrow> string \<Rightarrow> unknown \<Rightarrow> 'e result" where
  "exact_of name members message value = (case value of
       Some (JStr s) \<Rightarrow> (case lookup_name name members s of Some x \<Rightarrow> Inr x
                        | None \<Rightarrow> Inl (Error message))
     | _ \<Rightarrow> Inl (Error message))"

text \<open>
  An enumeration tested with \<open>names.includes(String(value))\<close>. Beside the names themselves only
  arrays can print as a listed name; \<open>null\<close>, the booleans, the numbers and the objects print as
  texts that are in none of the lists.
\<close>

definition printed_of :: "('e \<Rightarrow> string) \<Rightarrow> 'e list \<Rightarrow> string \<Rightarrow> unknown \<Rightarrow> 'e printed result" where
  "printed_of name members message value = andThen (String_of value) (\<lambda>s.
     case lookup_name name members s of
       None \<Rightarrow> Inl (Error message)
     | Some x \<Rightarrow> (case value of
           Some (JStr _) \<Rightarrow> Inr (Exactly x)
         | Some (JArr xs) \<Rightarrow> Inr (Printed xs)
         | _ \<Rightarrow> Inl (Error message)))"

definition provider_of :: "unknown \<Rightarrow> agent_provider result" where
  "provider_of = exact_of provider_name providers ''Unknown provider.''"

definition worker_of :: "unknown \<Rightarrow> worker_state result" where
  "worker_of = exact_of worker_name workerStates ''Unknown worker state.''"

text \<open>\<open>value === undefined ? {} : { key: decode(value) }\<close>.\<close>

definition optional :: "(unknown \<Rightarrow> 'a result) \<Rightarrow> unknown \<Rightarrow> 'a option result" where
  "optional decode value = (case value of None \<Rightarrow> Inr None
     | Some v \<Rightarrow> andThen (decode (Some v)) (\<lambda>x. Inr (Some x)))"

definition optionalText :: "js_object \<Rightarrow> string \<Rightarrow> nat \<Rightarrow> jstr option result" where
  "optionalText source key limit = optional (string_of limit) (field source key)"

definition nativeTimestamp :: "date_parser \<Rightarrow> unknown \<Rightarrow> jstr result" where
  "nativeTimestamp date_parse value = andThen (string_of 64 value) (\<lambda>t.
     if date_parse t = None then Inl (Error ''Invalid event time.'') else Inr t)"

definition nativeNumber :: "bool \<Rightarrow> unknown \<Rightarrow> int result" where
  "nativeNumber nonnegative value = (case safe_int value of
       Some i \<Rightarrow> if nonnegative \<and> i < 0 then Inl (Error ''Invalid structured number.'') else Inr i
     | None \<Rightarrow> Inl (Error ''Invalid structured number.''))"

subsection \<open>Tool data\<close>

text \<open>
  \<open>key.toLowerCase().replace(/[-_.]/g, '')\<close> against a list of ASCII names. Beyond the ASCII
  letters only U+212A (Kelvin sign) has a lower case in ASCII; any other unit stays outside
  the list whatever its lower case is, so it is left as it is.
\<close>

definition lower_unit :: "code_unit \<Rightarrow> code_unit" where
  "lower_unit u = (if is_upper u then u + 32 else if u = 8490 then 107 else u)"

definition hidden_names :: "jstr list" where
  "hidden_names = map js [''auth'', ''authorization'', ''authentication'', ''accesstoken'',
     ''refreshtoken'', ''idtoken'', ''apikey'', ''password'', ''secret'', ''clientsecret'', ''cookie'',
     ''setcookie'', ''env'', ''environment'', ''headers'', ''meta'', ''proto'', ''constructor'', ''prototype'']"

definition hiddenNativeField :: "jstr \<Rightarrow> bool" where
  "hiddenNativeField key \<longleftrightarrow>
     filter (\<lambda>u. \<not> (u = 45 \<or> u = 95 \<or> u = 46)) (map lower_unit key) \<in> set hidden_names"

text \<open>The shared \<open>budget.nodes\<close> is threaded through the recursion.\<close>

fun nativeJson :: "nat \<Rightarrow> nat \<Rightarrow> json \<Rightarrow> (json \<times> nat) result" where
  "nativeJson depth nodes value =
     (if 1024 < Suc nodes \<or> 6 < depth then Inl (Error ''Tool data exceeds the structure limits.'')
      else (case value of
          JNull \<Rightarrow> Inr (value, Suc nodes)
        | JBool _ \<Rightarrow> Inr (value, Suc nodes)
        | JStr _ \<Rightarrow> andThen (string_of (16 * 1024) (Some value)) (\<lambda>s. Inr (JStr s, Suc nodes))
        | JNum n \<Rightarrow> if isFinite n then Inr (value, Suc nodes) else Inl (Error ''Invalid tool number.'')
        | JArr xs \<Rightarrow>
            if 64 < length xs then Inl (Error ''Invalid protocol collection.'')
            else andThen (traverse_st (\<lambda>m x. nativeJson (Suc depth) m x) (Suc nodes) xs)
                   (\<lambda>(ys, m). Inr (JArr ys, m))
        | JObj ps \<Rightarrow>
            if 64 < length ps then Inl (Error ''Tool data exceeds the structure limits.'')
            else andThen (traverse_st (\<lambda>m (key, entry).
                     if 256 < length key \<or> hiddenNativeField key
                     then Inl (Error ''Tool data contains a forbidden configuration field.'')
                     else andThen (nativeJson (Suc depth) m entry) (\<lambda>(e, m'). Inr ((key, e), m')))
                   (Suc nodes) ps)
                   (\<lambda>(qs, m). Inr (JObj qs, m))))"

declare nativeJson.simps [simp del]

definition native_json :: "unknown \<Rightarrow> json result" where
  "native_json value = (case value of None \<Rightarrow> Inl (Error ''Invalid protocol object.'')
     | Some v \<Rightarrow> andThen (nativeJson 0 0 v) (\<lambda>(w, _). Inr w))"

subsection \<open>Turn options\<close>

definition native_option :: "unknown \<Rightarrow> jstr result" where
  "native_option value = andThen (string_of 256 value) (\<lambda>s.
     if s = [] \<or> list_ex (\<lambda>u. u = 0 \<or> u = 13 \<or> u = 10) s then Inl (Error ''Invalid native option.'')
     else Inr s)"

definition decodeNativeTurnOptions :: "unknown \<Rightarrow> turn_options result" where
  "decodeNativeTurnOptions value =
     andThen (record_of value) (\<lambda>source.
     andThen (throw_if (list_ex (\<lambda>(key, _). key \<notin> set (map js [''model'', ''effort'', ''permission''])) source)
       ''Unknown native option.'') (\<lambda>_.
     andThen (optional native_option (field source ''model'')) (\<lambda>model.
     andThen (optional native_option (field source ''effort'')) (\<lambda>effort.
     andThen (optional native_option (field source ''permission'')) (\<lambda>permission.
     Inr \<lparr>opt_model = model, opt_effort = effort, opt_permission = permission\<rparr>)))))"

definition mergeNativeOptions :: "turn_options option \<Rightarrow> turn_options \<Rightarrow> turn_options" where
  "mergeNativeOptions base override =
     (let b = get_or no_options base;
          effort = (if truthy (opt_model override) \<and> opt_model override \<noteq> opt_model b
                    then None else opt_effort b)
      in \<lparr>opt_model = or_text (opt_model override) (opt_model b),
          opt_effort = or_text (opt_effort override) effort,
          opt_permission = or_text (opt_permission override) (opt_permission b)\<rparr>)"

end
