(* ===== verification/Details.thy ===== *)
theory Details
  imports Decode
begin

text \<open>
  \<open>nativeDetails\<close> of \<open>web/src/state.ts\<close>: the structured payload of a timeline item, one case
  per \<open>type\<close>. Tool images are admitted against a budget of bytes and of images that the content
  list shares.
\<close>

definition has_type :: "js_object \<Rightarrow> string \<Rightarrow> bool" where
  "has_type d name \<longleftrightarrow> field d ''type'' = Some (JStr (js name))"

subsection \<open>Commands and file changes\<close>

definition command_action_of :: "unknown \<Rightarrow> command_action result" where
  "command_action_of value =
     andThen (record_of value) (\<lambda>action.
     andThen (printed_of action_name action_kinds ''Invalid command action type.'' (field action ''type'')) (\<lambda>kind.
     andThen (string_of (16 * 1024) (field action ''command'')) (\<lambda>command.
     andThen (optionalText action ''name'' 4096) (\<lambda>name.
     andThen (optionalText action ''path'' 4096) (\<lambda>path.
     andThen (optionalText action ''query'' 4096) (\<lambda>query.
     Inr \<lparr>ca_type = kind, ca_command = command, ca_name = name, ca_path = path, ca_query = query\<rparr>))))))"

definition file_change_of :: "unknown \<Rightarrow> file_change result" where
  "file_change_of value =
     andThen (record_of value) (\<lambda>change.
     andThen (record_of (field change ''kind'')) (\<lambda>kind.
     andThen (printed_of change_name change_kinds ''Invalid file change type.'' (field kind ''type'')) (\<lambda>kindType.
     andThen (string_of 4096 (field change ''path'')) (\<lambda>path.
     andThen (string_of (64 * 1024) (field change ''diff'')) (\<lambda>diff.
     andThen (optionalText kind ''movePath'' 4096) (\<lambda>movePath.
     Inr \<lparr>fc_path = path, fc_kind = kindType, fc_movePath = movePath, fc_diff = diff\<rparr>))))))"

subsection \<open>Tool content\<close>

definition is_base64_unit :: "code_unit \<Rightarrow> bool" where
  "is_base64_unit u \<longleftrightarrow> is_alnum u \<or> u = 43 \<or> u = 47"

text \<open>The pattern \<open>/^[A-Za-z0-9+/]*={0,2}$/\<close>.\<close>

definition is_base64 :: "jstr \<Rightarrow> bool" where
  "is_base64 s = (let padding = dropWhile is_base64_unit s in
     length padding \<le> 2 \<and> list_all (\<lambda>u. u = 61) padding)"

definition image_byte_limit :: int where
  "image_byte_limit = 2 * 1024 * 1024"

text \<open>\<open>4 * Math.ceil(bytes / 3)\<close>.\<close>

definition base64_limit :: "int \<Rightarrow> nat" where
  "base64_limit bytes = nat (4 * - ((- bytes) div 3))"

definition decoded_bytes :: "jstr \<Rightarrow> int" where
  "decoded_bytes s = int (length s) div 4 * 3
     - (if endsWith s (js ''=='') then 2 else if endsWith s (js ''='') then 1 else 0)"

text \<open>\<open>imageBytesLeft\<close> and \<open>imageCount\<close>.\<close>

type_synonym image_budget = "int \<times> nat"

definition image_content_of :: "image_budget \<Rightarrow> js_object \<Rightarrow> (tool_content \<times> image_budget) result" where
  "image_content_of budget block = (case budget of (left, count) \<Rightarrow>
     andThen (string_of (base64_limit left) (field block ''data'')) (\<lambda>data.
     andThen (nativeNumber True (field block ''width'')) (\<lambda>width.
     andThen (nativeNumber True (field block ''height'')) (\<lambda>height.
     andThen (printed_of image_name image_types ''Invalid tool image.'' (field block ''mimeType'')) (\<lambda>mimeType.
     andThen (throw_if (\<not> is_base64 data \<or> length data mod 4 \<noteq> 0 \<or> data = []
         \<or> width < 1 \<or> height < 1 \<or> 8192 < width \<or> 8192 < height
         \<or> 32 * 1024 * 1024 < width * height \<or> 8 < Suc count) ''Invalid tool image.'') (\<lambda>_.
     let rest = left - decoded_bytes data in
     andThen (throw_if (rest < 0) ''Tool images exceed the display limit.'') (\<lambda>_.
     Inr (ImageContent mimeType data width height, rest, Suc count))))))))"

definition tool_content_of :: "image_budget \<Rightarrow> json \<Rightarrow> (tool_content \<times> image_budget) result" where
  "tool_content_of budget entry =
     andThen (record_of (Some entry)) (\<lambda>block.
     if has_type block ''text'' then
       andThen (string_of (16 * 1024) (field block ''text'')) (\<lambda>content. Inr (TextContent content, budget))
     else if has_type block ''image'' then image_content_of budget block
     else if \<not> has_type block ''resource_link'' then Inl (Error ''Unsupported tool content type.'')
     else
       andThen (string_of 4096 (field block ''uri'')) (\<lambda>uri.
       andThen (optionalText block ''name'' 4096) (\<lambda>name.
       andThen (optionalText block ''mimeType'' 4096) (\<lambda>mimeType.
       andThen (optionalText block ''description'' 4096) (\<lambda>description.
       Inr (ResourceLink uri name mimeType description, budget))))))"

definition tool_contents_of :: "unknown \<Rightarrow> tool_content list result" where
  "tool_contents_of value = (case value of
       Some (JArr xs) \<Rightarrow>
         if 64 < length xs then Inl (Error ''Invalid protocol collection.'')
         else andThen (traverse_st tool_content_of (image_byte_limit, 0) xs) (\<lambda>(contents, _). Inr contents)
     | _ \<Rightarrow> Inl (Error ''Invalid protocol collection.''))"

subsection \<open>The cases of nativeDetails\<close>

definition user_message_of :: "js_object \<Rightarrow> item_details result" where
  "user_message_of d =
     andThen (throw_if (list_ex (\<lambda>(key, _). key \<notin> set (map js [''type'', ''providerOptions''])) d)
       ''Invalid user message detail field.'') (\<lambda>_.
     andThen (decodeNativeTurnOptions (field d ''providerOptions'')) (\<lambda>providerOptions.
     andThen (throw_if (providerOptions = no_options) ''The user message options are missing.'') (\<lambda>_.
     Inr (UserMessage providerOptions))))"

definition agent_message_of :: "js_object \<Rightarrow> bool option \<Rightarrow> item_details result" where
  "agent_message_of d truncated = (case field d ''phase'' of
       None \<Rightarrow> Inr (AgentMessage truncated None)
     | Some v \<Rightarrow>
         if v = JStr (js ''commentary'') then Inr (AgentMessage truncated (Some Commentary))
         else if v = JStr (js ''final_answer'') then Inr (AgentMessage truncated (Some FinalAnswer))
         else Inl (Error ''Invalid message phase.''))"

definition command_execution_of :: "js_object \<Rightarrow> bool option \<Rightarrow> item_details result" where
  "command_execution_of d truncated =
     andThen (string_of (16 * 1024) (field d ''command'')) (\<lambda>command.
     andThen (optionalText d ''cwd'' 4096) (\<lambda>cwd.
     andThen (optional (nativeNumber False) (field d ''exitCode'')) (\<lambda>exitCode.
     andThen (optional (nativeNumber True) (field d ''durationMs'')) (\<lambda>durationMs.
     andThen (optional (list_of 64 command_action_of) (field d ''commandActions'')) (\<lambda>commandActions.
     Inr (CommandExecution truncated command cwd exitCode durationMs commandActions))))))"

definition tool_result_of :: "js_object \<Rightarrow> tool_result result" where
  "tool_result_of r =
     andThen (tool_contents_of (field r ''content'')) (\<lambda>content.
     andThen (optional native_json (field r ''structuredContent'')) (\<lambda>structured.
     Inr \<lparr>tr_content = content, tr_structuredContent = structured\<rparr>))"

definition mcp_tool_call_of :: "js_object \<Rightarrow> bool option \<Rightarrow> item_details result" where
  "mcp_tool_call_of d truncated =
     andThen (optional record_of (field d ''result'')) (\<lambda>res.
     andThen (optional record_of (field d ''error'')) (\<lambda>err.
     andThen (string_of 4096 (field d ''server'')) (\<lambda>server.
     andThen (string_of 4096 (field d ''tool'')) (\<lambda>tool.
     andThen (optional native_json (field d ''arguments'')) (\<lambda>arguments.
     andThen (optional (nativeNumber True) (field d ''durationMs'')) (\<lambda>durationMs.
     andThen (case err of None \<Rightarrow> Inr None
              | Some x \<Rightarrow> andThen (string_of 4096 (field x ''message'')) (\<lambda>m. Inr (Some m))) (\<lambda>message.
     andThen (case res of None \<Rightarrow> Inr None
              | Some x \<Rightarrow> andThen (tool_result_of x) (\<lambda>r. Inr (Some r))) (\<lambda>outcome.
     Inr (McpToolCall truncated server tool arguments durationMs message outcome)))))))))"

definition web_action_of :: "js_object \<Rightarrow> web_action result" where
  "web_action_of action =
     andThen (string_of 64 (field action ''type'')) (\<lambda>kind.
     andThen (optionalText action ''query'' 8192) (\<lambda>query.
     andThen (optionalText action ''url'' 8192) (\<lambda>url.
     andThen (optionalText action ''pattern'' 8192) (\<lambda>pattern.
     andThen (optional (list_of 32 (string_of 8192)) (field action ''queries'')) (\<lambda>queries.
     Inr \<lparr>wa_type = kind, wa_query = query, wa_url = url, wa_pattern = pattern, wa_queries = queries\<rparr>)))))"

definition web_search_of :: "js_object \<Rightarrow> bool option \<Rightarrow> item_details result" where
  "web_search_of d truncated =
     andThen (optional record_of (field d ''action'')) (\<lambda>act.
     andThen (string_of 8192 (field d ''query'')) (\<lambda>query.
     andThen (case act of None \<Rightarrow> Inr None
              | Some a \<Rightarrow> andThen (web_action_of a) (\<lambda>w. Inr (Some w))) (\<lambda>action.
     Inr (WebSearch truncated query action))))"

definition details_size_limit :: nat where
  "details_size_limit = 2 * 1024 * 1024"

definition nativeDetails :: "unknown \<Rightarrow> item_details result" where
  "nativeDetails value =
     andThen (record_of value) (\<lambda>d.
     andThen (throw_if (details_size_limit < length (stringify (JObj d))) ''Tool details are too long.'') (\<lambda>_.
     andThen (optional boolean_of (field d ''truncated'')) (\<lambda>truncated.
     if has_type d ''userMessage'' then user_message_of d
     else if has_type d ''agentMessage'' then agent_message_of d truncated
     else if has_type d ''commandExecution'' then command_execution_of d truncated
     else if has_type d ''fileChange'' then
       andThen (list_of 64 file_change_of (field d ''changes'')) (\<lambda>changes. Inr (FileChange truncated changes))
     else if has_type d ''mcpToolCall'' then mcp_tool_call_of d truncated
     else if has_type d ''webSearch'' then web_search_of d truncated
     else if has_type d ''reasoningSummary'' then
       andThen (optional (nativeNumber True) (field d ''summaryIndex'')) (\<lambda>summaryIndex.
         Inr (ReasoningSummary truncated summaryIndex))
     else Inl (Error ''Unknown structured item type.''))))"

end
