(* ===== verification/Events.thy ===== *)
theory Events
  imports Details
begin

text \<open>
  The decoders of requests, decisions, prompt queues, sessions, profiles and events of
  \<open>web/src/state.ts\<close>, up to \<open>decodeEvent\<close>, the single gate of the event stream.
\<close>

subsection \<open>Requests\<close>

definition nativeRequestDetails :: "unknown \<Rightarrow> request_details result" where
  "nativeRequestDetails value =
     andThen (record_of value) (\<lambda>details.
     andThen (optional record_of (field details ''network'')) (\<lambda>net.
     andThen (optionalText details ''command'' 8192) (\<lambda>command.
     andThen (optionalText details ''cwd'' 8192) (\<lambda>cwd.
     andThen (optionalText details ''reason'' 8192) (\<lambda>reason.
     andThen (optionalText details ''grantRoot'' 8192) (\<lambda>grantRoot.
     andThen (optionalText details ''toolName'' 256) (\<lambda>toolName.
     andThen (optionalText details ''target'' 8192) (\<lambda>target.
     andThen (optionalText details ''preview'' (16 * 1024)) (\<lambda>preview.
     andThen (optional boolean_of (field details ''truncated'')) (\<lambda>truncated.
     andThen (case net of None \<Rightarrow> Inr None
              | Some n \<Rightarrow> andThen (string_of 64 (field n ''protocol'')) (\<lambda>protocol.
                          andThen (string_of 4096 (field n ''host'')) (\<lambda>host. Inr (Some (protocol, host))))) (\<lambda>network.
     Inr \<lparr>rd_command = command, rd_cwd = cwd, rd_reason = reason, rd_grantRoot = grantRoot,
          rd_toolName = toolName, rd_target = target, rd_preview = preview,
          rd_truncated = truncated, rd_network = network\<rparr>)))))))))))"

definition nativeDecision :: "unknown \<Rightarrow> agent_decision result" where
  "nativeDecision value =
     andThen (record_of value) (\<lambda>d.
     andThen (printed_of outcome_name decision_outcomes ''Unknown native decision outcome.'' (field d ''outcome'')) (\<lambda>outcome.
     andThen (optional record_of (field d ''actor'')) (\<lambda>act.
     andThen (optionalText d ''optionId'' 256) (\<lambda>optionId.
     andThen (optionalText d ''optionKind'' 32) (\<lambda>optionKind.
     andThen (optionalText d ''policyId'' 256) (\<lambda>policyId.
     andThen (optionalText d ''policyRevision'' 256) (\<lambda>policyRevision.
     andThen (case act of None \<Rightarrow> Inr None
              | Some a \<Rightarrow> andThen (string_of 256 (field a ''id'')) (\<lambda>i.
                          andThen (optionalText a ''label'' 256) (\<lambda>label. Inr (Some (i, label))))) (\<lambda>actor.
     Inr \<lparr>de_outcome = outcome, de_optionId = optionId, de_optionKind = optionKind,
          de_policyId = policyId, de_policyRevision = policyRevision, de_actor = actor\<rparr>))))))))"

definition decision_option_of :: "unknown \<Rightarrow> decision_option result" where
  "decision_option_of value =
     andThen (record_of value) (\<lambda>entry.
     andThen (string_of 8192 (field entry ''id'')) (\<lambda>i.
     andThen (string_of 8192 (field entry ''label'')) (\<lambda>label.
     andThen (string_of 32 (field entry ''kind'')) (\<lambda>kind.
     andThen (optionalText entry ''description'' 8192) (\<lambda>description.
     Inr \<lparr>do_id = i, do_label = label, do_kind = kind, do_description = description\<rparr>)))))"

text \<open>\<open>new Set(ids).size !== ids.length\<close> or an empty identity.\<close>

definition bad_identities :: "jstr list \<Rightarrow> bool" where
  "bad_identities ids \<longleftrightarrow> [] \<in> set ids \<or> length (uniq ids) \<noteq> length ids"

definition options_of :: "unknown \<Rightarrow> decision_option list result" where
  "options_of value =
     andThen (list_of 32 decision_option_of value) (\<lambda>result.
     andThen (throw_if (bad_identities (map do_id result)) ''Request option identities are duplicated or missing.'') (\<lambda>_.
     Inr result))"

definition question_of :: "unknown \<Rightarrow> agent_question result" where
  "question_of value =
     andThen (record_of value) (\<lambda>q.
     andThen (string_of 256 (field q ''id'')) (\<lambda>i.
     andThen (string_of 8192 (field q ''text'')) (\<lambda>content.
     andThen (options_of (field q ''options'')) (\<lambda>opts.
     andThen (boolean_of (field q ''multiple'')) (\<lambda>multiple.
     andThen (boolean_of (field q ''freeText'')) (\<lambda>freeText.
     andThen (optionalText q ''header'' 256) (\<lambda>header.
     Inr \<lparr>qu_id = i, qu_text = content, qu_options = opts, qu_multiple = multiple,
          qu_freeText = freeText, qu_header = header\<rparr>)))))))"

definition decodeNativeRequest :: "date_parser \<Rightarrow> unknown \<Rightarrow> agent_request result" where
  "decodeNativeRequest date_parse value =
     andThen (record_of value) (\<lambda>r.
     andThen (printed_of request_kind_name request_kinds ''Unknown request type.'' (field r ''kind'')) (\<lambda>kind.
     andThen (list_of 16 question_of (field r ''questions'')) (\<lambda>questions.
     andThen (throw_if (bad_identities (map qu_id questions)) ''Question identities are duplicated or missing.'') (\<lambda>_.
     andThen (safeId (field r ''id'')) (\<lambda>i.
     andThen (string_of 4096 (field r ''title'')) (\<lambda>title.
     andThen (optional (string_of text_limit) (field r ''text'')) (\<lambda>content.
     andThen (options_of (field r ''options'')) (\<lambda>opts.
     andThen (optionalText r ''sourceMethod'' 512) (\<lambda>sourceMethod.
     andThen (optionalText r ''providerThreadId'' 512) (\<lambda>providerThreadId.
     andThen (optionalText r ''providerTurnId'' 512) (\<lambda>providerTurnId.
     andThen (optionalText r ''providerItemId'' 512) (\<lambda>providerItemId.
     andThen (optional (nativeTimestamp date_parse) (field r ''createdAt'')) (\<lambda>createdAt.
     andThen (optional nativeRequestDetails (field r ''details'')) (\<lambda>details.
     Inr \<lparr>rq_id = i, rq_kind = kind, rq_title = title, rq_text = content, rq_options = opts,
          rq_questions = questions, rq_sourceMethod = sourceMethod,
          rq_providerThreadId = providerThreadId, rq_providerTurnId = providerTurnId,
          rq_providerItemId = providerItemId, rq_createdAt = createdAt, rq_details = details\<rparr>))))))))))))))"

subsection \<open>Metadata, queues, sessions and profiles\<close>

definition nativeMetadata :: "unknown \<Rightarrow> metadata result" where
  "nativeMetadata value =
     andThen (record_of value) (\<lambda>s.
     andThen (integer_of (field s ''metadataRevision'')) (\<lambda>revision.
     andThen (string_of 640 (field s ''title'')) (\<lambda>title.
     andThen (throw_if (revision < 1 \<or> 160 < code_points title \<or> trim title \<noteq> title \<or> list_ex is_control title)
       ''Conversation metadata is invalid.'') (\<lambda>_.
     andThen (boolean_of (field s ''archived'')) (\<lambda>archived.
     Inr \<lparr>md_title = title, md_archived = archived, md_revision = revision\<rparr>)))))"

definition queued_prompt_of :: "date_parser \<Rightarrow> unknown \<Rightarrow> queued_prompt result" where
  "queued_prompt_of date_parse value =
     andThen (record_of value) (\<lambda>p.
     andThen (safeId (field p ''id'')) (\<lambda>i.
     andThen (string_of 131072 (field p ''text'')) (\<lambda>content.
     andThen (decodeNativeTurnOptions (field p ''options'')) (\<lambda>opts.
     andThen (decodeNativeTurnOptions (field p ''requestOptions'')) (\<lambda>requestOptions.
     andThen (nativeTimestamp date_parse (field p ''createdAt'')) (\<lambda>createdAt.
     Inr \<lparr>qp_id = i, qp_text = content, qp_options = opts, qp_requestOptions = requestOptions,
          qp_createdAt = createdAt\<rparr>))))))"

definition decodePromptQueue :: "date_parser \<Rightarrow> unknown \<Rightarrow> prompt_queue result" where
  "decodePromptQueue date_parse value =
     andThen (record_of value) (\<lambda>q.
     andThen (list_of 20 (queued_prompt_of date_parse) (field q ''items'')) (\<lambda>items.
     andThen (throw_if (length (uniq (map qp_id items)) \<noteq> length items) ''Duplicate queued message identity.'') (\<lambda>_.
     andThen (integer_of (field q ''revision'')) (\<lambda>revision.
     andThen (boolean_of (field q ''paused'')) (\<lambda>paused.
     Inr \<lparr>pq_revision = revision, pq_paused = paused, pq_items = items\<rparr>)))))"

definition has_schema :: "js_object \<Rightarrow> bool" where
  "has_schema s \<longleftrightarrow> field s ''schemaVersion'' = Some (JStr agent_runtime_schema)"

definition decodeSession :: "date_parser \<Rightarrow> unknown \<Rightarrow> agent_session result" where
  "decodeSession date_parse value =
     andThen (record_of value) (\<lambda>s.
     andThen (record_of (field s ''scope'')) (\<lambda>sc.
     andThen (throw_if (\<not> has_schema s) ''The conversation version is incompatible.'') (\<lambda>_.
     andThen (record_of (field sc ''context'')) (\<lambda>ctx.
     andThen (record_of (field sc ''workspace'')) (\<lambda>workspace.
     andThen (string_of 256 (field workspace ''revision'')) (\<lambda>revision.
     andThen (throw_if (revision = [] \<or> list_ex (\<lambda>u. u = 0 \<or> u = 13 \<or> u = 10) revision)
       ''The reviewed workspace revision is missing.'') (\<lambda>_.
     andThen (boolean_of (field sc ''accessConfirmed'')) (\<lambda>confirmed.
     andThen (throw_if (\<not> confirmed) ''The conversation lacks explicit local access consent.'') (\<lambda>_.
     andThen (string_of 64 (field s ''createdAt'')) (\<lambda>createdAt.
     andThen (throw_if (date_parse createdAt = None) ''Invalid conversation time.'') (\<lambda>_.
     andThen (safeId (field s ''id'')) (\<lambda>i.
     andThen (provider_of (field s ''provider'')) (\<lambda>provider.
     andThen (worker_of (field s ''state'')) (\<lambda>state.
     andThen (nativeMetadata (Some (JObj s))) (\<lambda>meta.
     andThen (optional safeId (field s ''runtimeId'')) (\<lambda>runtimeId.
     andThen (optional decodeNativeTurnOptions (field s ''options'')) (\<lambda>opts.
     andThen (integer_of (field s ''lastSeq'')) (\<lambda>lastSeq.
     andThen (optional (string_of 512) (field s ''providerSessionId'')) (\<lambda>providerSessionId.
     andThen (optional decodeNativeTurnOptions (field sc ''options'')) (\<lambda>scopeOptions.
     andThen (safeId (field sc ''profileId'')) (\<lambda>profileId.
     andThen (safeId (field ctx ''kind'')) (\<lambda>contextKind.
     andThen (safeId (field ctx ''id'')) (\<lambda>contextId.
     andThen (safeId (field workspace ''id'')) (\<lambda>workspaceId.
     Inr \<lparr>se_id = i,
          se_scope = \<lparr>sc_profileId = profileId, sc_context = (contextKind, contextId),
             sc_workspace = (workspaceId, revision), sc_accessConfirmed = confirmed, sc_options = scopeOptions\<rparr>,
          se_options = opts, se_provider = provider, se_state = state,
          se_providerSessionId = providerSessionId, se_createdAt = createdAt, se_lastSeq = lastSeq,
          se_metadata = meta, se_runtimeId = runtimeId\<rparr>))))))))))))))))))))))))"

definition decodeSessions :: "date_parser \<Rightarrow> unknown \<Rightarrow> agent_session list result" where
  "decodeSessions date_parse = list_of 128 (decodeSession date_parse)"

definition profile_of :: "unknown \<Rightarrow> agent_profile result" where
  "profile_of value =
     andThen (record_of value) (\<lambda>p.
     andThen (safeId (field p ''id'')) (\<lambda>i.
     andThen (provider_of (field p ''provider'')) (\<lambda>provider.
     andThen (string_of 64 (field p ''protocol'')) (\<lambda>protocol.
     andThen (boolean_of (field p ''available'')) (\<lambda>available.
     andThen (string_of 4096 (field p ''detail'')) (\<lambda>detail.
     andThen (string_of 256 (field p ''reviewedVersion'')) (\<lambda>reviewedVersion.
     andThen (boolean_of (field p ''interactiveRequests'')) (\<lambda>interactiveRequests.
     andThen (string_of 128 (field p ''toolMode'')) (\<lambda>toolMode.
     Inr \<lparr>pf_id = i, pf_provider = provider, pf_protocol = protocol, pf_available = available,
          pf_detail = detail, pf_reviewedVersion = reviewedVersion,
          pf_interactiveRequests = interactiveRequests, pf_toolMode = toolMode\<rparr>)))))))))"

definition decodeProfiles :: "unknown \<Rightarrow> agent_profile list result" where
  "decodeProfiles = list_of 16 profile_of"

subsection \<open>Events\<close>

definition expected_role :: "item_details \<Rightarrow> role" where
  "expected_role details = (case details_type_of details of
       UserMessageType \<Rightarrow> UserRole
     | AgentMessageType \<Rightarrow> AssistantRole
     | ReasoningSummaryType \<Rightarrow> ActivityRole
     | _ \<Rightarrow> ToolRole)"

text \<open>The checks on a decoded event that relate its fields, in the order of the source.\<close>

definition check_details :: "agent_event \<Rightarrow> unit result" where
  "check_details e = (case ev_details e of
       None \<Rightarrow> Inr ()
     | Some details \<Rightarrow>
         andThen (throw_if (\<not> is_item_kind (ev_kind e) \<or> ev_role e \<noteq> Some (expected_role details))
           ''The structured item does not match its message role.'') (\<lambda>_.
         throw_if (details_type_of details = UserMessageType \<and> (ev_kind e \<noteq> ItemSnapshot
             \<or> ev_itemId e \<noteq> Some (js ''user'') \<or> ev_status e \<noteq> Some (js ''submitted'')))
           ''Invalid user message receipt.''))"

definition check_event :: "agent_event \<Rightarrow> unit result" where
  "check_event e =
     andThen (throw_if (is_item_kind (ev_kind e)
         \<and> (\<not> truthy (ev_turnId e) \<or> \<not> truthy (ev_itemId e) \<or> ev_role e = None))
       ''The item lacks a turn, an item identity or a role.'') (\<lambda>_.
     andThen (check_details e) (\<lambda>_.
     andThen (if ev_kind e = SessionState
              then andThen (worker_of (map_option JStr (ev_status e))) (\<lambda>_. Inr ()) else Inr ()) (\<lambda>_.
     andThen (throw_if (ev_kind e = SessionIdentity
         \<and> (\<not> truthy (ev_providerSessionId e) \<or> 512 < length (get_or [] (ev_providerSessionId e))))
       ''The conversation identity is missing.'') (\<lambda>_.
     throw_if (is_input_kind (ev_kind e) \<and> (\<not> truthy (ev_itemId e) \<or> \<not> truthy (ev_turnId e)))
       ''The request identity is missing.''))))"

definition check_turn_end :: "agent_event \<Rightarrow> unit result" where
  "check_turn_end e = throw_if (ev_kind e = TurnEnd
       \<and> (\<not> truthy (ev_turnId e) \<or> get_or [] (ev_status e) \<notin> set turn_statuses)) ''Invalid turn result.''"

definition event_request :: "date_parser \<Rightarrow> js_object \<Rightarrow> agent_event \<Rightarrow> agent_request option result" where
  "event_request date_parse source e =
     (if ev_kind e = InputRequest then
        andThen (decodeNativeRequest date_parse (field source ''request'')) (\<lambda>req.
        andThen (throw_if (Some (rq_id req) \<noteq> ev_itemId e) ''The approval identity does not match.'') (\<lambda>_.
        Inr (Some req)))
      else Inr None)"

text \<open>The fields of an event, one after the other; the request of an \<open>input.request\<close> comes last.\<close>

definition event_base :: "date_parser \<Rightarrow> js_object \<Rightarrow> jstr \<Rightarrow> agent_provider \<Rightarrow> agent_event result" where
  "event_base date_parse e sessionId expectedProvider =
     andThen (throw_if (\<not> has_schema e \<or> field e ''sessionId'' \<noteq> Some (JStr sessionId)
         \<or> field e ''provider'' \<noteq> Some (JStr (js (provider_name expectedProvider))))
       ''The event identity chain does not match; display stopped.'') (\<lambda>_.
     andThen (exact_of kind_name kinds ''Unknown event version; display stopped.'' (field e ''kind'')) (\<lambda>kind.
     andThen (integer_of (field e ''seq'')) (\<lambda>seq.
     andThen (throw_if (seq = 0) ''Event sequence numbers start at 1.'') (\<lambda>_.
     andThen (optionalText e ''turnId'' 512) (\<lambda>turnId.
     andThen (optionalText e ''itemId'' 512) (\<lambda>itemId.
     andThen (optionalText e ''text'' (4 * 1024 * 1024)) (\<lambda>content.
     andThen (optionalText e ''title'' 4096) (\<lambda>title.
     andThen (optionalText e ''status'' 512) (\<lambda>status.
     andThen (optionalText e ''sourceMethod'' 512) (\<lambda>sourceMethod.
     andThen (optionalText e ''providerSessionId'' 512) (\<lambda>providerSessionId.
     andThen (optionalText e ''providerThreadId'' 512) (\<lambda>providerThreadId.
     andThen (optionalText e ''providerTurnId'' 512) (\<lambda>providerTurnId.
     andThen (optional (nativeTimestamp date_parse) (field e ''createdAt'')) (\<lambda>createdAt.
     andThen (optional safeId (field e ''runtimeId'')) (\<lambda>runtimeId.
     andThen (throw_if (kind = SessionRuntime \<and> \<not> truthy runtimeId) ''Runtime identity is required.'') (\<lambda>_.
     andThen (if kind = PromptQueueEv
              then andThen (decodePromptQueue date_parse (field e ''queue'')) (\<lambda>q. Inr (Some q)) else Inr None) (\<lambda>queue.
     andThen (if kind = SessionMetadata
              then andThen (nativeMetadata (field e ''metadata'')) (\<lambda>m. Inr (Some m)) else Inr None) (\<lambda>meta.
     andThen (throw_if (field e ''decision'' \<noteq> None \<and> kind \<noteq> InputSubmitted \<and> kind \<noteq> InputResolved)
       ''A decision requires a response event.'') (\<lambda>_.
     andThen (optional nativeDecision (field e ''decision'')) (\<lambda>decision.
     andThen (optional nativeDetails (field e ''details'')) (\<lambda>details.
     andThen (optional (exact_of role_name roles ''Unknown message role.'') (field e ''role'')) (\<lambda>role.
     Inr \<lparr>ev_sessionId = sessionId, ev_provider = expectedProvider, ev_kind = kind, ev_seq = seq,
          ev_turnId = turnId, ev_itemId = itemId, ev_text = content, ev_title = title, ev_status = status,
          ev_sourceMethod = sourceMethod, ev_providerSessionId = providerSessionId,
          ev_providerThreadId = providerThreadId, ev_providerTurnId = providerTurnId,
          ev_createdAt = createdAt, ev_runtimeId = runtimeId, ev_queue = queue, ev_metadata = meta,
          ev_decision = decision, ev_details = details, ev_role = role, ev_request = None\<rparr>))))))))))))))))))))))"

definition decodeEvent :: "date_parser \<Rightarrow> unknown \<Rightarrow> jstr \<Rightarrow> agent_provider \<Rightarrow> agent_event result" where
  "decodeEvent date_parse value sessionId expectedProvider =
     andThen (record_of value) (\<lambda>source.
     andThen (event_base date_parse source sessionId expectedProvider) (\<lambda>event.
     andThen (check_event event) (\<lambda>_.
     andThen (event_request date_parse source event) (\<lambda>req.
     andThen (check_turn_end event) (\<lambda>_.
     Inr (event\<lparr>ev_request := req\<rparr>))))))"

end
