(* ===== verification/Encode.thy ===== *)
theory Encode
  imports Events
begin

text \<open>
  The JSON value of a decoded event, field by field in the order in which the decoders build
  it, and the bytes of \<open>TextEncoder\<close>: together the input of the event fingerprint.
\<close>

subsection \<open>Objects with optional properties\<close>

text \<open>An absent property leaves no trace in the JSON text.\<close>

fun present :: "(string \<times> unknown) list \<Rightarrow> js_object" where
  "present [] = []"
| "present ((k, None) # fs) = present fs"
| "present ((k, Some v) # fs) = (js k, v) # present fs"

definition obj :: "(string \<times> unknown) list \<Rightarrow> json" where
  "obj fs = JObj (present fs)"

definition opt_text :: "jstr option \<Rightarrow> unknown" where
  "opt_text s = map_option JStr s"

definition opt_bool :: "bool option \<Rightarrow> unknown" where
  "opt_bool b = map_option JBool b"

definition opt_int :: "int option \<Rightarrow> unknown" where
  "opt_int i = map_option (\<lambda>n. JNum (IntNum n)) i"

definition nat_json :: "nat \<Rightarrow> json" where
  "nat_json n = JNum (IntNum (int n))"

definition printed_json :: "('e \<Rightarrow> string) \<Rightarrow> 'e printed \<Rightarrow> json" where
  "printed_json name p = (case p of Exactly x \<Rightarrow> JStr (js (name x)) | Printed xs \<Rightarrow> JArr xs)"

subsection \<open>The parts of an event\<close>

definition options_json :: "turn_options \<Rightarrow> json" where
  "options_json t = obj [(''model'', opt_text (opt_model t)), (''effort'', opt_text (opt_effort t)),
     (''permission'', opt_text (opt_permission t))]"

definition decision_option_json :: "decision_option \<Rightarrow> json" where
  "decision_option_json d = obj [(''id'', Some (JStr (do_id d))), (''label'', Some (JStr (do_label d))),
     (''kind'', Some (JStr (do_kind d))), (''description'', opt_text (do_description d))]"

definition question_json :: "agent_question \<Rightarrow> json" where
  "question_json q = obj [(''id'', Some (JStr (qu_id q))), (''text'', Some (JStr (qu_text q))),
     (''options'', Some (JArr (map decision_option_json (qu_options q)))),
     (''multiple'', Some (JBool (qu_multiple q))), (''freeText'', Some (JBool (qu_freeText q))),
     (''header'', opt_text (qu_header q))]"

definition request_details_json :: "request_details \<Rightarrow> json" where
  "request_details_json d = obj [(''command'', opt_text (rd_command d)), (''cwd'', opt_text (rd_cwd d)),
     (''reason'', opt_text (rd_reason d)), (''grantRoot'', opt_text (rd_grantRoot d)),
     (''toolName'', opt_text (rd_toolName d)), (''target'', opt_text (rd_target d)),
     (''preview'', opt_text (rd_preview d)), (''truncated'', opt_bool (rd_truncated d)),
     (''network'', map_option (\<lambda>(protocol, host). obj [(''protocol'', Some (JStr protocol)),
        (''host'', Some (JStr host))]) (rd_network d))]"

definition request_json :: "agent_request \<Rightarrow> json" where
  "request_json r = obj [(''id'', Some (JStr (rq_id r))),
     (''kind'', Some (printed_json request_kind_name (rq_kind r))),
     (''title'', Some (JStr (rq_title r))), (''text'', opt_text (rq_text r)),
     (''options'', Some (JArr (map decision_option_json (rq_options r)))),
     (''questions'', Some (JArr (map question_json (rq_questions r)))),
     (''sourceMethod'', opt_text (rq_sourceMethod r)),
     (''providerThreadId'', opt_text (rq_providerThreadId r)),
     (''providerTurnId'', opt_text (rq_providerTurnId r)),
     (''providerItemId'', opt_text (rq_providerItemId r)), (''createdAt'', opt_text (rq_createdAt r)),
     (''details'', map_option request_details_json (rq_details r))]"

definition decision_json :: "agent_decision \<Rightarrow> json" where
  "decision_json d = obj [(''outcome'', Some (printed_json outcome_name (de_outcome d))),
     (''optionId'', opt_text (de_optionId d)), (''optionKind'', opt_text (de_optionKind d)),
     (''policyId'', opt_text (de_policyId d)), (''policyRevision'', opt_text (de_policyRevision d)),
     (''actor'', map_option (\<lambda>(i, label). obj [(''id'', Some (JStr i)), (''label'', opt_text label)]) (de_actor d))]"

definition metadata_json :: "metadata \<Rightarrow> json" where
  "metadata_json m = obj [(''title'', Some (JStr (md_title m))), (''archived'', Some (JBool (md_archived m))),
     (''metadataRevision'', Some (nat_json (md_revision m)))]"

definition queued_prompt_json :: "queued_prompt \<Rightarrow> json" where
  "queued_prompt_json p = obj [(''id'', Some (JStr (qp_id p))), (''text'', Some (JStr (qp_text p))),
     (''options'', Some (options_json (qp_options p))),
     (''requestOptions'', Some (options_json (qp_requestOptions p))),
     (''createdAt'', Some (JStr (qp_createdAt p)))]"

definition queue_json :: "prompt_queue \<Rightarrow> json" where
  "queue_json q = obj [(''revision'', Some (nat_json (pq_revision q))), (''paused'', Some (JBool (pq_paused q))),
     (''items'', Some (JArr (map queued_prompt_json (pq_items q))))]"

subsection \<open>Item details\<close>

definition command_action_json :: "command_action \<Rightarrow> json" where
  "command_action_json a = obj [(''type'', Some (printed_json action_name (ca_type a))),
     (''command'', Some (JStr (ca_command a))), (''name'', opt_text (ca_name a)),
     (''path'', opt_text (ca_path a)), (''query'', opt_text (ca_query a))]"

definition file_change_json :: "file_change \<Rightarrow> json" where
  "file_change_json c = obj [(''path'', Some (JStr (fc_path c))), (''diff'', Some (JStr (fc_diff c))),
     (''kind'', Some (obj [(''type'', Some (printed_json change_name (fc_kind c))),
        (''movePath'', opt_text (fc_movePath c))]))]"

definition text_tag :: "string \<Rightarrow> string \<times> unknown" where
  "text_tag name = (''type'', Some (JStr (js name)))"

fun tool_content_json :: "tool_content \<Rightarrow> json" where
  "tool_content_json (TextContent content) = obj [text_tag ''text'', (''text'', Some (JStr content))]"
| "tool_content_json (ImageContent mime data width height) = obj [text_tag ''image'',
     (''mimeType'', Some (printed_json image_name mime)), (''data'', Some (JStr data)),
     (''width'', opt_int (Some width)), (''height'', opt_int (Some height))]"
| "tool_content_json (ResourceLink uri name mime description) = obj [text_tag ''resource_link'',
     (''uri'', Some (JStr uri)), (''name'', opt_text name), (''mimeType'', opt_text mime),
     (''description'', opt_text description)]"

definition tool_result_json :: "tool_result \<Rightarrow> json" where
  "tool_result_json r = obj [(''content'', Some (JArr (map tool_content_json (tr_content r)))),
     (''structuredContent'', tr_structuredContent r)]"

definition web_action_json :: "web_action \<Rightarrow> json" where
  "web_action_json a = obj [(''type'', Some (JStr (wa_type a))), (''query'', opt_text (wa_query a)),
     (''url'', opt_text (wa_url a)), (''pattern'', opt_text (wa_pattern a)),
     (''queries'', map_option (\<lambda>qs. JArr (map JStr qs)) (wa_queries a))]"

definition phase_json :: "message_phase \<Rightarrow> json" where
  "phase_json p = JStr (js (case p of Commentary \<Rightarrow> ''commentary'' | FinalAnswer \<Rightarrow> ''final_answer''))"

fun details_json :: "item_details \<Rightarrow> json" where
  "details_json (UserMessage providerOptions) =
     obj [text_tag ''userMessage'', (''providerOptions'', Some (options_json providerOptions))]"
| "details_json (AgentMessage truncated phase) =
     obj [text_tag ''agentMessage'', (''truncated'', opt_bool truncated), (''phase'', map_option phase_json phase)]"
| "details_json (CommandExecution truncated command cwd exitCode durationMs actions) =
     obj [text_tag ''commandExecution'', (''truncated'', opt_bool truncated), (''command'', Some (JStr command)),
       (''cwd'', opt_text cwd), (''exitCode'', opt_int exitCode), (''durationMs'', opt_int durationMs),
       (''commandActions'', map_option (\<lambda>xs. JArr (map command_action_json xs)) actions)]"
| "details_json (FileChange truncated changes) =
     obj [text_tag ''fileChange'', (''truncated'', opt_bool truncated),
       (''changes'', Some (JArr (map file_change_json changes)))]"
| "details_json (McpToolCall truncated server tool arguments durationMs message outcome) =
     obj [text_tag ''mcpToolCall'', (''truncated'', opt_bool truncated), (''server'', Some (JStr server)),
       (''tool'', Some (JStr tool)), (''arguments'', arguments), (''durationMs'', opt_int durationMs),
       (''error'', map_option (\<lambda>m. obj [(''message'', Some (JStr m))]) message),
       (''result'', map_option tool_result_json outcome)]"
| "details_json (WebSearch truncated query action) =
     obj [text_tag ''webSearch'', (''truncated'', opt_bool truncated), (''query'', Some (JStr query)),
       (''action'', map_option web_action_json action)]"
| "details_json (ReasoningSummary truncated summaryIndex) =
     obj [text_tag ''reasoningSummary'', (''truncated'', opt_bool truncated), (''summaryIndex'', opt_int summaryIndex)]"

subsection \<open>Events\<close>

definition event_fields :: "agent_event \<Rightarrow> (string \<times> unknown) list" where
  "event_fields e = [(''schemaVersion'', Some (JStr agent_runtime_schema)),
     (''sessionId'', Some (JStr (ev_sessionId e))),
     (''provider'', Some (JStr (js (provider_name (ev_provider e))))),
     (''kind'', Some (JStr (js (kind_name (ev_kind e))))), (''seq'', Some (nat_json (ev_seq e))),
     (''turnId'', opt_text (ev_turnId e)), (''itemId'', opt_text (ev_itemId e)),
     (''text'', opt_text (ev_text e)), (''title'', opt_text (ev_title e)),
     (''status'', opt_text (ev_status e)), (''sourceMethod'', opt_text (ev_sourceMethod e)),
     (''providerSessionId'', opt_text (ev_providerSessionId e)),
     (''providerThreadId'', opt_text (ev_providerThreadId e)),
     (''providerTurnId'', opt_text (ev_providerTurnId e)), (''createdAt'', opt_text (ev_createdAt e)),
     (''runtimeId'', opt_text (ev_runtimeId e)), (''queue'', map_option queue_json (ev_queue e)),
     (''metadata'', map_option metadata_json (ev_metadata e)),
     (''decision'', map_option decision_json (ev_decision e)),
     (''details'', map_option details_json (ev_details e)),
     (''role'', map_option (\<lambda>r. JStr (js (role_name r))) (ev_role e)),
     (''request'', map_option request_json (ev_request e))]"

definition event_json :: "agent_event \<Rightarrow> json" where
  "event_json e = obj (event_fields e)"

subsection \<open>TextEncoder\<close>

text \<open>UTF-8 of a sequence of code units; a surrogate without partner becomes U+FFFD.\<close>

definition utf8_unit :: "code_unit \<Rightarrow> byte list" where
  "utf8_unit u =
     (if u < 128 then [ucast u]
      else if u < 2048 then [192 OR ucast (drop_bit 6 u), 128 OR ucast (u AND 63)]
      else [224 OR ucast (drop_bit 12 u), 128 OR ucast (drop_bit 6 u AND 63), 128 OR ucast (u AND 63)])"

definition utf8_pair :: "code_unit \<Rightarrow> code_unit \<Rightarrow> byte list" where
  "utf8_pair u v = (let c = 65536 + (push_bit 10 (ucast (u AND 1023)) OR ucast (v AND 1023)) :: 32 word in
     [240 OR ucast (drop_bit 18 c), 128 OR ucast (drop_bit 12 c AND 63),
      128 OR ucast (drop_bit 6 c AND 63), 128 OR ucast (c AND 63)])"

fun utf8 :: "jstr \<Rightarrow> byte list" where
  "utf8 [] = []"
| "utf8 (u # s) =
     (if is_high_surrogate u then
        (case s of [] \<Rightarrow> [239, 191, 189]
         | v # t \<Rightarrow> if is_low_surrogate v then utf8_pair u v @ utf8 t else [239, 191, 189] @ utf8 s)
      else if is_low_surrogate u then [239, 191, 189] @ utf8 s
      else utf8_unit u @ utf8 s)"

text \<open>\<open>eventFingerprint\<close>: the hash function is a third-party package, so it is an argument.\<close>

definition eventFingerprint :: "(byte list \<Rightarrow> byte list) \<Rightarrow> agent_event \<Rightarrow> byte list" where
  "eventFingerprint sha256 event = sha256 (utf8 (stringify (event_json event)))"

end
