(* ===== verification/Stream.thy ===== *)
theory Stream
  imports Encode
begin

text \<open>
  The event reducer of \<open>web/src/state.ts\<close>: \<open>emptyStream\<close>, \<open>reduceEvent\<close> with one definition per
  kind of event, and \<open>applyEvent\<close> with its cursor and its window of fingerprints.
\<close>

definition emptyStream :: "jstr \<Rightarrow> agent_provider \<Rightarrow> stream_state" where
  "emptyStream sessionId source = \<lparr>st_queue = None, st_options = None, st_sessionId = sessionId,
     st_provider = source, st_cursor = 0, st_worker = Starting, st_activeTurnId = [],
     st_providerSessionId = [], st_items = [], st_pending = [], st_decisions = [], st_runtimeId = [],
     st_metadata = None, st_notices = [], st_lastTurnStatus = [], st_recent = Map.empty,
     st_historyBefore = None, st_turnFailures = None\<rparr>"

subsection \<open>Limits\<close>

definition item_limit :: nat where "item_limit = 262144"
definition display_item_limit :: nat where "display_item_limit = 2048"
definition notice_limit :: nat where "notice_limit = 32"
definition recent_fingerprints :: nat where "recent_fingerprints = 64"

lemmas limit_defs = item_limit_def display_item_limit_def notice_limit_def recent_fingerprints_def

subsection \<open>Clipping\<close>

text \<open>
  \<open>JSON.parse(JSON.stringify(content.slice(0, ITEM_LIMIT)))\<close>: the text literal is printed and
  read back. \<open>unquote\<close> reads one literal; it is total on what \<open>quote\<close> prints.
\<close>

definition hex_value :: "code_unit \<Rightarrow> code_unit option" where
  "hex_value u = (if is_digit u then Some (u - 48)
     else if 97 \<le> u \<and> u \<le> 102 then Some (u - 87) else if 65 \<le> u \<and> u \<le> 70 then Some (u - 55) else None)"

definition escaped_unit :: "code_unit \<Rightarrow> code_unit option" where
  "escaped_unit u = (if u = 98 then Some 8 else if u = 116 then Some 9 else if u = 110 then Some 10
     else if u = 102 then Some 12 else if u = 114 then Some 13
     else if u = 34 \<or> u = 92 \<or> u = 47 then Some u else None)"

fun unquote_units :: "jstr \<Rightarrow> (jstr \<times> jstr) option" where
  "unquote_units [] = None"
| "unquote_units (u # s) =
     (if u = 34 then Some ([], s)
      else if u = 92 then
        (case s of
           [] \<Rightarrow> None
         | v # t \<Rightarrow>
             if v = 117 then
               (case t of
                  a # b # c # d # r \<Rightarrow>
                    (case (hex_value a, hex_value b, hex_value c, hex_value d) of
                       (Some w, Some x, Some y, Some z) \<Rightarrow>
                         map_option (\<lambda>(us, rest).
                           ((push_bit 12 w OR push_bit 8 x OR push_bit 4 y OR z) # us, rest)) (unquote_units r)
                     | _ \<Rightarrow> None)
                | _ \<Rightarrow> None)
             else (case escaped_unit v of None \<Rightarrow> None
                   | Some w \<Rightarrow> map_option (\<lambda>(us, rest). (w # us, rest)) (unquote_units t)))
      else if u < 32 then None
      else map_option (\<lambda>(us, rest). (u # us, rest)) (unquote_units s))"

definition unquote :: "jstr \<Rightarrow> (jstr \<times> jstr) option" where
  "unquote s = (case s of [] \<Rightarrow> None | u # t \<Rightarrow> if u = 34 then unquote_units t else None)"

definition copyClippedText :: "jstr \<Rightarrow> jstr result" where
  "copyClippedText content = (case unquote (quote (take item_limit content)) of
       Some (s, []) \<Rightarrow> Inr s
     | _ \<Rightarrow> Inl (Error ''SyntaxError''))"

subsection \<open>Decisions that expire\<close>

definition expire_decision :: "jstr option \<Rightarrow> decision_record \<Rightarrow> decision_record" where
  "expire_decision at d = (if dr_status d = PendingDecision \<or> dr_status d = SubmittedDecision
     then d\<lparr>dr_status := ExpiredDecision, dr_updatedAt := at\<rparr> else d)"

definition expireDecisions :: "jstr option \<Rightarrow> decision_record js_record \<Rightarrow> decision_record js_record" where
  "expireDecisions at decisions = map (\<lambda>(i, value). (i, expire_decision at value)) decisions"

subsection \<open>Items\<close>

definition item_key :: "jstr option \<Rightarrow> jstr option \<Rightarrow> jstr" where
  "item_key turnId itemId = stringify (JArr (map (\<lambda>x. case x of None \<Rightarrow> JNull | Some s \<Rightarrow> JStr s) [turnId, itemId]))"

fun findIndex :: "('a \<Rightarrow> bool) \<Rightarrow> 'a list \<Rightarrow> nat option" where
  "findIndex P [] = None"
| "findIndex P (x # xs) = (if P x then Some 0 else map_option Suc (findIndex P xs))"

text \<open>\<open>a && b && a !== b\<close> on optional texts.\<close>

definition conflicting :: "jstr option \<Rightarrow> jstr option \<Rightarrow> bool" where
  "conflicting a b \<longleftrightarrow> truthy a \<and> truthy b \<and> a \<noteq> b"

text \<open>A property that is written only where its value is true.\<close>

definition kept :: "jstr option \<Rightarrow> jstr option" where
  "kept a = (if truthy a then a else None)"

definition check_item :: "stream_state \<Rightarrow> agent_event \<Rightarrow> agent_item option \<Rightarrow> unit result" where
  "check_item state e existing = (case existing of
       None \<Rightarrow> throw_if (display_item_limit \<le> length (st_items state))
         ''The conversation reached its display item limit; the raw events remain in the journal.''
     | Some x \<Rightarrow>
         andThen (throw_if (Some (it_role x) \<noteq> ev_role e) ''The role of an item changed.'') (\<lambda>_.
         andThen (throw_if (conflicting (it_providerThreadId x) (ev_providerThreadId e)
             \<or> conflicting (it_providerTurnId x) (ev_providerTurnId e)) ''The identity of an item changed.'') (\<lambda>_.
         throw_if (case (it_details x, ev_details e) of
               (Some a, Some b) \<Rightarrow> details_type_of a \<noteq> details_type_of b
             | _ \<Rightarrow> False) ''The structured type of an item changed.'')))"

definition full_delta :: "agent_event \<Rightarrow> agent_item option \<Rightarrow> bool" where
  "full_delta e existing \<longleftrightarrow> ev_kind e = ItemDelta
     \<and> (case existing of None \<Rightarrow> False | Some x \<Rightarrow> length (it_text x) = item_limit)"

definition item_content :: "agent_event \<Rightarrow> agent_item option \<Rightarrow> jstr" where
  "item_content e existing = (let before = get_or [] (map_option it_text existing) in
     if ev_kind e = ItemDelta then (if full_delta e existing then before else before @ get_or [] (ev_text e))
     else if ev_kind e = ItemSnapshot then get_or [] (ev_text e)
     else before)"

definition item_clipped :: "agent_event \<Rightarrow> agent_item option \<Rightarrow> bool" where
  "item_clipped e existing \<longleftrightarrow> item_limit < length (item_content e existing)
     \<or> (full_delta e existing \<and> truthy (ev_text e))"

text \<open>
  The new item. The source asserts that turn, identity and role are there; the decoder admits
  no item event without them.
\<close>

definition next_item :: "agent_event \<Rightarrow> agent_item option \<Rightarrow> agent_item result" where
  "next_item e existing = (case (ev_turnId e, ev_itemId e, ev_role e) of
       (Some turnId, Some itemId, Some role) \<Rightarrow>
         andThen (if item_limit < length (item_content e existing) then copyClippedText (item_content e existing)
                  else Inr (item_content e existing)) (\<lambda>content.
         Inr \<lparr>it_key = item_key (ev_turnId e) (ev_itemId e), it_turnId = turnId, it_id = itemId, it_role = role,
           it_text = content,
           it_title = get_or [] (or_text (ev_title e) (Option.bind existing (\<lambda>x. Some (it_title x)))),
           it_status = get_or [] (or_text (ev_status e)
              (or_text (Option.bind existing (\<lambda>x. Some (it_status x))) (Some (js ''running'')))),
           it_truncated = (item_clipped e existing
              \<or> (ev_kind e \<noteq> ItemSnapshot \<and> (case existing of None \<Rightarrow> False | Some x \<Rightarrow> it_truncated x))),
           it_turnStatus = kept (Option.bind existing it_turnStatus),
           it_sourceMethod = kept (or_else (ev_sourceMethod e) (Option.bind existing it_sourceMethod)),
           it_createdAt = kept (or_else (Option.bind existing it_createdAt) (ev_createdAt e)),
           it_updatedAt = kept (or_else (ev_createdAt e) (Option.bind existing it_updatedAt)),
           it_providerThreadId = kept (or_else (ev_providerThreadId e) (Option.bind existing it_providerThreadId)),
           it_providerTurnId = kept (or_else (ev_providerTurnId e) (Option.bind existing it_providerTurnId)),
           it_details = or_else (ev_details e) (Option.bind existing it_details)\<rparr>)
     | _ \<Rightarrow> Inl (TypeError ''undefined item identity''))"

definition item_index :: "stream_state \<Rightarrow> agent_event \<Rightarrow> nat option" where
  "item_index state e = findIndex (\<lambda>item. it_key item = item_key (ev_turnId e) (ev_itemId e)) (st_items state)"

definition reduce_item :: "stream_state \<Rightarrow> agent_event \<Rightarrow> stream_state \<Rightarrow> stream_state result" where
  "reduce_item state e next =
     (let options = (case ev_details e of
            Some (UserMessage providerOptions) \<Rightarrow> Some (mergeNativeOptions (st_options state) providerOptions)
          | _ \<Rightarrow> st_options next);
          index = item_index state e;
          existing = map_option ((!) (st_items state)) index in
      andThen (check_item state e existing) (\<lambda>_.
      andThen (next_item e existing) (\<lambda>item.
      Inr (next\<lparr>st_options := options,
        st_items := (case index of None \<Rightarrow> st_items state @ [item]
                     | Some i \<Rightarrow> (st_items state)[i := item])\<rparr>))))"

subsection \<open>Input requests\<close>

definition reduce_request :: "stream_state \<Rightarrow> agent_event \<Rightarrow> stream_state \<Rightarrow> stream_state result" where
  "reduce_request state e next = (case (ev_itemId e, ev_request e) of
       (Some itemId, Some request) \<Rightarrow>
         Inr (next\<lparr>st_pending := prop_put itemId (Pending request False) (st_pending state),
           st_decisions := (if rq_kind request = Exactly QuestionReq then st_decisions state
             else prop_put itemId \<lparr>dr_request = Some request, dr_turnId = ev_turnId e,
               dr_status = PendingDecision, dr_decision = None, dr_updatedAt = ev_createdAt e\<rparr>
               (st_decisions state))\<rparr>)
     | _ \<Rightarrow> Inl (TypeError ''undefined request''))"

text \<open>
  \<open>if (state.pending[id]) \<dots> { ...state.pending[id], submitted: true }\<close>: an inherited member is
  true as well, and spreading it gives an entry without a request.
\<close>

fun submit_entry :: "pending_entry \<Rightarrow> pending_entry" where
  "submit_entry (Pending request _) = Pending request True"
| "submit_entry (Stray _) = Stray True"

definition reduce_submitted :: "stream_state \<Rightarrow> agent_event \<Rightarrow> stream_state \<Rightarrow> stream_state result" where
  "reduce_submitted state e next = (case ev_itemId e of
       None \<Rightarrow> Inl (TypeError ''undefined request'')
     | Some itemId \<Rightarrow>
         Inr (next\<lparr>st_pending := (case member_get (st_pending state) itemId of
               Own entry \<Rightarrow> prop_put itemId (submit_entry entry) (st_pending state)
             | Inherited \<Rightarrow> prop_put itemId (Stray True) (st_pending state)
             | Missing \<Rightarrow> st_pending state),
           st_decisions := (case member_get (st_decisions state) itemId of
               Own d \<Rightarrow> prop_put itemId (d\<lparr>dr_status := SubmittedDecision, dr_decision := ev_decision e,
                  dr_updatedAt := ev_createdAt e\<rparr>) (st_decisions state)
             | Inherited \<Rightarrow> prop_put itemId \<lparr>dr_request = None, dr_turnId = None, dr_status = SubmittedDecision,
                  dr_decision = ev_decision e, dr_updatedAt = ev_createdAt e\<rparr> (st_decisions state)
             | Missing \<Rightarrow> st_decisions state)\<rparr>))"

definition resolved_status :: "agent_event \<Rightarrow> decision_status" where
  "resolved_status e = (if ev_status e = Some (js ''expired'') then ExpiredDecision else AnsweredDecision)"

definition reduce_resolved :: "stream_state \<Rightarrow> agent_event \<Rightarrow> stream_state \<Rightarrow> stream_state result" where
  "reduce_resolved state e next = (case ev_itemId e of
       None \<Rightarrow> Inl (TypeError ''undefined request'')
     | Some itemId \<Rightarrow>
         Inr (next\<lparr>st_pending := prop_delete itemId (st_pending state),
           st_decisions := (case member_get (st_decisions state) itemId of
               Own d \<Rightarrow> prop_put itemId (d\<lparr>dr_status := resolved_status e,
                  dr_decision := or_else (ev_decision e) (dr_decision d), dr_updatedAt := ev_createdAt e\<rparr>)
                  (st_decisions state)
             | Inherited \<Rightarrow> prop_put itemId \<lparr>dr_request = None, dr_turnId = None, dr_status = resolved_status e,
                  dr_decision = ev_decision e, dr_updatedAt = ev_createdAt e\<rparr> (st_decisions state)
             | Missing \<Rightarrow> st_decisions state)\<rparr>))"

subsection \<open>Session and turn events\<close>

definition add_notice :: "jstr option \<Rightarrow> jstr list \<Rightarrow> jstr list" where
  "add_notice text notices = (if truthy text
     then (let all = notices @ [get_or [] text] in drop (length all - notice_limit) all) else notices)"

definition reduce_session_state :: "stream_state \<Rightarrow> agent_event \<Rightarrow> stream_state \<Rightarrow> stream_state result" where
  "reduce_session_state state e next =
     andThen (worker_of (map_option JStr (ev_status e))) (\<lambda>w.
     let turn = (if w \<in> {Running, AwaitingInput, Cancelling}
                 then get_or [] (or_text (ev_turnId e) (Some (st_activeTurnId state))) else []);
         after = next\<lparr>st_worker := w, st_activeTurnId := turn\<rparr> in
     Inr (if w \<in> {Closed, Disconnected}
          then after\<lparr>st_pending := [], st_decisions := expireDecisions (ev_createdAt e) (st_decisions state)\<rparr>
          else after))"

definition reduce_turn_end :: "stream_state \<Rightarrow> agent_event \<Rightarrow> stream_state \<Rightarrow> stream_state result" where
  "reduce_turn_end state e next = (case (ev_turnId e, ev_status e) of
       (Some turnId, Some status) \<Rightarrow>
         Inr (next\<lparr>st_pending := [],
           st_decisions := expireDecisions (ev_createdAt e) (st_decisions state),
           st_lastTurnStatus := status,
           st_turnFailures := (if status = js ''failed''
             then Some (prop_put turnId \<lparr>tf_message = get_or [] (ev_text e), tf_createdAt = ev_createdAt e\<rparr>
                    (get_or [] (st_turnFailures state)))
             else st_turnFailures state),
           st_activeTurnId := (if st_activeTurnId state = turnId then [] else st_activeTurnId state),
           st_items := map (\<lambda>item. if it_turnId item \<noteq> turnId then item
                         else item\<lparr>it_turnStatus := Some status\<rparr>) (st_items state),
           st_notices := add_notice (ev_text e) (st_notices state)\<rparr>)
     | _ \<Rightarrow> Inl (TypeError ''undefined turn result''))"

definition reduce_metadata :: "stream_state \<Rightarrow> agent_event \<Rightarrow> stream_state \<Rightarrow> stream_state result" where
  "reduce_metadata state e next = (case ev_metadata e of
       None \<Rightarrow> (if st_metadata state = None then Inr (next\<lparr>st_metadata := None\<rparr>)
                else Inl (TypeError ''undefined metadata''))
     | Some m \<Rightarrow>
         andThen (throw_if (case st_metadata state of None \<Rightarrow> False | Some old \<Rightarrow> md_revision m \<le> md_revision old)
           ''Conversation metadata revision did not advance.'') (\<lambda>_.
         Inr (next\<lparr>st_metadata := Some m\<rparr>)))"

definition reduce_queue :: "stream_state \<Rightarrow> agent_event \<Rightarrow> stream_state \<Rightarrow> stream_state result" where
  "reduce_queue state e next = (case ev_queue e of
       None \<Rightarrow> (if st_queue state = None then Inr (next\<lparr>st_queue := None\<rparr>)
                else Inl (TypeError ''undefined queue''))
     | Some q \<Rightarrow>
         andThen (throw_if (case st_queue state of None \<Rightarrow> False | Some old \<Rightarrow> pq_revision q \<le> pq_revision old)
           ''Queue revision did not advance.'') (\<lambda>_.
         Inr (next\<lparr>st_queue := Some q\<rparr>)))"

definition reduce_identity :: "stream_state \<Rightarrow> agent_event \<Rightarrow> stream_state \<Rightarrow> stream_state result" where
  "reduce_identity state e next =
     andThen (throw_if (st_providerSessionId state \<noteq> [] \<and> Some (st_providerSessionId state) \<noteq> ev_providerSessionId e)
       ''The conversation identity changed.'') (\<lambda>_.
     case ev_providerSessionId e of None \<Rightarrow> Inl (TypeError ''undefined conversation identity'')
     | Some p \<Rightarrow> Inr (next\<lparr>st_providerSessionId := p\<rparr>))"

definition reduce_runtime :: "stream_state \<Rightarrow> agent_event \<Rightarrow> stream_state \<Rightarrow> stream_state result" where
  "reduce_runtime state e next =
     Inr (next\<lparr>st_pending := [], st_decisions := expireDecisions (ev_createdAt e) (st_decisions state),
       st_activeTurnId := []\<rparr>)"

definition reduce_notice :: "stream_state \<Rightarrow> agent_event \<Rightarrow> stream_state \<Rightarrow> stream_state result" where
  "reduce_notice state e next = Inr (next\<lparr>st_notices := add_notice (ev_text e) (st_notices state)\<rparr>)"

subsection \<open>The reducer\<close>

definition check_runtime :: "stream_state \<Rightarrow> agent_event \<Rightarrow> unit result" where
  "check_runtime state e = throw_if (truthy (ev_runtimeId e) \<and> st_runtimeId state \<noteq> []
       \<and> ev_kind e \<noteq> SessionRuntime \<and> ev_runtimeId e \<noteq> Some (st_runtimeId state))
     ''The runtime identity changed without a new runtime event.''"

definition reduce_kind :: "event_kind \<Rightarrow> stream_state \<Rightarrow> agent_event \<Rightarrow> stream_state \<Rightarrow> stream_state result" where
  "reduce_kind kind = (case kind of
       SessionMetadata \<Rightarrow> reduce_metadata
     | SessionRuntime \<Rightarrow> reduce_runtime
     | SessionIdentity \<Rightarrow> reduce_identity
     | SessionState \<Rightarrow> reduce_session_state
     | ItemDelta \<Rightarrow> reduce_item
     | ItemSnapshot \<Rightarrow> reduce_item
     | ItemPatch \<Rightarrow> reduce_item
     | InputRequest \<Rightarrow> reduce_request
     | InputSubmitted \<Rightarrow> reduce_submitted
     | InputResolved \<Rightarrow> reduce_resolved
     | PromptQueueEv \<Rightarrow> reduce_queue
     | TurnEnd \<Rightarrow> reduce_turn_end
     | Notice \<Rightarrow> reduce_notice)"

definition advance :: "stream_state \<Rightarrow> agent_event \<Rightarrow> stream_state" where
  "advance state e = state\<lparr>st_cursor := ev_seq e,
     st_runtimeId := get_or [] (or_text (ev_runtimeId e) (Some (st_runtimeId state)))\<rparr>"

definition reduceEvent :: "stream_state \<Rightarrow> agent_event \<Rightarrow> stream_state result" where
  "reduceEvent state e =
     andThen (check_runtime state e) (\<lambda>_. reduce_kind (ev_kind e) state e (advance state e))"

text \<open>The indices that \<open>rememberItemChanges\<close> records with the new item array.\<close>

definition item_changes :: "stream_state \<Rightarrow> agent_event \<Rightarrow> nat list option" where
  "item_changes state e =
     (if is_item_kind (ev_kind e)
      then Some [case item_index state e of None \<Rightarrow> length (st_items state) | Some i \<Rightarrow> i]
      else if ev_kind e = TurnEnd
      then Some (filter (\<lambda>i. Some (it_turnId (st_items state ! i)) = ev_turnId e) [0..<length (st_items state)])
      else None)"

subsection \<open>The cursor\<close>

definition remember :: "nat \<Rightarrow> byte list \<Rightarrow> (nat \<rightharpoonup> byte list) \<Rightarrow> (nat \<rightharpoonup> byte list)" where
  "remember seq fingerprint recent = (let r = recent(seq \<mapsto> fingerprint) in
     if recent_fingerprints \<le> seq then r(seq - recent_fingerprints := None) else r)"

definition apply_decoded :: "(agent_event \<Rightarrow> byte list) \<Rightarrow> stream_state \<Rightarrow> agent_event \<Rightarrow> stream_state result" where
  "apply_decoded fingerprint state e =
     (if ev_seq e \<le> st_cursor state then
        (case st_recent state (ev_seq e) of
           None \<Rightarrow> Inl (Error ''The replayed event is outside the verification window; reload the conversation.'')
         | Some previous \<Rightarrow>
             if previous \<noteq> fingerprint e
             then Inl (Error ''The same event sequence number appeared with different content.'')
             else Inr state)
      else if ev_seq e \<noteq> st_cursor state + 1
      then Inl (Error ''The event stream has a gap; reload the conversation and do not resubmit the task.'')
      else andThen (reduceEvent state e) (\<lambda>next.
        Inr (next\<lparr>st_recent := remember (ev_seq e) (fingerprint e) (st_recent state)\<rparr>)))"

definition applyEvent ::
  "date_parser \<Rightarrow> (byte list \<Rightarrow> byte list) \<Rightarrow> stream_state \<Rightarrow> unknown \<Rightarrow> stream_state result" where
  "applyEvent date_parse sha256 state raw =
     andThen (decodeEvent date_parse raw (st_sessionId state) (st_provider state))
       (apply_decoded (eventFingerprint sha256) state)"

end
