(* ===== verification/Text_Props.thy ===== *)
theory Text_Props
  imports Stream
begin

text \<open>
  Printing and reading text literals: \<open>unquote\<close> inverts \<open>quote\<close> on every sequence of code units,
  lone surrogates included, so \<open>copyClippedText\<close> is the prefix of its argument; \<open>quote\<close> and the
  keys of timeline items are injective.
\<close>

lemma hex_value_hex_digit:
  assumes "d < 16"
  shows "hex_value (hex_digit d) = Some d"
proof -
  obtain k where d: "d = of_nat k" and "k < 16"
    using assms by (intro that [of "unat d"]) (simp_all add: word_less_nat_alt)
  then have "k = 0 \<or> k = 1 \<or> k = 2 \<or> k = 3 \<or> k = 4 \<or> k = 5 \<or> k = 6 \<or> k = 7 \<or> k = 8
      \<or> k = 9 \<or> k = 10 \<or> k = 11 \<or> k = 12 \<or> k = 13 \<or> k = 14 \<or> k = 15" by arith
  then show ?thesis
    by (elim disjE) (simp_all add: d hex_value_def hex_digit_def is_digit_def)
qed

lemma nibble_less: "(u :: code_unit) AND 15 < 16" "drop_bit 12 (u :: code_unit) < 16"
proof -
  have "u AND 15 \<le> 15" by (rule word_and_le1)
  then show "u AND 15 < 16" by (rule order_le_less_trans) simp
  have "unat (drop_bit 12 u) = unat u div 2 ^ 12" unfolding unat_drop_bit_eq by (rule drop_bit_eq_div)
  moreover have "unat u < 2 ^ 16" using unsigned_less [of u] by simp
  ultimately show "drop_bit 12 u < 16"
    by (simp add: word_less_nat_alt less_mult_imp_div_less)
qed

lemma nibbles_join:
  "push_bit 12 (drop_bit 12 u) OR push_bit 8 (drop_bit 8 u AND 15) OR push_bit 4 (drop_bit 4 u AND 15)
     OR (u AND 15) = (u :: code_unit)"
proof (rule bit_word_eqI)
  fix n assume n: "n < LENGTH(16)"
  have m: "(15 :: code_unit) = mask 4" by (simp add: mask_eq_exp_minus_1)
  have le: "12 \<le> n \<or> (8 \<le> n \<and> n < 12) \<or> (4 \<le> n \<and> n < 8) \<or> n < 4" by arith
  show "bit (push_bit 12 (drop_bit 12 u) OR push_bit 8 (drop_bit 8 u AND 15)
      OR push_bit 4 (drop_bit 4 u AND 15) OR (u AND 15)) n = bit u n"
    unfolding m using n le
    by (simp only: bit_or_iff bit_push_bit_iff bit_and_iff bit_drop_bit_eq bit_mask_iff comp_def)
      (elim disjE conjE; auto simp: le_diff_conv2)
qed

lemma unquote_unicode_escape:
  "unquote_units (unicode_escape u @ s) = map_option (\<lambda>(us, rest). (u # us, rest)) (unquote_units s)"
  using nibble_less [of u] nibble_less(1) [of "drop_bit 8 u"] nibble_less(1) [of "drop_bit 4 u"] nibbles_join [of u]
  by (simp add: unicode_escape_def hex_value_hex_digit)

lemma surrogate_facts:
  assumes "is_high_surrogate u \<or> is_low_surrogate u"
  shows "u \<noteq> 34" "u \<noteq> 92" "\<not> u < 32" "is_low_surrogate u \<Longrightarrow> \<not> is_high_surrogate u"
  using assms order_le_less_trans [of 55296 u 32] order_le_less_trans [of 56320 u 32]
    order_trans [of 56320 u 56319]
  by (auto simp: is_high_surrogate_def is_low_surrogate_def)

lemma unquote_plain:
  assumes "u \<noteq> 34" "u \<noteq> 92" "\<not> u < 32"
  shows "unquote_units (u # s) = map_option (\<lambda>(us, rest). (u # us, rest)) (unquote_units s)"
  using assms by simp

lemma unquote_quote_unit:
  "unquote_units (quote_unit u @ s) = map_option (\<lambda>(us, rest). (u # us, rest)) (unquote_units s)"
  by (auto simp: quote_unit_def unquote_unicode_escape escaped_unit_def)

declare unquote_units.simps(2) [simp del]

lemma unquote_quote_units: "unquote_units (quote_units s @ 34 # rest) = Some (s, rest)"
proof (induction s rule: quote_units.induct)
  case 1
  then show ?case by (simp add: unquote_units.simps)
next
  case (2 u s)
  show ?case
  proof (cases "is_high_surrogate u")
    case high: True
    show ?thesis
    proof (cases s)
      case Nil
      with high show ?thesis by (simp add: unquote_unicode_escape unquote_units.simps)
    next
      case (Cons v t)
      show ?thesis
      proof (cases "is_low_surrogate v")
        case True
        with "2.IH"(1) [OF high Cons] have "unquote_units (quote_units t @ 34 # rest) = Some (t, rest)"
          by simp
        with high True Cons show ?thesis
          by (simp add: unquote_plain surrogate_facts)
      next
        case False
        with "2.IH"(2) [OF high Cons] high Cons show ?thesis
          by (simp add: unquote_unicode_escape del: quote_units.simps add: quote_units.simps(2) [of u])
      qed
    qed
  next
    case False
    with "2.IH" show ?thesis by (simp add: unquote_unicode_escape unquote_quote_unit)
  qed
qed

lemma unquote_quote: "unquote (quote s @ rest) = Some (s, rest)"
  by (simp add: unquote_def quote_def unquote_quote_units)

lemma copyClippedText_eq [simp]: "copyClippedText content = Inr (take item_limit content)"
  using unquote_quote [of "take item_limit content" "[]"] by (simp add: copyClippedText_def)

lemma quote_append_inject: "quote s @ r = quote t @ r' \<longleftrightarrow> s = t \<and> r = r'"
  by (metis option.inject prod.inject unquote_quote)

lemma quote_inject [simp]: "quote s = quote t \<longleftrightarrow> s = t"
  using quote_append_inject [of s "[]" t "[]"] by simp

subsection \<open>Item keys\<close>

lemma item_key_inject [simp]:
  "item_key (Some t) (Some i) = item_key (Some t') (Some i') \<longleftrightarrow> t = t' \<and> i = i'"
proof
  assume "item_key (Some t) (Some i) = item_key (Some t') (Some i')"
  then have "quote t @ (44 # quote i @ [93]) = quote t' @ (44 # quote i' @ [93])"
    by (simp add: item_key_def)
  then have "t = t'" and "quote i @ [93] = quote i' @ [93]"
    unfolding quote_append_inject by auto
  then show "t = t' \<and> i = i'" unfolding quote_append_inject by simp
qed simp

text \<open>Arrays of texts print differently: \<open>JSON.stringify\<close> makes keys of several texts.\<close>

lemma join_quotes_inject:
  "join [44] (map quote xs) @ [93] = join [44] (map quote ys) @ [93] \<Longrightarrow> xs = ys"
proof (induction xs arbitrary: ys)
  case Nil
  show ?case
  proof (cases ys)
    case (Cons y zs)
    obtain r where r: "join [44] (map quote (y # zs)) @ [93] = quote y @ r" by (cases zs) auto
    have "[93] = quote y @ r"
      unfolding r [symmetric] Cons [symmetric] Nil [symmetric] by simp
    then show ?thesis by (simp add: quote_def)
  qed simp
next
  case (Cons x xs)
  have split: "\<exists>r. join [44] (map quote (y # zs)) @ [93] = quote y @ r \<and> (r = [93] \<longleftrightarrow> zs = [])
      \<and> (zs \<noteq> [] \<longrightarrow> r = 44 # join [44] (map quote zs) @ [93])" for y zs
    by (cases zs) simp_all
  obtain r where r: "join [44] (map quote (x # xs)) @ [93] = quote x @ r" "r = [93] \<longleftrightarrow> xs = []"
    "xs \<noteq> [] \<longrightarrow> r = 44 # join [44] (map quote xs) @ [93]" using split by blast
  have ne: "quote y @ r \<noteq> [93]" for y r by (simp add: quote_def)
  obtain y zs where ys: "ys = y # zs"
    using Cons.prems r(1) ne by (cases ys) auto
  obtain q where q: "join [44] (map quote (y # zs)) @ [93] = quote y @ q" "q = [93] \<longleftrightarrow> zs = []"
    "zs \<noteq> [] \<longrightarrow> q = 44 # join [44] (map quote zs) @ [93]" using split by blast
  have "x = y" and rq: "r = q"
    using Cons.prems unfolding ys r(1) q(1) quote_append_inject by simp_all
  moreover have "xs = zs"
  proof (cases "xs = []")
    case True
    with rq r(2) q(2) show ?thesis by simp
  next
    case False
    with rq r(2,3) q(2,3) have "join [44] (map quote xs) @ [93] = join [44] (map quote zs) @ [93]" by simp
    then show ?thesis by (rule Cons.IH)
  qed
  ultimately show ?case using ys by simp
qed

lemma stringify_texts_inject [simp]:
  "stringify (JArr (map JStr xs)) = stringify (JArr (map JStr ys)) \<longleftrightarrow> xs = ys"
proof
  assume "stringify (JArr (map JStr xs)) = stringify (JArr (map JStr ys))"
  then have "join [44] (map quote xs) @ [93] = join [44] (map quote ys) @ [93]"
    by (simp add: comp_def)
  then show "xs = ys" by (rule join_quotes_inject)
qed simp

end
