(* ===== verification/Decode_Props.thy ===== *)
theory Decode_Props
  imports Encode
begin

text \<open>
  What the decoders guarantee. The contract \<open>sound_decoder\<close> lifts the guarantee of an element
  decoder to optional properties and to lists; the theory ends with \<open>event_ok\<close>, the guarantee
  of \<open>decodeEvent\<close> on which the reducer relies.
\<close>

lemma list_of_eq_Inr:
  "list_of limit decode v = Inr ys \<longleftrightarrow>
     (\<exists>xs. v = Some (JArr xs) \<and> length xs \<le> limit \<and> traverse (\<lambda>x. decode (Some x)) xs = Inr ys)"
  by (auto simp: list_of_def split: option.splits json.splits)

lemma list_of_length: "list_of limit decode v = Inr ys \<Longrightarrow> length ys \<le> limit"
  by (auto simp: list_of_eq_Inr dest: traverse_length)

subsection \<open>The contract of a decoder\<close>

locale sound_decoder =
  fixes decode :: "unknown \<Rightarrow> 'a result" and ok :: "'a \<Rightarrow> bool"
  assumes decode_ok: "decode v = Inr x \<Longrightarrow> ok x"
begin

lemma optional_ok: "optional decode v = Inr x \<Longrightarrow> pred_option ok x"
  by (auto simp: optional_def result_simps split: option.splits intro: decode_ok)

lemma list_ok: "list_of limit decode v = Inr xs \<Longrightarrow> x \<in> set xs \<Longrightarrow> ok x"
  by (auto simp: list_of_eq_Inr dest!: traverse_set intro: decode_ok)

end

lemma string_of_ok: "string_of limit v = Inr s \<Longrightarrow> length s \<le> limit"
  by (auto simp: string_of_def split: option.splits json.splits if_splits)

lemma safeId_ok: "safeId v = Inr s \<Longrightarrow> is_safe_id s"
  by (auto simp: safeId_def result_simps split: if_splits)

lemma is_safe_id_nonempty: "is_safe_id s \<Longrightarrow> s \<noteq> []"
  by (auto simp: is_safe_id_def)

lemma is_safe_id_length: "is_safe_id s \<Longrightarrow> length s \<le> 96"
  by (auto simp: is_safe_id_def split: list.splits)

lemma integer_of_ok: "integer_of v = Inr n \<Longrightarrow> int n \<le> max_safe"
  by (auto simp: integer_of_def safe_int_def isSafeInteger_def split: option.splits json.splits
      js_number.splits if_splits)

lemma optional_eq_Some: "optional d v = Inr (Some x) \<longleftrightarrow> v \<noteq> None \<and> d v = Inr x"
  by (auto simp: optional_def result_simps split: option.splits)

lemma optional_eq_None: "optional d v = Inr None \<longleftrightarrow> v = None"
  by (auto simp: optional_def result_simps split: option.splits)

lemma exact_of_eq_Inr:
  "exact_of name members msg v = Inr x \<longleftrightarrow> (\<exists>s. v = Some (JStr s) \<and> lookup_name name members s = Some x)"
  by (auto simp: exact_of_def split: option.splits json.splits)

lemma worker_of_eq_Inr: "worker_of v = Inr w \<longleftrightarrow> v = Some (JStr (js (worker_name w)))"
  by (auto simp: worker_of_def exact_of_eq_Inr enum_lookups)

lemma worker_of_name [simp]: "worker_of (Some (JStr (js (worker_name w)))) = Inr w"
  by (simp add: worker_of_eq_Inr)

lemma provider_of_eq_Inr: "provider_of v = Inr p \<longleftrightarrow> v = Some (JStr (js (provider_name p)))"
  by (auto simp: provider_of_def exact_of_eq_Inr enum_lookups)

interpretation safe_ids: sound_decoder safeId is_safe_id
  by unfold_locales (rule safeId_ok)

interpretation option_texts: sound_decoder native_option
  "\<lambda>s. s \<noteq> [] \<and> length s \<le> 256 \<and> list_all (\<lambda>u. u \<noteq> 0 \<and> u \<noteq> 13 \<and> u \<noteq> 10) s"
  by unfold_locales (auto simp: native_option_def result_simps list_all_iff list_ex_iff
      dest: string_of_ok split: if_splits)

subsection \<open>Identities in a request\<close>

lemma bad_identities_iff: "bad_identities ids \<longleftrightarrow> [] \<in> set ids \<or> \<not> distinct ids"
  by (simp add: bad_identities_def length_uniq_eq_iff)

definition option_list_ok :: "decision_option list \<Rightarrow> bool" where
  "option_list_ok os \<longleftrightarrow> length os \<le> 32 \<and> distinct (map do_id os) \<and> [] \<notin> set (map do_id os)"

lemma options_of_ok: "options_of v = Inr os \<Longrightarrow> option_list_ok os"
  by (auto simp: options_of_def result_simps option_list_ok_def bad_identities_iff
      dest: list_of_length)

interpretation option_lists: sound_decoder options_of option_list_ok
  by unfold_locales (rule options_of_ok)

definition question_ok :: "agent_question \<Rightarrow> bool" where
  "question_ok q \<longleftrightarrow> length (qu_id q) \<le> 256 \<and> option_list_ok (qu_options q)"

interpretation questions: sound_decoder question_of question_ok
  by unfold_locales (auto simp: question_of_def result_simps question_ok_def
      dest: string_of_ok options_of_ok)

definition request_ok :: "agent_request \<Rightarrow> bool" where
  "request_ok r \<longleftrightarrow> is_safe_id (rq_id r) \<and> option_list_ok (rq_options r)
     \<and> length (rq_questions r) \<le> 16 \<and> list_all question_ok (rq_questions r)
     \<and> distinct (map qu_id (rq_questions r)) \<and> [] \<notin> set (map qu_id (rq_questions r))"

lemma decodeNativeRequest_ok:
  assumes "decodeNativeRequest date_parse v = Inr r"
  shows "request_ok r"
proof -
  from assms obtain src where i: "safeId (field src ''id'') = Inr (rq_id r)"
    and q: "list_of 16 question_of (field src ''questions'') = Inr (rq_questions r)"
    and o: "options_of (field src ''options'') = Inr (rq_options r)"
    and b: "\<not> bad_identities (map qu_id (rq_questions r))"
    unfolding decodeNativeRequest_def by (auto simp: result_simps)
  from q have "list_all question_ok (rq_questions r)"
    by (auto simp: list_all_iff intro: questions.list_ok)
  with i q o b show ?thesis
    by (auto simp: request_ok_def bad_identities_iff dest: safeId_ok options_of_ok list_of_length)
qed

interpretation requests: sound_decoder "decodeNativeRequest date_parse" request_ok
  by unfold_locales (rule decodeNativeRequest_ok)

subsection \<open>Queues and metadata\<close>

definition queued_prompt_ok :: "queued_prompt \<Rightarrow> bool" where
  "queued_prompt_ok p \<longleftrightarrow> is_safe_id (qp_id p) \<and> length (qp_text p) \<le> 131072"

interpretation queued_prompts: sound_decoder "queued_prompt_of date_parse" queued_prompt_ok
  by unfold_locales (auto simp: queued_prompt_of_def result_simps queued_prompt_ok_def
      dest: string_of_ok safeId_ok)

definition queue_ok :: "prompt_queue \<Rightarrow> bool" where
  "queue_ok q \<longleftrightarrow> length (pq_items q) \<le> 20 \<and> distinct (map qp_id (pq_items q))
     \<and> list_all queued_prompt_ok (pq_items q) \<and> int (pq_revision q) \<le> max_safe"

lemma decodePromptQueue_ok:
  assumes "decodePromptQueue date_parse v = Inr q"
  shows "queue_ok q"
proof -
  from assms obtain src where l: "list_of 20 (queued_prompt_of date_parse) (field src ''items'') = Inr (pq_items q)"
    and d: "distinct (map qp_id (pq_items q))"
    and r: "integer_of (field src ''revision'') = Inr (pq_revision q)"
    unfolding decodePromptQueue_def by (auto simp: result_simps length_uniq_eq_iff [symmetric])
  from l have "list_all queued_prompt_ok (pq_items q)"
    by (auto simp: list_all_iff intro: queued_prompts.list_ok)
  with l d r show ?thesis by (auto simp: queue_ok_def dest: list_of_length integer_of_ok)
qed

interpretation queues: sound_decoder "decodePromptQueue date_parse" queue_ok
  by unfold_locales (rule decodePromptQueue_ok)

definition metadata_ok :: "metadata \<Rightarrow> bool" where
  "metadata_ok m \<longleftrightarrow> 1 \<le> md_revision m \<and> length (md_title m) \<le> 640 \<and> code_points (md_title m) \<le> 160
     \<and> trim (md_title m) = md_title m \<and> \<not> list_ex is_control (md_title m)"

lemma nativeMetadata_ok: "nativeMetadata v = Inr m \<Longrightarrow> metadata_ok m"
  by (auto simp: nativeMetadata_def result_simps metadata_ok_def dest: string_of_ok)

interpretation metadatas: sound_decoder nativeMetadata metadata_ok
  by unfold_locales (rule nativeMetadata_ok)

subsection \<open>Events\<close>

text \<open>
  The shape of an admitted event: every field that the reducer asserts to be there is there,
  and the fields of one kind of event do not occur in another.
\<close>

definition event_ok :: "agent_event \<Rightarrow> bool" where
  "event_ok e \<longleftrightarrow>
     1 \<le> ev_seq e \<and> int (ev_seq e) \<le> max_safe
   \<and> (is_item_kind (ev_kind e) \<longrightarrow> truthy (ev_turnId e) \<and> truthy (ev_itemId e) \<and> ev_role e \<noteq> None)
   \<and> (is_input_kind (ev_kind e) \<longrightarrow> truthy (ev_turnId e) \<and> truthy (ev_itemId e))
   \<and> (ev_kind e = SessionRuntime \<longrightarrow> truthy (ev_runtimeId e))
   \<and> (ev_kind e = SessionIdentity \<longrightarrow> truthy (ev_providerSessionId e))
   \<and> (ev_kind e = SessionState \<longrightarrow> (\<exists>w. ev_status e = Some (js (worker_name w))))
   \<and> (ev_kind e = TurnEnd \<longrightarrow> truthy (ev_turnId e) \<and> (\<exists>s \<in> set turn_statuses. ev_status e = Some s))
   \<and> (ev_queue e \<noteq> None \<longleftrightarrow> ev_kind e = PromptQueueEv) \<and> pred_option queue_ok (ev_queue e)
   \<and> (ev_metadata e \<noteq> None \<longleftrightarrow> ev_kind e = SessionMetadata) \<and> pred_option metadata_ok (ev_metadata e)
   \<and> (ev_request e \<noteq> None \<longleftrightarrow> ev_kind e = InputRequest)
   \<and> pred_option (\<lambda>r. request_ok r \<and> ev_itemId e = Some (rq_id r)) (ev_request e)
   \<and> (ev_decision e \<noteq> None \<longrightarrow> ev_kind e \<in> {InputSubmitted, InputResolved})
   \<and> pred_option (\<lambda>d. is_item_kind (ev_kind e) \<and> ev_role e = Some (expected_role d)
        \<and> (details_type_of d = UserMessageType \<longrightarrow> ev_kind e = ItemSnapshot
             \<and> ev_itemId e = Some (js ''user'') \<and> ev_status e = Some (js ''submitted''))) (ev_details e)"

lemma turn_statuses_nonempty: "[] \<notin> set turn_statuses"
  by (simp add: turn_statuses_def)

lemma check_turn_end_ok:
  "check_turn_end e = Inr u \<Longrightarrow> ev_kind e = TurnEnd \<Longrightarrow>
     truthy (ev_turnId e) \<and> (\<exists>s \<in> set turn_statuses. ev_status e = Some s)"
  by (cases "ev_status e") (auto simp: check_turn_end_def result_simps turn_statuses_nonempty)

lemma check_details_ok:
  "check_details e = Inr u \<Longrightarrow>
     pred_option (\<lambda>d. is_item_kind (ev_kind e) \<and> ev_role e = Some (expected_role d)
        \<and> (details_type_of d = UserMessageType \<longrightarrow> ev_kind e = ItemSnapshot
             \<and> ev_itemId e = Some (js ''user'') \<and> ev_status e = Some (js ''submitted''))) (ev_details e)"
  by (cases "ev_details e") (auto simp: check_details_def result_simps)

lemma check_event_ok:
  assumes "check_event e = Inr u"
  shows "is_item_kind (ev_kind e) \<longrightarrow> truthy (ev_turnId e) \<and> truthy (ev_itemId e) \<and> ev_role e \<noteq> None"
    and "is_input_kind (ev_kind e) \<longrightarrow> truthy (ev_turnId e) \<and> truthy (ev_itemId e)"
    and "ev_kind e = SessionIdentity \<longrightarrow> truthy (ev_providerSessionId e)"
    and "ev_kind e = SessionState \<longrightarrow> (\<exists>w. ev_status e = Some (js (worker_name w)))"
    and "check_details e = Inr ()"
  using assms by (auto simp: check_event_def result_simps worker_of_eq_Inr split: if_splits)

lemma event_request_ok:
  "event_request date_parse src e = Inr req \<Longrightarrow>
     (req \<noteq> None \<longleftrightarrow> ev_kind e = InputRequest)
     \<and> pred_option (\<lambda>r. request_ok r \<and> ev_itemId e = Some (rq_id r)) req"
  by (auto simp: event_request_def result_simps dest: decodeNativeRequest_ok split: if_splits)

lemma optional_None_iff: "optional d v = Inr x \<Longrightarrow> x = None \<longleftrightarrow> v = None"
  by (auto simp: optional_def result_simps split: option.splits)

lemma event_base_ok:
  assumes "event_base date_parse src sessionId p = Inr e"
  shows "ev_sessionId e = sessionId \<and> ev_provider e = p \<and> 1 \<le> ev_seq e \<and> int (ev_seq e) \<le> max_safe
    \<and> (ev_kind e = SessionRuntime \<longrightarrow> truthy (ev_runtimeId e))
    \<and> (ev_queue e \<noteq> None \<longleftrightarrow> ev_kind e = PromptQueueEv) \<and> pred_option queue_ok (ev_queue e)
    \<and> (ev_metadata e \<noteq> None \<longleftrightarrow> ev_kind e = SessionMetadata) \<and> pred_option metadata_ok (ev_metadata e)
    \<and> (ev_decision e \<noteq> None \<longrightarrow> ev_kind e \<in> {InputSubmitted, InputResolved})"
  using assms unfolding event_base_def throw_if_eq_Inr
  by (elim andThenE, (thin_tac "optionalText _ _ _ = _")+, thin_tac "optional (nativeTimestamp _) _ = _",
      thin_tac "optional nativeDetails _ = _", thin_tac "optional (exact_of _ _ _) _ = _",
      thin_tac "optional safeId _ = _", thin_tac "exact_of _ _ _ _ = _",
      simp only: sum.inject, hypsubst)
    (auto simp: result_simps Suc_le_eq dest: integer_of_ok decodePromptQueue_ok nativeMetadata_ok
      optional_None_iff split: if_splits)

theorem decodeEvent_ok:
  assumes "decodeEvent date_parse v sessionId p = Inr e"
  shows "event_ok e" and "ev_sessionId e = sessionId" and "ev_provider e = p"
proof -
  from assms obtain src e0 req where e: "e = e0\<lparr>ev_request := req\<rparr>"
    and base: "event_base date_parse src sessionId p = Inr e0" and c: "check_event e0 = Inr ()"
    and r: "event_request date_parse src e0 = Inr req" and t: "check_turn_end e0 = Inr ()"
    by (auto simp: decodeEvent_def result_simps)
  note facts = event_base_ok [OF base] check_event_ok [OF c] event_request_ok [OF r]
    check_turn_end_ok [OF t] check_details_ok [OF check_event_ok(5) [OF c]]
  show "ev_sessionId e = sessionId" "ev_provider e = p" using facts e by simp_all
  show "event_ok e"
    unfolding event_ok_def e using facts by simp
qed

end
