(* ===== verification/Stream_Props.thy ===== *)
theory Stream_Props
  imports Text_Props Decode_Props
begin

text \<open>
  The invariant of the display state and its preservation by \<open>reduceEvent\<close> and \<open>applyEvent\<close>,
  the effect of each kind of event on items, requests and decisions, and the behaviour of
  whole runs of the stream.
\<close>

lemmas reduce_defs = reduce_metadata_def reduce_runtime_def reduce_identity_def
  reduce_session_state_def reduce_item_def reduce_request_def reduce_submitted_def
  reduce_resolved_def reduce_queue_def reduce_turn_end_def reduce_notice_def

lemma reduceEvent_eq_Inr:
  "reduceEvent s e = Inr s' \<longleftrightarrow>
     check_runtime s e = Inr () \<and> reduce_kind (ev_kind e) s e (advance s e) = Inr s'"
  by (auto simp: reduceEvent_def result_simps)

lemma advance_simps [simp]:
  "st_cursor (advance s e) = ev_seq e" "st_items (advance s e) = st_items s"
  "st_pending (advance s e) = st_pending s" "st_decisions (advance s e) = st_decisions s"
  "st_notices (advance s e) = st_notices s" "st_recent (advance s e) = st_recent s"
  "st_queue (advance s e) = st_queue s" "st_metadata (advance s e) = st_metadata s"
  "st_sessionId (advance s e) = st_sessionId s" "st_provider (advance s e) = st_provider s"
  "st_providerSessionId (advance s e) = st_providerSessionId s"
  "st_worker (advance s e) = st_worker s" "st_activeTurnId (advance s e) = st_activeTurnId s"
  "st_lastTurnStatus (advance s e) = st_lastTurnStatus s" "st_options (advance s e) = st_options s"
  "st_turnFailures (advance s e) = st_turnFailures s" "st_historyBefore (advance s e) = st_historyBefore s"
  by (simp_all add: advance_def)

subsection \<open>The effect of each kind of event\<close>

text \<open>Each handler, inverted: what it needs to return, and the state it returns.\<close>

lemma reduce_item_eq_Inr:
  "reduce_item s e n = Inr s' \<longleftrightarrow>
     (let index = item_index s e; existing = map_option ((!) (st_items s)) index in
      check_item s e existing = Inr () \<and>
      (\<exists>item. next_item e existing = Inr item \<and>
         s' = n\<lparr>st_options := (case ev_details e of
                Some (UserMessage providerOptions) \<Rightarrow> Some (mergeNativeOptions (st_options s) providerOptions)
              | _ \<Rightarrow> st_options n),
            st_items := (case index of None \<Rightarrow> st_items s @ [item] | Some i \<Rightarrow> (st_items s)[i := item])\<rparr>))"
  by (auto simp: reduce_item_def Let_def result_simps)

definition same_frame :: "stream_state \<Rightarrow> stream_state \<Rightarrow> bool" where
  "same_frame n s' \<longleftrightarrow> st_cursor s' = st_cursor n \<and> st_sessionId s' = st_sessionId n
     \<and> st_provider s' = st_provider n \<and> st_recent s' = st_recent n
     \<and> st_historyBefore s' = st_historyBefore n \<and> st_runtimeId s' = st_runtimeId n"

named_theorems frame_rules "which fields a handler leaves alone"

lemma reduce_item_frame [frame_rules]: "reduce_item s e n = Inr s' \<Longrightarrow> same_frame n s'"
  by (auto simp: reduce_item_eq_Inr Let_def same_frame_def)

lemma reduce_metadata_frame [frame_rules]:
  "reduce_metadata s e n = Inr s' \<Longrightarrow> same_frame n s' \<and> st_items s' = st_items n"
  by (auto simp: reduce_metadata_def result_simps same_frame_def split: option.splits if_splits)

lemma reduce_queue_frame [frame_rules]:
  "reduce_queue s e n = Inr s' \<Longrightarrow> same_frame n s' \<and> st_items s' = st_items n"
  by (auto simp: reduce_queue_def result_simps same_frame_def split: option.splits if_splits)

lemma reduce_identity_frame [frame_rules]:
  "reduce_identity s e n = Inr s' \<Longrightarrow> same_frame n s' \<and> st_items s' = st_items n"
  by (auto simp: reduce_identity_def result_simps same_frame_def split: option.splits)

lemma reduce_runtime_frame [frame_rules]:
  "reduce_runtime s e n = Inr s' \<Longrightarrow> same_frame n s' \<and> st_items s' = st_items n"
  by (auto simp: reduce_runtime_def same_frame_def)

lemma reduce_notice_frame [frame_rules]:
  "reduce_notice s e n = Inr s' \<Longrightarrow> same_frame n s' \<and> st_items s' = st_items n"
  by (auto simp: reduce_notice_def same_frame_def)

lemma reduce_session_state_frame [frame_rules]:
  "reduce_session_state s e n = Inr s' \<Longrightarrow> same_frame n s' \<and> st_items s' = st_items n"
  unfolding reduce_session_state_def Let_def
  by (erule andThenE) (simp add: same_frame_def split: if_splits; auto)

lemma reduce_request_frame [frame_rules]:
  "reduce_request s e n = Inr s' \<Longrightarrow> same_frame n s' \<and> st_items s' = st_items n"
  unfolding reduce_request_def by (cases "ev_itemId e"; cases "ev_request e") (auto simp: same_frame_def)

lemma reduce_submitted_frame [frame_rules]:
  "reduce_submitted s e n = Inr s' \<Longrightarrow> same_frame n s' \<and> st_items s' = st_items n"
  unfolding reduce_submitted_def by (cases "ev_itemId e") (auto simp: same_frame_def)

lemma reduce_resolved_frame [frame_rules]:
  "reduce_resolved s e n = Inr s' \<Longrightarrow> same_frame n s' \<and> st_items s' = st_items n"
  unfolding reduce_resolved_def by (cases "ev_itemId e") (auto simp: same_frame_def)

lemma reduce_turn_end_frame [frame_rules]: "reduce_turn_end s e n = Inr s' \<Longrightarrow> same_frame n s'"
  unfolding reduce_turn_end_def by (cases "ev_turnId e"; cases "ev_status e") (auto simp: same_frame_def)

named_theorems keep_rules "the notices, queue, metadata and identity a handler leaves alone"

lemma reduce_item_keeps [keep_rules]:
  "reduce_item s e n = Inr s' \<Longrightarrow> st_notices s' = st_notices n \<and> st_queue s' = st_queue n \<and> st_metadata s' = st_metadata n \<and> st_providerSessionId s' = st_providerSessionId n"
  by (auto simp: reduce_item_eq_Inr Let_def)

lemma reduce_metadata_keeps [keep_rules]:
  "reduce_metadata s e n = Inr s' \<Longrightarrow> st_notices s' = st_notices n \<and> st_queue s' = st_queue n \<and> st_providerSessionId s' = st_providerSessionId n"
  by (auto simp: reduce_metadata_def result_simps split: option.splits if_splits)

lemma reduce_queue_keeps [keep_rules]:
  "reduce_queue s e n = Inr s' \<Longrightarrow> st_notices s' = st_notices n \<and> st_metadata s' = st_metadata n \<and> st_providerSessionId s' = st_providerSessionId n"
  by (auto simp: reduce_queue_def result_simps split: option.splits if_splits)

lemma reduce_identity_keeps [keep_rules]:
  "reduce_identity s e n = Inr s' \<Longrightarrow> st_notices s' = st_notices n \<and> st_queue s' = st_queue n \<and> st_metadata s' = st_metadata n"
  by (auto simp: reduce_identity_def result_simps split: option.splits)

lemma reduce_runtime_keeps [keep_rules]:
  "reduce_runtime s e n = Inr s' \<Longrightarrow> st_notices s' = st_notices n \<and> st_queue s' = st_queue n \<and> st_metadata s' = st_metadata n \<and> st_providerSessionId s' = st_providerSessionId n"
  by (auto simp: reduce_runtime_def)

lemma reduce_notice_keeps [keep_rules]:
  "reduce_notice s e n = Inr s' \<Longrightarrow> st_queue s' = st_queue n \<and> st_metadata s' = st_metadata n \<and> st_providerSessionId s' = st_providerSessionId n"
  by (auto simp: reduce_notice_def)

lemma reduce_session_state_keeps [keep_rules]:
  "reduce_session_state s e n = Inr s' \<Longrightarrow> st_notices s' = st_notices n \<and> st_queue s' = st_queue n \<and> st_metadata s' = st_metadata n \<and> st_providerSessionId s' = st_providerSessionId n"
  unfolding reduce_session_state_def Let_def
  by (erule andThenE) (simp split: if_splits; auto)

lemma reduce_request_keeps [keep_rules]:
  "reduce_request s e n = Inr s' \<Longrightarrow> st_notices s' = st_notices n \<and> st_queue s' = st_queue n \<and> st_metadata s' = st_metadata n \<and> st_providerSessionId s' = st_providerSessionId n"
  unfolding reduce_request_def by (cases "ev_itemId e"; cases "ev_request e") auto

lemma reduce_submitted_keeps [keep_rules]:
  "reduce_submitted s e n = Inr s' \<Longrightarrow> st_notices s' = st_notices n \<and> st_queue s' = st_queue n \<and> st_metadata s' = st_metadata n \<and> st_providerSessionId s' = st_providerSessionId n"
  unfolding reduce_submitted_def by (cases "ev_itemId e") auto

lemma reduce_resolved_keeps [keep_rules]:
  "reduce_resolved s e n = Inr s' \<Longrightarrow> st_notices s' = st_notices n \<and> st_queue s' = st_queue n \<and> st_metadata s' = st_metadata n \<and> st_providerSessionId s' = st_providerSessionId n"
  unfolding reduce_resolved_def by (cases "ev_itemId e") auto

lemma reduce_turn_end_keeps [keep_rules]:
  "reduce_turn_end s e n = Inr s' \<Longrightarrow> st_queue s' = st_queue n \<and> st_metadata s' = st_metadata n \<and> st_providerSessionId s' = st_providerSessionId n"
  unfolding reduce_turn_end_def by (cases "ev_turnId e"; cases "ev_status e") auto

lemma reduce_kind_frame: "reduce_kind k s e n = Inr s' \<Longrightarrow> same_frame n s'"
  by (cases k) (auto simp: reduce_kind_def dest: frame_rules)

lemma reduceEvent_frame:
  assumes "reduceEvent s e = Inr s'"
  shows "st_cursor s' = ev_seq e" and "st_sessionId s' = st_sessionId s"
    and "st_provider s' = st_provider s" and "st_recent s' = st_recent s"
    and "st_historyBefore s' = st_historyBefore s"
    and "st_runtimeId s' = get_or [] (or_text (ev_runtimeId e) (Some (st_runtimeId s)))"
proof -
  have "same_frame (advance s e) s'"
    using assms unfolding reduceEvent_eq_Inr by (blast intro: reduce_kind_frame)
  then show "st_cursor s' = ev_seq e" "st_sessionId s' = st_sessionId s"
    "st_provider s' = st_provider s" "st_recent s' = st_recent s"
    "st_historyBefore s' = st_historyBefore s"
    "st_runtimeId s' = get_or [] (or_text (ev_runtimeId e) (Some (st_runtimeId s)))"
    unfolding same_frame_def by (simp_all add: advance_def)
qed

lemma reduce_items_other:
  assumes "reduceEvent s e = Inr s'" and "\<not> is_item_kind (ev_kind e)" and "ev_kind e \<noteq> TurnEnd"
  shows "st_items s' = st_items s"
proof -
  have "reduce_kind k s e n = Inr s' \<Longrightarrow> \<not> is_item_kind k \<Longrightarrow> k \<noteq> TurnEnd \<Longrightarrow> st_items s' = st_items n" for k n
    by (cases k) (auto simp: reduce_kind_def is_item_kind_iff dest: frame_rules)
  from this [of "ev_kind e" "advance s e"] show ?thesis using assms by (simp add: reduceEvent_eq_Inr)
qed

lemma reduce_kind_item: "is_item_kind k \<Longrightarrow> reduce_kind k = reduce_item"
  by (auto simp: reduce_kind_def is_item_kind_iff)

lemma reduce_items_turn_end:
  assumes "reduceEvent s e = Inr s'" and "ev_kind e = TurnEnd"
  obtains turnId status where "ev_turnId e = Some turnId" "ev_status e = Some status"
    "st_items s' = map (\<lambda>item. if it_turnId item \<noteq> turnId then item
       else item\<lparr>it_turnStatus := Some status\<rparr>) (st_items s)"
proof -
  from assms have "reduce_turn_end s e (advance s e) = Inr s'"
    by (simp add: reduceEvent_eq_Inr reduce_kind_def)
  then show ?thesis
    unfolding reduce_turn_end_def
    by (cases "ev_turnId e"; cases "ev_status e") (auto intro!: that)
qed

lemma reduce_items_item:
  assumes "reduceEvent s e = Inr s'" and "is_item_kind (ev_kind e)"
  obtains item where "check_item s e (map_option ((!) (st_items s)) (item_index s e)) = Inr ()"
    "next_item e (map_option ((!) (st_items s)) (item_index s e)) = Inr item"
    "st_items s' = (case item_index s e of None \<Rightarrow> st_items s @ [item] | Some i \<Rightarrow> (st_items s)[i := item])"
  using assms unfolding reduceEvent_eq_Inr
  by (auto simp: reduce_kind_item reduce_item_eq_Inr Let_def intro: that)

subsection \<open>Items\<close>

lemma findIndex_Some: "findIndex P xs = Some i \<Longrightarrow> i < length xs \<and> P (xs ! i)"
  by (induction xs arbitrary: i) (auto split: if_splits)

lemma findIndex_None: "findIndex P xs = None \<longleftrightarrow> (\<forall>x \<in> set xs. \<not> P x)"
  by (induction xs) auto

lemma item_index_Some:
  "item_index s e = Some i \<Longrightarrow> i < length (st_items s)
     \<and> it_key (st_items s ! i) = item_key (ev_turnId e) (ev_itemId e)"
  unfolding item_index_def by (rule findIndex_Some)

lemma item_index_None:
  "item_index s e = None \<Longrightarrow> item_key (ev_turnId e) (ev_itemId e) \<notin> it_key ` set (st_items s)"
  by (auto simp: item_index_def findIndex_None)

text \<open>The fields of the item that an item event writes.\<close>

lemma next_item_Inr:
  assumes "next_item e existing = Inr item"
  shows "ev_turnId e = Some (it_turnId item)" and "ev_itemId e = Some (it_id item)"
    and "ev_role e = Some (it_role item)"
    and "it_key item = item_key (Some (it_turnId item)) (Some (it_id item))"
    and "it_text item = take item_limit (item_content e existing)"
    and "it_title item = get_or [] (or_text (ev_title e) (map_option it_title existing))"
    and "it_status item = get_or [] (or_text (ev_status e)
              (or_text (map_option it_status existing) (Some (js ''running''))))"
    and "it_truncated item \<longleftrightarrow> item_clipped e existing
       \<or> (ev_kind e \<noteq> ItemSnapshot \<and> (case existing of None \<Rightarrow> False | Some x \<Rightarrow> it_truncated x))"
    and "it_turnStatus item = kept (Option.bind existing it_turnStatus)"
    and "it_createdAt item = kept (or_else (Option.bind existing it_createdAt) (ev_createdAt e))"
    and "it_providerThreadId item = kept (or_else (ev_providerThreadId e) (Option.bind existing it_providerThreadId))"
    and "it_providerTurnId item = kept (or_else (ev_providerTurnId e) (Option.bind existing it_providerTurnId))"
    and "it_details item = or_else (ev_details e) (Option.bind existing it_details)"
proof -
  have b: "Option.bind existing (\<lambda>x. Some (f x)) = map_option f existing" for f :: "agent_item \<Rightarrow> jstr"
    by (cases existing) simp_all
  obtain t i r where t: "ev_turnId e = Some t" "ev_itemId e = Some i" "ev_role e = Some r"
    using assms unfolding next_item_def
    by (cases "ev_turnId e"; cases "ev_itemId e"; cases "ev_role e") simp_all
  have clip: "(if item_limit < length c then copyClippedText c else Inr c) = Inr (take item_limit c)" for c
    by simp
  note item = assms [unfolded next_item_def t prod.case option.case clip andThen_Inr b, simplified, symmetric]
  show "ev_turnId e = Some (it_turnId item)" "ev_itemId e = Some (it_id item)"
    "ev_role e = Some (it_role item)"
    "it_key item = item_key (Some (it_turnId item)) (Some (it_id item))"
    "it_text item = take item_limit (item_content e existing)"
    "it_title item = get_or [] (or_text (ev_title e) (map_option it_title existing))"
    "it_status item = get_or [] (or_text (ev_status e)
              (or_text (map_option it_status existing) (Some (js ''running''))))"
    "it_truncated item \<longleftrightarrow> item_clipped e existing
       \<or> (ev_kind e \<noteq> ItemSnapshot \<and> (case existing of None \<Rightarrow> False | Some x \<Rightarrow> it_truncated x))"
    "it_turnStatus item = kept (Option.bind existing it_turnStatus)"
    "it_createdAt item = kept (or_else (Option.bind existing it_createdAt) (ev_createdAt e))"
    "it_providerThreadId item = kept (or_else (ev_providerThreadId e) (Option.bind existing it_providerThreadId))"
    "it_providerTurnId item = kept (or_else (ev_providerTurnId e) (Option.bind existing it_providerTurnId))"
    "it_details item = or_else (ev_details e) (Option.bind existing it_details)"
    unfolding item by (simp_all add: t)
qed

definition item_ok :: "agent_item \<Rightarrow> bool" where
  "item_ok x \<longleftrightarrow> it_key x = item_key (Some (it_turnId x)) (Some (it_id x))
     \<and> it_turnId x \<noteq> [] \<and> it_id x \<noteq> [] \<and> it_status x \<noteq> [] \<and> length (it_text x) \<le> item_limit
     \<and> pred_option (\<lambda>d. it_role x = expected_role d) (it_details x)
     \<and> pred_option (\<lambda>t. t \<in> set turn_statuses) (it_turnStatus x)"

definition items_ok :: "stream_state \<Rightarrow> bool" where
  "items_ok s \<longleftrightarrow> length (st_items s) \<le> display_item_limit \<and> distinct (map it_key (st_items s))
     \<and> (\<forall>x \<in> set (st_items s). item_ok x)"

lemma or_text_nonempty: "truthy b \<Longrightarrow> truthy (or_text a b)"
  by (simp add: or_text_def)

lemma truthy_get_or: "truthy a \<Longrightarrow> get_or [] a \<noteq> []"
  by (cases a) auto

lemma next_item_ok:
  assumes "event_ok e" and "is_item_kind (ev_kind e)" and item: "next_item e existing = Inr item"
    and c: "check_item s e existing = Inr ()" and "pred_option item_ok existing"
  shows "item_ok item"
proof -
  note f = next_item_Inr [OF item]
  have "truthy (or_text (ev_status e) (or_text (map_option it_status existing) (Some (js ''running''))))"
    by (simp add: or_text_def)
  then have "it_status item \<noteq> []" unfolding f(7) by (rule truthy_get_or)
  moreover have "it_turnId item \<noteq> []" "it_id item \<noteq> []"
    using assms(1,2) f(1,2) by (auto simp: event_ok_def)
  moreover have "pred_option (\<lambda>d. it_role item = expected_role d) (it_details item)"
    using assms(1) c assms(5) f(3) unfolding f(13)
    by (cases existing; cases "ev_details e")
      (auto simp: event_ok_def check_item_def item_ok_def result_simps)
  moreover have "pred_option (\<lambda>t. t \<in> set turn_statuses) (it_turnStatus item)"
    using assms(5) unfolding f(9) by (cases existing) (auto simp: kept_def item_ok_def)
  ultimately show ?thesis using f(4,5) by (simp add: item_ok_def)
qed

lemma distinct_keys_update:
  assumes "distinct (map f xs)" and "i < length xs" and "f y = f (xs ! i)"
  shows "distinct (map f (xs[i := y]))"
proof -
  have "map f (xs[i := y]) = (map f xs)[i := f (xs ! i)]" using assms(3) by (simp add: map_update)
  also have "\<dots> = map f xs" using assms(2) by (metis list_update_id nth_map)
  finally show ?thesis using assms(1) by simp
qed

lemma reduceEvent_items_ok:
  assumes s: "items_ok s" and r: "reduceEvent s e = Inr s'" and e: "event_ok e"
  shows "items_ok s'"
proof (cases "is_item_kind (ev_kind e)")
  case True
  obtain item where c: "check_item s e (map_option ((!) (st_items s)) (item_index s e)) = Inr ()"
    and n: "next_item e (map_option ((!) (st_items s)) (item_index s e)) = Inr item"
    and i: "st_items s' = (case item_index s e of None \<Rightarrow> st_items s @ [item] | Some i \<Rightarrow> (st_items s)[i := item])"
    using reduce_items_item [OF r True] by blast
  have "pred_option item_ok (map_option ((!) (st_items s)) (item_index s e))"
    using s by (cases "item_index s e") (auto simp: items_ok_def dest: item_index_Some)
  then have ok: "item_ok item" using e True n c by (blast intro: next_item_ok)
  have key: "it_key item = item_key (ev_turnId e) (ev_itemId e)"
    using next_item_Inr(1,2,4) [OF n] by simp
  show ?thesis
  proof (cases "item_index s e")
    case None
    then have "length (st_items s) < display_item_limit"
      using c by (simp add: check_item_def result_simps not_le)
    with None s i ok key item_index_None [OF None] show ?thesis
      by (auto simp: items_ok_def)
  next
    case (Some k)
    note k = item_index_Some [OF Some]
    with s i Some key have "distinct (map it_key (st_items s'))"
      by (simp add: items_ok_def distinct_keys_update)
    moreover have "set (st_items s') \<subseteq> insert item (set (st_items s))"
      using i Some by (simp add: set_update_subset_insert)
    ultimately show ?thesis using s ok i Some by (auto simp: items_ok_def)
  qed
next
  case False
  show ?thesis
  proof (cases "ev_kind e = TurnEnd")
    case True
    obtain t st where "ev_turnId e = Some t" and st: "ev_status e = Some st"
      and i: "st_items s' = map (\<lambda>item. if it_turnId item \<noteq> t then item else item\<lparr>it_turnStatus := Some st\<rparr>) (st_items s)"
      by (rule reduce_items_turn_end [OF r True])
    have m: "map it_key (st_items s') = map it_key (st_items s)" and l: "length (st_items s') = length (st_items s)"
      using i by simp_all
    have "st \<in> set turn_statuses" using e True st by (auto simp: event_ok_def)
    then have "item_ok (it\<lparr>it_turnStatus := Some st\<rparr>)" if "item_ok it" for it
      using that by (simp add: item_ok_def)
    then have "\<forall>x \<in> set (st_items s'). item_ok x" using s i by (auto simp: items_ok_def)
    then show ?thesis using s unfolding items_ok_def m l by simp
  next
    case ne: False
    with reduce_items_other [OF r False] s show ?thesis by (simp add: items_ok_def)
  qed
qed

subsection \<open>Requests and decisions\<close>

text \<open>How an event touches the requests: it closes them all, handles one, or leaves them.\<close>

definition closes_requests :: "agent_event \<Rightarrow> bool" where
  "closes_requests e \<longleftrightarrow> ev_kind e \<in> {SessionRuntime, TurnEnd}
     \<or> (ev_kind e = SessionState \<and> ev_status e \<in> {Some (js ''closed''), Some (js ''disconnected'')})"

lemma reduce_closes:
  assumes "reduceEvent s e = Inr s'" and "closes_requests e"
  shows "st_pending s' = []" and "st_decisions s' = expireDecisions (ev_createdAt e) (st_decisions s)"
proof -
  have "st_pending s' = [] \<and> st_decisions s' = expireDecisions (ev_createdAt e) (st_decisions s)"
  proof (cases "ev_kind e = SessionState")
    case True
    obtain w where w: "ev_status e = Some (js (worker_name w))"
      and r: "reduce_session_state s e (advance s e) = Inr s'"
      using assms True
      by (auto simp: reduceEvent_eq_Inr reduce_kind_def reduce_session_state_def result_simps worker_of_eq_Inr)
    then have "w = Closed \<or> w = Disconnected"
      using assms(2) True by (cases w) (simp_all add: closes_requests_def)
    then show ?thesis using r w by (auto simp: reduce_session_state_def Let_def)
  next
    case False
    with assms show ?thesis
      by (cases "ev_turnId e"; cases "ev_status e")
        (auto simp: closes_requests_def reduceEvent_eq_Inr reduce_kind_def reduce_runtime_def reduce_turn_end_def)
  qed
  then show "st_pending s' = []" "st_decisions s' = expireDecisions (ev_createdAt e) (st_decisions s)" by simp_all
qed

lemma reduce_keeps_requests:
  assumes "reduceEvent s e = Inr s'" and "\<not> closes_requests e" and "\<not> is_input_kind (ev_kind e)"
  shows "st_pending s' = st_pending s \<and> st_decisions s' = st_decisions s"
proof (cases "ev_kind e = SessionState")
  case True
  then obtain w where w: "ev_status e = Some (js (worker_name w))"
    and r: "reduce_session_state s e (advance s e) = Inr s'"
    using assms(1)
    by (auto simp: reduceEvent_eq_Inr reduce_kind_def reduce_session_state_def result_simps worker_of_eq_Inr)
  then have "w \<noteq> Closed \<and> w \<noteq> Disconnected"
    using assms(2) True by (auto simp: closes_requests_def)
  then show ?thesis using r w
    by (simp add: reduce_session_state_def Let_def) auto
next
  case False
  show ?thesis
  proof (cases "is_item_kind (ev_kind e)")
    case True
    then show ?thesis using assms(1)
      by (auto simp: reduceEvent_eq_Inr reduce_kind_item reduce_item_eq_Inr Let_def)
  next
    case ni: False
    show ?thesis using assms False ni
      by (cases "ev_kind e")
        (auto simp: reduceEvent_eq_Inr reduce_kind_def closes_requests_def is_input_kind_iff is_item_kind_iff
          reduce_metadata_def reduce_identity_def reduce_queue_def reduce_notice_def result_simps
          split: option.splits if_splits)
  qed
qed

definition entry_ok :: "jstr \<Rightarrow> pending_entry \<Rightarrow> bool" where
  "entry_ok k en = (case en of Pending r _ \<Rightarrow> rq_id r = k \<and> request_ok r | Stray _ \<Rightarrow> k \<in> set object_prototype_keys)"

definition decision_ok :: "jstr \<Rightarrow> decision_record \<Rightarrow> bool" where
  "decision_ok k d = (case dr_request d of None \<Rightarrow> k \<in> set object_prototype_keys
     | Some r \<Rightarrow> rq_id r = k \<and> rq_kind r \<noteq> Exactly QuestionReq)"

text \<open>A pending approval and its decision record tell the same story.\<close>

definition agrees :: "pending_entry js_record \<Rightarrow> decision_record js_record \<Rightarrow> jstr \<Rightarrow> bool" where
  "agrees pending decisions k \<longleftrightarrow>
     (\<forall>r b. prop_get pending k = Some (Pending r b) \<longrightarrow> rq_kind r \<noteq> Exactly QuestionReq \<longrightarrow>
        (\<exists>d. prop_get decisions k = Some d \<and> dr_request d = Some r
           \<and> dr_status d = (if b then SubmittedDecision else PendingDecision)))"

definition requests_ok :: "stream_state \<Rightarrow> bool" where
  "requests_ok s \<longleftrightarrow> distinct_keys (st_pending s) \<and> distinct_keys (st_decisions s)
     \<and> (\<forall>k en. prop_get (st_pending s) k = Some en \<longrightarrow> entry_ok k en)
     \<and> (\<forall>k d. prop_get (st_decisions s) k = Some d \<longrightarrow> decision_ok k d)
     \<and> (\<forall>k. agrees (st_pending s) (st_decisions s) k)"

lemma agrees_cong:
  "prop_get p' k = prop_get p k \<Longrightarrow> prop_get d' k = prop_get d k \<Longrightarrow> agrees p d k \<Longrightarrow> agrees p' d' k"
  by (simp add: agrees_def)

lemma requests_okD:
  assumes "requests_ok s"
  shows "distinct_keys (st_pending s)" and "distinct_keys (st_decisions s)"
    and "prop_get (st_pending s) k = Some en \<Longrightarrow> entry_ok k en"
    and "prop_get (st_decisions s) k = Some d \<Longrightarrow> decision_ok k d"
    and "agrees (st_pending s) (st_decisions s) k"
  using assms by (simp_all add: requests_ok_def)

lemma prop_get_expire:
  "prop_get (expireDecisions at m) k = map_option (expire_decision at) (prop_get m k)"
  unfolding expireDecisions_def by (rule prop_get_map)

lemma distinct_keys_expire [simp]: "distinct_keys (expireDecisions at m) = distinct_keys m"
  unfolding expireDecisions_def by simp

lemma expire_decision_ok: "decision_ok k d \<Longrightarrow> decision_ok k (expire_decision at d)"
  by (simp add: decision_ok_def expire_decision_def)

lemma member_get_simps:
  "member_get m k = Own v \<longleftrightarrow> prop_get m k = Some v"
  "member_get m k = Inherited \<longleftrightarrow> prop_get m k = None \<and> k \<in> set object_prototype_keys"
  "member_get m k = Missing \<longleftrightarrow> prop_get m k = None \<and> k \<notin> set object_prototype_keys"
  by (auto simp: member_get_def split: option.splits)

lemma reduce_request_ok:
  assumes "requests_ok s" and "event_ok e" and "ev_kind e = InputRequest"
    and "reduceEvent s e = Inr s'"
  shows "requests_ok s'"
proof -
  obtain i r where i: "ev_itemId e = Some i" "ev_request e = Some r" "rq_id r = i" "request_ok r"
    using assms(2,3) by (auto simp: event_ok_def)
  then have p: "st_pending s' = prop_put i (Pending r False) (st_pending s)"
    and d: "st_decisions s' = (if rq_kind r = Exactly QuestionReq then st_decisions s
       else prop_put i \<lparr>dr_request = Some r, dr_turnId = ev_turnId e, dr_status = PendingDecision,
              dr_decision = None, dr_updatedAt = ev_createdAt e\<rparr> (st_decisions s))"
    using assms(3,4) by (auto simp: reduceEvent_eq_Inr reduce_kind_def reduce_request_def)
  note old = requests_okD [OF assms(1)]
  have "entry_ok k en" if "prop_get (st_pending s') k = Some en" for k en
    using that i old(3) unfolding p by (auto simp: entry_ok_def split: if_splits)
  moreover have "decision_ok k dr" if "prop_get (st_decisions s') k = Some dr" for k dr
    using that i old(4) unfolding d by (auto simp: decision_ok_def split: if_splits)
  moreover have "agrees (st_pending s') (st_decisions s') k" for k
  proof (cases "k = i")
    case True
    then show ?thesis unfolding p d by (simp add: agrees_def)
  next
    case False
    then show ?thesis unfolding p d by (intro agrees_cong [OF _ _ old(5)]) simp_all
  qed
  moreover have "distinct_keys (st_pending s')" "distinct_keys (st_decisions s')"
    using old(1,2) unfolding p d by simp_all
  ultimately show ?thesis by (simp add: requests_ok_def)
qed

lemma reduce_submitted_ok:
  assumes "requests_ok s" and "event_ok e" and "ev_kind e = InputSubmitted"
    and "reduceEvent s e = Inr s'"
  shows "requests_ok s'"
proof -
  obtain i where i: "ev_itemId e = Some i"
    using assms(2,3) by (cases "ev_itemId e") (auto simp: event_ok_def is_input_kind_iff)
  then have p: "st_pending s' = (case member_get (st_pending s) i of
               Own entry \<Rightarrow> prop_put i (submit_entry entry) (st_pending s)
             | Inherited \<Rightarrow> prop_put i (Stray True) (st_pending s)
             | Missing \<Rightarrow> st_pending s)"
    and d: "st_decisions s' = (case member_get (st_decisions s) i of
               Own d \<Rightarrow> prop_put i (d\<lparr>dr_status := SubmittedDecision, dr_decision := ev_decision e,
                  dr_updatedAt := ev_createdAt e\<rparr>) (st_decisions s)
             | Inherited \<Rightarrow> prop_put i \<lparr>dr_request = None, dr_turnId = None, dr_status = SubmittedDecision,
                  dr_decision = ev_decision e, dr_updatedAt = ev_createdAt e\<rparr> (st_decisions s)
             | Missing \<Rightarrow> st_decisions s)"
    using assms(3,4) by (auto simp: reduceEvent_eq_Inr reduce_kind_def reduce_submitted_def)
  have entry: "entry_ok k (submit_entry en)" if "entry_ok k en" for k en
    using that by (cases en) (auto simp: entry_ok_def)
  have stray: "entry_ok k (Stray b)" if "k \<in> set object_prototype_keys" for k b
    using that by (simp add: entry_ok_def)
  have "\<forall>k en. prop_get (st_pending s') k = Some en \<longrightarrow> entry_ok k en"
    using assms(1) unfolding requests_ok_def p
    by (auto simp: member_get_simps split: member.splits if_splits intro: entry stray)
  moreover have "\<forall>k d. prop_get (st_decisions s') k = Some d \<longrightarrow> decision_ok k d"
    using assms(1) unfolding requests_ok_def d
    by (auto simp: member_get_simps decision_ok_def split: member.splits if_splits option.splits)
  moreover have "agrees (st_pending s') (st_decisions s') k" for k
  proof (cases "k = i")
    case False
    then have "prop_get (st_pending s') k = prop_get (st_pending s) k"
      and "prop_get (st_decisions s') k = prop_get (st_decisions s) k"
      unfolding p d by (simp_all split: member.splits)
    then show ?thesis using assms(1) by (simp add: requests_ok_def agrees_def)
  next
    case True
    have "agrees (st_pending s) (st_decisions s) i" using assms(1) by (simp add: requests_ok_def)
    then show ?thesis unfolding agrees_def True p d
      by (auto simp: member_get_simps split: member.splits elim!: submit_entry.elims)
  qed
  moreover have "distinct_keys (st_pending s')" "distinct_keys (st_decisions s')"
    using assms(1) unfolding requests_ok_def p d by (auto split: member.splits)
  ultimately show ?thesis by (simp add: requests_ok_def)
qed

lemma reduce_resolved_ok:
  assumes "requests_ok s" and "event_ok e" and "ev_kind e = InputResolved"
    and "reduceEvent s e = Inr s'"
  shows "requests_ok s'"
proof -
  obtain i where i: "ev_itemId e = Some i"
    using assms(2,3) by (cases "ev_itemId e") (auto simp: event_ok_def is_input_kind_iff)
  then have p: "st_pending s' = prop_delete i (st_pending s)"
    and d: "st_decisions s' = (case member_get (st_decisions s) i of
               Own d \<Rightarrow> prop_put i (d\<lparr>dr_status := resolved_status e,
                  dr_decision := or_else (ev_decision e) (dr_decision d), dr_updatedAt := ev_createdAt e\<rparr>)
                  (st_decisions s)
             | Inherited \<Rightarrow> prop_put i \<lparr>dr_request = None, dr_turnId = None, dr_status = resolved_status e,
                  dr_decision = ev_decision e, dr_updatedAt = ev_createdAt e\<rparr> (st_decisions s)
             | Missing \<Rightarrow> st_decisions s)"
    using assms(3,4) by (auto simp: reduceEvent_eq_Inr reduce_kind_def reduce_resolved_def)
  have "\<forall>k d. prop_get (st_decisions s') k = Some d \<longrightarrow> decision_ok k d"
    using assms(1) unfolding requests_ok_def d
    by (auto simp: member_get_simps decision_ok_def split: member.splits if_splits option.splits)
  moreover have "prop_get (st_decisions s') k = prop_get (st_decisions s) k" if "k \<noteq> i" for k
    using that unfolding d by (simp split: member.splits)
  then have "agrees (st_pending s') (st_decisions s') k" for k
  proof (cases "k = i")
    case True
    then show ?thesis unfolding p by (simp add: agrees_def)
  next
    case False
    with \<open>\<And>k. k \<noteq> i \<Longrightarrow> prop_get (st_decisions s') k = prop_get (st_decisions s) k\<close> show ?thesis
      unfolding p by (intro agrees_cong [OF _ _ requests_okD(5) [OF assms(1)]]) simp_all
  qed
  moreover have "distinct_keys (st_pending s')" "distinct_keys (st_decisions s')"
    using assms(1) unfolding requests_ok_def p d by (auto split: member.splits)
  ultimately show ?thesis using assms(1) unfolding requests_ok_def p by auto
qed

lemma reduceEvent_requests_ok:
  assumes s: "requests_ok s" and r: "reduceEvent s e = Inr s'" and e: "event_ok e"
  shows "requests_ok s'"
proof (cases "closes_requests e")
  case True
  note c = reduce_closes [OF r True]
  show ?thesis
    using s unfolding requests_ok_def c
    by (auto simp: prop_get_expire agrees_def expire_decision_ok)
next
  case False
  show ?thesis
  proof (cases "is_input_kind (ev_kind e)")
    case True
    then consider "ev_kind e = InputRequest" | "ev_kind e = InputSubmitted" | "ev_kind e = InputResolved"
      by (auto simp: is_input_kind_iff)
    then show ?thesis
      using reduce_request_ok [OF s e _ r] reduce_submitted_ok [OF s e _ r] reduce_resolved_ok [OF s e _ r]
      by cases
  next
    case ni: False
    from reduce_keeps_requests [OF r False ni] s show ?thesis by (simp add: requests_ok_def)
  qed
qed

end
