(* ===== verification/Stream_Runs.thy ===== *)
theory Stream_Runs
  imports Stream_Props
begin

text \<open>
  Runs of \<open>applyEvent\<close>: the invariant \<open>stream_ok\<close> of the display state, the cursor as the position
  of a monotone machine, at-least-once delivery, the replay window, and what no event of a
  run can take back.
\<close>

subsection \<open>The invariant of the display state\<close>

definition notices_ok :: "stream_state \<Rightarrow> bool" where
  "notices_ok s \<longleftrightarrow> length (st_notices s) \<le> notice_limit \<and> [] \<notin> set (st_notices s)"

definition facts_ok :: "stream_state \<Rightarrow> bool" where
  "facts_ok s \<longleftrightarrow> pred_option queue_ok (st_queue s) \<and> pred_option metadata_ok (st_metadata s)"

text \<open>Fingerprints are kept for the last 64 sequence numbers up to the cursor only.\<close>

definition recent_ok :: "stream_state \<Rightarrow> bool" where
  "recent_ok s \<longleftrightarrow> (\<forall>n. st_recent s n \<noteq> None \<longrightarrow> n \<le> st_cursor s \<and> st_cursor s < n + recent_fingerprints)"

definition stream_ok :: "stream_state \<Rightarrow> bool" where
  "stream_ok s \<longleftrightarrow> items_ok s \<and> requests_ok s \<and> notices_ok s \<and> facts_ok s \<and> recent_ok s"

lemma emptyStream_ok: "stream_ok (emptyStream sessionId p)"
  by (simp add: stream_ok_def emptyStream_def items_ok_def requests_ok_def notices_ok_def
      facts_ok_def recent_ok_def agrees_def)

lemma add_notice_length: "length ns \<le> notice_limit \<Longrightarrow> length (add_notice t ns) \<le> notice_limit"
  by (auto simp: add_notice_def Let_def notice_limit_def)

lemma add_notice_nonempty: "[] \<notin> set ns \<Longrightarrow> [] \<notin> set (add_notice t ns)"
  by (cases t) (auto simp: add_notice_def Let_def dest: in_set_dropD)

lemma reduce_kind_notices:
  "reduce_kind k s e n = Inr s' \<Longrightarrow> k \<notin> {TurnEnd, Notice} \<Longrightarrow> st_notices s' = st_notices n"
  by (cases k) (auto simp: reduce_kind_def dest: keep_rules)

lemma reduce_notices:
  assumes "reduceEvent s e = Inr s'"
  shows "st_notices s' = (if ev_kind e \<in> {TurnEnd, Notice} then add_notice (ev_text e) (st_notices s) else st_notices s)"
proof (cases "ev_kind e \<in> {TurnEnd, Notice}")
  case True
  then show ?thesis using assms
    by (cases "ev_turnId e"; cases "ev_status e")
      (auto simp: reduceEvent_eq_Inr reduce_kind_def reduce_turn_end_def reduce_notice_def)
next
  case False
  then show ?thesis using assms reduce_kind_notices [of "ev_kind e" s e "advance s e" s']
    by (simp add: reduceEvent_eq_Inr)
qed

lemma reduce_kind_facts:
  "reduce_kind k s e n = Inr s' \<Longrightarrow> k \<noteq> PromptQueueEv \<Longrightarrow> st_queue s' = st_queue n"
  "reduce_kind k s e n = Inr s' \<Longrightarrow> k \<noteq> SessionMetadata \<Longrightarrow> st_metadata s' = st_metadata n"
  "reduce_kind k s e n = Inr s' \<Longrightarrow> k \<noteq> SessionIdentity \<Longrightarrow> st_providerSessionId s' = st_providerSessionId n"
  by (cases k; auto simp: reduce_kind_def dest: keep_rules)+

text \<open>Queue and metadata are replaced by newer revisions only, the provider's identity is set once.\<close>

lemma reduce_queue_step:
  assumes "reduceEvent s e = Inr s'" and "event_ok e"
  shows "st_queue s' = (if ev_kind e = PromptQueueEv then ev_queue e else st_queue s)"
    and "st_queue s = Some q \<Longrightarrow> \<exists>q'. st_queue s' = Some q' \<and> pq_revision q \<le> pq_revision q'
           \<and> (q' = q \<or> pq_revision q < pq_revision q')"
proof -
  show 1: "st_queue s' = (if ev_kind e = PromptQueueEv then ev_queue e else st_queue s)"
    using assms(1) reduce_kind_facts(1) [of "ev_kind e" s e "advance s e" s']
    by (auto simp: reduceEvent_eq_Inr reduce_kind_def reduce_queue_def result_simps split: option.splits if_splits)
  show "\<exists>q'. st_queue s' = Some q' \<and> pq_revision q \<le> pq_revision q' \<and> (q' = q \<or> pq_revision q < pq_revision q')"
    if "st_queue s = Some q"
    using assms that unfolding 1
    by (auto simp: reduceEvent_eq_Inr reduce_kind_def reduce_queue_def result_simps split: option.splits if_splits)
qed

lemma reduce_metadata_step:
  assumes "reduceEvent s e = Inr s'" and "event_ok e"
  shows "st_metadata s' = (if ev_kind e = SessionMetadata then ev_metadata e else st_metadata s)"
    and "st_metadata s = Some m \<Longrightarrow> \<exists>m'. st_metadata s' = Some m' \<and> md_revision m \<le> md_revision m'
           \<and> (m' = m \<or> md_revision m < md_revision m')"
proof -
  show 1: "st_metadata s' = (if ev_kind e = SessionMetadata then ev_metadata e else st_metadata s)"
    using assms(1) reduce_kind_facts(2) [of "ev_kind e" s e "advance s e" s']
    by (auto simp: reduceEvent_eq_Inr reduce_kind_def reduce_metadata_def result_simps split: option.splits if_splits)
  show "\<exists>m'. st_metadata s' = Some m' \<and> md_revision m \<le> md_revision m' \<and> (m' = m \<or> md_revision m < md_revision m')"
    if "st_metadata s = Some m"
    using assms that unfolding 1
    by (auto simp: reduceEvent_eq_Inr reduce_kind_def reduce_metadata_def result_simps split: option.splits if_splits)
qed

lemma reduce_identity_step:
  assumes "reduceEvent s e = Inr s'" and "st_providerSessionId s \<noteq> []"
  shows "st_providerSessionId s' = st_providerSessionId s"
  using assms reduce_kind_facts(3) [of "ev_kind e" s e "advance s e" s']
  by (cases "ev_kind e = SessionIdentity")
    (auto simp: reduceEvent_eq_Inr reduce_kind_def reduce_identity_def result_simps split: option.splits)

lemma reduce_runtime_step:
  assumes "reduceEvent s e = Inr s'" and "st_runtimeId s \<noteq> []" and "ev_kind e \<noteq> SessionRuntime"
  shows "st_runtimeId s' = st_runtimeId s"
  using assms(1) reduceEvent_frame(6) [OF assms(1)] assms(2,3)
  by (cases "ev_runtimeId e") (auto simp: reduceEvent_eq_Inr check_runtime_def result_simps or_text_def)

subsection \<open>Preservation\<close>

lemma reduceEvent_keeps_invariants:
  assumes "items_ok s" "requests_ok s" "notices_ok s" "facts_ok s"
    and "reduceEvent s e = Inr s'" and "event_ok e"
  shows "items_ok s'" "requests_ok s'" "notices_ok s'" "facts_ok s'"
proof -
  show "items_ok s'" "requests_ok s'"
    using assms reduceEvent_items_ok reduceEvent_requests_ok by blast+
  show "notices_ok s'"
    using assms(3) reduce_notices [OF assms(5)]
    by (simp add: notices_ok_def add_notice_length add_notice_nonempty)
  show "facts_ok s'"
    using assms(4,6) reduce_queue_step(1) [OF assms(5,6)] reduce_metadata_step(1) [OF assms(5,6)]
    by (simp add: facts_ok_def event_ok_def)
qed

lemma remember_iff:
  "remember seq fp recent n \<noteq> None \<longleftrightarrow>
     (n = seq \<or> recent n \<noteq> None) \<and> \<not> (recent_fingerprints \<le> seq \<and> n = seq - recent_fingerprints)"
  by (auto simp: remember_def Let_def recent_fingerprints_def)

lemma remember_ok:
  assumes "recent_ok s"
  shows "remember (Suc (st_cursor s)) fp (st_recent s) n \<noteq> None \<Longrightarrow>
     n \<le> Suc (st_cursor s) \<and> Suc (st_cursor s) < n + recent_fingerprints"
  using assms unfolding remember_iff recent_ok_def recent_fingerprints_def by fastforce

lemma apply_decoded_cases:
  assumes "apply_decoded fp s e = Inr s'"
  obtains (replay) "s' = s" "ev_seq e \<le> st_cursor s" "st_recent s (ev_seq e) = Some (fp e)"
    | (fresh) t where "ev_seq e = Suc (st_cursor s)" "reduceEvent s e = Inr t"
        "s' = t\<lparr>st_recent := remember (ev_seq e) (fp e) (st_recent s)\<rparr>"
  using assms unfolding apply_decoded_def
  by (auto simp: result_simps split: if_splits option.splits)

lemma apply_decoded_ok:
  assumes s: "stream_ok s" and "event_ok e" and a: "apply_decoded fp s e = Inr s'"
  shows "stream_ok s'"
  using a
proof (cases rule: apply_decoded_cases)
  case replay
  with s show ?thesis by simp
next
  case (fresh t)
  have "items_ok t" "requests_ok t" "notices_ok t" "facts_ok t"
    using reduceEvent_keeps_invariants [OF _ _ _ _ fresh(2) assms(2)] s by (simp_all add: stream_ok_def)
  moreover have "recent_ok s'"
    using remember_ok [of s "fp e"] s reduceEvent_frame(1) [OF fresh(2)] fresh(1,3)
    by (simp add: stream_ok_def recent_ok_def)
  ultimately show ?thesis
    using fresh(3) by (simp add: stream_ok_def items_ok_def requests_ok_def notices_ok_def facts_ok_def)
qed

lemma applyEvent_eq_Inr:
  "applyEvent dp sha s raw = Inr s' \<longleftrightarrow> (\<exists>e. decodeEvent dp raw (st_sessionId s) (st_provider s) = Inr e
     \<and> apply_decoded (eventFingerprint sha) s e = Inr s')"
  by (simp add: applyEvent_def result_simps)

lemma applyEvent_ok:
  assumes "stream_ok s" and "applyEvent dp sha s raw = Inr s'"
  shows "stream_ok s'"
  using assms by (auto simp: applyEvent_eq_Inr dest: decodeEvent_ok(1) apply_decoded_ok)

lemma apply_decoded_cursor:
  assumes "apply_decoded fp s e = Inr s'"
  shows "(s' = s \<and> ev_seq e \<le> st_cursor s) \<or> (st_cursor s' = Suc (st_cursor s) \<and> ev_seq e = st_cursor s')"
  using assms by (cases rule: apply_decoded_cases) (auto dest: reduceEvent_frame)

interpretation stream: monotone_machine "applyEvent dp sha" stream_ok st_cursor
proof
  fix s s' :: stream_state and raw :: unknown
  assume s: "stream_ok s" and a: "applyEvent dp sha s raw = Inr s'"
  show "stream_ok s'" using s a by (rule applyEvent_ok)
  show "st_cursor s \<le> st_cursor s'"
    using a by (auto simp: applyEvent_eq_Inr dest!: apply_decoded_cursor)
qed

end
