(* ===== verification/Stream_Delivery.thy ===== *)
theory Stream_Delivery
  imports Stream_Runs
begin

text \<open>
  At-least-once delivery: what a run of \<open>applyEvent\<close> over a stream with repetitions does to the
  display state is what the events that move the cursor do, once each and in order.
\<close>

subsection \<open>Runs over decoded events\<close>

abbreviation apply_all ::
  "date_parser \<Rightarrow> (byte list \<Rightarrow> byte list) \<Rightarrow> stream_state \<Rightarrow> unknown list \<Rightarrow> stream_state result" where
  "apply_all dp sha \<equiv> fold_result (applyEvent dp sha)"

definition decode_in :: "date_parser \<Rightarrow> stream_state \<Rightarrow> unknown \<Rightarrow> agent_event result" where
  "decode_in dp s raw = decodeEvent dp raw (st_sessionId s) (st_provider s)"

text \<open>The events of a delivery that move a cursor, first occurrences only.\<close>

fun fresh_events :: "nat \<Rightarrow> agent_event list \<Rightarrow> agent_event list" where
  "fresh_events cursor [] = []"
| "fresh_events cursor (e # es) =
     (if ev_seq e = Suc cursor then e # fresh_events (Suc cursor) es else fresh_events cursor es)"

lemma apply_decoded_frame:
  assumes "apply_decoded fp s e = Inr s'"
  shows "st_sessionId s' = st_sessionId s" and "st_provider s' = st_provider s"
  using assms by (cases rule: apply_decoded_cases; auto dest: reduceEvent_frame)+

lemma run_frame:
  "fold_result (apply_decoded fp) s es = Inr s' \<Longrightarrow> st_sessionId s' = st_sessionId s \<and> st_provider s' = st_provider s"
proof (induction es arbitrary: s)
  case (Cons e es)
  then obtain t where t: "apply_decoded fp s e = Inr t" and r: "fold_result (apply_decoded fp) t es = Inr s'"
    by (auto simp: result_simps)
  then show ?case using Cons.IH [OF r] apply_decoded_frame [OF t] by simp
qed simp

lemma decode_in_cong:
  "st_sessionId s' = st_sessionId s \<Longrightarrow> st_provider s' = st_provider s \<Longrightarrow> decode_in dp s' = decode_in dp s"
  by (auto simp: decode_in_def)

text \<open>A run over raw events is a run over what they decode to.\<close>

lemma apply_all_decoded:
  "apply_all dp sha s raws = Inr s' \<longleftrightarrow>
     (\<exists>es. list_all2 (\<lambda>raw e. decode_in dp s raw = Inr e) raws es
         \<and> fold_result (apply_decoded (eventFingerprint sha)) s es = Inr s')"
proof (induction raws arbitrary: s)
  case Nil
  then show ?case by simp
next
  case (Cons raw raws)
  have tail: "apply_all dp sha t raws = Inr s' \<longleftrightarrow>
      (\<exists>es. list_all2 (\<lambda>raw e. decode_in dp s raw = Inr e) raws es
        \<and> fold_result (apply_decoded (eventFingerprint sha)) t es = Inr s')"
    if "apply_decoded (eventFingerprint sha) s e = Inr t" for e t
    using Cons.IH [of t] decode_in_cong [OF apply_decoded_frame [OF that], of dp] by simp
  show ?case
  proof
    assume "apply_all dp sha s (raw # raws) = Inr s'"
    then obtain t where "applyEvent dp sha s raw = Inr t" and r: "apply_all dp sha t raws = Inr s'"
      by (auto simp: result_simps)
    then obtain e where e: "decode_in dp s raw = Inr e" and t: "apply_decoded (eventFingerprint sha) s e = Inr t"
      by (auto simp: applyEvent_eq_Inr decode_in_def)
    obtain es where "list_all2 (\<lambda>raw e. decode_in dp s raw = Inr e) raws es"
      and "fold_result (apply_decoded (eventFingerprint sha)) t es = Inr s'"
      using r unfolding tail [OF t] by blast
    then show "\<exists>es. list_all2 (\<lambda>raw e. decode_in dp s raw = Inr e) (raw # raws) es
        \<and> fold_result (apply_decoded (eventFingerprint sha)) s es = Inr s'"
      using e t by (intro exI [of _ "e # es"]) simp
  next
    assume "\<exists>es. list_all2 (\<lambda>raw e. decode_in dp s raw = Inr e) (raw # raws) es
        \<and> fold_result (apply_decoded (eventFingerprint sha)) s es = Inr s'"
    then obtain e es where e: "decode_in dp s raw = Inr e"
      and es: "list_all2 (\<lambda>raw e. decode_in dp s raw = Inr e) raws es"
      and "fold_result (apply_decoded (eventFingerprint sha)) s (e # es) = Inr s'"
      by (auto simp: list_all2_Cons1 simp del: fold_result.simps)
    then obtain t where t: "apply_decoded (eventFingerprint sha) s e = Inr t"
      and r: "fold_result (apply_decoded (eventFingerprint sha)) t es = Inr s'"
      by (auto simp: result_simps)
    have "applyEvent dp sha s raw = Inr t"
      using e t unfolding applyEvent_eq_Inr decode_in_def by blast
    moreover have "apply_all dp sha t raws = Inr s'"
      unfolding tail [OF t] using es r by blast
    ultimately show "apply_all dp sha s (raw # raws) = Inr s'" by simp
  qed
qed

lemma decoded_functional:
  "list_all2 (\<lambda>raw e. f raw = Inr e) raws es \<Longrightarrow> list_all2 (\<lambda>raw e. f raw = Inr e) raws es' \<Longrightarrow> es = es'"
  by (simp add: traverse_eq_Inr [symmetric])

lemma decoded_from:
  "list_all2 (\<lambda>raw e. f raw = Inr e) raws es \<Longrightarrow> e \<in> set es \<Longrightarrow> \<exists>raw \<in> set raws. f raw = Inr e"
  by (induction rule: list_all2_induct) auto

lemma decoded_into:
  "list_all2 (\<lambda>raw e. f raw = Inr e) raws es \<Longrightarrow> raw \<in> set raws \<Longrightarrow> \<exists>e \<in> set es. f raw = Inr e"
  by (induction rule: list_all2_induct) auto

subsection \<open>Duplicates change nothing\<close>

lemma apply_fresh:
  assumes "fold_result (apply_decoded fp) s es = Inr s'"
  shows "fold_result (apply_decoded fp) s (fresh_events (st_cursor s) es) = Inr s'"
    and "map ev_seq (fresh_events (st_cursor s) es) = [Suc (st_cursor s)..<Suc (st_cursor s')]"
    and "st_cursor s \<le> st_cursor s'"
proof -
  have "fold_result (apply_decoded fp) s (fresh_events (st_cursor s) es) = Inr s'
     \<and> map ev_seq (fresh_events (st_cursor s) es) = [Suc (st_cursor s)..<Suc (st_cursor s')]
     \<and> st_cursor s \<le> st_cursor s'"
    using assms
  proof (induction es arbitrary: s)
    case Nil
    then show ?case by simp
  next
    case (Cons e es)
    then obtain t where t: "apply_decoded fp s e = Inr t" and r: "fold_result (apply_decoded fp) t es = Inr s'"
      by (auto simp: result_simps)
    note IH = Cons.IH [OF r]
    from t show ?case
    proof (cases rule: apply_decoded_cases)
      case replay
      with IH show ?thesis by simp
    next
      case (fresh u)
      then have "st_cursor t = Suc (st_cursor s)" using t by (auto dest: apply_decoded_cursor)
      with IH fresh t show ?thesis by (simp add: upt_conv_Cons)
    qed
  qed
  then show "fold_result (apply_decoded fp) s (fresh_events (st_cursor s) es) = Inr s'"
    "map ev_seq (fresh_events (st_cursor s) es) = [Suc (st_cursor s)..<Suc (st_cursor s')]"
    "st_cursor s \<le> st_cursor s'" by simp_all
qed

lemma set_fresh_events: "set (fresh_events c es) \<subseteq> set es"
  by (induction es arbitrary: c) auto

lemma fresh_events_agree:
  assumes "map ev_seq (fresh_events c es) = map ev_seq (fresh_events c es')"
    and "\<And>e e'. e \<in> set es \<Longrightarrow> e' \<in> set es' \<Longrightarrow> ev_seq e = ev_seq e' \<Longrightarrow> e = e'"
  shows "fresh_events c es = fresh_events c es'"
proof (rule nth_equalityI)
  show len: "length (fresh_events c es) = length (fresh_events c es')"
    using assms(1) by (metis length_map)
  fix i assume i: "i < length (fresh_events c es)"
  then have "ev_seq (fresh_events c es ! i) = ev_seq (fresh_events c es' ! i)"
    using assms(1) len by (metis nth_map)
  then show "fresh_events c es ! i = fresh_events c es' ! i"
    using i len set_fresh_events [of c es] set_fresh_events [of c es'] by (intro assms(2)) (auto intro: nth_mem)
qed

text \<open>Two deliveries of the same journal from the same state that stop at the same cursor.\<close>

lemma deliveries_converge:
  assumes 1: "fold_result (apply_decoded fp) s es = Inr s1" and 2: "fold_result (apply_decoded fp) s es' = Inr s2"
    and "st_cursor s1 = st_cursor s2"
    and "\<And>e e'. e \<in> set es \<Longrightarrow> e' \<in> set es' \<Longrightarrow> ev_seq e = ev_seq e' \<Longrightarrow> e = e'"
  shows "s1 = s2"
proof -
  have "fresh_events (st_cursor s) es = fresh_events (st_cursor s) es'"
    using assms apply_fresh(2) [OF 1] apply_fresh(2) [OF 2] by (intro fresh_events_agree) simp_all
  with apply_fresh(1) [OF 1] apply_fresh(1) [OF 2] show ?thesis by simp
qed

subsection \<open>The verification window\<close>

text \<open>A fingerprint stays until the cursor is 64 events past it.\<close>

lemma apply_decoded_recent:
  assumes a: "apply_decoded fp s e = Inr s'" and "st_recent s n = Some f" and "n \<le> st_cursor s"
    and "st_cursor s' < n + recent_fingerprints"
  shows "st_recent s' n = Some f"
  using a
proof (cases rule: apply_decoded_cases)
  case replay
  with assms show ?thesis by simp
next
  case (fresh t)
  then have "st_cursor s' = Suc (st_cursor s)" using reduceEvent_frame(1) by auto
  with fresh assms show ?thesis
    by (auto simp: remember_def Let_def recent_fingerprints_def)
qed

lemma apply_decoded_self:
  assumes "apply_decoded fp s e = Inr s'"
  shows "st_cursor s' < ev_seq e + recent_fingerprints \<Longrightarrow> st_recent s' (ev_seq e) = Some (fp e)"
    and "ev_seq e \<le> st_cursor s'"
  using assms by (cases rule: apply_decoded_cases;
    auto dest: reduceEvent_frame simp: remember_def Let_def recent_fingerprints_def)+

lemma run_recent:
  "fold_result (apply_decoded fp) s es = Inr s' \<Longrightarrow> st_recent s n = Some f \<Longrightarrow> n \<le> st_cursor s \<Longrightarrow>
     st_cursor s' < n + recent_fingerprints \<Longrightarrow> st_recent s' n = Some f"
proof (induction es arbitrary: s)
  case Nil
  then show ?case by simp
next
  case (Cons e es)
  then obtain t where t: "apply_decoded fp s e = Inr t" and r: "fold_result (apply_decoded fp) t es = Inr s'"
    by (auto simp: result_simps)
  have "st_cursor s \<le> st_cursor t" "st_cursor t \<le> st_cursor s'"
    using apply_decoded_cursor [OF t] apply_fresh(3) [OF r] by auto
  then show ?case using Cons.IH [OF r] apply_decoded_recent [OF t] Cons.prems by simp
qed

lemma run_remembers:
  "fold_result (apply_decoded fp) s es = Inr s' \<Longrightarrow> e \<in> set es \<Longrightarrow> st_cursor s' < ev_seq e + recent_fingerprints
     \<Longrightarrow> st_recent s' (ev_seq e) = Some (fp e) \<and> ev_seq e \<le> st_cursor s'"
proof (induction es arbitrary: s)
  case Nil
  then show ?case by simp
next
  case (Cons d es)
  then obtain t where t: "apply_decoded fp s d = Inr t" and r: "fold_result (apply_decoded fp) t es = Inr s'"
    by (auto simp: result_simps)
  show ?case
  proof (cases "e \<in> set es")
    case True
    with Cons.IH [OF r] Cons.prems show ?thesis by simp
  next
    case False
    with Cons.prems have d: "d = e" by simp
    have "ev_seq e \<le> st_cursor t" "st_cursor t \<le> st_cursor s'"
      using apply_decoded_self(2) [OF t] apply_fresh(3) [OF r] d by simp_all
    then show ?thesis using run_recent [OF r] apply_decoded_self(1) [OF t] Cons.prems d by simp
  qed
qed

lemma replay_step:
  "ev_seq e \<le> st_cursor s \<Longrightarrow> st_recent s (ev_seq e) = Some (fp e) \<Longrightarrow> apply_decoded fp s e = Inr s"
  by (simp add: apply_decoded_def)

text \<open>What a run delivered within the window may be delivered again, in any order, to no effect.\<close>

lemma redelivery:
  assumes r: "fold_result (apply_decoded fp) s es = Inr s'" and sub: "set es' \<subseteq> set es"
    and w: "\<And>e. e \<in> set es' \<Longrightarrow> st_cursor s' < ev_seq e + recent_fingerprints"
  shows "fold_result (apply_decoded fp) s' es' = Inr s'"
  using sub w
proof (induction es')
  case Nil
  then show ?case by simp
next
  case (Cons e es')
  then have "apply_decoded fp s' e = Inr s'"
    using run_remembers [OF r, of e] by (auto intro: replay_step)
  with Cons show ?case by simp
qed

subsection \<open>Every outcome of one event\<close>

lemma apply_decoded_gap:
  "Suc (st_cursor s) < ev_seq e \<Longrightarrow> apply_decoded fp s e =
     Inl (Error ''The event stream has a gap; reload the conversation and do not resubmit the task.'')"
  by (simp add: apply_decoded_def)

lemma apply_decoded_changed:
  "ev_seq e \<le> st_cursor s \<Longrightarrow> st_recent s (ev_seq e) = Some f \<Longrightarrow> f \<noteq> fp e \<Longrightarrow> apply_decoded fp s e =
     Inl (Error ''The same event sequence number appeared with different content.'')"
  by (simp add: apply_decoded_def)

lemma apply_decoded_outside:
  "recent_ok s \<Longrightarrow> ev_seq e + recent_fingerprints \<le> st_cursor s \<Longrightarrow> apply_decoded fp s e =
     Inl (Error ''The replayed event is outside the verification window; reload the conversation.'')"
  by (cases "st_recent s (ev_seq e)") (auto simp: apply_decoded_def recent_ok_def)

lemma apply_decoded_next:
  "ev_seq e = Suc (st_cursor s) \<Longrightarrow> apply_decoded fp s e =
     andThen (reduceEvent s e) (\<lambda>t. Inr (t\<lparr>st_recent := remember (ev_seq e) (fp e) (st_recent s)\<rparr>))"
  by (simp add: apply_decoded_def)

end
