(* ===== verification/Stream_Items.thy ===== *)
theory Stream_Items
  imports Stream_Delivery
begin

text \<open>
  What the timeline shows. The abstract specification is the journal's own text of an item, of
  any length; the reducer, which clips as it goes, refines it. Then what a run cannot take
  back: positions and identities of items, revisions, the provider's conversation.
\<close>

subsection \<open>The text of an item in a journal\<close>

text \<open>
  A delta appends, a snapshot replaces, a patch touches the text not at all; the first item
  event of any kind creates the item.
\<close>

definition about_item :: "jstr \<Rightarrow> agent_event \<Rightarrow> bool" where
  "about_item k e \<longleftrightarrow> is_item_kind (ev_kind e) \<and> item_key (ev_turnId e) (ev_itemId e) = k"

definition text_step :: "agent_event \<Rightarrow> jstr option \<Rightarrow> jstr option" where
  "text_step e c = Some
     (if ev_kind e = ItemDelta then get_or [] c @ get_or [] (ev_text e)
      else if ev_kind e = ItemSnapshot then get_or [] (ev_text e) else get_or [] c)"

definition journal_text :: "agent_event list \<Rightarrow> jstr \<Rightarrow> jstr option" where
  "journal_text es k = fold (\<lambda>e c. if about_item k e then text_step e c else c) es None"

text \<open>What is shown of a text: its first \<open>ITEM_LIMIT\<close> units and whether that is not all of it.\<close>

definition clip :: "jstr \<Rightarrow> jstr \<times> bool" where
  "clip c = (take item_limit c, item_limit < length c)"

definition shown :: "stream_state \<Rightarrow> jstr \<Rightarrow> (jstr \<times> bool) option" where
  "shown s k = map_option (\<lambda>x. (it_text x, it_truncated x)) (find (\<lambda>x. it_key x = k) (st_items s))"

lemma find_findIndex: "find P xs = map_option ((!) xs) (findIndex P xs)"
  by (induction xs) (auto simp: option.map_comp comp_def)

lemma find_update:
  "findIndex (\<lambda>y. f y = k) xs = Some i \<Longrightarrow> f x = k \<Longrightarrow>
     find (\<lambda>y. f y = k') (xs[i := x]) = (if k' = k then Some x else find (\<lambda>y. f y = k') xs)"
  by (induction xs arbitrary: i) (auto split: if_splits)

lemma find_append: "find P (xs @ ys) = or_else (find P xs) (find P ys)"
  by (induction xs) auto

lemma find_key_map:
  "(\<And>x. f (g x) = f x) \<Longrightarrow> find (\<lambda>x. f x = k) (map g xs) = map_option g (find (\<lambda>x. f x = k) xs)"
  by (induction xs) auto

text \<open>One event: the shown text follows the journal's text.\<close>

lemma next_item_clip:
  assumes n: "next_item e existing = Inr x" and k: "is_item_kind (ev_kind e)"
    and c: "map_option (\<lambda>x. (it_text x, it_truncated x)) existing = map_option clip c"
  shows "Some (it_text x, it_truncated x) = map_option clip (text_step e c)"
proof (cases existing)
  case None
  with c n k show ?thesis
    by (cases "ev_kind e") (auto simp: next_item_Inr [OF n] item_content_def item_clipped_def full_delta_def
      text_step_def clip_def is_item_kind_iff)
next
  case (Some y)
  with c obtain w where w: "c = Some w" and t: "it_text y = take item_limit w"
    and b: "it_truncated y \<longleftrightarrow> item_limit < length w"
    by (cases c) (auto simp: clip_def)
  consider "ev_kind e = ItemDelta" "item_limit \<le> length w" | "ev_kind e = ItemDelta" "length w < item_limit"
    | "ev_kind e = ItemSnapshot" | "ev_kind e = ItemPatch"
    using k by (auto simp: is_item_kind_iff not_less [symmetric])
  then show ?thesis
  proof cases
    case 1
    then show ?thesis using Some w t b
      by (cases "ev_text e") (auto simp: next_item_Inr [OF n] item_content_def item_clipped_def full_delta_def
        text_step_def clip_def)
  next
    case 2
    then show ?thesis using Some w t b
      by (auto simp: next_item_Inr [OF n] item_content_def item_clipped_def full_delta_def
        text_step_def clip_def)
  qed (use Some w t b in \<open>auto simp: next_item_Inr [OF n] item_content_def item_clipped_def full_delta_def
        text_step_def clip_def\<close>)
qed

lemma reduce_shown:
  assumes r: "reduceEvent s e = Inr s'" and g: "\<And>k. shown s k = map_option clip (g k)"
  shows "shown s' k = map_option clip (if about_item k e then text_step e (g k) else g k)"
proof (cases "is_item_kind (ev_kind e)")
  case True
  let ?key = "item_key (ev_turnId e) (ev_itemId e)" and ?old = "map_option ((!) (st_items s)) (item_index s e)"
  obtain x where n: "next_item e ?old = Inr x"
    and i: "st_items s' = (case item_index s e of None \<Rightarrow> st_items s @ [x] | Some i \<Rightarrow> (st_items s)[i := x])"
    using reduce_items_item [OF r True] by blast
  have key: "it_key x = ?key" using next_item_Inr(1,2,4) [OF n] by simp
  have old: "find (\<lambda>y. it_key y = ?key) (st_items s) = ?old"
    by (simp add: find_findIndex item_index_def)
  have find: "find (\<lambda>y. it_key y = k) (st_items s') = (if k = ?key then Some x else find (\<lambda>y. it_key y = k) (st_items s))"
  proof (cases "item_index s e")
    case None
    then show ?thesis using i key old by (auto simp: find_append or_else_def split: option.splits)
  next
    case (Some j)
    then show ?thesis using i key find_update [of it_key ?key "st_items s" j x k] by (simp add: item_index_def)
  qed
  have "Some (it_text x, it_truncated x) = map_option clip (text_step e (g ?key))"
    using n True by (rule next_item_clip) (use g [of ?key] old in \<open>simp add: shown_def\<close>)
  then show ?thesis using find True g [of k] by (auto simp: shown_def about_item_def)
next
  case False
  then have "shown s' k = shown s k"
  proof (cases "ev_kind e = TurnEnd")
    case True
    obtain turnId status where "st_items s' = map (\<lambda>item. if it_turnId item \<noteq> turnId then item
         else item\<lparr>it_turnStatus := Some status\<rparr>) (st_items s)"
      using reduce_items_turn_end [OF r True] by blast
    then show ?thesis
      by (simp add: shown_def find_key_map option.map_comp comp_def if_distrib cong: if_cong)
  qed (use reduce_items_other [OF r] in \<open>simp add: shown_def\<close>)
  with False g [of k] show ?thesis by (simp add: about_item_def)
qed

lemma run_shown:
  assumes "fold_result (apply_decoded fp) s es = Inr s'" and "\<And>k. shown s k = map_option clip (g k)"
  shows "shown s' k = map_option clip
     (fold (\<lambda>e c. if about_item k e then text_step e c else c) (fresh_events (st_cursor s) es) (g k))"
  using assms
proof (induction es arbitrary: s g)
  case Nil
  then show ?case by simp
next
  case (Cons e es)
  then obtain t where t: "apply_decoded fp s e = Inr t" and r: "fold_result (apply_decoded fp) t es = Inr s'"
    by (auto simp: result_simps)
  from t show ?case
  proof (cases rule: apply_decoded_cases)
    case replay
    have "shown t j = map_option clip (g j)" for j
      unfolding replay(1) by (rule Cons.prems(2))
    from Cons.IH [OF r this] show ?thesis using replay by simp
  next
    case (fresh u)
    have "shown t j = map_option clip (if about_item j e then text_step e (g j) else g j)" for j
      using reduce_shown [OF fresh(2) Cons.prems(2), of j] fresh(3) by (simp add: shown_def)
    note IH = Cons.IH [OF r this]
    have "st_cursor t = Suc (st_cursor s)" using fresh reduceEvent_frame(1) [OF fresh(2)] by simp
    with IH fresh(1) show ?thesis by simp
  qed
qed

lemma journal_shown:
  assumes "fold_result (apply_decoded fp) (emptyStream sid p) es = Inr s'"
  shows "shown s' k = map_option clip (journal_text (fresh_events 0 es) k)"
  using run_shown [OF assms, of "\<lambda>_. None" k]
  by (simp add: shown_def emptyStream_def journal_text_def)

end
