(* ===== verification/Stream_History.thy ===== *)
theory Stream_History
  imports Stream_Items
begin

text \<open>
  What the events of a run cannot take back, which indices of the timeline an event may
  touch, that an admitted event never runs into an undefined field, and how the end of a turn
  or a runtime settles the open requests.
\<close>

subsection \<open>Positions and identities of items\<close>

definition same_item :: "agent_item \<Rightarrow> agent_item \<Rightarrow> bool" where
  "same_item x y \<longleftrightarrow> it_key y = it_key x \<and> it_turnId y = it_turnId x \<and> it_id y = it_id x \<and> it_role y = it_role x
     \<and> (\<forall>d. it_details x = Some d \<longrightarrow> (\<exists>d'. it_details y = Some d' \<and> details_type_of d' = details_type_of d))"

definition items_extend :: "agent_item list \<Rightarrow> agent_item list \<Rightarrow> bool" where
  "items_extend xs ys \<longleftrightarrow> length xs \<le> length ys \<and> (\<forall>i < length xs. same_item (xs ! i) (ys ! i))"

lemma same_item_refl [simp]: "same_item x x"
  by (auto simp: same_item_def)

lemma same_item_trans: "same_item x y \<Longrightarrow> same_item y z \<Longrightarrow> same_item x z"
  by (fastforce simp: same_item_def)

lemma items_extend_refl [simp]: "items_extend xs xs"
  by (simp add: items_extend_def)

lemma items_extend_trans: "items_extend xs ys \<Longrightarrow> items_extend ys zs \<Longrightarrow> items_extend xs zs"
  unfolding items_extend_def using same_item_trans by (metis le_trans less_le_trans)

lemma check_item_Some:
  assumes "check_item s e (Some x) = Inr ()"
  shows "ev_role e = Some (it_role x)"
    and "it_details x = Some d \<Longrightarrow> ev_details e = Some d' \<Longrightarrow> details_type_of d' = details_type_of d"
    and "\<not> conflicting (it_providerThreadId x) (ev_providerThreadId e)"
    and "\<not> conflicting (it_providerTurnId x) (ev_providerTurnId e)"
  using assms by (auto simp: check_item_def result_simps)

lemma next_item_same:
  assumes n: "next_item e (Some x) = Inr y" and c: "check_item s e (Some x) = Inr ()"
    and k: "it_key x = item_key (ev_turnId e) (ev_itemId e)" and ok: "item_ok x"
  shows "same_item x y"
proof -
  have "it_turnId y = it_turnId x \<and> it_id y = it_id x"
    using next_item_Inr(1,2) [OF n] k ok by (simp add: item_ok_def)
  moreover have "\<exists>d'. it_details y = Some d' \<and> details_type_of d' = details_type_of d" if "it_details x = Some d" for d
    using next_item_Inr(13) [OF n] check_item_Some(2) [OF c that] that by (cases "ev_details e") auto
  ultimately show ?thesis
    using next_item_Inr(1-4) [OF n] check_item_Some(1) [OF c] k by (simp add: same_item_def)
qed

lemma reduce_items_extend:
  assumes r: "reduceEvent s e = Inr s'" and s: "items_ok s"
  shows "items_extend (st_items s) (st_items s')"
proof (cases "is_item_kind (ev_kind e)")
  case True
  obtain x where c: "check_item s e (map_option ((!) (st_items s)) (item_index s e)) = Inr ()"
    and n: "next_item e (map_option ((!) (st_items s)) (item_index s e)) = Inr x"
    and i: "st_items s' = (case item_index s e of None \<Rightarrow> st_items s @ [x] | Some i \<Rightarrow> (st_items s)[i := x])"
    using reduce_items_item [OF r True] by blast
  show ?thesis
  proof (cases "item_index s e")
    case None
    then show ?thesis using i by (simp add: items_extend_def nth_append)
  next
    case (Some j)
    then have "same_item (st_items s ! j) x"
      using next_item_same [of e "st_items s ! j" x s] c n s item_index_Some [OF Some] by (auto simp: items_ok_def)
    then have "same_item (st_items s ! k) ((st_items s)[j := x] ! k)" if "k < length (st_items s)" for k
      using that by (cases "k = j") simp_all
    then show ?thesis using Some i by (simp add: items_extend_def)
  qed
next
  case False
  show ?thesis
  proof (cases "ev_kind e = TurnEnd")
    case True
    then obtain turnId status where "st_items s' = map (\<lambda>item. if it_turnId item \<noteq> turnId then item
         else item\<lparr>it_turnStatus := Some status\<rparr>) (st_items s)"
      using reduce_items_turn_end [OF r True] by blast
    then show ?thesis by (simp add: items_extend_def same_item_def)
  qed (use False reduce_items_other [OF r] in simp)
qed

subsection \<open>The facts of a session\<close>

definition advances :: "stream_state \<Rightarrow> stream_state \<Rightarrow> bool" where
  "advances s s' \<longleftrightarrow> st_cursor s \<le> st_cursor s' \<and> st_sessionId s' = st_sessionId s \<and> st_provider s' = st_provider s
     \<and> items_extend (st_items s) (st_items s')
     \<and> (\<forall>q. st_queue s = Some q \<longrightarrow> (\<exists>q'. st_queue s' = Some q' \<and> pq_revision q \<le> pq_revision q'
          \<and> (pq_revision q' = pq_revision q \<longrightarrow> q' = q)))
     \<and> (\<forall>m. st_metadata s = Some m \<longrightarrow> (\<exists>m'. st_metadata s' = Some m' \<and> md_revision m \<le> md_revision m'
          \<and> (md_revision m' = md_revision m \<longrightarrow> m' = m)))
     \<and> (st_providerSessionId s \<noteq> [] \<longrightarrow> st_providerSessionId s' = st_providerSessionId s)"

lemma advances_refl [simp]: "advances s s"
  by (auto simp: advances_def)

lemma advances_trans:
  assumes 1: "advances s t" and 2: "advances t u"
  shows "advances s u"
proof -
  have "st_cursor s \<le> st_cursor u" "st_sessionId u = st_sessionId s" "st_provider u = st_provider s"
    "items_extend (st_items s) (st_items u)"
    "st_providerSessionId s \<noteq> [] \<longrightarrow> st_providerSessionId u = st_providerSessionId s"
    using 1 2 items_extend_trans unfolding advances_def by auto
  moreover have "\<exists>q'. st_queue u = Some q' \<and> pq_revision q \<le> pq_revision q' \<and> (pq_revision q' = pq_revision q \<longrightarrow> q' = q)"
    if q: "st_queue s = Some q" for q
  proof -
    obtain q1 where q1: "st_queue t = Some q1" "pq_revision q \<le> pq_revision q1"
      "pq_revision q1 = pq_revision q \<longrightarrow> q1 = q" using 1 q unfolding advances_def by blast
    obtain q2 where "st_queue u = Some q2" "pq_revision q1 \<le> pq_revision q2"
      "pq_revision q2 = pq_revision q1 \<longrightarrow> q2 = q1" using 2 q1(1) unfolding advances_def by blast
    with q1 show ?thesis by (intro exI [of _ q2]) auto
  qed
  moreover have "\<exists>m'. st_metadata u = Some m' \<and> md_revision m \<le> md_revision m' \<and> (md_revision m' = md_revision m \<longrightarrow> m' = m)"
    if m: "st_metadata s = Some m" for m
  proof -
    obtain m1 where m1: "st_metadata t = Some m1" "md_revision m \<le> md_revision m1"
      "md_revision m1 = md_revision m \<longrightarrow> m1 = m" using 1 m unfolding advances_def by blast
    obtain m2 where "st_metadata u = Some m2" "md_revision m1 \<le> md_revision m2"
      "md_revision m2 = md_revision m1 \<longrightarrow> m2 = m1" using 2 m1(1) unfolding advances_def by blast
    with m1 show ?thesis by (intro exI [of _ m2]) auto
  qed
  ultimately show ?thesis unfolding advances_def by blast
qed

lemma reduce_advances:
  assumes r: "reduceEvent s e = Inr s'" and "items_ok s" and e: "event_ok e" and "st_cursor s \<le> ev_seq e"
  shows "advances s s'"
proof -
  have "st_cursor s \<le> st_cursor s'" using reduceEvent_frame(1) [OF r] assms(4) by simp
  moreover have "\<exists>q'. st_queue s' = Some q' \<and> pq_revision q \<le> pq_revision q' \<and> (pq_revision q' = pq_revision q \<longrightarrow> q' = q)"
    if "st_queue s = Some q" for q
    using reduce_queue_step(2) [OF r e that] by auto
  moreover have "\<exists>m'. st_metadata s' = Some m' \<and> md_revision m \<le> md_revision m' \<and> (md_revision m' = md_revision m \<longrightarrow> m' = m)"
    if "st_metadata s = Some m" for m
    using reduce_metadata_step(2) [OF r e that] by auto
  ultimately show ?thesis
    unfolding advances_def using reduceEvent_frame(2,3) [OF r] reduce_items_extend [OF r assms(2)]
      reduce_identity_step [OF r] by blast
qed

lemma advances_recent [simp]: "advances s (t\<lparr>st_recent := f\<rparr>) = advances s t"
  by (simp add: advances_def)

lemma apply_decoded_advances:
  assumes a: "apply_decoded fp s e = Inr s'" and "stream_ok s" and "event_ok e"
  shows "advances s s'"
  using a
proof (cases rule: apply_decoded_cases)
  case (fresh t)
  then show ?thesis using reduce_advances [OF fresh(2)] assms by (simp add: stream_ok_def)
qed simp

interpretation history: fallible_machine "applyEvent dp sha" "\<lambda>t. stream_ok t \<and> advances s t" for dp sha s
proof
  fix t t' :: stream_state and raw :: unknown
  assume t: "stream_ok t \<and> advances s t" and a: "applyEvent dp sha t raw = Inr t'"
  then have "stream_ok t'" by (blast intro: applyEvent_ok)
  moreover have "advances t t'"
    using a t by (auto simp: applyEvent_eq_Inr dest: decodeEvent_ok(1) apply_decoded_advances)
  ultimately show "stream_ok t' \<and> advances s t'" using t advances_trans by blast
qed

subsection \<open>The indices of changed items\<close>

lemma item_changes_sound:
  assumes r: "reduceEvent s e = Inr s'"
  shows "case item_changes s e of
      None \<Rightarrow> st_items s' = st_items s
    | Some changed \<Rightarrow> (\<forall>i \<in> set changed. i < length (st_items s'))
        \<and> (\<forall>i < length (st_items s'). i \<notin> set changed \<longrightarrow> i < length (st_items s) \<and> st_items s' ! i = st_items s ! i)"
proof (cases "is_item_kind (ev_kind e)")
  case True
  obtain x where i: "st_items s' = (case item_index s e of None \<Rightarrow> st_items s @ [x] | Some i \<Rightarrow> (st_items s)[i := x])"
    using reduce_items_item [OF r True] by blast
  show ?thesis
  proof (cases "item_index s e")
    case None
    with True i show ?thesis by (auto simp: item_changes_def nth_append)
  next
    case (Some j)
    with True i item_index_Some [OF Some] show ?thesis by (auto simp: item_changes_def)
  qed
next
  case False
  show ?thesis
  proof (cases "ev_kind e = TurnEnd")
    case True
    obtain turnId status where "ev_turnId e = Some turnId"
      "st_items s' = map (\<lambda>item. if it_turnId item \<noteq> turnId then item
         else item\<lparr>it_turnStatus := Some status\<rparr>) (st_items s)"
      using reduce_items_turn_end [OF r True] by blast
    with False True show ?thesis by (auto simp: item_changes_def)
  qed (use False reduce_items_other [OF r] in \<open>simp add: item_changes_def\<close>)
qed

subsection \<open>No undefined field\<close>

lemma throw_if_no_TypeError [simp]: "throw_if c t \<noteq> Inl (TypeError m)"
  by (simp add: throw_if_def)

lemma check_item_no_TypeError: "check_item s e existing \<noteq> Inl (TypeError m)"
  by (cases existing) (simp_all add: check_item_def andThen_eq_Inl)

lemma next_item_no_TypeError:
  "truthy (ev_turnId e) \<Longrightarrow> truthy (ev_itemId e) \<Longrightarrow> ev_role e \<noteq> None \<Longrightarrow> next_item e existing \<noteq> Inl (TypeError m)"
  by (cases "ev_turnId e"; cases "ev_itemId e"; cases "ev_role e") (auto simp: next_item_def)

lemma reduce_item_no_TypeError:
  "event_ok e \<Longrightarrow> is_item_kind (ev_kind e) \<Longrightarrow> reduce_item s e n \<noteq> Inl (TypeError m)"
  using check_item_no_TypeError next_item_no_TypeError [of e]
  by (auto simp: reduce_item_def Let_def andThen_eq_Inl event_ok_def)

lemma reduce_kind_no_TypeError:
  assumes e: "event_ok e"
  shows "reduce_kind (ev_kind e) s e n \<noteq> Inl (TypeError m)"
proof (cases "is_item_kind (ev_kind e)")
  case True
  with e show ?thesis by (simp add: reduce_kind_item reduce_item_no_TypeError)
next
  case False
  then show ?thesis
  proof (cases "ev_kind e")
    case SessionState
    with e show ?thesis
      by (auto simp: event_ok_def reduce_kind_def reduce_session_state_def Let_def)
  next
    case InputRequest
    with e show ?thesis
      by (auto simp: event_ok_def is_input_kind_iff reduce_kind_def reduce_request_def split: option.splits)
  next
    case SessionIdentity
    with e show ?thesis
      by (auto simp: event_ok_def reduce_kind_def reduce_identity_def andThen_eq_Inl split: option.splits)
  next
    case SessionMetadata
    with e show ?thesis
      by (auto simp: event_ok_def reduce_kind_def reduce_metadata_def andThen_eq_Inl split: option.splits)
  next
    case PromptQueueEv
    with e show ?thesis
      by (auto simp: event_ok_def reduce_kind_def reduce_queue_def andThen_eq_Inl split: option.splits)
  next
    case TurnEnd
    with e show ?thesis
      by (auto simp: event_ok_def reduce_kind_def reduce_turn_end_def split: option.splits)
  next
    case InputSubmitted
    with e show ?thesis
      by (auto simp: event_ok_def is_input_kind_iff reduce_kind_def reduce_submitted_def split: option.splits)
  next
    case InputResolved
    with e show ?thesis
      by (auto simp: event_ok_def is_input_kind_iff reduce_kind_def reduce_resolved_def split: option.splits)
  qed (simp_all add: is_item_kind_iff reduce_kind_def reduce_runtime_def reduce_notice_def)
qed

lemma reduceEvent_no_TypeError:
  assumes "event_ok e"
  shows "reduceEvent s e \<noteq> Inl (TypeError m)"
  using reduce_kind_no_TypeError [OF assms]
  by (auto simp: reduceEvent_def check_runtime_def andThen_eq_Inl)

subsection \<open>Closing events\<close>

definition settled :: "decision_record \<Rightarrow> bool" where
  "settled d \<longleftrightarrow> dr_status d = AnsweredDecision \<or> dr_status d = ExpiredDecision"

lemma expire_decision_settled [simp]: "settled (expire_decision at d)"
  by (cases "dr_status d") (auto simp: expire_decision_def settled_def)

lemma expire_decision_fixed: "settled d \<Longrightarrow> expire_decision at d = d"
  by (auto simp: expire_decision_def settled_def)

lemma expire_decision_keeps [simp]:
  "dr_request (expire_decision at d) = dr_request d" "dr_turnId (expire_decision at d) = dr_turnId d"
  "dr_decision (expire_decision at d) = dr_decision d"
  by (simp_all add: expire_decision_def)

end
