(* ===== verification/Stream_Requests.thy ===== *)
theory Stream_Requests
  imports Stream_History
begin

text \<open>
  The life of an input request as a small state machine, and the refinement: what the reducer
  does to the records \<open>pending\<close> and \<open>decisions\<close> is, request by request, a step of that machine.
\<close>

subsection \<open>The machine\<close>

datatype input_phase = Idle | Open | Sent

text \<open>What an event means for one request; the flag of \<open>Ask\<close> marks an approval, that of \<open>Settle\<close> an expiry.\<close>

datatype input_label = Ask bool | Send | Settle bool | Close | Other

fun phase_after :: "input_label \<Rightarrow> input_phase \<Rightarrow> input_phase" where
  "phase_after (Ask _) p = Open"
| "phase_after Send p = (if p = Idle then Idle else Sent)"
| "phase_after (Settle _) p = Idle"
| "phase_after Close p = Idle"
| "phase_after Other p = p"

fun status_after :: "input_label \<Rightarrow> decision_status option \<Rightarrow> decision_status option" where
  "status_after (Ask approval) d = (if approval then Some PendingDecision else d)"
| "status_after Send d = map_option (\<lambda>_. SubmittedDecision) d"
| "status_after (Settle expired) d = map_option (\<lambda>_. if expired then ExpiredDecision else AnsweredDecision) d"
| "status_after Close d = map_option (\<lambda>st. if st = PendingDecision \<or> st = SubmittedDecision
      then ExpiredDecision else st) d"
| "status_after Other d = d"

definition label_of :: "jstr \<Rightarrow> agent_event \<Rightarrow> input_label" where
  "label_of k e = (if closes_requests e then Close
     else if ev_itemId e \<noteq> Some k then Other
     else case ev_kind e of
         InputRequest \<Rightarrow> Ask (map_option rq_kind (ev_request e) \<noteq> Some (Exactly QuestionReq))
       | InputSubmitted \<Rightarrow> Send
       | InputResolved \<Rightarrow> Settle (ev_status e = Some (js ''expired''))
       | _ \<Rightarrow> Other)"

text \<open>The abstraction of a display state.\<close>

definition phase_of :: "stream_state \<Rightarrow> jstr \<Rightarrow> input_phase" where
  "phase_of s k = (case prop_get (st_pending s) k of
       Some (Pending _ submitted) \<Rightarrow> if submitted then Sent else Open
     | _ \<Rightarrow> Idle)"

definition status_of :: "stream_state \<Rightarrow> jstr \<Rightarrow> decision_status option" where
  "status_of s k = map_option dr_status (prop_get (st_decisions s) k)"

subsection \<open>The refinement\<close>

lemma closes_not_input: "closes_requests e \<Longrightarrow> \<not> is_input_kind (ev_kind e)"
  by (auto simp: closes_requests_def is_input_kind_iff)

lemma input_event_kind:
  assumes "reduceEvent s e = Inr s'"
  shows "ev_kind e = InputRequest \<Longrightarrow> reduce_request s e (advance s e) = Inr s'"
    and "ev_kind e = InputSubmitted \<Longrightarrow> reduce_submitted s e (advance s e) = Inr s'"
    and "ev_kind e = InputResolved \<Longrightarrow> reduce_resolved s e (advance s e) = Inr s'"
  using assms by (simp_all add: reduceEvent_eq_Inr reduce_kind_def)

lemma own_member:
  "k \<notin> set object_prototype_keys \<Longrightarrow> member_get m k = (case prop_get m k of None \<Rightarrow> Missing | Some v \<Rightarrow> Own v)"
  by (simp add: member_get_def)

lemma reduce_phase:
  assumes r: "reduceEvent s e = Inr s'" and e: "event_ok e" and k: "k \<notin> set object_prototype_keys"
    and s: "requests_ok s"
  shows "phase_of s' k = phase_after (label_of k e) (phase_of s k)"
    and "status_of s' k = status_after (label_of k e) (status_of s k)"
proof -
  have "phase_of s' k = phase_after (label_of k e) (phase_of s k)
      \<and> status_of s' k = status_after (label_of k e) (status_of s k)"
  proof (cases "closes_requests e")
    case True
    then show ?thesis using reduce_closes [OF r True]
      by (simp add: phase_of_def status_of_def label_of_def prop_get_expire option.map_comp comp_def
          expire_decision_def if_distrib cong: if_cong)
  next
    case False
    show ?thesis
    proof (cases "is_input_kind (ev_kind e)")
      case False
      with \<open>\<not> closes_requests e\<close> show ?thesis using reduce_keeps_requests [OF r]
        by (cases "ev_kind e") (simp_all add: phase_of_def status_of_def label_of_def is_input_kind_iff)
    next
      case True
      then obtain i where i: "ev_itemId e = Some i" using e by (cases "ev_itemId e") (auto simp: event_ok_def)
      have entry: "entry_ok k en" if "prop_get (st_pending s) k = Some en" for en
        using s that by (simp add: requests_ok_def)
      from True consider "ev_kind e = InputRequest" | "ev_kind e = InputSubmitted" | "ev_kind e = InputResolved"
        by (auto simp: is_input_kind_iff)
      then show ?thesis
      proof cases
        case 1
        then obtain req where q: "ev_request e = Some req" using e by (auto simp: event_ok_def)
        show ?thesis using input_event_kind(1) [OF r 1] 1 i q False
          by (auto simp: reduce_request_def phase_of_def status_of_def label_of_def)
      next
        case 2
        show ?thesis
        proof (cases "i = k")
          case True
          then show ?thesis using input_event_kind(2) [OF r 2] 2 i False entry k
            by (cases "prop_get (st_pending s) k"; cases "prop_get (st_decisions s) k")
              (auto simp: reduce_submitted_def phase_of_def status_of_def label_of_def own_member entry_ok_def
                split: pending_entry.splits)
        next
          case F: False
          then show ?thesis using input_event_kind(2) [OF r 2] 2 i False
            by (auto simp: reduce_submitted_def phase_of_def status_of_def label_of_def split: member.splits)
        qed
      next
        case 3
        show ?thesis
        proof (cases "i = k")
          case True
          then show ?thesis using input_event_kind(3) [OF r 3] 3 i False k
            by (cases "prop_get (st_decisions s) k")
              (auto simp: reduce_resolved_def phase_of_def status_of_def label_of_def own_member resolved_status_def)
        next
          case F: False
          then show ?thesis using input_event_kind(3) [OF r 3] 3 i False
            by (auto simp: reduce_resolved_def phase_of_def status_of_def label_of_def split: member.splits)
        qed
      qed
    qed
  qed
  then show "phase_of s' k = phase_after (label_of k e) (phase_of s k)"
    "status_of s' k = status_after (label_of k e) (status_of s k)" by simp_all
qed

subsection \<open>Runs\<close>

lemma phase_recent [simp]: "phase_of (t\<lparr>st_recent := f\<rparr>) k = phase_of t k" "status_of (t\<lparr>st_recent := f\<rparr>) k = status_of t k"
  by (simp_all add: phase_of_def status_of_def)

lemma run_phase:
  assumes "fold_result (apply_decoded fp) s es = Inr s'" and "stream_ok s" and "\<forall>e \<in> set es. event_ok e"
    and k: "k \<notin> set object_prototype_keys"
  shows "phase_of s' k = fold (\<lambda>e. phase_after (label_of k e)) (fresh_events (st_cursor s) es) (phase_of s k)
      \<and> status_of s' k = fold (\<lambda>e. status_after (label_of k e)) (fresh_events (st_cursor s) es) (status_of s k)"
  using assms(1-3)
proof (induction es arbitrary: s)
  case Nil
  then show ?case by simp
next
  case (Cons e es)
  then obtain t where t: "apply_decoded fp s e = Inr t" and r: "fold_result (apply_decoded fp) t es = Inr s'"
    by (auto simp: result_simps)
  have ok: "stream_ok t" using Cons.prems t by (auto intro: apply_decoded_ok)
  note IH = Cons.IH [OF r ok]
  from t show ?case
  proof (cases rule: apply_decoded_cases)
    case replay
    with IH Cons.prems show ?thesis by simp
  next
    case (fresh u)
    have "st_cursor t = Suc (st_cursor s)" using fresh reduceEvent_frame(1) [OF fresh(2)] by simp
    moreover have "phase_of t k = phase_after (label_of k e) (phase_of s k)"
      "status_of t k = status_after (label_of k e) (status_of s k)"
      using reduce_phase [OF fresh(2) _ k] Cons.prems fresh(3) by (simp_all add: stream_ok_def)
    ultimately show ?thesis using IH Cons.prems fresh(1) by simp
  qed
qed

end
