(* ===== verification/Samples.thy ===== *)
theory Samples
  imports Stream
begin

text \<open>
  Concrete inputs for the examples of the development: events as the runtime sends them, a
  date parser that knows one shape of time stamp, and the identity in place of the hash.
\<close>

definition sample_dates :: date_parser where
  "sample_dates t = (if startsWith t (js ''2026-01-01T00:00:'') \<and> length t = 20 then Some 1767225600000 else None)"

definition sample_time :: jstr where "sample_time = js ''2026-01-01T00:00:00Z''"

definition text_field :: "string \<Rightarrow> string \<Rightarrow> jstr \<times> json" where
  "text_field key t = (js key, JStr (js t))"

text \<open>An event of the session \<open>s1\<close> with a kind, a sequence number and further properties.\<close>

definition sample_event :: "string \<Rightarrow> int \<Rightarrow> (jstr \<times> json) list \<Rightarrow> unknown" where
  "sample_event kind seq extra = Some (JObj
     ([(js ''schemaVersion'', JStr agent_runtime_schema), text_field ''sessionId'' ''s1'',
       text_field ''provider'' ''codex'', text_field ''kind'' kind, (js ''seq'', JNum (IntNum seq))] @ extra))"

definition sample_item :: "string \<Rightarrow> int \<Rightarrow> string \<Rightarrow> unknown" where
  "sample_item kind seq content = sample_event kind seq
     [text_field ''turnId'' ''t1'', text_field ''itemId'' ''i1'', text_field ''role'' ''assistant'',
      text_field ''text'' content]"

definition sample_request :: "string \<Rightarrow> json" where
  "sample_request i = JObj [text_field ''id'' i, text_field ''kind'' ''permission'', text_field ''title'' ''Run'',
     (js ''options'', JArr [JObj [text_field ''id'' ''yes'', text_field ''label'' ''Yes'', text_field ''kind'' ''allow_once'']]),
     (js ''questions'', JArr [])]"

definition sample_input :: "string \<Rightarrow> int \<Rightarrow> string \<Rightarrow> (jstr \<times> json) list \<Rightarrow> unknown" where
  "sample_input kind seq i extra = sample_event kind seq
     ([text_field ''turnId'' ''t1'', text_field ''itemId'' i] @ extra)"

definition sample_run :: "unknown list" where
  "sample_run = [
     sample_event ''session.state'' 1 [text_field ''status'' ''running'', text_field ''turnId'' ''t1''],
     sample_item ''item.delta'' 2 ''Hel'',
     sample_item ''item.delta'' 3 ''lo'',
     sample_input ''input.request'' 4 ''r1'' [(js ''request'', sample_request ''r1'')],
     sample_item ''item.delta'' 3 ''lo'',
     sample_input ''input.submitted'' 5 ''r1'' [],
     sample_event ''turn.end'' 6 [text_field ''turnId'' ''t1'', text_field ''status'' ''failed'', text_field ''text'' ''Quota'']]"

definition sample_state :: stream_state where
  "sample_state = emptyStream (js ''s1'') Codex"

text \<open>Decoded events of the same session.\<close>

definition plain_event :: "event_kind \<Rightarrow> nat \<Rightarrow> agent_event" where
  "plain_event kind seq = \<lparr>ev_sessionId = js ''s1'', ev_provider = Codex, ev_kind = kind, ev_seq = seq,
     ev_turnId = Some (js ''t1''), ev_itemId = Some (js ''i1''), ev_text = Some (js ''Hello''), ev_title = None,
     ev_status = Some (js ''completed''), ev_sourceMethod = None, ev_providerSessionId = None,
     ev_providerThreadId = None, ev_providerTurnId = None, ev_createdAt = Some sample_time, ev_runtimeId = None,
     ev_queue = None, ev_metadata = None, ev_decision = None, ev_details = None, ev_role = Some AssistantRole,
     ev_request = None\<rparr>"

definition sample_approval :: agent_request where
  "sample_approval = \<lparr>rq_id = js ''i1'', rq_kind = Exactly PermissionReq, rq_title = js ''Run'', rq_text = None,
     rq_options = [\<lparr>do_id = js ''yes'', do_label = js ''Yes'', do_kind = js ''allow_once'', do_description = None\<rparr>],
     rq_questions = [], rq_sourceMethod = None, rq_providerThreadId = None, rq_providerTurnId = None,
     rq_providerItemId = None, rq_createdAt = None, rq_details = None\<rparr>"

definition approval_event :: "nat \<Rightarrow> agent_event" where
  "approval_event seq = (plain_event InputRequest seq)\<lparr>ev_request := Some sample_approval\<rparr>"

definition open_state :: stream_state where
  "open_state = sample_state\<lparr>st_cursor := 1, st_activeTurnId := js ''t1'',
     st_pending := [(js ''i1'', Pending sample_approval False)],
     st_decisions := [(js ''i1'', \<lparr>dr_request = Some sample_approval, dr_turnId = Some (js ''t1''),
        dr_status = PendingDecision, dr_decision = None, dr_updatedAt = None\<rparr>)]\<rparr>"

lemmas event_samples = plain_event_def sample_approval_def approval_event_def open_state_def

subsection \<open>Evaluation\<close>

text \<open>
  The definitions that \<open>simp\<close> unfolds to run a decoder or the reducer on a concrete input. A
  sequence of fallible steps is evaluated from its first step on, never inside a continuation.
\<close>

lemma andThen_weak_cong: "m = m' \<Longrightarrow> andThen m f = andThen m' f"
  by simp

lemmas sample_defs = sample_dates_def sample_time_def text_field_def sample_event_def sample_item_def
  sample_input_def sample_request_def sample_run_def sample_state_def

lemmas [decode_defs] = record_of_def string_of_def text_limit_def safeId_def boolean_of_def
  integer_of_def safe_int_def isSafeInteger_def max_safe_def list_of_def exact_of_def provider_of_def worker_of_def
  optional_def optionalText_def nativeTimestamp_def nativeNumber_def native_option_def
  decodeNativeTurnOptions_def has_schema_def field_def prop_get_def lookup_name_def throw_if_def
  kinds_def roles_def providers_def workerStates_def

text \<open>The identities of the samples.\<close>

lemma sample_safe_ids [simp]:
  "is_safe_id (js ''s1'')" "is_safe_id (js ''t1'')" "is_safe_id (js ''i1'')" "is_safe_id (js ''r1'')"
  "is_safe_id (js ''run1'')" "is_safe_id (js ''constructor'')"
  by code_simp+

lemmas event_evals = decodeEvent_def event_base_def check_event_def check_details_def check_turn_end_def
  event_request_def is_item_kind_iff is_input_kind_iff turn_statuses_def decodeNativeRequest_def
  printed_of_def String_of_def question_of_def options_of_def decision_option_of_def bad_identities_def request_kinds_def

lemmas reduce_evals = applyEvent_def apply_decoded_def reduceEvent_def check_runtime_def advance_def
  reduce_kind_def reduce_session_state_def reduce_item_def reduce_request_def reduce_submitted_def
  reduce_resolved_def reduce_turn_end_def check_item_def item_index_def next_item_def item_content_def
  item_clipped_def full_delta_def or_text_def kept_def emptyStream_def limit_defs remember_def
  prop_put_def prop_delete_def member_get_def expireDecisions_def expire_decision_def add_notice_def
  conflicting_def

end
