(* ===== verification/Stream_Properties.thy ===== *)
theory Stream_Properties
  imports Stream_Requests Samples
begin

text \<open>
  The properties of the event stream, each with a concrete run of the reducer that meets its
  hypotheses. The proofs rest on the lemmas of the \<open>Stream_\<close> theories.
\<close>

subsection \<open>A run of the reducer\<close>

lemma sample_run_applies:
  "\<exists>s'. apply_all sample_dates id sample_state sample_run = Inr s' \<and> st_cursor s' = 6
     \<and> map it_text (st_items s') = [js ''Hello''] \<and> st_pending s' = []
     \<and> map (dr_status \<circ> snd) (st_decisions s') = [ExpiredDecision] \<and> st_notices s' = [js ''Quota'']"
  by (simp add: decode_defs event_evals sample_defs reduce_evals js_append [symmetric] is_index_def
      cong: andThen_weak_cong)

lemma sample_state_ok [simp]: "stream_ok sample_state"
  by (simp add: sample_state_def emptyStream_ok)

lemma sample_state_simps [simp]: "st_cursor sample_state = 0" "st_sessionId sample_state = js ''s1''"
  by (simp_all add: sample_state_def emptyStream_def)

lemma plain_event_ok: "event_ok (plain_event ItemDelta 1)" "event_ok (plain_event TurnEnd 1)"
    "event_ok (approval_event 1)"
  by (simp_all add: event_ok_def event_samples is_item_kind_iff is_input_kind_iff turn_statuses_def max_safe_def
      request_ok_def option_list_ok_def)

lemma sample_reduces:
  "\<exists>s'. reduceEvent sample_state (plain_event ItemDelta 1) = Inr s' \<and> map it_text (st_items s') = [js ''Hello'']"
  "\<exists>s'. reduceEvent open_state (plain_event TurnEnd 2) = Inr s' \<and> st_worker s' = Starting"
  "\<exists>s'. reduceEvent sample_state (approval_event 1) = Inr s' \<and> phase_of s' (js ''i1'') = Open"
  by (simp_all add: event_samples sample_state_def reduce_evals is_index_def phase_of_def prop_get_def)

subsection \<open>The invariant\<close>

text \<open>
  C1. Whatever the runtime sends, a stream that starts empty and applies events without an
  error is in a well-formed display state: at most 2048 items with distinct keys, each text
  within the limit and each role that of its structured details; every pending request filed
  under its own identity and in agreement with its decision record; at most 32 notices, none of
  them empty; a sound queue and sound metadata; fingerprints of the last 64 events only.
\<close>

theorem run_keeps_stream_ok:
  assumes "apply_all dp sha (emptyStream sid p) raws = Inr s'"
  shows "stream_ok s'"
  by (rule stream.run_inv [OF emptyStream_ok assms])

theorem run_keeps_stream_ok_witness:
  "\<exists>s'. apply_all sample_dates id sample_state sample_run = Inr s' \<and> stream_ok s'"
  using sample_run_applies run_keeps_stream_ok [of sample_dates id "js ''s1''" Codex sample_run]
  unfolding sample_state_def by blast

subsection \<open>Delivery\<close>

text \<open>
  C3. At-least-once delivery is exactly-once application. If a delivery applies without an
  error, the events that move the cursor have the sequence numbers from the old cursor to the
  new one without gap or repetition, and applying them alone gives the same state.
\<close>

theorem duplicates_change_nothing:
  assumes "apply_all dp sha s raws = Inr s'"
  shows "\<exists>es. list_all2 (\<lambda>raw e. decode_in dp s raw = Inr e) raws es
     \<and> map ev_seq (fresh_events (st_cursor s) es) = [Suc (st_cursor s)..<Suc (st_cursor s')]
     \<and> fold_result (apply_decoded (eventFingerprint sha)) s (fresh_events (st_cursor s) es) = Inr s'"
  using assms apply_fresh unfolding apply_all_decoded by blast

theorem duplicates_change_nothing_witness:
  "\<exists>s' es. list_all2 (\<lambda>raw e. decode_in sample_dates sample_state raw = Inr e) sample_run es
     \<and> map ev_seq (fresh_events 0 es) = [1, 2, 3, 4, 5, 6]
     \<and> fold_result (apply_decoded (eventFingerprint id)) sample_state (fresh_events 0 es) = Inr s'"
proof -
  obtain s' where "apply_all sample_dates id sample_state sample_run = Inr s'" and "st_cursor s' = 6"
    using sample_run_applies by blast
  moreover have "[Suc 0..<Suc 6] = [1, 2, 3, 4, 5, 6]" by (simp add: upt_rec)
  ultimately show ?thesis using duplicates_change_nothing [of sample_dates id sample_state sample_run s']
    unfolding sample_state_simps(1) by metis
qed

text \<open>
  Convergence: two clients that start from the same state and receive the same journal,
  with whatever repetitions, show the same state as soon as their cursors agree.
\<close>

theorem deliveries_of_one_journal_converge:
  assumes "apply_all dp sha s raws = Inr s1" and "apply_all dp sha s raws' = Inr s2"
    and "st_cursor s1 = st_cursor s2"
    and "\<And>raw raw' e e'. raw \<in> set raws \<Longrightarrow> raw' \<in> set raws' \<Longrightarrow> decode_in dp s raw = Inr e \<Longrightarrow>
           decode_in dp s raw' = Inr e' \<Longrightarrow> ev_seq e = ev_seq e' \<Longrightarrow> e = e'"
  shows "s1 = s2"
proof -
  obtain es es' where es: "list_all2 (\<lambda>raw e. decode_in dp s raw = Inr e) raws es"
    "fold_result (apply_decoded (eventFingerprint sha)) s es = Inr s1"
    and es': "list_all2 (\<lambda>raw e. decode_in dp s raw = Inr e) raws' es'"
    "fold_result (apply_decoded (eventFingerprint sha)) s es' = Inr s2"
    using assms(1,2) unfolding apply_all_decoded by blast
  have "e = e'" if "e \<in> set es" "e' \<in> set es'" "ev_seq e = ev_seq e'" for e e'
    using assms(4) that decoded_from [OF es(1)] decoded_from [OF es'(1)] by blast
  with es es' assms(3) show ?thesis by (blast intro: deliveries_converge)
qed

theorem deliveries_of_one_journal_converge_witness:
  "\<exists>s1 s2. apply_all sample_dates id sample_state [sample_item ''item.delta'' 1 ''Hel''] = Inr s1
     \<and> apply_all sample_dates id sample_state
         [sample_item ''item.delta'' 1 ''Hel'', sample_item ''item.delta'' 1 ''Hel''] = Inr s2 \<and> s1 = s2"
proof -
  let ?raw = "sample_item ''item.delta'' 1 ''Hel''"
  obtain s1 where 1: "apply_all sample_dates id sample_state [?raw] = Inr s1" "st_cursor s1 = 1"
    by (simp add: decode_defs event_evals sample_defs reduce_evals cong: andThen_weak_cong)
  obtain s2 where 2: "apply_all sample_dates id sample_state [?raw, ?raw] = Inr s2" "st_cursor s2 = 1"
    by (simp add: decode_defs event_evals sample_defs reduce_evals cong: andThen_weak_cong)
  have "s1 = s2"
    by (rule deliveries_of_one_journal_converge [OF 1(1) 2(1)]) (use 1(2) 2(2) in auto)
  with 1(1) 2(1) show ?thesis by blast
qed

text \<open>
  Reconnecting is harmless: after a delivery, any of its events with a sequence number in
  the last 64 may be delivered again, in any order and any number of times, and nothing happens.
\<close>

theorem redelivery_changes_nothing:
  assumes "apply_all dp sha s raws = Inr s'" and "set again \<subseteq> set raws"
    and "\<And>raw e. raw \<in> set again \<Longrightarrow> decode_in dp s raw = Inr e \<Longrightarrow> st_cursor s' < ev_seq e + 64"
  shows "apply_all dp sha s' again = Inr s'"
proof -
  obtain es where es: "list_all2 (\<lambda>raw e. decode_in dp s raw = Inr e) raws es"
    and r: "fold_result (apply_decoded (eventFingerprint sha)) s es = Inr s'"
    using assms(1) unfolding apply_all_decoded by blast
  have "\<exists>e \<in> set es. decode_in dp s raw = Inr e" if "raw \<in> set raws" for raw
    using es that by (rule decoded_into)
  then have "\<forall>raw \<in> set again. \<exists>e. e \<in> set es \<and> decode_in dp s raw = Inr e"
    using assms(2) by blast
  then obtain f where f: "\<And>raw. raw \<in> set again \<Longrightarrow> f raw \<in> set es \<and> decode_in dp s raw = Inr (f raw)"
    by metis
  have frame: "decode_in dp s' = decode_in dp s"
    using run_frame [OF r] by (intro decode_in_cong) simp_all
  have "fold_result (apply_decoded (eventFingerprint sha)) s' (map f again) = Inr s'"
    using r by (rule redelivery) (use f assms(3) in \<open>auto simp: recent_fingerprints_def\<close>)
  moreover have "list_all2 (\<lambda>raw e. decode_in dp s' raw = Inr e) again (map f again)"
    using f by (simp add: frame list_all2_conv_all_nth)
  ultimately show ?thesis unfolding apply_all_decoded by blast
qed

theorem redelivery_changes_nothing_witness:
  "\<exists>s'. apply_all sample_dates id sample_state sample_run = Inr s'
     \<and> apply_all sample_dates id s' (rev sample_run) = Inr s'"
proof -
  obtain s' where s': "apply_all sample_dates id sample_state sample_run = Inr s'" "st_cursor s' = 6"
    using sample_run_applies by blast
  have "apply_all sample_dates id s' (rev sample_run) = Inr s'"
    by (rule redelivery_changes_nothing [OF s'(1)]) (use s'(2) in auto)
  with s'(1) show ?thesis by blast
qed

text \<open>
  C6. The cursor admits nothing else: a gap, a sequence number outside the window and a repeated
  sequence number with another fingerprint are refused with their own errors, and an admitted
  event either leaves the state as it is or moves the cursor by one.
\<close>

theorem cursor_admits_only_the_next_event:
  assumes "recent_ok s"
  shows "(Suc (st_cursor s) < ev_seq e \<longrightarrow> apply_decoded fp s e =
      Inl (Error ''The event stream has a gap; reload the conversation and do not resubmit the task.''))
    \<and> (ev_seq e + 64 \<le> st_cursor s \<longrightarrow> apply_decoded fp s e =
      Inl (Error ''The replayed event is outside the verification window; reload the conversation.''))
    \<and> (ev_seq e \<le> st_cursor s \<and> st_recent s (ev_seq e) = Some f \<and> f \<noteq> fp e \<longrightarrow> apply_decoded fp s e =
      Inl (Error ''The same event sequence number appeared with different content.''))
    \<and> (apply_decoded fp s e = Inr s' \<longrightarrow>
         s' = s \<and> ev_seq e \<le> st_cursor s \<and> st_recent s (ev_seq e) = Some (fp e)
       \<or> ev_seq e = Suc (st_cursor s) \<and> st_cursor s' = Suc (st_cursor s) \<and> st_recent s' (ev_seq e) = Some (fp e))"
proof -
  have "s' = s \<and> ev_seq e \<le> st_cursor s \<and> st_recent s (ev_seq e) = Some (fp e)
       \<or> ev_seq e = Suc (st_cursor s) \<and> st_cursor s' = Suc (st_cursor s) \<and> st_recent s' (ev_seq e) = Some (fp e)"
    if a: "apply_decoded fp s e = Inr s'"
    using a
  proof (cases rule: apply_decoded_cases)
    case (fresh t)
    have "st_cursor s' = Suc (st_cursor s)" using fresh reduceEvent_frame(1) [OF fresh(2)] by simp
    with fresh(1) apply_decoded_self(1) [OF a] show ?thesis by (simp add: recent_fingerprints_def)
  qed simp
  then show ?thesis
    using apply_decoded_gap apply_decoded_changed apply_decoded_outside [OF assms] by (simp add: recent_fingerprints_def)
qed

theorem cursor_admits_only_the_next_event_witness:
  "apply_decoded (eventFingerprint id) sample_state (plain_event Notice 3) =
     Inl (Error ''The event stream has a gap; reload the conversation and do not resubmit the task.'')"
  using cursor_admits_only_the_next_event [of sample_state "plain_event Notice 3" "eventFingerprint id"]
    sample_state_ok by (simp add: stream_ok_def event_samples)

subsection \<open>The timeline\<close>

text \<open>
  C2. The timeline refines the journal. Let the journal's text of an item be what its events,
  once each and in order, say without any limit: deltas append, snapshots replace, patches keep.
  After any delivery from an empty stream an item is shown exactly for the keys the journal
  has, with the first 262144 units of the journal's text, and it is marked as truncated
  exactly if the journal's text is longer.
\<close>

theorem timeline_refines_journal:
  assumes "fold_result (apply_decoded fp) (emptyStream sid p) es = Inr s'"
  shows "map_option (\<lambda>x. (it_text x, it_truncated x)) (find (\<lambda>x. it_key x = k) (st_items s'))
    = map_option (\<lambda>c. (take 262144 c, 262144 < length c)) (journal_text (fresh_events 0 es) k)"
  using journal_shown [OF assms, of k] unfolding shown_def clip_def item_limit_def .

theorem timeline_refines_journal_witness:
  "\<exists>s'. fold_result (apply_decoded (eventFingerprint id)) sample_state [plain_event ItemDelta 1, plain_event ItemDelta 1,
       plain_event ItemDelta 2] = Inr s'
   \<and> map_option (\<lambda>x. (it_text x, it_truncated x))
       (find (\<lambda>x. it_key x = item_key (Some (js ''t1'')) (Some (js ''i1''))) (st_items s')) = Some (js ''HelloHello'', False)"
proof -
  let ?es = "[plain_event ItemDelta 1, plain_event ItemDelta 1, plain_event ItemDelta 2]"
  obtain s' where s': "fold_result (apply_decoded (eventFingerprint id)) (emptyStream (js ''s1'') Codex) ?es = Inr s'"
    by (simp add: event_samples reduce_evals)
  have "journal_text (fresh_events 0 ?es) (item_key (Some (js ''t1'')) (Some (js ''i1''))) = Some (js ''HelloHello'')"
    by (simp add: journal_text_def about_item_def text_step_def is_item_kind_iff event_samples js_append [symmetric])
  then show ?thesis
    using timeline_refines_journal [OF s', of "item_key (Some (js ''t1'')) (Some (js ''i1''))"] s'
    by (simp add: sample_state_def)
qed

text \<open>
  C5. No event of a run takes anything back: an item keeps its position, key, turn, identity,
  role and the type of its details; queue and metadata are only replaced by ones of a
  strictly higher revision; a known provider conversation stays; the cursor does not go back.
\<close>

theorem run_takes_nothing_back:
  assumes "stream_ok s" and "apply_all dp sha s raws = Inr s'"
  shows "st_cursor s \<le> st_cursor s'
    \<and> length (st_items s) \<le> length (st_items s')
    \<and> (\<forall>i < length (st_items s). same_item (st_items s ! i) (st_items s' ! i))
    \<and> (\<forall>q. st_queue s = Some q \<longrightarrow> (\<exists>q'. st_queue s' = Some q' \<and> (q' = q \<or> pq_revision q < pq_revision q')))
    \<and> (\<forall>m. st_metadata s = Some m \<longrightarrow> (\<exists>m'. st_metadata s' = Some m' \<and> (m' = m \<or> md_revision m < md_revision m')))
    \<and> (st_providerSessionId s \<noteq> [] \<longrightarrow> st_providerSessionId s' = st_providerSessionId s)"
proof -
  have a: "advances s s'"
    using history.run_inv [of s s dp sha raws s'] assms by simp
  then have "\<forall>q. st_queue s = Some q \<longrightarrow> (\<exists>q'. st_queue s' = Some q' \<and> (q' = q \<or> pq_revision q < pq_revision q'))"
    "\<forall>m. st_metadata s = Some m \<longrightarrow> (\<exists>m'. st_metadata s' = Some m' \<and> (m' = m \<or> md_revision m < md_revision m'))"
    unfolding advances_def by (metis le_neq_implies_less)+
  with a show ?thesis unfolding advances_def items_extend_def by blast
qed

theorem run_takes_nothing_back_witness:
  "\<exists>s'. apply_all sample_dates id sample_state sample_run = Inr s' \<and> st_cursor sample_state \<le> st_cursor s'"
  using sample_run_applies run_takes_nothing_back [OF sample_state_ok, of sample_dates id sample_run] by blast

text \<open>
  The indices that the reducer records with a new item array are sound: an event that records
  none leaves the items alone, and otherwise every index outside the record shows the
  item it showed before. A presentation that redraws just those indices misses nothing.
\<close>

theorem recorded_changes_are_all_changes:
  assumes "reduceEvent s e = Inr s'"
  shows "case item_changes s e of
      None \<Rightarrow> st_items s' = st_items s
    | Some changed \<Rightarrow> (\<forall>i \<in> set changed. i < length (st_items s'))
        \<and> (\<forall>i < length (st_items s'). i \<notin> set changed \<longrightarrow> i < length (st_items s) \<and> st_items s' ! i = st_items s ! i)"
  using assms by (rule item_changes_sound)

theorem recorded_changes_are_all_changes_witness:
  "\<exists>s'. reduceEvent sample_state (plain_event ItemDelta 1) = Inr s' \<and> item_changes sample_state (plain_event ItemDelta 1) = Some [0]
     \<and> 0 < length (st_items s')"
proof -
  obtain s' where s': "reduceEvent sample_state (plain_event ItemDelta 1) = Inr s'"
    using sample_reduces(1) by blast
  have c: "item_changes sample_state (plain_event ItemDelta 1) = Some [0]"
    by (simp add: item_changes_def item_index_def is_item_kind_iff event_samples sample_state_def emptyStream_def)
  show ?thesis using recorded_changes_are_all_changes [OF s'] s' c by simp
qed

text \<open>
  The assertions of the reducer hold: an event that passed the decoder never makes it read
  an undefined field, so every error of the reducer is one of its own messages.
\<close>

theorem decoded_events_never_undefined:
  assumes "decodeEvent dp raw sid p = Inr e"
  shows "apply_decoded fp s e \<noteq> Inl (TypeError m)"
  using reduceEvent_no_TypeError [OF decodeEvent_ok(1) [OF assms]]
  by (auto simp: apply_decoded_def andThen_eq_Inl split: option.splits)

theorem decoded_events_never_undefined_witness:
  "\<exists>e. decodeEvent sample_dates (sample_item ''item.delta'' 1 ''Hel'') (js ''s1'') Codex = Inr e
     \<and> apply_decoded (eventFingerprint id) sample_state e \<noteq> Inl (TypeError [])"
proof -
  obtain e where "decodeEvent sample_dates (sample_item ''item.delta'' 1 ''Hel'') (js ''s1'') Codex = Inr e"
    by (simp add: decode_defs event_evals sample_defs cong: andThen_weak_cong)
  then show ?thesis using decoded_events_never_undefined by blast
qed

subsection \<open>Requests\<close>

text \<open>
  C4. The life of a request: for every identity that is not the name of a member of
  \<open>Object.prototype\<close>, a run moves the pending entry and the status of the decision record
  exactly as the request machine does on the events that move the cursor.
\<close>

theorem requests_follow_the_machine:
  assumes "fold_result (apply_decoded fp) (emptyStream sid p) es = Inr s'" and "\<forall>e \<in> set es. event_ok e"
    and "k \<notin> set object_prototype_keys"
  shows "phase_of s' k = fold (\<lambda>e. phase_after (label_of k e)) (fresh_events 0 es) Idle
    \<and> status_of s' k = fold (\<lambda>e. status_after (label_of k e)) (fresh_events 0 es) None"
  using run_phase [OF assms(1) emptyStream_ok assms(2,3)]
  by (simp add: emptyStream_def phase_of_def status_of_def)

theorem requests_follow_the_machine_witness:
  "\<exists>s'. fold_result (apply_decoded (eventFingerprint id)) (emptyStream (js ''s1'') Codex) [approval_event 1] = Inr s'
     \<and> phase_of s' (js ''i1'') = Open \<and> status_of s' (js ''i1'') = Some PendingDecision"
proof -
  obtain s' where s': "fold_result (apply_decoded (eventFingerprint id)) (emptyStream (js ''s1'') Codex) [approval_event 1] = Inr s'"
    by (simp add: event_samples reduce_evals)
  have k: "js ''i1'' \<notin> set object_prototype_keys" by (simp add: object_prototype_keys_def)
  have "label_of (js ''i1'') (approval_event 1) = Ask True"
    by (simp add: label_of_def closes_requests_def event_samples)
  moreover have "ev_seq (approval_event 1) = 1" by (simp add: event_samples)
  ultimately show ?thesis using requests_follow_the_machine [OF s' _ k] s' plain_event_ok(3) by simp
qed

text \<open>
  C7. The end of a turn, a new runtime and a closed or disconnected worker leave nothing open:
  no pending entry, and every decision record is kept and either answered or expired.
\<close>

theorem closing_events_settle_requests:
  assumes "reduceEvent s e = Inr s'"
    and "ev_kind e \<in> {TurnEnd, SessionRuntime}
       \<or> ev_kind e = SessionState \<and> ev_status e \<in> {Some (js ''closed''), Some (js ''disconnected'')}"
  shows "st_pending s' = [] \<and> map fst (st_decisions s') = map fst (st_decisions s)
    \<and> (\<forall>(k, d) \<in> set (st_decisions s'). dr_status d = AnsweredDecision \<or> dr_status d = ExpiredDecision)
    \<and> (\<forall>(k, d) \<in> set (st_decisions s). dr_status d = AnsweredDecision \<longrightarrow> (k, d) \<in> set (st_decisions s'))"
proof -
  have c: "closes_requests e" using assms(2) by (auto simp: closes_requests_def)
  note settle = reduce_closes [OF assms(1) c]
  have settled: "dr_status (expire_decision at d) = AnsweredDecision \<or> dr_status (expire_decision at d) = ExpiredDecision" for at d
    using expire_decision_settled [of at d] by (simp add: settled_def)
  have "\<forall>(k, d) \<in> set (st_decisions s'). dr_status d = AnsweredDecision \<or> dr_status d = ExpiredDecision"
    unfolding settle(2) expireDecisions_def using settled by auto
  moreover have "(k, d) \<in> set (st_decisions s')" if "(k, d) \<in> set (st_decisions s)" "dr_status d = AnsweredDecision" for k d
    using that unfolding settle(2) expireDecisions_def
    by (auto intro!: image_eqI [of _ _ "(k, d)"] simp: expire_decision_fixed settled_def)
  moreover have "map fst (st_decisions s') = map fst (st_decisions s)"
    unfolding settle(2) expireDecisions_def by (simp add: case_prod_beta comp_def)
  ultimately show ?thesis using settle(1) by blast
qed

theorem closing_events_settle_requests_witness:
  "\<exists>s'. reduceEvent open_state (plain_event TurnEnd 2) = Inr s' \<and> st_pending s' = []
     \<and> map fst (st_decisions s') = [js ''i1'']"
proof -
  obtain s' where s': "reduceEvent open_state (plain_event TurnEnd 2) = Inr s'"
    using sample_reduces(2) by blast
  show ?thesis using closing_events_settle_requests [OF s'] s' by (simp add: event_samples)
qed

text \<open>
  A request that was never made. \<open>state.pending[id]\<close> also finds the members that every
  object inherits, so the answer to an unknown request named \<open>constructor\<close> files a pending
  entry and a decision record without a request, where for every other unknown
  identity the event changes neither record.
\<close>

theorem inherited_member_passes_for_a_request:
  assumes "reduceEvent s e = Inr s'" and "ev_kind e = InputSubmitted" and "ev_itemId e = Some k"
    and "prop_get (st_pending s) k = None" and "prop_get (st_decisions s) k = None"
  shows "(k \<in> set object_prototype_keys \<longrightarrow> prop_get (st_pending s') k = Some (Stray True)
       \<and> map_option dr_request (prop_get (st_decisions s') k) = Some None)
    \<and> (k \<notin> set object_prototype_keys \<longrightarrow> st_pending s' = st_pending s \<and> st_decisions s' = st_decisions s)"
  using input_event_kind(2) [OF assms(1,2)] assms(3-5) by (auto simp: reduce_submitted_def member_get_def)

theorem inherited_member_passes_for_a_request_witness:
  "\<exists>s'. apply_all sample_dates id sample_state [sample_input ''input.submitted'' 1 ''constructor'' []] = Inr s'
     \<and> prop_get (st_pending s') (js ''constructor'') = Some (Stray True)"
proof -
  obtain e s' where d: "decode_in sample_dates sample_state (sample_input ''input.submitted'' 1 ''constructor'' []) = Inr e"
    and a: "ev_seq e = 1" "ev_kind e = InputSubmitted" "ev_itemId e = Some (js ''constructor'')"
    and r: "reduceEvent sample_state e = Inr s'"
    by (simp add: decode_in_def decode_defs event_evals sample_defs reduce_evals object_prototype_keys_def is_index_def
        cong: andThen_weak_cong)
  have "prop_get (st_pending sample_state) k = None" "prop_get (st_decisions sample_state) k = None" for k
    by (simp_all add: sample_state_def emptyStream_def)
  then have "prop_get (st_pending s') (js ''constructor'') = Some (Stray True)"
    using inherited_member_passes_for_a_request [OF r a(2,3)] by (simp add: object_prototype_keys_def)
  moreover have "apply_all sample_dates id sample_state [sample_input ''input.submitted'' 1 ''constructor'' []] =
      Inr (s'\<lparr>st_recent := remember 1 (eventFingerprint id e) (st_recent sample_state)\<rparr>)"
    using d a(1) r by (simp add: applyEvent_def decode_in_def apply_decoded_def)
  ultimately show ?thesis by simp
qed

end
