(* ===== verification/Decode_Bounds.thy ===== *)
theory Decode_Bounds
  imports Decode_Props Text_Props
begin

text \<open>
  Exact acceptance of tool data, the image budget of a tool result, merged turn options and the
  enumerations that are tested through \<open>String(x)\<close>.
\<close>

subsection \<open>Traversals that count\<close>

text \<open>
  A callback that either fails or passes its element on and adds to a counter: the traversal
  accepts what all the calls accept, returns the list unchanged and adds up.
\<close>

lemma traverse_st_counts:
  fixes c :: "'a \<Rightarrow> nat" and f :: "nat \<Rightarrow> 'a \<Rightarrow> 'e + 'a \<times> nat"
  assumes "\<And>x n y m. x \<in> set xs \<Longrightarrow> f n x = Inr (y, m) \<longleftrightarrow> P x \<and> y = x \<and> m = n + c x \<and> m \<le> B"
    and "\<And>x. x \<in> set xs \<Longrightarrow> 0 < c x"
  shows "traverse_st f n xs = Inr (ys, m) \<longleftrightarrow>
     (\<forall>x \<in> set xs. P x) \<and> ys = xs \<and> m = n + sum_list (map c xs) \<and> (xs = [] \<or> m \<le> B)"
  using assms
proof (induction xs arbitrary: n ys)
  case Nil
  then show ?case by auto
next
  case (Cons x xs)
  have IH: "traverse_st f k xs = Inr (zs, m) \<longleftrightarrow>
     (\<forall>x \<in> set xs. P x) \<and> zs = xs \<and> m = k + sum_list (map c xs) \<and> (xs = [] \<or> m \<le> B)" for k zs
    using Cons.prems by (intro Cons.IH) auto
  have step: "f n x = Inr (y, k) \<longleftrightarrow> P x \<and> y = x \<and> k = n + c x \<and> k \<le> B" for y k
    using Cons.prems(1) by simp
  have "traverse_st f n (x # xs) = Inr (ys, m) \<longleftrightarrow>
      (\<exists>y k zs. f n x = Inr (y, k) \<and> traverse_st f k xs = Inr (zs, m) \<and> ys = y # zs)"
    by (auto simp: result_simps split: prod.splits)
  also have "\<dots> \<longleftrightarrow> P x \<and> (\<forall>x \<in> set xs. P x) \<and> ys = x # xs \<and> m = n + c x + sum_list (map c xs)
      \<and> n + c x \<le> B \<and> (xs = [] \<or> m \<le> B)"
    unfolding step IH by auto
  finally show ?case by auto
qed

lemma traverse_st_length: "traverse_st f s xs = Inr (ys, s') \<Longrightarrow> length ys = length xs"
  by (induction xs arbitrary: ys s) (auto simp: result_simps split: prod.splits)

subsection \<open>Tool data\<close>

fun json_nodes :: "json \<Rightarrow> nat" where
  "json_nodes (JArr xs) = Suc (sum_list (map json_nodes xs))"
| "json_nodes (JObj ps) = Suc (sum_list (map (\<lambda>(k, v). json_nodes v) ps))"
| "json_nodes _ = 1"

lemma json_nodes_pos: "0 < json_nodes v"
  by (cases v) simp_all

text \<open>What a tool may show at a given depth.\<close>

fun data_ok :: "nat \<Rightarrow> json \<Rightarrow> bool" where
  "data_ok d JNull = (d \<le> 6)"
| "data_ok d (JBool b) = (d \<le> 6)"
| "data_ok d (JStr s) = (d \<le> 6 \<and> length s \<le> 16384)"
| "data_ok d (JNum n) = (d \<le> 6 \<and> isFinite n)"
| "data_ok d (JArr xs) = (d \<le> 6 \<and> length xs \<le> 64 \<and> (\<forall>x \<in> set xs. data_ok (Suc d) x))"
| "data_ok d (JObj ps) = (d \<le> 6 \<and> length ps \<le> 64
     \<and> (\<forall>(k, v) \<in> set ps. length k \<le> 256 \<and> \<not> hiddenNativeField k \<and> data_ok (Suc d) v))"

lemma nativeJson_iff:
  "nativeJson d n v = Inr (w, m) \<longleftrightarrow> w = v \<and> data_ok d v \<and> m = n + json_nodes v \<and> m \<le> 1024"
proof (induction v arbitrary: d n w m rule: json_nodes.induct)
  case (1 xs)
  have tr: "traverse_st (\<lambda>m x. nativeJson (Suc d) m x) (Suc n) xs = Inr (ys, m) \<longleftrightarrow>
      (\<forall>x \<in> set xs. data_ok (Suc d) x) \<and> ys = xs \<and> m = Suc n + sum_list (map json_nodes xs) \<and> (xs = [] \<or> m \<le> 1024)"
    for ys m
    using 1 by (intro traverse_st_counts) (auto simp: json_nodes_pos)
  show ?case
    using tr by (subst nativeJson.simps) (auto simp: result_simps not_less split: prod.splits)
next
  case (2 ps)
  have tr: "traverse_st (\<lambda>m (key, entry).
                     if 256 < length key \<or> hiddenNativeField key
                     then Inl (Error ''Tool data contains a forbidden configuration field.'')
                     else andThen (nativeJson (Suc d) m entry) (\<lambda>(e, m'). Inr ((key, e), m'))) (Suc n) ps = Inr (qs, m) \<longleftrightarrow>
      (\<forall>p \<in> set ps. length (fst p) \<le> 256 \<and> \<not> hiddenNativeField (fst p) \<and> data_ok (Suc d) (snd p))
      \<and> qs = ps \<and> m = Suc n + sum_list (map (\<lambda>(k, v). json_nodes v) ps) \<and> (ps = [] \<or> m \<le> 1024)" for qs m
    using 2 by (intro traverse_st_counts) (auto simp: json_nodes_pos result_simps not_less split: prod.splits)
  show ?case
    using tr by (subst nativeJson.simps) (auto simp: result_simps not_less split: prod.splits)
qed (subst nativeJson.simps; auto simp: result_simps string_of_def)+

lemma native_json_iff: "native_json v = Inr w \<longleftrightarrow> v = Some w \<and> data_ok 0 w \<and> json_nodes w \<le> 1024"
  by (auto simp: native_json_def result_simps nativeJson_iff split: option.splits)

subsection \<open>Images\<close>

fun image_bytes :: "tool_content \<Rightarrow> int" where
  "image_bytes (ImageContent m data w h) = decoded_bytes data"
| "image_bytes _ = 0"

fun is_image :: "tool_content \<Rightarrow> bool" where
  "is_image (ImageContent m data w h) = True"
| "is_image _ = False"

fun content_ok :: "tool_content \<Rightarrow> bool" where
  "content_ok (ImageContent m data w h) = (is_base64 data \<and> length data mod 4 = 0 \<and> data \<noteq> []
     \<and> 1 \<le> w \<and> w \<le> 8192 \<and> 1 \<le> h \<and> h \<le> 8192 \<and> w * h \<le> 32 * 1024 * 1024)"
| "content_ok (TextContent t) = (length t \<le> 16384)"
| "content_ok (ResourceLink uri name mime description) =
     (length uri \<le> 4096 \<and> (\<forall>t. name = Some t \<or> mime = Some t \<or> description = Some t \<longrightarrow> length t \<le> 4096))"

lemma image_content_of_Inr:
  assumes "image_content_of (left, n) block = Inr (c, left', n')"
  shows "is_image c \<and> content_ok c \<and> left' = left - image_bytes c \<and> 0 \<le> left' \<and> n' = Suc n \<and> n' \<le> 8"
  using assms unfolding image_content_of_def prod.case Let_def throw_if_eq_Inr
  by (elim andThenE, thin_tac "printed_of _ _ _ _ = _", thin_tac "string_of _ _ = _", (thin_tac "nativeNumber _ _ = _")+)
    (auto simp: result_simps not_less)

lemma tool_content_of_Inr:
  assumes "tool_content_of (left, n) entry = Inr (c, left', n')" and "0 \<le> left" and "n \<le> 8"
  shows "content_ok c \<and> left' = left - image_bytes c \<and> 0 \<le> left' \<and> n' = n + (if is_image c then 1 else 0) \<and> n' \<le> 8"
proof -
  obtain block where b: "(if has_type block ''text'' then
       andThen (string_of (16 * 1024) (field block ''text'')) (\<lambda>content. Inr (TextContent content, (left, n)))
     else if has_type block ''image'' then image_content_of (left, n) block
     else if \<not> has_type block ''resource_link'' then Inl (Error ''Unsupported tool content type.'')
     else
       andThen (string_of 4096 (field block ''uri'')) (\<lambda>uri.
       andThen (optionalText block ''name'' 4096) (\<lambda>name.
       andThen (optionalText block ''mimeType'' 4096) (\<lambda>mimeType.
       andThen (optionalText block ''description'' 4096) (\<lambda>description.
       Inr (ResourceLink uri name mimeType description, (left, n))))))) = Inr (c, left', n')"
    using assms(1) unfolding tool_content_of_def by (elim andThenE)
  consider "has_type block ''text''" | "\<not> has_type block ''text''" "has_type block ''image''"
    | "\<not> has_type block ''text''" "\<not> has_type block ''image''" "has_type block ''resource_link''"
    using b by (auto split: if_splits)
  then show ?thesis
  proof cases
    case 1
    with b assms show ?thesis by (auto simp: result_simps dest: string_of_ok)
  next
    case 2
    with b image_content_of_Inr [of left n block c left' n'] show ?thesis by simp
  next
    case 3
    with b assms show ?thesis by (auto simp: result_simps optionalText_def optional_eq_Some dest!: string_of_ok)
  qed
qed

lemma traverse_tool_contents:
  assumes "traverse_st tool_content_of (left, n) xs = Inr (cs, left', n')" and "0 \<le> left" and "n \<le> 8"
  shows "list_all content_ok cs \<and> left' = left - sum_list (map image_bytes cs) \<and> 0 \<le> left'
    \<and> n' = n + length (filter is_image cs) \<and> n' \<le> 8"
  using assms
proof (induction xs arbitrary: left n cs)
  case Nil
  then show ?case by simp
next
  case (Cons x xs)
  obtain c l k ds where x: "tool_content_of (left, n) x = Inr (c, l, k)"
    and r: "traverse_st tool_content_of (l, k) xs = Inr (ds, left', n')" and cs: "cs = c # ds"
    using Cons.prems(1) by (auto simp: result_simps split: prod.splits)
  note c = tool_content_of_Inr [OF x Cons.prems(2,3)]
  with Cons.IH [OF r] cs show ?case by auto
qed

lemma tool_contents_of_ok:
  assumes "tool_contents_of v = Inr cs"
  shows "length cs \<le> 64 \<and> list_all content_ok cs \<and> sum_list (map image_bytes cs) \<le> 2 * 1024 * 1024
    \<and> length (filter is_image cs) \<le> 8"
proof -
  obtain xs left n where xs: "length xs \<le> 64" "traverse_st tool_content_of (image_byte_limit, 0) xs = Inr (cs, left, n)"
    using assms unfolding tool_contents_of_def
    by (auto simp: result_simps not_less split: option.splits json.splits if_splits)
  moreover have "length cs = length xs" using xs(2) by (rule traverse_st_length)
  ultimately show ?thesis
    using traverse_tool_contents [of image_byte_limit 0 xs cs left n] by (auto simp: image_byte_limit_def)
qed

subsection \<open>Turn options\<close>

lemma truthy_or_text: "truthy (or_text a b) \<longleftrightarrow> truthy a \<or> truthy b"
  by (simp add: or_text_def)

lemma merge_again: "mergeNativeOptions (Some (mergeNativeOptions b new)) new = mergeNativeOptions b new"
  by (auto simp: mergeNativeOptions_def Let_def or_text_def)

lemma merge_effort:
  assumes "opt_effort (mergeNativeOptions b new) = Some t" and "t \<noteq> []"
  shows "opt_effort new = Some t \<or>
    (\<exists>old. b = Some old \<and> opt_effort old = Some t \<and> opt_model (mergeNativeOptions b new) = opt_model old)"
  using assms by (cases b) (auto simp: mergeNativeOptions_def Let_def or_text_def no_options_def split: if_splits)

subsection \<open>Enumerations tested through their text\<close>

lemma to_string_singleton: "to_string (JArr [JStr s]) = Inr s"
  by simp

lemma printed_of_singleton:
  assumes "named_enum name members"
  shows "printed_of name members message (Some (JArr [JStr (js (name x))])) = Inr (Printed [JStr (js (name x))])"
    and "printed_of name members message (Some (JStr (js (name x)))) = Inr (Exactly x)"
  by (simp_all add: printed_of_def String_of_def named_enum.lookup_name_self [OF assms])

lemma field_replace:
  "field (replace_prop (js k) v src) k' = (if k' = k \<and> field src k \<noteq> None then Some v else field src k')"
  by (auto simp: field_def prop_get_def map_of_replace_prop map_of_eq_None_iff)

text \<open>A request that names its kind in an array of one text is admitted like one that names it plainly.\<close>

lemma request_kind_in_array:
  assumes "decodeNativeRequest dp (Some (JObj src)) = Inr r" and k: "rq_kind r = Exactly k"
  shows "decodeNativeRequest dp (Some (JObj (replace_prop (js ''kind'') (JArr [JStr (js (request_kind_name k))]) src)))
    = Inr (r\<lparr>rq_kind := Printed [JStr (js (request_kind_name k))]\<rparr>)"
proof -
  obtain kind where kind: "printed_of request_kind_name request_kinds ''Unknown request type.'' (field src ''kind'') = Inr kind"
    using assms(1) by (auto simp: decodeNativeRequest_def record_of_def result_simps)
  then have f: "field src ''kind'' \<noteq> None"
    by (cases "field src ''kind''") (simp_all add: printed_of_def String_of_def lookup_name_def request_kinds_def)
  show ?thesis
    using assms unfolding decodeNativeRequest_def record_of_def option.case json.case andThen_Inr
    unfolding field_replace optionalText_def
    by (simp add: f printed_of_singleton [OF request_enum.named_enum_axioms]) (auto simp: result_simps)
qed

end
