(* ===== verification/Decode_Properties.thy ===== *)
theory Decode_Properties
  imports Decode_Bounds Samples
begin

text \<open>
  The properties of the decoders: exactly which tool data is admitted, the image budget, clipping, merged
  options, and enumerations behind \<open>String(x)\<close>.
\<close>

text \<open>
  C17. Tool data is admitted exactly if it has at most 1024 nodes, at most seven levels, at most 64
  entries in every array and object, finite numbers, texts of at most 16384 units and keys of at
  most 256 units that name no hidden field; what is admitted is passed on unchanged.
\<close>

theorem tool_data_admitted_exactly:
  "native_json (Some v) = Inr w \<longleftrightarrow> w = v \<and> data_ok 0 v \<and> json_nodes v \<le> 1024"
  by (auto simp: native_json_iff)

text \<open>
  The images of one tool result share a budget: at most eight, at most 2 MiB decoded in total,
  each of them non-empty base64 of whole groups with sides of 1 to 8192 and at most 32
  mebipixels; a result has at most 64 blocks.
\<close>

theorem tool_images_within_budget:
  assumes "tool_contents_of v = Inr cs"
  shows "length cs \<le> 64 \<and> length (filter is_image cs) \<le> 8 \<and> sum_list (map image_bytes cs) \<le> 2 * 1024 * 1024
    \<and> (\<forall>m data w h. ImageContent m data w h \<in> set cs \<longrightarrow> is_base64 data \<and> length data mod 4 = 0 \<and> data \<noteq> []
         \<and> 1 \<le> w \<and> w \<le> 8192 \<and> 1 \<le> h \<and> h \<le> 8192 \<and> w * h \<le> 32 * 1024 * 1024)"
  using tool_contents_of_ok [OF assms] by (auto simp: list_all_iff dest: bspec)

theorem tool_images_within_budget_witness:
  "\<exists>cs. tool_contents_of (Some (JArr [JObj [text_field ''type'' ''image'', text_field ''data'' ''AAAA'',
      (js ''width'', JNum (IntNum 2)), (js ''height'', JNum (IntNum 1)), text_field ''mimeType'' ''image/png'']])) = Inr cs
    \<and> length (filter is_image cs) \<le> 8 \<and> map image_bytes cs = [3]"
proof -
  have b: "is_base64 (js ''AAAA'')" "endsWith (js ''AAAA'') (js ''='') = False" "endsWith (js ''AAAA'') (js ''=='') = False"
    by code_simp+
  have "tool_contents_of (Some (JArr [JObj [text_field ''type'' ''image'', text_field ''data'' ''AAAA'',
      (js ''width'', JNum (IntNum 2)), (js ''height'', JNum (IntNum 1)), text_field ''mimeType'' ''image/png'']])) =
      Inr [ImageContent (Exactly Png) (js ''AAAA'') 2 1]"
    by (simp add: tool_contents_of_def tool_content_of_def image_content_of_def image_byte_limit_def has_type_def
        decode_defs text_field_def printed_of_def String_of_def image_types_def base64_limit_def decoded_bytes_def b Let_def
        cong: andThen_weak_cong)
  then show ?thesis using tool_images_within_budget by (fastforce simp: decoded_bytes_def b)
qed

text \<open>
  Clipping is exact: a text literal that \<open>JSON.stringify\<close> prints reads back as the text, lone
  surrogates included, so \<open>copyClippedText\<close> never fails and returns the first 262144 units.
\<close>

theorem clipped_text_is_a_prefix:
  "unquote (quote s @ rest) = Some (s, rest) \<and> copyClippedText s = Inr (take 262144 s)"
  by (simp add: unquote_quote item_limit_def)

text \<open>
  Merged turn options: what the new options name wins, merging the same options again changes
  nothing, and an effort that is shown goes with the model that is shown: it was named with the new
  options, or it comes from old options with the same model.
\<close>

theorem merged_options_belong_together:
  assumes "opt_effort (mergeNativeOptions b new) = Some t" and "t \<noteq> []"
  shows "(opt_effort new = Some t
       \<or> (\<exists>old. b = Some old \<and> opt_effort old = Some t \<and> opt_model (mergeNativeOptions b new) = opt_model old))
    \<and> mergeNativeOptions (Some (mergeNativeOptions b new)) new = mergeNativeOptions b new
    \<and> (truthy (opt_model new) \<longrightarrow> opt_model (mergeNativeOptions b new) = opt_model new)
    \<and> (truthy (opt_permission new) \<longrightarrow> opt_permission (mergeNativeOptions b new) = opt_permission new)"
  using merge_effort [OF assms] by (simp add: merge_again) (simp add: mergeNativeOptions_def Let_def or_text_def)

theorem merged_options_belong_together_witness:
  "opt_model (mergeNativeOptions (Some \<lparr>opt_model = Some (js ''m''), opt_effort = Some (js ''high''), opt_permission = None\<rparr>)
     \<lparr>opt_model = Some (js ''m''), opt_effort = None, opt_permission = None\<rparr>) = Some (js ''m'')"
  using merged_options_belong_together [of
      "Some \<lparr>opt_model = Some (js ''m''), opt_effort = Some (js ''high''), opt_permission = None\<rparr>"
      "\<lparr>opt_model = Some (js ''m''), opt_effort = None, opt_permission = None\<rparr>" "js ''high''"]
  by (simp add: mergeNativeOptions_def Let_def or_text_def)

text \<open>
  The kinds of requests are tested through their text, and an array prints as its only element:
  whenever a request is admitted, so is the same request with its kind wrapped in an array, and
  the stored kind is the array, which equals none of the names.
\<close>

theorem request_kind_admits_arrays:
  assumes "decodeNativeRequest dp (Some (JObj src)) = Inr r" and "rq_kind r = Exactly k"
  shows "decodeNativeRequest dp (Some (JObj (replace_prop (js ''kind'') (JArr [JStr (js (request_kind_name k))]) src)))
    = Inr (r\<lparr>rq_kind := Printed [JStr (js (request_kind_name k))]\<rparr>)"
  using assms by (rule request_kind_in_array)

theorem request_kind_admits_arrays_witness:
  "\<exists>r. decodeNativeRequest sample_dates (Some (JObj [text_field ''id'' ''r1'', (js ''kind'', JArr [JStr (js ''question'')]),
       text_field ''title'' ''Run'', (js ''options'', JArr []), (js ''questions'', JArr [])])) = Inr r
     \<and> rq_kind r = Printed [JStr (js ''question'')]"
proof -
  obtain r where "decodeNativeRequest sample_dates (Some (JObj [text_field ''id'' ''r1'', text_field ''kind'' ''question'',
       text_field ''title'' ''Run'', (js ''options'', JArr []), (js ''questions'', JArr [])])) = Inr r"
    "rq_kind r = Exactly QuestionReq"
    by (simp add: decode_defs event_evals sample_defs cong: andThen_weak_cong)
  from request_kind_admits_arrays [OF this] show ?thesis by (simp add: text_field_def)
qed

end
