(* ===== verification/Seed.thy ===== *)
theory Seed
  imports Stream
begin

text \<open>
  \<open>decodeCurrentSeed\<close> of \<open>web/src/state.ts\<close>: the current seed of a conversation, a projection whose
  items, result and open inputs pass the same decoder and the same reducer as events do, under
  synthetic sequence numbers, before the state is installed at the cursor of its session.
\<close>

subsection \<open>Identity\<close>

definition same_conversation :: "agent_session \<Rightarrow> agent_session \<Rightarrow> bool" where
  "same_conversation session expected \<longleftrightarrow>
     se_id session = se_id expected \<and> se_provider session = se_provider expected
   \<and> sc_profileId (se_scope session) = sc_profileId (se_scope expected)
   \<and> sc_accessConfirmed (se_scope session) = sc_accessConfirmed (se_scope expected)
   \<and> sc_context (se_scope session) = sc_context (se_scope expected)
   \<and> sc_workspace (se_scope session) = sc_workspace (se_scope expected)
   \<and> \<not> conflicting (se_providerSessionId expected) (se_providerSessionId session)"

subsection \<open>Items\<close>

record seed_progress =
  sp_state :: stream_state
  sp_seq :: nat
  sp_turn :: jstr
  sp_keys :: "jstr list"

definition seed_event :: "nat \<Rightarrow> agent_event \<Rightarrow> agent_event" where
  "seed_event seq e = e\<lparr>ev_seq := seq, ev_runtimeId := None\<rparr>"

definition seed_item :: "nat \<Rightarrow> seed_progress \<Rightarrow> agent_event \<Rightarrow> seed_progress result" where
  "seed_item lastSeq p item =
     (let key = item_key (ev_turnId item) (ev_itemId item);
          turn = (if sp_turn p = [] then get_or [] (ev_turnId item) else sp_turn p) in
      andThen (throw_if (ev_kind item \<noteq> ItemSnapshot \<or> lastSeq < ev_seq item \<or> ev_turnId item \<noteq> Some turn
          \<or> key \<in> set (sp_keys p)) ''Invalid current item identity.'') (\<lambda>_.
      andThen (reduceEvent (sp_state p) (seed_event (Suc (sp_seq p)) item)) (\<lambda>state.
      Inr \<lparr>sp_state = state, sp_seq = Suc (sp_seq p), sp_turn = turn, sp_keys = sp_keys p @ [key]\<rparr>)))"

subsection \<open>The result of the last turn\<close>

definition seed_result ::
  "date_parser \<Rightarrow> agent_session \<Rightarrow> jstr \<Rightarrow> unknown \<Rightarrow> seed_progress \<Rightarrow> seed_progress result" where
  "seed_result dp session activeTurnId value p = (case value of
       None \<Rightarrow> Inr p
     | Some v \<Rightarrow>
         andThen (decodeEvent dp (Some v) (se_id session) (se_provider session)) (\<lambda>result.
         andThen (throw_if (ev_kind result \<noteq> TurnEnd \<or> se_lastSeq session < ev_seq result \<or> activeTurnId \<noteq> []
             \<or> (sp_turn p \<noteq> [] \<and> ev_turnId result \<noteq> Some (sp_turn p))) ''Invalid current turn result.'') (\<lambda>_.
         andThen (reduceEvent (sp_state p) (seed_event (Suc (sp_seq p)) result)) (\<lambda>state.
         Inr (p\<lparr>sp_state := state, sp_seq := Suc (sp_seq p)\<rparr>)))))"

subsection \<open>Open inputs\<close>

record seed_input =
  si_request :: agent_request
  si_submitted :: bool
  si_decision :: "agent_decision option"

definition seed_input_of :: "date_parser \<Rightarrow> unknown \<Rightarrow> seed_input result" where
  "seed_input_of dp raw =
     andThen (record_of raw) (\<lambda>input.
     andThen (decodeNativeRequest dp (field input ''request'')) (\<lambda>req.
     andThen (boolean_of (field input ''submitted'')) (\<lambda>submitted.
     andThen (optional nativeDecision (field input ''decision'')) (\<lambda>decision.
     Inr \<lparr>si_request = req, si_submitted = submitted, si_decision = decision\<rparr>))))"

definition input_event ::
  "agent_session \<Rightarrow> jstr \<Rightarrow> event_kind \<Rightarrow> nat \<Rightarrow> seed_input \<Rightarrow> agent_event" where
  "input_event session activeTurnId kind seq input =
     \<lparr>ev_sessionId = se_id session, ev_provider = se_provider session, ev_kind = kind, ev_seq = seq,
      ev_turnId = Some activeTurnId, ev_itemId = Some (rq_id (si_request input)), ev_text = None,
      ev_title = None, ev_status = (if kind = InputSubmitted then Some (js ''submitted'') else None),
      ev_sourceMethod = None, ev_providerSessionId = None, ev_providerThreadId = None,
      ev_providerTurnId = None, ev_createdAt = None, ev_runtimeId = None, ev_queue = None,
      ev_metadata = None, ev_decision = (if kind = InputSubmitted then si_decision input else None),
      ev_details = None, ev_role = None,
      ev_request = (if kind = InputRequest then Some (si_request input) else None)\<rparr>"

record input_progress =
  ip_state :: stream_state
  ip_seq :: nat
  ip_ids :: "jstr list"

definition seed_open ::
  "agent_session \<Rightarrow> jstr \<Rightarrow> input_progress \<Rightarrow> seed_input \<Rightarrow> input_progress result" where
  "seed_open session activeTurnId p input =
     andThen (throw_if (rq_id (si_request input) \<in> set (ip_ids p)
         \<or> (\<not> si_submitted input \<and> si_decision input \<noteq> None)) ''Invalid current input identity.'') (\<lambda>_.
     andThen (reduceEvent (ip_state p) (input_event session activeTurnId InputRequest (Suc (ip_seq p)) input)) (\<lambda>asked.
     andThen (if si_submitted input
              then reduceEvent asked (input_event session activeTurnId InputSubmitted (Suc (Suc (ip_seq p))) input)
              else Inr asked) (\<lambda>state.
     Inr \<lparr>ip_state = state, ip_seq = (if si_submitted input then 2 else 1) + ip_seq p,
          ip_ids = ip_ids p @ [rq_id (si_request input)]\<rparr>)))"

subsection \<open>The seed\<close>

definition seed_history :: "nat \<Rightarrow> unknown \<Rightarrow> nat option result" where
  "seed_history lastSeq value =
     andThen (optional integer_of value) (\<lambda>before.
     andThen (throw_if (case before of None \<Rightarrow> False | Some n \<Rightarrow> n = 0 \<or> lastSeq + 1 < n)
       ''Invalid history boundary.'') (\<lambda>_. Inr before))"

definition install_seed ::
  "agent_session \<Rightarrow> jstr \<Rightarrow> prompt_queue option \<Rightarrow> nat option \<Rightarrow> stream_state \<Rightarrow> stream_state" where
  "install_seed session activeTurnId queue historyBefore state = state\<lparr>
     st_cursor := se_lastSeq session, st_recent := Map.empty, st_worker := se_state session,
     st_activeTurnId := activeTurnId, st_providerSessionId := get_or [] (se_providerSessionId session),
     st_runtimeId := get_or [] (se_runtimeId session), st_options := se_options session,
     st_metadata := Some (se_metadata session),
     st_queue := or_else queue (st_queue state), st_historyBefore := or_else historyBefore (st_historyBefore state)\<rparr>"

definition decodeCurrentSeed :: "date_parser \<Rightarrow> unknown \<Rightarrow> agent_session \<Rightarrow> stream_state result" where
  "decodeCurrentSeed dp value expected =
     andThen (record_of value) (\<lambda>seed.
     andThen (decodeSession dp (field seed ''session'')) (\<lambda>session.
     andThen (throw_if (\<not> same_conversation session expected)
       ''The current conversation identity does not match.'') (\<lambda>_.
     andThen (case field seed ''activeTurnId'' of None \<Rightarrow> Inr [] | Some v \<Rightarrow> safeId (Some v)) (\<lambda>activeTurnId.
     andThen (list_of 256 (\<lambda>raw. decodeEvent dp raw (se_id session) (se_provider session)) (field seed ''items'')) (\<lambda>items.
     andThen (list_of 16 (seed_input_of dp) (field seed ''inputs'')) (\<lambda>inputs.
     andThen (throw_if (inputs \<noteq> [] \<and> activeTurnId = []) ''Pending requests have no current turn.'') (\<lambda>_.
     andThen (fold_result (seed_item (se_lastSeq session))
        \<lparr>sp_state = emptyStream (se_id session) (se_provider session), sp_seq = 0, sp_turn = activeTurnId, sp_keys = []\<rparr>
        items) (\<lambda>shown.
     andThen (seed_result dp session activeTurnId (field seed ''result'') shown) (\<lambda>ended.
     andThen (fold_result (seed_open session activeTurnId)
        \<lparr>ip_state = sp_state ended, ip_seq = sp_seq ended, ip_ids = []\<rparr> inputs) (\<lambda>opened.
     andThen (seed_history (se_lastSeq session) (field seed ''historyBefore'')) (\<lambda>historyBefore.
     andThen (optional (decodePromptQueue dp) (field seed ''queue'')) (\<lambda>queue.
     Inr (install_seed session activeTurnId queue historyBefore (ip_state opened))))))))))))))"

end
