(* ===== verification/Seed_Props.thy ===== *)
theory Seed_Props
  imports Seed Stream_Requests Samples
begin

text \<open>
  What a current seed gives: a display state in which every later event may be applied, that
  belongs to the expected conversation, shows one turn, and holds exactly the open inputs.
\<close>

subsection \<open>Synthetic events\<close>

definition display_ok :: "stream_state \<Rightarrow> bool" where
  "display_ok s \<longleftrightarrow> items_ok s \<and> requests_ok s \<and> notices_ok s \<and> facts_ok s"

lemma display_okI: "stream_ok s \<Longrightarrow> display_ok s"
  by (simp add: display_ok_def stream_ok_def)

lemma reduce_display_ok: "display_ok s \<Longrightarrow> reduceEvent s e = Inr s' \<Longrightarrow> event_ok e \<Longrightarrow> display_ok s'"
  unfolding display_ok_def using reduceEvent_keeps_invariants by blast

lemma seed_event_ok:
  "event_ok e \<Longrightarrow> ev_kind e \<noteq> SessionRuntime \<Longrightarrow> seq < 1000 \<Longrightarrow> event_ok (seed_event (Suc seq) e)"
  by (simp add: event_ok_def seed_event_def max_safe_def)

lemma input_event_ok:
  assumes "request_ok (si_request i)" and "turn \<noteq> []" and "seq < 1000" and "kind \<in> {InputRequest, InputSubmitted}"
  shows "event_ok (input_event session turn kind (Suc seq) i)"
proof -
  have "rq_id (si_request i) \<noteq> []" using assms(1) by (auto simp: request_ok_def is_safe_id_def)
  then show ?thesis using assms
    by (auto simp: event_ok_def input_event_def max_safe_def is_item_kind_iff is_input_kind_iff)
qed

lemma seed_input_of_ok: "seed_input_of dp v = Inr i \<Longrightarrow> request_ok (si_request i)"
  by (auto simp: seed_input_of_def result_simps dest: decodeNativeRequest_ok)

interpretation seed_inputs: sound_decoder "seed_input_of dp" "\<lambda>i. request_ok (si_request i)"
  by unfold_locales (rule seed_input_of_ok)

interpretation seed_events: sound_decoder "\<lambda>raw. decodeEvent dp raw sid p" event_ok
  by unfold_locales (rule decodeEvent_ok(1))

subsection \<open>Items\<close>

text \<open>What holds between two items of the loop.\<close>

definition seed_shown :: "agent_session \<Rightarrow> jstr \<Rightarrow> seed_progress \<Rightarrow> bool" where
  "seed_shown session active p \<longleftrightarrow> display_ok (sp_state p) \<and> st_pending (sp_state p) = [] \<and> st_decisions (sp_state p) = []
     \<and> st_sessionId (sp_state p) = se_id session \<and> st_provider (sp_state p) = se_provider session
     \<and> length (st_items (sp_state p)) \<le> sp_seq p
     \<and> (active \<noteq> [] \<longrightarrow> sp_turn p = active)
     \<and> (\<forall>x \<in> set (st_items (sp_state p)). it_turnId x = sp_turn p) \<and> (st_items (sp_state p) \<noteq> [] \<longrightarrow> sp_turn p \<noteq> [])"

lemma snapshot_items:
  assumes r: "reduceEvent s e = Inr s'" and k: "ev_kind e = ItemSnapshot" and s: "\<forall>x \<in> set (st_items s). it_turnId x = t"
    and e: "ev_turnId e = Some t"
  shows "\<forall>x \<in> set (st_items s'). it_turnId x = t" and "length (st_items s') \<le> Suc (length (st_items s))"
proof -
  obtain x where n: "next_item e (map_option ((!) (st_items s)) (item_index s e)) = Inr x"
    and i: "st_items s' = (case item_index s e of None \<Rightarrow> st_items s @ [x] | Some i \<Rightarrow> (st_items s)[i := x])"
    using reduce_items_item [OF r] k by (auto simp: is_item_kind_iff)
  have "it_turnId x = t" using next_item_Inr(1) [OF n] e by simp
  then show "\<forall>x \<in> set (st_items s'). it_turnId x = t" using s i
    by (auto split: option.splits dest!: set_update_subset_insert [THEN subsetD])
  show "length (st_items s') \<le> Suc (length (st_items s))" using i by (simp split: option.splits)
qed

lemma seed_item_shown:
  assumes "seed_item n p e = Inr q" and p: "seed_shown session active p" and e: "event_ok e" and "sp_seq p < 1000"
  shows "seed_shown session active q \<and> sp_seq q = Suc (sp_seq p)"
proof -
  define turn where "turn = (if sp_turn p = [] then get_or [] (ev_turnId e) else sp_turn p)"
  obtain s' where k: "ev_kind e = ItemSnapshot" and t: "ev_turnId e = Some turn"
    and r: "reduceEvent (sp_state p) (seed_event (Suc (sp_seq p)) e) = Inr s'"
    and q: "q = \<lparr>sp_state = s', sp_seq = Suc (sp_seq p), sp_turn = turn,
       sp_keys = sp_keys p @ [item_key (ev_turnId e) (ev_itemId e)]\<rparr>"
    using assms(1) unfolding seed_item_def turn_def Let_def by (auto simp: result_simps)
  have "turn \<noteq> []" using e k t by (auto simp: event_ok_def is_item_kind_iff)
  have ok: "event_ok (seed_event (Suc (sp_seq p)) e)" using e k assms(4) by (simp add: seed_event_ok)
  have k': "ev_kind (seed_event (Suc (sp_seq p)) e) = ItemSnapshot" "ev_turnId (seed_event (Suc (sp_seq p)) e) = Some turn"
    using k t by (simp_all add: seed_event_def)
  have "\<forall>x \<in> set (st_items (sp_state p)). it_turnId x = turn"
    using p unfolding seed_shown_def turn_def by (cases "st_items (sp_state p) = []") auto
  note items = snapshot_items [OF r k'(1) this k'(2)]
  have "\<not> closes_requests (seed_event (Suc (sp_seq p)) e)" "\<not> is_input_kind (ev_kind (seed_event (Suc (sp_seq p)) e))"
    using k' by (simp_all add: closes_requests_def is_input_kind_iff)
  from reduce_keeps_requests [OF r this] items \<open>turn \<noteq> []\<close> p ok r
  show ?thesis
    unfolding seed_shown_def q turn_def
    using reduceEvent_frame(2,3) [OF r] reduce_display_ok [OF _ r ok] by auto
qed

lemma seed_items_shown:
  "fold_result (seed_item n) p es = Inr q \<Longrightarrow> seed_shown session active p \<Longrightarrow> \<forall>e \<in> set es. event_ok e \<Longrightarrow>
     sp_seq p + length es \<le> 300 \<Longrightarrow> seed_shown session active q \<and> sp_seq q = sp_seq p + length es"
proof (induction es arbitrary: p)
  case Nil
  then show ?case by simp
next
  case (Cons e es)
  then obtain t where t: "seed_item n p e = Inr t" and r: "fold_result (seed_item n) t es = Inr q"
    by (auto simp: result_simps)
  have "seed_shown session active t \<and> sp_seq t = Suc (sp_seq p)"
    using seed_item_shown [OF t Cons.prems(2)] Cons.prems by simp
  with Cons.IH [OF r] Cons.prems show ?case by simp
qed

subsection \<open>The result\<close>

lemma seed_result_shown:
  assumes "seed_result dp session active v p = Inr q" and p: "seed_shown session active p" and "sp_seq p \<le> 300"
  shows "seed_shown session active q \<and> sp_seq q \<le> Suc (sp_seq p)"
proof (cases v)
  case None
  with assms show ?thesis by (simp add: seed_result_def)
next
  case (Some w)
  obtain e s' where d: "decodeEvent dp (Some w) (se_id session) (se_provider session) = Inr e"
    and k: "ev_kind e = TurnEnd" and r: "reduceEvent (sp_state p) (seed_event (Suc (sp_seq p)) e) = Inr s'"
    and q: "q = p\<lparr>sp_state := s', sp_seq := Suc (sp_seq p)\<rparr>"
    using assms(1) unfolding seed_result_def Some option.case by (auto simp: result_simps)
  have ok: "event_ok (seed_event (Suc (sp_seq p)) e)"
    using decodeEvent_ok(1) [OF d] k assms(3) by (simp add: seed_event_ok)
  have k': "ev_kind (seed_event (Suc (sp_seq p)) e) = TurnEnd" using k by (simp add: seed_event_def)
  then have "closes_requests (seed_event (Suc (sp_seq p)) e)" by (simp add: closes_requests_def)
  note c = reduce_closes [OF r this]
  obtain turnId status where i: "st_items s' = map (\<lambda>item. if it_turnId item \<noteq> turnId then item
         else item\<lparr>it_turnStatus := Some status\<rparr>) (st_items (sp_state p))"
    using reduce_items_turn_end [OF r k'] by blast
  have "display_ok s'" using p reduce_display_ok [OF _ r ok] by (simp add: seed_shown_def)
  then show ?thesis using p c i reduceEvent_frame(2,3) [OF r]
    by (auto simp: seed_shown_def q expireDecisions_def)
qed

subsection \<open>Inputs\<close>

definition input_entry :: "seed_input list \<Rightarrow> jstr \<Rightarrow> pending_entry option" where
  "input_entry inputs k = map_option (\<lambda>i. Pending (si_request i) (si_submitted i))
     (find (\<lambda>i. rq_id (si_request i) = k) inputs)"

definition seed_opened :: "seed_progress \<Rightarrow> seed_input list \<Rightarrow> input_progress \<Rightarrow> bool" where
  "seed_opened base inputs p \<longleftrightarrow> display_ok (ip_state p)
     \<and> st_items (ip_state p) = st_items (sp_state base)
     \<and> st_sessionId (ip_state p) = st_sessionId (sp_state base) \<and> st_provider (ip_state p) = st_provider (sp_state base)
     \<and> ip_ids p = map (\<lambda>i. rq_id (si_request i)) inputs
     \<and> (\<forall>k. prop_get (st_pending (ip_state p)) k = input_entry inputs k)"

lemma input_entry_snoc:
  "rq_id (si_request i) \<notin> set (map (\<lambda>i. rq_id (si_request i)) inputs) \<Longrightarrow> input_entry (inputs @ [i]) k =
     (if k = rq_id (si_request i) then Some (Pending (si_request i) (si_submitted i)) else input_entry inputs k)"
proof (cases "k = rq_id (si_request i)")
  case True
  moreover assume "rq_id (si_request i) \<notin> set (map (\<lambda>i. rq_id (si_request i)) inputs)"
  ultimately have "find (\<lambda>i. rq_id (si_request i) = k) inputs = None"
    unfolding find_None_iff by (metis image_eqI set_map)
  then show ?thesis using True by (simp add: input_entry_def find_append)
next
  case False
  then show ?thesis by (cases "find (\<lambda>i. rq_id (si_request i) = k) inputs") (auto simp: input_entry_def find_append)
qed

lemma reduce_input_items:
  "reduceEvent s e = Inr s' \<Longrightarrow> is_input_kind (ev_kind e) \<Longrightarrow> st_items s' = st_items s"
  by (rule reduce_items_other) (auto simp: is_input_kind_iff is_item_kind_iff)

lemma seed_open_opened:
  assumes o: "seed_open session turn p i = Inr q" and p: "seed_opened base inputs p" and i: "request_ok (si_request i)"
    and t: "turn \<noteq> []" and n: "ip_seq p < 900"
  shows "seed_opened base (inputs @ [i]) q \<and> ip_seq q \<le> 2 + ip_seq p"
proof -
  let ?id = "rq_id (si_request i)" and ?ask = "input_event session turn InputRequest (Suc (ip_seq p)) i"
    and ?send = "input_event session turn InputSubmitted (Suc (Suc (ip_seq p))) i"
  obtain asked s' where new: "?id \<notin> set (ip_ids p)" and a: "reduceEvent (ip_state p) ?ask = Inr asked"
    and b: "(if si_submitted i then reduceEvent asked ?send else Inr asked) = Inr s'"
    and q: "q = \<lparr>ip_state = s', ip_seq = (if si_submitted i then 2 else 1) + ip_seq p, ip_ids = ip_ids p @ [?id]\<rparr>"
    using o unfolding seed_open_def by (auto simp: result_simps)
  have asked: "st_pending asked = prop_put ?id (Pending (si_request i) False) (st_pending (ip_state p))"
    using input_event_kind(1) [OF a] by (auto simp: input_event_def reduce_request_def)
  have ka: "is_input_kind (ev_kind ?ask)" "is_input_kind (ev_kind ?send)" by (simp_all add: input_event_def is_input_kind_iff)
  have "display_ok asked" "st_items asked = st_items (ip_state p)"
    "st_sessionId asked = st_sessionId (ip_state p)" "st_provider asked = st_provider (ip_state p)"
    using reduce_display_ok [OF _ a input_event_ok [OF i t]] p n reduce_input_items [OF a ka(1)] reduceEvent_frame(2,3) [OF a]
    by (simp_all add: seed_opened_def)
  moreover have "display_ok s' \<and> st_items s' = st_items asked \<and> st_sessionId s' = st_sessionId asked
      \<and> st_provider s' = st_provider asked
      \<and> (\<forall>k. prop_get (st_pending s') k = (if k = ?id then Some (Pending (si_request i) (si_submitted i))
            else prop_get (st_pending (ip_state p)) k))"
  proof (cases "si_submitted i")
    case True
    then have c: "reduceEvent asked ?send = Inr s'" using b by simp
    have "member_get (st_pending asked) ?id = Own (Pending (si_request i) False)"
      by (simp add: asked member_get_simps)
    moreover have "reduce_submitted asked ?send (advance asked ?send) = Inr s'"
      using input_event_kind(2) [OF c] by (simp add: input_event_def)
    moreover have id: "ev_itemId ?send = Some ?id" by (simp add: input_event_def)
    ultimately have "st_pending s' = prop_put ?id (Pending (si_request i) True) (st_pending asked)"
      by (auto simp: reduce_submitted_def)
    then show ?thesis
      using True reduce_display_ok [OF \<open>display_ok asked\<close> c input_event_ok [OF i t]] n
        reduce_input_items [OF c ka(2)] reduceEvent_frame(2,3) [OF c] by (simp add: asked)
  qed (use b \<open>display_ok asked\<close> asked in auto)
  ultimately show ?thesis using p new by (simp add: seed_opened_def q input_entry_snoc)
qed

lemma seed_opens_all:
  "fold_result (seed_open session turn) p is = Inr q \<Longrightarrow> seed_opened base inputs p \<Longrightarrow> \<forall>i \<in> set is. request_ok (si_request i) \<Longrightarrow>
     turn \<noteq> [] \<or> is = [] \<Longrightarrow> ip_seq p + 2 * length is \<le> 900 \<Longrightarrow> seed_opened base (inputs @ is) q"
proof (induction "is" arbitrary: p inputs)
  case Nil
  then show ?case by simp
next
  case (Cons i ks)
  then obtain t where t: "seed_open session turn p i = Inr t" and r: "fold_result (seed_open session turn) t ks = Inr q"
    by (auto simp: result_simps)
  have "seed_opened base (inputs @ [i]) t \<and> ip_seq t \<le> 2 + ip_seq p"
    using seed_open_opened [OF t Cons.prems(2)] Cons.prems by simp
  with Cons.IH [OF r, of "inputs @ [i]"] Cons.prems show ?case by simp
qed

subsection \<open>The installed state\<close>

lemma decodeSession_metadata:
  assumes "decodeSession dp v = Inr session"
  shows "metadata_ok (se_metadata session)"
proof -
  obtain s where "nativeMetadata s = Inr (se_metadata session)"
    using assms unfolding decodeSession_def by (elim andThenE) auto
  then show ?thesis by (rule nativeMetadata_ok)
qed

lemma decodeCurrentSeed_Inr:
  assumes "decodeCurrentSeed dp v expected = Inr s"
  obtains src session turn items inputs base opened queue before where
    "v = Some (JObj src)" "decodeSession dp (field src ''session'') = Inr session"
    "same_conversation session expected"
    "list_of 16 (seed_input_of dp) (field src ''inputs'') = Inr inputs"
    "seed_opened base inputs opened" "seed_shown session turn base"
    "inputs \<noteq> [] \<longrightarrow> turn \<noteq> []" "pred_option queue_ok queue" "pred_option (\<lambda>n. n \<noteq> 0 \<and> n \<le> se_lastSeq session + 1) before"
    "s = install_seed session turn queue before (ip_state opened)"
proof -
  obtain src session turn items inputs base ended opened before queue where
    v: "record_of v = Inr src" and sess: "decodeSession dp (field src ''session'') = Inr session"
    and same: "same_conversation session expected"
    and items: "list_of 256 (\<lambda>raw. decodeEvent dp raw (se_id session) (se_provider session)) (field src ''items'') = Inr items"
    and inputs: "list_of 16 (seed_input_of dp) (field src ''inputs'') = Inr inputs"
    and turn: "\<not> (inputs \<noteq> [] \<and> turn = [])"
    and base: "fold_result (seed_item (se_lastSeq session))
        \<lparr>sp_state = emptyStream (se_id session) (se_provider session), sp_seq = 0, sp_turn = turn, sp_keys = []\<rparr>
        items = Inr base"
    and ended: "seed_result dp session turn (field src ''result'') base = Inr ended"
    and opened: "fold_result (seed_open session turn) \<lparr>ip_state = sp_state ended, ip_seq = sp_seq ended, ip_ids = []\<rparr> inputs = Inr opened"
    and before: "seed_history (se_lastSeq session) (field src ''historyBefore'') = Inr before"
    and queue: "optional (decodePromptQueue dp) (field src ''queue'') = Inr queue"
    and s: "s = install_seed session turn queue before (ip_state opened)"
    using assms unfolding decodeCurrentSeed_def throw_if_eq_Inr
    by (elim andThenE) (auto simp: result_simps)
  have "seed_shown session turn
      \<lparr>sp_state = emptyStream (se_id session) (se_provider session), sp_seq = 0, sp_turn = turn, sp_keys = []\<rparr>"
    using emptyStream_ok by (simp add: seed_shown_def display_okI) (simp add: emptyStream_def)
  from seed_items_shown [OF base this] have 1: "seed_shown session turn base \<and> sp_seq base \<le> 256"
    using seed_events.list_ok [OF items] list_of_length [OF items] by simp
  with seed_result_shown [OF ended] have 2: "seed_shown session turn ended" "sp_seq ended \<le> 257" by auto
  have "seed_opened ended [] \<lparr>ip_state = sp_state ended, ip_seq = sp_seq ended, ip_ids = []\<rparr>"
    using 2 by (simp add: seed_opened_def seed_shown_def input_entry_def)
  from seed_opens_all [OF opened this] have 3: "seed_opened ended inputs opened"
    using turn seed_inputs.list_ok [OF inputs] list_of_length [OF inputs] 2 by auto
  have "v = Some (JObj src)" using v by (auto simp: record_of_def split: option.splits json.splits)
  moreover have "pred_option queue_ok queue" using queue by (rule queues.optional_ok)
  moreover have "pred_option (\<lambda>n. n \<noteq> 0 \<and> n \<le> se_lastSeq session + 1) before"
    using before by (cases before) (auto simp: seed_history_def result_simps)
  ultimately show thesis using that sess same inputs 3 2(1) turn s by blast
qed

subsection \<open>A concrete seed\<close>

definition sample_session :: json where
  "sample_session = JObj [(js ''schemaVersion'', JStr agent_runtime_schema), text_field ''id'' ''s1'',
     text_field ''provider'' ''codex'', text_field ''state'' ''awaiting-input'',
     (js ''createdAt'', JStr sample_time), (js ''lastSeq'', JNum (IntNum 7)), text_field ''title'' ''Demo'',
     (js ''archived'', JBool False), (js ''metadataRevision'', JNum (IntNum 1)),
     (js ''scope'', JObj [text_field ''profileId'' ''run1'', (js ''accessConfirmed'', JBool True),
        (js ''context'', JObj [text_field ''kind'' ''r1'', text_field ''id'' ''i1'']),
        (js ''workspace'', JObj [text_field ''id'' ''t1'', text_field ''revision'' ''a1''])])]"

definition sample_seed :: unknown where
  "sample_seed = Some (JObj [(js ''session'', sample_session), text_field ''activeTurnId'' ''t1'',
     (js ''items'', JArr [the (sample_item ''item.snapshot'' 5 ''Hello'')]),
     (js ''inputs'', JArr [JObj [(js ''request'', sample_request ''r1''), (js ''submitted'', JBool True)]])])"

definition sample_expected :: agent_session where
  "sample_expected = \<lparr>se_id = js ''s1'',
     se_scope = \<lparr>sc_profileId = js ''run1'', sc_context = (js ''r1'', js ''i1''), sc_workspace = (js ''t1'', js ''a1''),
        sc_accessConfirmed = True, sc_options = None\<rparr>,
     se_options = None, se_provider = Codex, se_state = Running, se_providerSessionId = None,
     se_createdAt = sample_time, se_lastSeq = 3,
     se_metadata = \<lparr>md_title = js ''Demo'', md_archived = False, md_revision = 1\<rparr>, se_runtimeId = None\<rparr>"

lemma sample_texts:
  "code_points (js ''Demo'') = 4" "trim (js ''Demo'') = js ''Demo''" "list_ex is_control (js ''Demo'') = False"
  "list_ex (\<lambda>u. u = 0 \<or> u = 13 \<or> u = 10) (js ''a1'') = False"
  "startsWith (js ''2026-01-01T00:00:00Z'') (js ''2026-01-01T00:00:'') = True"
  by code_simp+

lemma sample_seed_decodes:
  "\<exists>s. decodeCurrentSeed sample_dates sample_seed sample_expected = Inr s \<and> st_cursor s = 7
     \<and> map it_text (st_items s) = [js ''Hello''] \<and> phase_of s (js ''r1'') = Sent"
  by (simp add: decodeCurrentSeed_def sample_seed_def sample_session_def sample_expected_def decodeSession_def
      nativeMetadata_def sample_texts same_conversation_def seed_item_def seed_event_def seed_result_def seed_input_of_def
      seed_open_def input_event_def seed_history_def install_seed_def phase_of_def Let_def
      decode_defs event_evals sample_defs reduce_evals is_index_def cong: andThen_weak_cong)

subsection \<open>Properties\<close>

lemma decoded_seed_sound:
  assumes "decodeCurrentSeed dp v expected = Inr s"
  shows "stream_ok s \<and> st_sessionId s = se_id expected \<and> st_provider s = se_provider expected
    \<and> (\<exists>src session. v = Some (JObj src) \<and> decodeSession dp (field src ''session'') = Inr session
         \<and> st_cursor s = se_lastSeq session \<and> st_worker s = se_state session)
    \<and> (\<forall>x \<in> set (st_items s). \<forall>y \<in> set (st_items s). it_turnId x = it_turnId y)
    \<and> (\<forall>x \<in> set (st_items s). st_activeTurnId s \<noteq> [] \<longrightarrow> it_turnId x = st_activeTurnId s)
    \<and> st_recent s = Map.empty"
proof -
  obtain src session turn items inputs base opened queue before where v: "v = Some (JObj src)"
    and sess: "decodeSession dp (field src ''session'') = Inr session" and same: "same_conversation session expected"
    and o: "seed_opened base inputs opened" and b: "seed_shown session turn base"
    and q: "pred_option queue_ok queue" and s: "s = install_seed session turn queue before (ip_state opened)"
    by (rule decodeCurrentSeed_Inr [OF assms]) (blast intro: that)
  have d: "display_ok (ip_state opened)" and i: "st_items (ip_state opened) = st_items (sp_state base)"
    and f: "st_sessionId (ip_state opened) = se_id session" "st_provider (ip_state opened) = se_provider session"
    using o b by (simp_all add: seed_opened_def seed_shown_def)
  have "facts_ok s" using d q decodeSession_metadata [OF sess]
    by (cases queue) (simp_all add: s install_seed_def facts_ok_def display_ok_def)
  with d have "stream_ok s"
    by (simp add: s install_seed_def stream_ok_def display_ok_def items_ok_def requests_ok_def notices_ok_def recent_ok_def)
  moreover have "\<forall>x \<in> set (st_items s). it_turnId x = sp_turn base" "turn \<noteq> [] \<longrightarrow> sp_turn base = turn"
    using b i by (simp_all add: s install_seed_def seed_shown_def)
  ultimately show ?thesis
    using v sess same f by (auto simp: s install_seed_def same_conversation_def)
qed

text \<open>
  C9. A seed is a sound start. A seed that decodes gives a well-formed display state of the expected
  conversation, at the cursor and in the worker state of the session it carries; all its items
  belong to one turn, the active one if there is one; and no fingerprint of the synthetic events is
  left, so the next event it accepts is the one after the cursor.
\<close>

theorem seed_is_a_sound_start:
  assumes "decodeCurrentSeed dp v expected = Inr s"
  shows "stream_ok s \<and> st_sessionId s = se_id expected \<and> st_provider s = se_provider expected
    \<and> (\<exists>src session. v = Some (JObj src) \<and> decodeSession dp (field src ''session'') = Inr session
         \<and> st_cursor s = se_lastSeq session \<and> st_worker s = se_state session)
    \<and> (\<forall>x \<in> set (st_items s). \<forall>y \<in> set (st_items s). it_turnId x = it_turnId y)
    \<and> (\<forall>x \<in> set (st_items s). st_activeTurnId s \<noteq> [] \<longrightarrow> it_turnId x = st_activeTurnId s)
    \<and> st_recent s = Map.empty"
  by (rule decoded_seed_sound [OF assms])

theorem seed_is_a_sound_start_witness:
  "\<exists>s. decodeCurrentSeed sample_dates sample_seed sample_expected = Inr s \<and> stream_ok s \<and> st_cursor s = 7"
  using sample_seed_decodes seed_is_a_sound_start [of sample_dates sample_seed sample_expected] by blast

text \<open>
  A seed restores exactly its open inputs: the pending record maps the identity of each input of
  the seed to that input's request and its submitted mark, holds nothing else, and is empty unless a
  turn is active.
\<close>

theorem seed_restores_inputs:
  assumes "decodeCurrentSeed dp v expected = Inr s"
  shows "\<exists>src inputs. v = Some (JObj src) \<and> list_of 16 (seed_input_of dp) (field src ''inputs'') = Inr inputs
    \<and> (\<forall>k. prop_get (st_pending s) k = map_option (\<lambda>i. Pending (si_request i) (si_submitted i))
         (find (\<lambda>i. rq_id (si_request i) = k) inputs))
    \<and> (inputs \<noteq> [] \<longrightarrow> st_activeTurnId s \<noteq> [])"
proof -
  obtain src session turn items inputs base opened queue before where "v = Some (JObj src)"
    "list_of 16 (seed_input_of dp) (field src ''inputs'') = Inr inputs"
    "seed_opened base inputs opened" "inputs \<noteq> [] \<longrightarrow> turn \<noteq> []"
    "s = install_seed session turn queue before (ip_state opened)"
    by (rule decodeCurrentSeed_Inr [OF assms]) (blast intro: that)
  then show ?thesis by (auto simp: seed_opened_def input_entry_def install_seed_def)
qed

theorem seed_restores_inputs_witness:
  "\<exists>s (inputs :: seed_input list). decodeCurrentSeed sample_dates sample_seed sample_expected = Inr s \<and> length inputs \<le> 16
     \<and> (\<forall>k. prop_get (st_pending s) k = map_option (\<lambda>i. Pending (si_request i) (si_submitted i))
         (find (\<lambda>i. rq_id (si_request i) = k) inputs))"
proof -
  obtain s where s: "decodeCurrentSeed sample_dates sample_seed sample_expected = Inr s"
    using sample_seed_decodes by blast
  obtain src inputs where i: "list_of 16 (seed_input_of sample_dates) (field src ''inputs'') = Inr inputs"
    and k: "\<forall>k. prop_get (st_pending s) k = map_option (\<lambda>i. Pending (si_request i) (si_submitted i))
         (find (\<lambda>i. rq_id (si_request i) = k) inputs)"
    using seed_restores_inputs [OF s] by blast
  show ?thesis using s k list_of_length [OF i] by blast
qed

end
