(* ===== verification/UserInput.thy ===== *)
theory UserInput
  imports Js_Value
begin

text \<open>
  \<open>web/src/upstream/t3/pendingUserInput.ts\<close>: the draft answers to the questions of a request, how an
  option or a typed text changes them, and when they are complete.
\<close>

record ui_option =
  uo_id :: "jstr option"
  uo_value :: "jstr option"
  uo_label :: jstr
  uo_description :: "jstr option"

record ui_question =
  uq_id :: jstr
  uq_header :: jstr
  uq_question :: jstr
  uq_options :: "ui_option list"
  uq_multiSelect :: "bool option"
  uq_allowCustomAnswer :: "bool option"
  uq_isSecret :: "bool option"

record draft_answer =
  da_selected :: "jstr list option" \<comment> \<open>\<open>selectedOptionValues\<close>\<close>
  da_custom :: "jstr option" \<comment> \<open>\<open>customAnswer\<close>\<close>

definition empty_draft :: draft_answer where
  "empty_draft = \<lparr>da_selected = None, da_custom = None\<rparr>"

text \<open>\<open>string | string[]\<close>.\<close>

datatype ui_answer = OneAnswer jstr | ManyAnswers "jstr list"

subsection \<open>Normal forms\<close>

definition normalizeDraftAnswer :: "jstr option \<Rightarrow> jstr option" where
  "normalizeDraftAnswer value = (case value of None \<Rightarrow> None
     | Some v \<Rightarrow> if 0 < length (trim v) then Some (trim v) else None)"

definition normalizeSelectedOptionValues :: "jstr list option \<Rightarrow> jstr list" where
  "normalizeSelectedOptionValues value = (case value of None \<Rightarrow> [] | Some vs \<Rightarrow> uniq vs)"

definition option_value :: "ui_option \<Rightarrow> jstr" where
  "option_value opt = get_or (uo_label opt) (uo_value opt)"

subsection \<open>The answer to a question\<close>

definition custom_of :: "draft_answer option \<Rightarrow> jstr option" where
  "custom_of draft = Option.bind draft da_custom"

definition selected_of :: "draft_answer option \<Rightarrow> jstr list" where
  "selected_of draft = normalizeSelectedOptionValues (Option.bind draft da_selected)"

definition resolvePendingUserInputAnswer :: "ui_question \<Rightarrow> draft_answer option \<Rightarrow> ui_answer option" where
  "resolvePendingUserInputAnswer question draft =
     (let custom = (if uq_allowCustomAnswer question = Some False then None else normalizeDraftAnswer (custom_of draft));
          selected = filter (\<lambda>value. \<exists>opt \<in> set (uq_options question). option_value opt = value) (selected_of draft)
      in case custom of
           Some text \<Rightarrow> Some (OneAnswer text)
         | None \<Rightarrow>
             if uq_multiSelect question = Some True
             then (if 0 < length selected then Some (ManyAnswers selected) else None)
             else (case selected of [] \<Rightarrow> None | v # _ \<Rightarrow> Some (OneAnswer v)))"

definition setPendingUserInputCustomAnswer :: "draft_answer option \<Rightarrow> jstr \<Rightarrow> draft_answer" where
  "setPendingUserInputCustomAnswer draft customAnswer =
     (let selected = (if 0 < length (trim customAnswer) then None else Some (selected_of draft)) in
      \<lparr>da_selected = (case selected of Some (v # vs) \<Rightarrow> Some (v # vs) | _ \<Rightarrow> None),
       da_custom = Some customAnswer\<rparr>)"

definition carryDisplacedCustomAnswerIntoPrompt :: "jstr \<Rightarrow> jstr option \<Rightarrow> jstr" where
  "carryDisplacedCustomAnswerIntoPrompt prompt customAnswer =
     (let displaced = get_or [] (map_option trim customAnswer) in
      if length displaced = 0 then prompt
      else if length (trim prompt) = 0 then displaced
      else trimEnd prompt @ [10, 10] @ displaced)"

definition togglePendingUserInputOptionSelection ::
  "ui_question \<Rightarrow> draft_answer option \<Rightarrow> jstr \<Rightarrow> draft_answer" where
  "togglePendingUserInputOptionSelection question draft optionValue =
     (if uq_multiSelect question = Some True then
        (let selected = selected_of draft;
             following = (if optionValue \<in> set selected then filter (\<lambda>v. v \<noteq> optionValue) selected
                     else selected @ [optionValue])
         in \<lparr>da_selected = (if 0 < length following then Some following else None), da_custom = Some []\<rparr>)
      else \<lparr>da_selected = Some [optionValue], da_custom = Some []\<rparr>)"

subsection \<open>All questions\<close>

text \<open>
  \<open>draftAnswers[question.id]\<close>. A member that every object inherits is a value without the two
  properties of a draft.
\<close>

definition draft_of :: "draft_answer js_record \<Rightarrow> jstr \<Rightarrow> draft_answer option" where
  "draft_of drafts i = (case member_get drafts i of Own d \<Rightarrow> Some d | Inherited \<Rightarrow> Some empty_draft | Missing \<Rightarrow> None)"

fun collect_answers ::
  "draft_answer js_record \<Rightarrow> ui_question list \<Rightarrow> ui_answer js_record \<Rightarrow> ui_answer js_record option" where
  "collect_answers drafts [] answers = Some answers"
| "collect_answers drafts (question # rest) answers =
     (case resolvePendingUserInputAnswer question (draft_of drafts (uq_id question)) of
        None \<Rightarrow> None
      | Some answer \<Rightarrow> collect_answers drafts rest (prop_assign (uq_id question) answer answers))"

definition buildPendingUserInputAnswers ::
  "ui_question list \<Rightarrow> draft_answer js_record \<Rightarrow> ui_answer js_record option" where
  "buildPendingUserInputAnswers questions drafts = collect_answers drafts questions []"

definition countAnsweredPendingUserInputQuestions :: "ui_question list \<Rightarrow> draft_answer js_record \<Rightarrow> nat" where
  "countAnsweredPendingUserInputQuestions questions drafts =
     foldl (\<lambda>count question.
       if resolvePendingUserInputAnswer question (draft_of drafts (uq_id question)) \<noteq> None
       then count + 1 else count) 0 questions"

record ui_progress =
  up_questionIndex :: nat
  up_activeQuestion :: "ui_question option"
  up_activeDraft :: "draft_answer option"
  up_selectedOptionValues :: "jstr list"
  up_customAnswer :: jstr
  up_resolvedAnswer :: "ui_answer option"
  up_usingCustomAnswer :: bool
  up_answeredQuestionCount :: nat
  up_isLastQuestion :: bool
  up_isComplete :: bool
  up_canAdvance :: bool

text \<open>The index is an integer of the component's state; it is clamped to the questions.\<close>

definition clamp_index :: "int \<Rightarrow> nat \<Rightarrow> nat" where
  "clamp_index i n = (if n = 0 then 0 else nat (max 0 (min i (int n - 1))))"

definition derivePendingUserInputProgress ::
  "ui_question list \<Rightarrow> draft_answer js_record \<Rightarrow> int \<Rightarrow> ui_progress" where
  "derivePendingUserInputProgress questions drafts questionIndex =
     (let index = clamp_index questionIndex (length questions);
          question = (if index < length questions then Some (questions ! index) else None);
          draft = Option.bind question (\<lambda>q. draft_of drafts (uq_id q));
          resolved = Option.bind question (\<lambda>q. resolvePendingUserInputAnswer q draft);
          custom = (if Option.bind question uq_allowCustomAnswer = Some False then [] else get_or [] (custom_of draft))
      in \<lparr>up_questionIndex = index, up_activeQuestion = question, up_activeDraft = draft,
          up_selectedOptionValues = selected_of draft, up_customAnswer = custom, up_resolvedAnswer = resolved,
          up_usingCustomAnswer = (0 < length (trim custom)),
          up_answeredQuestionCount = countAnsweredPendingUserInputQuestions questions drafts,
          up_isLastQuestion = (if length questions = 0 then True else length questions - 1 \<le> index),
          up_isComplete = (buildPendingUserInputAnswers questions drafts \<noteq> None),
          up_canAdvance = (resolved \<noteq> None)\<rparr>)"

subsection \<open>The card of a request\<close>

text \<open>
  \<open>UserInputCard\<close> of \<open>T3Conversation.tsx\<close> sends every answer as a list; the card itself is in
  \<open>Question_Card\<close>.
\<close>

definition answer_list :: "ui_answer \<Rightarrow> jstr list" where
  "answer_list a = (case a of OneAnswer s \<Rightarrow> [s] | ManyAnswers ss \<Rightarrow> ss)"

definition submitted_answers :: "ui_question list \<Rightarrow> draft_answer js_record \<Rightarrow> jstr list js_record option" where
  "submitted_answers questions drafts =
     map_option (map (\<lambda>(i, answer). (i, answer_list answer))) (buildPendingUserInputAnswers questions drafts)"

end
