(* ===== verification/Presentation.thy ===== *)
theory Presentation
  imports Stream UserInput
begin

text \<open>
  \<open>web/src/agentPresentation.ts\<close>: the projection of the display state into timeline items, approvals
  and questions, and the checks on an answer before it leaves the client. The record types are those
  of \<open>web/src/upstream/t3/types.ts\<close>. \<open>JSON.parse\<close> and \<open>Date.parse\<close> are parameters.
\<close>

subsection \<open>Copy\<close>

datatype agent_locale = En | Zh

primrec locale_name :: "agent_locale \<Rightarrow> string" where
  "locale_name En = ''en''"
| "locale_name Zh = ''zh''"

record copy_texts =
  cp_tool :: jstr
  cp_activity :: jstr
  cp_plan :: jstr
  cp_request :: jstr
  cp_unconfirmed :: jstr
  cp_interrupted :: jstr
  cp_cancelled :: jstr
  cp_lastTurn :: jstr

primrec copy_for :: "agent_locale \<Rightarrow> copy_texts" where
  "copy_for En = \<lparr>cp_tool = js ''Tool activity'', cp_activity = js ''Activity'', cp_plan = js ''Plan'',
     cp_request = js ''Agent request'', cp_unconfirmed = js ''Completion unconfirmed'',
     cp_interrupted = js ''Interrupted'', cp_cancelled = js ''Cancelled'', cp_lastTurn = js ''Last turn''\<rparr>"
| "copy_for Zh = \<lparr>cp_tool = [24037, 20855, 27963, 21160], cp_activity = [27963, 21160], cp_plan = [35745, 21010],
     cp_request = js ''Agent '' @ [35831, 27714], cp_unconfirmed = [23436, 25104, 32467, 26524, 26410, 30830, 35748],
     cp_interrupted = [24050, 20013, 26029], cp_cancelled = [24050, 21462, 28040],
     cp_lastTurn = [19978, 19968, 36718, 32467, 26524]\<rparr>"

subsection \<open>Timeline items\<close>

record tool_image =
  ti_src :: jstr
  ti_width :: int
  ti_height :: int
  ti_label :: jstr
  ti_observedAt :: "jstr option"

text \<open>A content block without its image bytes, and what a tool call came to.\<close>

datatype shown_block = ShownImage "image_type printed" int int | ShownBlock tool_content

datatype tool_outcome = ToolError jstr | ToolOutput "shown_block list" unknown

record tool_data =
  td_images :: "tool_image list" \<comment> \<open>absent where empty\<close>
  td_command :: "jstr option"
  td_cwd :: "jstr option"
  td_exitCode :: "int option"
  td_durationMs :: "int option"
  td_changes :: "file_change list option"
  td_arguments :: unknown
  td_result :: "tool_outcome option"

definition no_tool_data :: tool_data where
  "no_tool_data = \<lparr>td_images = [], td_command = None, td_cwd = None, td_exitCode = None,
     td_durationMs = None, td_changes = None, td_arguments = None, td_result = None\<rparr>"

datatype delivery_state = Sending | Sent | Failed

record timeline_message =
  tm_id :: jstr
  tm_role :: role
  tm_text :: jstr
  tm_createdAt :: "jstr option"
  tm_updatedAt :: "jstr option"
  tm_streaming :: "bool option"
  tm_truncated :: "bool option"
  tm_delivery :: "(delivery_state \<times> jstr \<times> jstr option) option"
  tm_optimistic :: bool
  tm_retry :: "(jstr \<times> jstr) option" \<comment> \<open>label, and the message that \<open>run\<close> retries\<close>

datatype work_tone = ToolTone | InfoTone | ErrorTone | WarningTone

record timeline_work =
  tw_id :: jstr
  tw_title :: jstr
  tw_detail :: "jstr option"
  tw_command :: "jstr option"
  tw_status :: "jstr option"
  tw_tone :: work_tone
  tw_toolData :: "tool_data option"
  tw_truncated :: "bool option"

record timeline_plan =
  tp_id :: jstr
  tp_title :: jstr
  tp_text :: jstr
  tp_truncated :: bool

record timeline_custom =
  tc_id :: jstr
  tc_createdAt :: "jstr option"

datatype timeline_item =
    Message timeline_message
  | Work timeline_work
  | Plan timeline_plan
  | Custom timeline_custom

subsection \<open>Tool metadata\<close>

type_synonym json_parser = "jstr \<Rightarrow> json option"

record tool_metadata =
  tl_en :: jstr
  tl_zh :: jstr
  tl_observedAt :: "jstr option"

definition label_for :: "agent_locale \<Rightarrow> tool_metadata \<Rightarrow> jstr" where
  "label_for loc m = (case loc of En \<Rightarrow> tl_en m | Zh \<Rightarrow> tl_zh m)"

text \<open>\<open>value?.key\<close> on a parsed value: only objects have properties of these names.\<close>

definition own_member :: "unknown \<Rightarrow> string \<Rightarrow> unknown" where
  "own_member value key = (case value of Some (JObj ps) \<Rightarrow> field ps key | _ \<Rightarrow> None)"

definition read_title :: "unknown \<Rightarrow> string \<Rightarrow> jstr \<Rightarrow> jstr" where
  "read_title meta loc label = (case own_member (own_member meta ''imageTitle'') loc of
       Some (JStr s) \<Rightarrow> take 256 s | _ \<Rightarrow> label)"

definition read_block :: "json_parser \<Rightarrow> date_parser \<Rightarrow> tool_metadata \<Rightarrow> tool_content \<Rightarrow> tool_metadata" where
  "read_block parse dp m block = (case block of
       TextContent content \<Rightarrow>
         (case parse content of
            None \<Rightarrow> m
          | Some meta \<Rightarrow>
              \<lparr>tl_en = read_title (Some meta) ''en'' (tl_en m), tl_zh = read_title (Some meta) ''zh'' (tl_zh m),
               tl_observedAt = (case own_member (Some meta) ''observedAt'' of
                  Some (JStr s) \<Rightarrow> if dp s \<noteq> None then Some s else tl_observedAt m
                | _ \<Rightarrow> tl_observedAt m)\<rparr>)
     | _ \<Rightarrow> m)"

definition readToolMetadata :: "json_parser \<Rightarrow> date_parser \<Rightarrow> tool_result option \<Rightarrow> tool_metadata" where
  "readToolMetadata parse dp result = foldl (read_block parse dp)
     \<lparr>tl_en = js ''Tool image'', tl_zh = [24037, 20855, 22270, 20687], tl_observedAt = None\<rparr>
     (case result of None \<Rightarrow> [] | Some r \<Rightarrow> tr_content r)"

subsection \<open>Tool data\<close>

fun is_image_block :: "tool_content \<Rightarrow> bool" where
  "is_image_block (ImageContent _ _ _ _) = True"
| "is_image_block _ = False"

text \<open>A mime type inside a template literal: an array prints as its only element.\<close>

definition mime_text :: "image_type printed \<Rightarrow> jstr" where
  "mime_text m = (case m of Exactly t \<Rightarrow> js (image_name t)
     | Printed xs \<Rightarrow> (case to_string (JArr xs) of Inr s \<Rightarrow> s | Inl _ \<Rightarrow> []))"

fun image_of :: "agent_locale \<Rightarrow> tool_metadata \<Rightarrow> tool_content \<Rightarrow> tool_image list" where
  "image_of loc m (ImageContent mime data w h) =
     [\<lparr>ti_src = js ''data:'' @ mime_text mime @ js '';base64,'' @ data, ti_width = w, ti_height = h,
       ti_label = label_for loc m, ti_observedAt = tl_observedAt m\<rparr>]"
| "image_of loc m _ = []"

fun shown_block_of :: "tool_content \<Rightarrow> shown_block" where
  "shown_block_of (ImageContent mime data w h) = ShownImage mime w h"
| "shown_block_of block = ShownBlock block"

definition call_data ::
  "(tool_result option \<Rightarrow> tool_metadata) \<Rightarrow> agent_locale \<Rightarrow> unknown \<Rightarrow> int option \<Rightarrow> jstr option
     \<Rightarrow> tool_result option \<Rightarrow> tool_data" where
  "call_data metadata loc arguments durationMs error result =
     (let content = (case result of None \<Rightarrow> [] | Some r \<Rightarrow> tr_content r);
          images = (if list_ex is_image_block content then concat (map (image_of loc (metadata result)) content) else [])
      in no_tool_data\<lparr>td_images := images, td_arguments := arguments, td_durationMs := durationMs,
           td_result := (case error of Some message \<Rightarrow> Some (ToolError message)
             | None \<Rightarrow> map_option (\<lambda>r. ToolOutput (map shown_block_of content) (tr_structuredContent r)) result)\<rparr>)"

definition tool_data_of ::
  "(tool_result option \<Rightarrow> tool_metadata) \<Rightarrow> agent_locale \<Rightarrow> item_details \<Rightarrow> tool_data option" where
  "tool_data_of metadata loc details = (case details of
       CommandExecution _ command cwd exitCode durationMs _ \<Rightarrow>
         Some (no_tool_data\<lparr>td_command := Some command, td_cwd := cwd, td_exitCode := exitCode, td_durationMs := durationMs\<rparr>)
     | FileChange _ changes \<Rightarrow> Some (no_tool_data\<lparr>td_changes := Some changes\<rparr>)
     | McpToolCall _ _ _ arguments durationMs error result \<Rightarrow>
         Some (call_data metadata loc arguments durationMs error result)
     | _ \<Rightarrow> None)"

definition toolData :: "json_parser \<Rightarrow> date_parser \<Rightarrow> agent_item \<Rightarrow> agent_locale \<Rightarrow> tool_data option" where
  "toolData parse dp item loc = Option.bind (it_details item) (tool_data_of (readToolMetadata parse dp) loc)"

subsection \<open>The projection of an item\<close>

text \<open>What the projection of an item reads of the display state.\<close>

definition item_streaming :: "stream_state \<Rightarrow> agent_item \<Rightarrow> bool" where
  "item_streaming state item \<longleftrightarrow> st_worker state = Running \<and> st_activeTurnId state = it_turnId item
     \<and> it_status item \<in> {js ''running'', js ''inProgress''}"

definition item_progress :: "agent_item \<Rightarrow> bool" where
  "item_progress item \<longleftrightarrow> it_status item \<in> {js ''running'', js ''inProgress'', js ''started'', js ''pending''}"

definition item_stalled :: "stream_state \<Rightarrow> agent_item \<Rightarrow> bool" where
  "item_stalled state item \<longleftrightarrow> item_progress item \<and> (truthy (it_turnStatus item)
     \<or> st_activeTurnId state \<noteq> it_turnId item \<or> st_worker state \<in> {Disconnected, Closed})"

definition item_failed :: "agent_item \<Rightarrow> bool" where
  "item_failed item \<longleftrightarrow> it_status item \<in> {js ''failed'', js ''error''}
     \<or> (case it_details item of
          Some (CommandExecution _ _ _ (Some exitCode) _ _) \<Rightarrow> exitCode \<noteq> 0
        | Some (McpToolCall _ _ _ _ _ (Some _) _) \<Rightarrow> True
        | _ \<Rightarrow> False)"

definition timeline_id :: "stream_state \<Rightarrow> agent_item \<Rightarrow> jstr" where
  "timeline_id state item = stringify (JArr [JStr (st_sessionId state), JStr (it_turnId item), JStr (it_id item)])"

definition work_truncated :: "agent_item \<Rightarrow> bool option" where
  "work_truncated item = (if it_truncated item then Some True else Option.bind (it_details item) details_truncated)"

definition work_item ::
  "agent_item \<Rightarrow> stream_state \<Rightarrow> agent_locale \<Rightarrow> tool_data option \<Rightarrow> timeline_work" where
  "work_item item state loc data =
     (let interrupted = (it_role item = ToolRole \<and> item_progress item \<and> it_turnStatus item = Some (js ''cancelled''));
          unconfirmed = (it_role item = ToolRole \<and> item_stalled state item \<and> \<not> interrupted);
          status = (if interrupted then Some (cp_interrupted (copy_for loc))
                    else if unconfirmed then Some (cp_unconfirmed (copy_for loc))
                    else if it_role item \<noteq> ToolRole \<and> item_progress item then None
                    else Some (it_status item))
      in \<lparr>tw_id = timeline_id state item,
          tw_title = (if it_title item \<noteq> [] then it_title item
             else if it_role item = ToolRole then cp_tool (copy_for loc) else cp_activity (copy_for loc)),
          tw_detail = Some (it_text item), tw_command = Option.bind data td_command, tw_status = kept status,
          tw_tone = (if item_failed item then ErrorTone else if unconfirmed then WarningTone
             else if it_role item = ToolRole then ToolTone else InfoTone),
          tw_toolData = data, tw_truncated = work_truncated item\<rparr>)"

definition timelineItem ::
  "(agent_item \<Rightarrow> agent_locale \<Rightarrow> tool_data option) \<Rightarrow> agent_item \<Rightarrow> stream_state \<Rightarrow> agent_locale \<Rightarrow> timeline_item" where
  "timelineItem projectTool item state loc =
     (if it_role item = UserRole \<or> it_role item = AssistantRole then
        Message \<lparr>tm_id = timeline_id state item, tm_role = it_role item, tm_text = it_text item,
          tm_createdAt = it_createdAt item, tm_updatedAt = it_updatedAt item,
          tm_streaming = Some (it_role item = AssistantRole \<and> item_streaming state item),
          tm_truncated = Some (it_truncated item), tm_delivery = None, tm_optimistic = False, tm_retry = None\<rparr>
      else if it_role item = PlanRole then
        Plan \<lparr>tp_id = timeline_id state item,
          tp_title = (if it_title item \<noteq> [] then it_title item else cp_plan (copy_for loc)),
          tp_text = it_text item, tp_truncated = it_truncated item\<rparr>
      else Work (work_item item state loc (projectTool item loc)))"

subsection \<open>Requests\<close>

record approval_option =
  ao_decision :: jstr
  ao_label :: jstr
  ao_warning :: "jstr option"

record pending_approval =
  pa_requestId :: jstr
  pa_requestKind :: "jstr + request_kind printed" \<comment> \<open>a name of the client, or the request's own kind\<close>
  pa_title :: jstr
  pa_submitted :: bool
  pa_createdAt :: "jstr option"
  pa_detail :: "jstr option"
  pa_truncated :: "bool option"
  pa_options :: "approval_option list"

record pending_user_input =
  pu_requestId :: jstr
  pu_title :: jstr
  pu_submitted :: bool
  pu_createdAt :: "jstr option"
  pu_questions :: "ui_question list"

definition approvalKind :: "agent_request \<Rightarrow> jstr + request_kind printed" where
  "approvalKind request =
     (if rq_sourceMethod request = Some (js ''item/commandExecution/requestApproval'') then Inl (js ''command'')
      else if rq_sourceMethod request = Some (js ''item/fileChange/requestApproval'') then Inl (js ''file-change'')
      else Inr (rq_kind request))"

definition prefixed :: "string \<Rightarrow> jstr option \<Rightarrow> jstr option" where
  "prefixed label value = (if truthy value then Some (js label @ get_or [] value) else Some [])"

definition detail_parts :: "agent_request \<Rightarrow> jstr option list" where
  "detail_parts request = (let details = rq_details request in
     [map_option trim (rq_text request), map_option trim (Option.bind details rd_command),
      prefixed ''Target: '' (Option.bind details rd_target), Option.bind details rd_preview,
      prefixed ''Working directory: '' (Option.bind details rd_cwd),
      prefixed ''Requested access: '' (Option.bind details rd_grantRoot),
      (case Option.bind details rd_network of None \<Rightarrow> Some []
       | Some (protocol, host) \<Rightarrow> Some (js ''Network: '' @ protocol @ [32] @ host)),
      map_option trim (Option.bind details rd_reason),
      (if Option.bind details rd_truncated = Some True
       then Some (js ''Preview truncated. Review the complete operation before allowing.'') else Some [])])"

definition approvalDetail :: "agent_request \<Rightarrow> jstr option" where
  "approvalDetail request = kept (Some (join [10]
     (uniq (map (get_or []) (filter truthy (detail_parts request))))))"

definition presented_question :: "agent_question \<Rightarrow> ui_question" where
  "presented_question question = \<lparr>uq_id = qu_id question, uq_header = get_or (qu_text question) (qu_header question),
     uq_question = qu_text question,
     uq_options = map (\<lambda>opt. \<lparr>uo_id = Some (do_id opt), uo_value = Some (do_id opt), uo_label = do_label opt,
        uo_description = do_description opt\<rparr>) (qu_options question),
     uq_multiSelect = Some (qu_multiple question), uq_allowCustomAnswer = Some (qu_freeText question),
     uq_isSecret = None\<rparr>"

definition approval_title :: "agent_request \<Rightarrow> agent_locale \<Rightarrow> jstr" where
  "approval_title request loc =
     (if rq_title request = js ''Operation approval'' \<and> truthy (Option.bind (rq_details request) rd_command)
      then (case loc of Zh \<Rightarrow> [25191, 34892, 21629, 20196] | En \<Rightarrow> js ''Run command'')
      else if rq_title request \<noteq> [] then rq_title request else cp_request (copy_for loc))"

datatype request_presentation = Approval pending_approval | UserInput pending_user_input

text \<open>
  \<open>nativeRequestPresentation\<close>. An entry without a request has no options to map over.
\<close>

definition nativeRequestPresentation :: "agent_locale \<Rightarrow> pending_entry \<Rightarrow> request_presentation result" where
  "nativeRequestPresentation loc entry = (case entry of
       Stray _ \<Rightarrow> Inl (TypeError ''undefined request options'')
     | Pending request submitted \<Rightarrow>
         if rq_kind request = Exactly QuestionReq then
           Inr (UserInput \<lparr>pu_requestId = rq_id request, pu_title = rq_title request, pu_submitted = submitted,
             pu_createdAt = rq_createdAt request, pu_questions = map presented_question (rq_questions request)\<rparr>)
         else
           Inr (Approval \<lparr>pa_requestId = rq_id request, pa_requestKind = approvalKind request,
             pa_title = approval_title request loc, pa_submitted = submitted, pa_createdAt = rq_createdAt request,
             pa_detail = approvalDetail request, pa_truncated = Option.bind (rq_details request) rd_truncated,
             pa_options = map (\<lambda>opt. \<lparr>ao_decision = do_id opt, ao_label = do_label opt,
                ao_warning = do_description opt\<rparr>) (rq_options request)\<rparr>))"

definition split_presentation ::
  "pending_approval list \<times> pending_user_input list \<Rightarrow> request_presentation
     \<Rightarrow> pending_approval list \<times> pending_user_input list" where
  "split_presentation acc p = (case p of
       Approval a \<Rightarrow> (fst acc @ [a], snd acc) | UserInput u \<Rightarrow> (fst acc, snd acc @ [u]))"

definition projectPending ::
  "stream_state \<Rightarrow> agent_locale \<Rightarrow> (pending_approval list \<times> pending_user_input list) result" where
  "projectPending state loc = fold_result (\<lambda>acc entry.
       andThen (nativeRequestPresentation loc entry) (\<lambda>p. Inr (split_presentation acc p)))
     ([], []) (prop_values (st_pending state))"

subsection \<open>The model of a conversation\<close>

definition lastTurnPresentation :: "stream_state \<Rightarrow> agent_locale \<Rightarrow> timeline_item" where
  "lastTurnPresentation state loc = Work \<lparr>tw_id = st_sessionId state @ js '':last-turn'',
     tw_title = cp_lastTurn (copy_for loc), tw_detail = None, tw_command = None,
     tw_status = Some (st_lastTurnStatus state),
     tw_tone = (if st_lastTurnStatus state \<in> set (map js [''failed'', ''unknown'', ''incomplete'', ''blocked''])
        then WarningTone else InfoTone),
     tw_toolData = None, tw_truncated = None\<rparr>"

record conversation_model =
  cm_sessionKey :: jstr
  cm_items :: "timeline_item list"
  cm_approvals :: "pending_approval list"
  cm_userInputs :: "pending_user_input list"
  cm_isRunning :: bool

definition shows_last_turn :: "stream_state \<Rightarrow> bool" where
  "shows_last_turn state \<longleftrightarrow> st_lastTurnStatus state \<noteq> [] \<and> st_lastTurnStatus state \<noteq> js ''completed''
     \<and> \<not> (st_lastTurnStatus state = js ''failed'' \<and> get_or [] (st_turnFailures state) \<noteq> [])"

definition nativeConversationModel ::
  "json_parser \<Rightarrow> date_parser \<Rightarrow> stream_state \<Rightarrow> agent_locale \<Rightarrow> conversation_model result" where
  "nativeConversationModel parse dp state loc =
     (let projected = map (\<lambda>item. timelineItem (toolData parse dp) item state loc) (st_items state) in
      andThen (projectPending state loc) (\<lambda>(approvals, userInputs).
      Inr \<lparr>cm_sessionKey = st_sessionId state,
        cm_items = (if shows_last_turn state then projected @ [lastTurnPresentation state loc] else projected),
        cm_approvals = approvals, cm_userInputs = userInputs,
        cm_isRunning = st_worker state \<in> {Running, AwaitingInput, Cancelling}\<rparr>))"

subsection \<open>Answers\<close>

datatype agent_answer = ChosenOption jstr | Answers "jstr list js_record" | CancelRequest

text \<open>\<open>state.pending[requestId]\<close> finds inherited members too; they hold no \<open>submitted\<close> mark.\<close>

datatype found_request = Found agent_request | FoundStray

definition pendingRequest :: "stream_state \<Rightarrow> jstr \<Rightarrow> found_request result" where
  "pendingRequest state requestId = (case member_get (st_pending state) requestId of
       Own (Pending request False) \<Rightarrow> Inr (Found request)
     | Own (Stray False) \<Rightarrow> Inr FoundStray
     | Inherited \<Rightarrow> Inr FoundStray
     | _ \<Rightarrow> Inl (Error ''This request is no longer awaiting an answer.''))"

definition nativeApprovalAnswer :: "stream_state \<Rightarrow> jstr \<Rightarrow> jstr \<Rightarrow> agent_answer result" where
  "nativeApprovalAnswer state requestId decision =
     andThen (pendingRequest state requestId) (\<lambda>found. case found of
       FoundStray \<Rightarrow> Inl (TypeError ''undefined request options'')
     | Found request \<Rightarrow>
         andThen (throw_if (rq_kind request = Exactly QuestionReq
             \<or> \<not> list_ex (\<lambda>opt. do_id opt = decision) (rq_options request))
           ''This decision was not offered by the native session.'') (\<lambda>_.
         Inr (ChosenOption decision)))"

text \<open>\<open>answers[question.id]\<close>: an inherited member is no array.\<close>

definition bad_values :: "agent_question \<Rightarrow> jstr list option \<Rightarrow> bool" where
  "bad_values question values = (case values of
       None \<Rightarrow> True
     | Some vs \<Rightarrow> vs = [] \<or> (\<not> qu_multiple question \<and> length vs \<noteq> 1)
         \<or> list_ex (\<lambda>v. trim v = []) vs \<or> length (uniq vs) \<noteq> length vs
         \<or> (\<not> qu_freeText question \<and> list_ex (\<lambda>v. \<not> list_ex (\<lambda>opt. do_id opt = v) (qu_options question)) vs))"

definition check_question ::
  "jstr list js_record \<Rightarrow> jstr list js_record \<Rightarrow> agent_question \<Rightarrow> jstr list js_record result" where
  "check_question answers acc question =
     (let values = prop_get answers (qu_id question) in
      andThen (throw_if (bad_values question values)
        ''The answer does not match the choices offered by this request.'') (\<lambda>_.
      Inr (prop_assign (qu_id question) (get_or [] values) acc)))"

definition nativeQuestionAnswer :: "stream_state \<Rightarrow> jstr \<Rightarrow> jstr list js_record \<Rightarrow> agent_answer result" where
  "nativeQuestionAnswer state requestId answers =
     andThen (pendingRequest state requestId) (\<lambda>found. case found of
       FoundStray \<Rightarrow> Inl (Error ''Answer each question in this request.'')
     | Found request \<Rightarrow>
         andThen (throw_if (rq_kind request \<noteq> Exactly QuestionReq
             \<or> length answers \<noteq> length (rq_questions request)) ''Answer each question in this request.'') (\<lambda>_.
         andThen (fold_result (check_question answers) [] (rq_questions request)) (\<lambda>result.
         Inr (Answers result))))"

definition nativeCancelAnswer :: "stream_state \<Rightarrow> jstr \<Rightarrow> agent_answer result" where
  "nativeCancelAnswer state requestId = andThen (pendingRequest state requestId) (\<lambda>_. Inr CancelRequest)"

end
