(* ===== verification/Projector.thy ===== *)
theory Projector
  imports Presentation
begin

text \<open>
  The cached projection of \<open>web/src/agentPresentation.ts\<close>, \<open>createNativeTimelineProjector\<close>, and the
  item arrays whose identity and changes \<open>web/src/state.ts\<close> records. Objects are compared by identity
  and held weakly, so a display state comes with the references of its arrays and objects;
  a \<open>WeakMap\<close> is a partial function on references.
\<close>

type_synonym reference = nat

record seen_state =
  ss_state :: stream_state
  ss_array :: reference \<comment> \<open>\<open>state.items\<close>\<close>
  ss_refs :: "reference list" \<comment> \<open>the items\<close>
  ss_details :: "reference list" \<comment> \<open>their \<open>details\<close>, where they have any\<close>
  ss_pending :: reference \<comment> \<open>\<open>state.pending\<close>\<close>

subsection \<open>Recorded changes\<close>

text \<open>\<open>itemArrayChanges\<close>: an array maps to the array it came from and the changed indices.\<close>

type_synonym recorded_changes = "reference \<rightharpoonup> reference \<times> nat list"

definition rememberItemChanges :: "reference \<Rightarrow> reference \<Rightarrow> nat list \<Rightarrow> recorded_changes \<Rightarrow> recorded_changes" where
  "rememberItemChanges previous following indices recorded = recorded(following \<mapsto> (previous, indices))"

definition presentationItemChanges :: "recorded_changes \<Rightarrow> reference \<Rightarrow> reference \<Rightarrow> nat list option" where
  "presentationItemChanges recorded previous following = (case recorded following of
       Some (source, indices) \<Rightarrow> if source = previous then Some indices else None
     | None \<Rightarrow> None)"

subsection \<open>Keys\<close>

definition has_images :: "agent_item \<Rightarrow> bool" where
  "has_images item \<longleftrightarrow> (case it_details item of
       Some (McpToolCall _ _ _ _ _ _ (Some result)) \<Rightarrow> list_ex is_image_block (tr_content result)
     | _ \<Rightarrow> False)"

definition bool_text :: "bool \<Rightarrow> jstr" where
  "bool_text b = js (if b then ''true'' else ''false'')"

definition timelineProjectionKey :: "agent_item \<Rightarrow> stream_state \<Rightarrow> agent_locale \<Rightarrow> jstr" where
  "timelineProjectionKey item state loc =
     (if it_role item = UserRole then st_sessionId state
      else if it_role item = AssistantRole
      then st_sessionId state @ js '':message:'' @ bool_text (item_streaming state item)
      else if it_role item \<noteq> ToolRole
      then st_sessionId state @ js '':'' @ (if it_title item \<noteq> [] then [] else js (locale_name loc))
      else
        (let stalled = item_stalled state item;
             interrupted = (item_progress item \<and> it_turnStatus item = Some (js ''cancelled''));
             localized = (it_title item = [] \<or> stalled \<or> interrupted \<or> has_images item)
         in st_sessionId state @ js '':'' @ (if localized then js (locale_name loc) else []) @ js '':''
            @ bool_text stalled @ js '':'' @ bool_text interrupted))"

definition item_context :: "stream_state \<Rightarrow> agent_locale \<Rightarrow> jstr" where
  "item_context state loc = stringify (JArr [JStr (st_sessionId state), JStr (js (locale_name loc)),
     JStr (js (worker_name (st_worker state))), JStr (st_activeTurnId state)])"

subsection \<open>The projector\<close>

record projector =
  pj_entries :: "reference \<rightharpoonup> jstr \<times> timeline_item"
  pj_metadata :: "reference \<rightharpoonup> tool_metadata"
  pj_tools :: "reference \<times> agent_locale \<rightharpoonup> tool_data"
  pj_session :: jstr
  pj_previousItems :: "(reference \<times> reference list) option"
  pj_previousOutput :: "timeline_item option list" \<comment> \<open>\<open>None\<close> is a hole of the array\<close>
  pj_previousContext :: jstr
  pj_previousPending :: "reference option"
  pj_previousPendingLocale :: "agent_locale option"
  pj_pendingProjection :: "pending_approval list \<times> pending_user_input list"
  pj_lastTurnKey :: jstr
  pj_lastTurnItem :: "timeline_item option"

definition createNativeTimelineProjector :: projector where
  "createNativeTimelineProjector = \<lparr>pj_entries = Map.empty, pj_metadata = Map.empty, pj_tools = Map.empty,
     pj_session = [], pj_previousItems = None, pj_previousOutput = [], pj_previousContext = [],
     pj_previousPending = None, pj_previousPendingLocale = None, pj_pendingProjection = ([], []),
     pj_lastTurnKey = [], pj_lastTurnItem = None\<rparr>"

text \<open>The metadata of a call with images is looked up, or read once and kept.\<close>

definition cached_metadata ::
  "json_parser \<Rightarrow> date_parser \<Rightarrow> reference \<Rightarrow> tool_result option \<Rightarrow> projector \<Rightarrow> tool_metadata" where
  "cached_metadata parse dp ref result p =
     (case pj_metadata p ref of Some m \<Rightarrow> m | None \<Rightarrow> readToolMetadata parse dp result)"

definition keep_metadata ::
  "json_parser \<Rightarrow> date_parser \<Rightarrow> reference \<Rightarrow> item_details \<Rightarrow> projector \<Rightarrow> projector" where
  "keep_metadata parse dp ref details p = (case details of
       McpToolCall _ _ _ _ _ _ (Some result) \<Rightarrow>
         if list_ex is_image_block (tr_content result)
         then p\<lparr>pj_metadata := (pj_metadata p)(ref \<mapsto> cached_metadata parse dp ref (Some result) p)\<rparr> else p
     | _ \<Rightarrow> p)"

definition projectTool ::
  "json_parser \<Rightarrow> date_parser \<Rightarrow> reference \<Rightarrow> agent_item \<Rightarrow> agent_locale \<Rightarrow> projector
     \<Rightarrow> tool_data option \<times> projector" where
  "projectTool parse dp ref item loc p = (case it_details item of
       None \<Rightarrow> (None, p)
     | Some details \<Rightarrow>
         (case pj_tools p (ref, loc) of
            Some data \<Rightarrow> (Some data, p)
          | None \<Rightarrow>
              (let result = tool_data_of (\<lambda>r. cached_metadata parse dp ref r p) loc details;
                   kept = keep_metadata parse dp ref details p
               in (result, case result of None \<Rightarrow> kept
                   | Some data \<Rightarrow> kept\<lparr>pj_tools := (pj_tools kept)((ref, loc) \<mapsto> data)\<rparr>))))"

text \<open>\<open>timelineItem\<close> asks for tool data only where the item is neither a message nor a plan.\<close>

definition project_fresh ::
  "json_parser \<Rightarrow> date_parser \<Rightarrow> reference \<Rightarrow> agent_item \<Rightarrow> stream_state \<Rightarrow> agent_locale \<Rightarrow> projector
     \<Rightarrow> timeline_item \<times> projector" where
  "project_fresh parse dp dref item state loc p =
     (if it_role item = UserRole \<or> it_role item = AssistantRole \<or> it_role item = PlanRole
      then (timelineItem (\<lambda>_ _. None) item state loc, p)
      else (let (data, q) = projectTool parse dp dref item loc p in
            (timelineItem (\<lambda>_ _. data) item state loc, q)))"

definition project_item ::
  "json_parser \<Rightarrow> date_parser \<Rightarrow> seen_state \<Rightarrow> agent_locale \<Rightarrow> nat
     \<Rightarrow> timeline_item option list \<times> projector \<Rightarrow> timeline_item option list \<times> projector" where
  "project_item parse dp s loc index np = (case np of (next_, p) \<Rightarrow>
     (let state = ss_state s; item = st_items state ! index; ref = ss_refs s ! index in
      if pj_previousContext p = item_context state loc
         \<and> (case pj_previousItems p of None \<Rightarrow> False
            | Some (_, refs) \<Rightarrow> index < length refs \<and> refs ! index = ref)
      then (next_[index := pj_previousOutput p ! index], p)
      else
        (let key = timelineProjectionKey item state loc in
         case pj_entries p ref of
           Some (k, v) \<Rightarrow>
             if k = key then (next_[index := Some v], p)
             else (let (value, q) = project_fresh parse dp (ss_details s ! index) item state loc p in
                   (next_[index := Some value], q\<lparr>pj_entries := (pj_entries q)(ref \<mapsto> (key, value))\<rparr>))
         | None \<Rightarrow>
             (let (value, q) = project_fresh parse dp (ss_details s ! index) item state loc p in
              (next_[index := Some value], q\<lparr>pj_entries := (pj_entries q)(ref \<mapsto> (key, value))\<rparr>)))))"

definition reset_session :: "stream_state \<Rightarrow> projector \<Rightarrow> projector" where
  "reset_session state p = (if pj_session p \<noteq> st_sessionId state
     then createNativeTimelineProjector\<lparr>pj_session := st_sessionId state\<rparr> else p)"

definition projector_items ::
  "json_parser \<Rightarrow> date_parser \<Rightarrow> recorded_changes \<Rightarrow> seen_state \<Rightarrow> agent_locale \<Rightarrow> projector
     \<Rightarrow> timeline_item option list \<times> projector" where
  "projector_items parse dp recorded s loc p0 =
     (let state = ss_state s; p = reset_session state p0; n = length (st_items state);
          context = item_context state loc;
          same = (pj_previousContext p = context) in
      if same \<and> map_option fst (pj_previousItems p) = Some (ss_array s) then (pj_previousOutput p, p)
      else
        (let changes = (case pj_previousItems p of
               Some (array, _) \<Rightarrow> if same then presentationItemChanges recorded array (ss_array s) else None
             | None \<Rightarrow> None) in
         if changes = Some [] \<and> length (pj_previousOutput p) = n
         then (pj_previousOutput p, p\<lparr>pj_previousItems := Some (ss_array s, ss_refs s)\<rparr>)
         else
           (let start = (case changes of
                  Some _ \<Rightarrow> take n (pj_previousOutput p) @ replicate (n - length (pj_previousOutput p)) None
                | None \<Rightarrow> replicate n None);
                indices = (case changes of Some indices \<Rightarrow> indices | None \<Rightarrow> [0..<n]);
                (output, q) = fold (project_item parse dp s loc) indices (start, p)
            in (output, q\<lparr>pj_previousItems := Some (ss_array s, ss_refs s), pj_previousOutput := output,
                  pj_previousContext := context\<rparr>))))"

text \<open>
  \<open>pending\<close> stores its arguments before it projects, so a projection that throws leaves the old
  result under the new arguments.
\<close>

definition projector_pending ::
  "seen_state \<Rightarrow> agent_locale \<Rightarrow> projector
     \<Rightarrow> (pending_approval list \<times> pending_user_input list) result \<times> projector" where
  "projector_pending s loc p =
     (if pj_previousPending p = Some (ss_pending s) \<and> pj_previousPendingLocale p = Some loc
      then (Inr (pj_pendingProjection p), p)
      else
        (let q = p\<lparr>pj_previousPending := Some (ss_pending s), pj_previousPendingLocale := Some loc\<rparr> in
         case projectPending (ss_state s) loc of
           Inl e \<Rightarrow> (Inl e, q)
         | Inr r \<Rightarrow> (Inr r, q\<lparr>pj_pendingProjection := r\<rparr>)))"

definition projector_lastTurn :: "stream_state \<Rightarrow> agent_locale \<Rightarrow> projector \<Rightarrow> timeline_item \<times> projector" where
  "projector_lastTurn state loc p =
     (let key = stringify (JArr [JStr (st_sessionId state), JStr (st_lastTurnStatus state), JStr (js (locale_name loc))]) in
      case pj_lastTurnItem p of
        Some item \<Rightarrow> if pj_lastTurnKey p = key then (item, p)
          else (lastTurnPresentation state loc,
                p\<lparr>pj_lastTurnKey := key, pj_lastTurnItem := Some (lastTurnPresentation state loc)\<rparr>)
      | None \<Rightarrow> (lastTurnPresentation state loc,
          p\<lparr>pj_lastTurnKey := key, pj_lastTurnItem := Some (lastTurnPresentation state loc)\<rparr>))"

text \<open>\<open>nativeConversationModel\<close> with a projector; \<open>None\<close> marks a hole in the items.\<close>

record projected_model =
  pm_sessionKey :: jstr
  pm_items :: "timeline_item option list"
  pm_approvals :: "pending_approval list"
  pm_userInputs :: "pending_user_input list"
  pm_isRunning :: bool

definition projected_conversation ::
  "json_parser \<Rightarrow> date_parser \<Rightarrow> recorded_changes \<Rightarrow> seen_state \<Rightarrow> agent_locale \<Rightarrow> projector
     \<Rightarrow> projected_model result \<times> projector" where
  "projected_conversation parse dp recorded s loc p0 =
     (let state = ss_state s;
          (items, p1) = projector_items parse dp recorded s loc p0;
          (pending, p2) = projector_pending s loc p1 in
      case pending of
        Inl e \<Rightarrow> (Inl e, p2)
      | Inr (approvals, userInputs) \<Rightarrow>
          (let (all, p3) = (if shows_last_turn state
                 then (let (last, q) = projector_lastTurn state loc p2 in (items @ [Some last], q))
                 else (items, p2))
           in (Inr \<lparr>pm_sessionKey = st_sessionId state, pm_items = all, pm_approvals = approvals,
                 pm_userInputs = userInputs, pm_isRunning = (st_worker state \<in> {Running, AwaitingInput, Cancelling})\<rparr>, p3)))"

end
