(* ===== verification/Projector_Props.thy ===== *)
theory Projector_Props
  imports Projector Stream_Props
begin

text \<open>
  The cached projection gives what the plain projection gives. Objects are immutable, so a heap
  says what each reference stands for; the recorded changes of an array are sound, as the reducer
  records them.
\<close>

subsection \<open>What a projection depends on\<close>

lemma timelineItem_cong:
  assumes "st_sessionId s = st_sessionId t" and "st_worker s = st_worker t" and "st_activeTurnId s = st_activeTurnId t"
  shows "timelineItem td x s loc = timelineItem td x t loc"
  using assms by (simp add: timelineItem_def work_item_def timeline_id_def item_streaming_def item_stalled_def)

lemma item_context_inject:
  assumes "item_context s loc = item_context t loc'"
  shows "timelineItem td x s loc = timelineItem td x t loc'"
proof -
  have "[st_sessionId s, js (locale_name loc), js (worker_name (st_worker s)), st_activeTurnId s] =
      [st_sessionId t, js (locale_name loc'), js (worker_name (st_worker t)), st_activeTurnId t]"
    using assms stringify_texts_inject [of "[st_sessionId s, js (locale_name loc), js (worker_name (st_worker s)), st_activeTurnId s]"
        "[st_sessionId t, js (locale_name loc'), js (worker_name (st_worker t)), st_activeTurnId t]"]
    by (simp add: item_context_def)
  then have "st_sessionId s = st_sessionId t" "locale_name loc = locale_name loc'"
    "worker_name (st_worker s) = worker_name (st_worker t)" "st_activeTurnId s = st_activeTurnId t" by simp_all
  moreover have "loc = loc'" using calculation(2) by (cases loc; cases loc') simp_all
  ultimately show ?thesis using timelineItem_cong worker_enum.name_inject by metis
qed

lemma bool_text_inject [simp]: "bool_text a = bool_text b \<longleftrightarrow> a = b"
  by (cases a; cases b) (simp_all add: bool_text_def)

lemma locale_name_inject [simp]: "locale_name a = locale_name b \<longleftrightarrow> a = b"
  by (cases a; cases b) simp_all

text \<open>Only calls with images show the locale's label.\<close>

lemma images_none: "\<not> list_ex is_image_block content \<Longrightarrow> concat (map (image_of loc m) content) = []"
proof (induction content)
  case (Cons c content)
  then show ?case by (cases c) simp_all
qed simp

lemma tool_data_no_images:
  assumes "\<not> has_images x"
  shows "toolData parse dp x loc = toolData parse dp x loc'"
proof (cases "it_details x")
  case None
  then show ?thesis by (simp add: toolData_def)
next
  case (Some d)
  then show ?thesis using assms
    by (cases d) (auto simp: toolData_def tool_data_of_def call_data_def has_images_def Let_def split: option.splits)
qed

lemma activity_has_no_tool_data:
  "item_ok x \<Longrightarrow> it_role x = ActivityRole \<Longrightarrow> toolData parse dp x loc = None"
  by (cases "it_details x"; cases "the (it_details x)")
    (auto simp: toolData_def tool_data_of_def item_ok_def expected_role_def)

lemma tool_key_inject:
  assumes "js '':'' @ a @ js '':'' @ bool_text b @ js '':'' @ bool_text c = js '':'' @ a' @ js '':'' @ bool_text b' @ js '':'' @ bool_text c'"
    and "a \<in> {[], js ''en'', js ''zh''}" and "a' \<in> {[], js ''en'', js ''zh''}"
  shows "a = a' \<and> b = b' \<and> c = c'"
  using assms by (cases b; cases c; cases b'; cases c') (auto simp: bool_text_def js_append [symmetric])

text \<open>The key of an item in a session determines its projection.\<close>

lemma projection_key:
  assumes x: "item_ok x" and s: "st_sessionId s = st_sessionId t"
    and k: "timelineProjectionKey x s loc = timelineProjectionKey x t loc'"
  shows "timelineItem (toolData parse dp) x s loc = timelineItem (toolData parse dp) x t loc'"
proof -
  have id: "timeline_id s x = timeline_id t x" by (simp add: timeline_id_def s)
  show ?thesis
  proof (cases "it_role x")
    case UserRole
    then show ?thesis by (simp add: timelineItem_def id)
  next
    case AssistantRole
    then have "item_streaming s x = item_streaming t x" using k s by (simp add: timelineProjectionKey_def)
    then show ?thesis using AssistantRole by (simp add: timelineItem_def id)
  next
    case PlanRole
    then have "it_title x = [] \<longrightarrow> loc = loc'" using k s by (auto simp: timelineProjectionKey_def)
    then show ?thesis using PlanRole by (auto simp: timelineItem_def id)
  next
    case ActivityRole
    then have "it_title x = [] \<longrightarrow> loc = loc'" using k s by (auto simp: timelineProjectionKey_def)
    then show ?thesis using ActivityRole activity_has_no_tool_data [OF x]
      by (auto simp: timelineItem_def work_item_def id Let_def)
  next
    case ToolRole
    define stop where "stop \<longleftrightarrow> item_progress x \<and> it_turnStatus x = Some (js ''cancelled'')"
    define l where "l u r = (if it_title x = [] \<or> item_stalled u x \<or> stop \<or> has_images x then js (locale_name r) else [])" for u r
    have in_l: "l u r \<in> {[], js ''en'', js ''zh''}" for u r by (cases r) (simp_all add: l_def)
    have key: "timelineProjectionKey x u r = st_sessionId u @ js '':'' @ l u r @ js '':'' @ bool_text (item_stalled u x)
        @ js '':'' @ bool_text stop" for u r
      using ToolRole by (simp add: timelineProjectionKey_def Let_def l_def stop_def)
    have l: "l s loc = l t loc'" and stalled: "item_stalled s x = item_stalled t x"
      using tool_key_inject [OF _ in_l in_l] k s unfolding key by (metis append.assoc same_append_eq)+
    have loc: "it_title x = [] \<or> item_stalled t x \<or> stop \<or> has_images x \<longrightarrow> loc = loc'"
      using l stalled by (auto simp: l_def split: if_splits)
    then have "toolData parse dp x loc = toolData parse dp x loc'"
      using tool_data_no_images by blast
    then have "work_item x s loc (toolData parse dp x loc) = work_item x t loc' (toolData parse dp x loc')"
      using loc ToolRole stalled id by (auto simp: work_item_def Let_def stop_def)
    then show ?thesis using ToolRole by (simp add: timelineItem_def)
  qed
qed

subsection \<open>Heaps\<close>

record object_heap =
  oh_item :: "reference \<Rightarrow> agent_item"
  oh_details :: "reference \<Rightarrow> item_details"
  oh_array :: "reference \<Rightarrow> reference list"
  oh_pending :: "reference \<Rightarrow> pending_entry js_record"

definition coherent :: "object_heap \<Rightarrow> seen_state \<Rightarrow> bool" where
  "coherent h s \<longleftrightarrow> oh_array h (ss_array s) = ss_refs s \<and> oh_pending h (ss_pending s) = st_pending (ss_state s)
     \<and> map (oh_item h) (ss_refs s) = st_items (ss_state s)
     \<and> length (ss_details s) = length (st_items (ss_state s))
     \<and> (\<forall>i < length (st_items (ss_state s)). item_ok (st_items (ss_state s) ! i)
          \<and> (\<forall>d. it_details (st_items (ss_state s) ! i) = Some d \<longrightarrow> oh_details h (ss_details s ! i) = d))"

definition sound_changes :: "object_heap \<Rightarrow> recorded_changes \<Rightarrow> bool" where
  "sound_changes h recorded \<longleftrightarrow> (\<forall>a b indices. recorded b = Some (a, indices) \<longrightarrow>
     (\<forall>i \<in> set indices. i < length (oh_array h b))
   \<and> (\<forall>i < length (oh_array h b). i \<notin> set indices \<longrightarrow> i < length (oh_array h a) \<and> oh_array h b ! i = oh_array h a ! i))"

subsection \<open>The caches\<close>

definition caches_ok :: "json_parser \<Rightarrow> date_parser \<Rightarrow> object_heap \<Rightarrow> projector \<Rightarrow> bool" where
  "caches_ok parse dp h p \<longleftrightarrow>
     (\<forall>d loc t. pj_tools p (d, loc) = Some t \<longrightarrow>
        tool_data_of (readToolMetadata parse dp) loc (oh_details h d) = Some t)
   \<and> (\<forall>d m. pj_metadata p d = Some m \<longrightarrow> (\<exists>t srv tool args dur err r.
        oh_details h d = McpToolCall t srv tool args dur err (Some r) \<and> m = readToolMetadata parse dp (Some r)))"

definition entries_ok :: "json_parser \<Rightarrow> date_parser \<Rightarrow> object_heap \<Rightarrow> projector \<Rightarrow> bool" where
  "entries_ok parse dp h p \<longleftrightarrow> (\<forall>r k v. pj_entries p r = Some (k, v) \<longrightarrow> item_ok (oh_item h r) \<and>
     (\<exists>s loc. st_sessionId s = pj_session p \<and> k = timelineProjectionKey (oh_item h r) s loc
        \<and> v = timelineItem (toolData parse dp) (oh_item h r) s loc))"

definition previous_ok :: "json_parser \<Rightarrow> date_parser \<Rightarrow> object_heap \<Rightarrow> projector \<Rightarrow> bool" where
  "previous_ok parse dp h p \<longleftrightarrow> (\<forall>a refs. pj_previousItems p = Some (a, refs) \<longrightarrow> refs = oh_array h a \<and>
     (\<exists>s loc. pj_previousContext p = item_context s loc
        \<and> pj_previousOutput p = map (\<lambda>r. Some (timelineItem (toolData parse dp) (oh_item h r) s loc)) refs))"

text \<open>The fields that projecting single items leaves alone.\<close>

definition same_view :: "projector \<Rightarrow> projector \<Rightarrow> bool" where
  "same_view p q \<longleftrightarrow> pj_session q = pj_session p \<and> pj_previousItems q = pj_previousItems p
     \<and> pj_previousOutput q = pj_previousOutput p \<and> pj_previousContext q = pj_previousContext p
     \<and> pj_previousPending q = pj_previousPending p \<and> pj_previousPendingLocale q = pj_previousPendingLocale p
     \<and> pj_pendingProjection q = pj_pendingProjection p \<and> pj_lastTurnKey q = pj_lastTurnKey p
     \<and> pj_lastTurnItem q = pj_lastTurnItem p"

lemma same_view_refl [simp]: "same_view p p"
  by (simp add: same_view_def)

lemma same_view_trans: "same_view p q \<Longrightarrow> same_view q r \<Longrightarrow> same_view p r"
  by (simp add: same_view_def)

lemma caches_metadata:
  assumes "caches_ok parse dp h p" and "oh_details h ref = McpToolCall t srv tool args dur err (Some r)"
  shows "cached_metadata parse dp ref (Some r) p = readToolMetadata parse dp (Some r)"
proof (cases "pj_metadata p ref")
  case (Some m)
  then obtain t' srv' tool' args' dur' err' r' where
    "oh_details h ref = McpToolCall t' srv' tool' args' dur' err' (Some r')" "m = readToolMetadata parse dp (Some r')"
    using assms(1) unfolding caches_ok_def by blast
  with assms(2) Some show ?thesis by (simp add: cached_metadata_def)
qed (simp add: cached_metadata_def)

lemma cached_tool_data:
  assumes c: "caches_ok parse dp h p" and d: "oh_details h ref = details"
  shows "tool_data_of (\<lambda>r. cached_metadata parse dp ref r p) loc details = tool_data_of (readToolMetadata parse dp) loc details"
proof (cases details)
  case (McpToolCall t srv tool args dur err result)
  have "call_data (\<lambda>r. cached_metadata parse dp ref r p) loc args dur err result =
      call_data (readToolMetadata parse dp) loc args dur err result"
  proof (cases result)
    case None
    then show ?thesis by (simp add: call_data_def)
  next
    case (Some r)
    then have "cached_metadata parse dp ref result p = readToolMetadata parse dp result"
      using caches_metadata [OF c] d McpToolCall by simp
    then show ?thesis by (simp add: call_data_def Let_def)
  qed
  then show ?thesis by (simp add: tool_data_of_def McpToolCall)
qed (simp_all add: tool_data_of_def)

lemma keep_metadata_ok:
  assumes c: "caches_ok parse dp h p" and d: "oh_details h ref = details"
  shows "caches_ok parse dp h (keep_metadata parse dp ref details p)"
    and "same_view p (keep_metadata parse dp ref details p)"
    and "pj_entries (keep_metadata parse dp ref details p) = pj_entries p"
    and "pj_tools (keep_metadata parse dp ref details p) = pj_tools p"
proof -
  have "caches_ok parse dp h (keep_metadata parse dp ref details p) \<and> same_view p (keep_metadata parse dp ref details p)
      \<and> pj_entries (keep_metadata parse dp ref details p) = pj_entries p
      \<and> pj_tools (keep_metadata parse dp ref details p) = pj_tools p"
  proof (cases "\<exists>t srv tool args dur err r. details = McpToolCall t srv tool args dur err (Some r)
      \<and> list_ex is_image_block (tr_content r)")
    case True
    then obtain t srv tool args dur err r where m: "details = McpToolCall t srv tool args dur err (Some r)"
      and i: "list_ex is_image_block (tr_content r)" by blast
    have "cached_metadata parse dp ref (Some r) p = readToolMetadata parse dp (Some r)"
      using caches_metadata [OF c] d m by simp
    then show ?thesis using c d m i
      by (auto simp: keep_metadata_def caches_ok_def same_view_def)
  next
    case False
    then have "keep_metadata parse dp ref details p = p"
      by (auto simp: keep_metadata_def split: item_details.splits option.splits)
    with c show ?thesis by simp
  qed
  then show "caches_ok parse dp h (keep_metadata parse dp ref details p)"
    "same_view p (keep_metadata parse dp ref details p)"
    "pj_entries (keep_metadata parse dp ref details p) = pj_entries p"
    "pj_tools (keep_metadata parse dp ref details p) = pj_tools p" by simp_all
qed

lemma projectTool_ok:
  assumes c: "caches_ok parse dp h p" and d: "\<And>d. it_details x = Some d \<Longrightarrow> oh_details h ref = d"
    and t: "projectTool parse dp ref x loc p = (data, q)"
  shows "data = toolData parse dp x loc" and "caches_ok parse dp h q" and "same_view p q" and "pj_entries q = pj_entries p"
proof -
  have "data = toolData parse dp x loc \<and> caches_ok parse dp h q \<and> same_view p q \<and> pj_entries q = pj_entries p"
  proof (cases "it_details x")
    case None
    then show ?thesis using c t by (simp add: projectTool_def toolData_def)
  next
    case (Some details)
    note h = d [OF Some]
    show ?thesis
    proof (cases "pj_tools p (ref, loc)")
      case (Some cached)
      then have "tool_data_of (readToolMetadata parse dp) loc details = Some cached"
        using c unfolding caches_ok_def h [symmetric] by blast
      with Some show ?thesis using t c \<open>it_details x = Some details\<close>
        by (simp add: projectTool_def toolData_def)
    next
      case None
      note k = keep_metadata_ok [OF c h] and v = cached_tool_data [OF c h, of loc]
      show ?thesis
      proof (cases "tool_data_of (readToolMetadata parse dp) loc details")
        case None': None
        then show ?thesis using t None k v Some by (auto simp: projectTool_def toolData_def Let_def)
      next
        case (Some result)
        then have "q = (keep_metadata parse dp ref details p)\<lparr>pj_tools :=
            (pj_tools (keep_metadata parse dp ref details p))((ref, loc) \<mapsto> result)\<rparr>" "data = Some result"
          using t None v [unfolded Some] \<open>it_details x = Some details\<close> by (auto simp: projectTool_def Let_def)
        moreover have "caches_ok parse dp h ((keep_metadata parse dp ref details p)\<lparr>pj_tools :=
            (pj_tools (keep_metadata parse dp ref details p))((ref, loc) \<mapsto> result)\<rparr>)"
          using k(1) Some h by (auto simp: caches_ok_def)
        ultimately show ?thesis using k Some \<open>it_details x = Some details\<close>
          by (simp add: toolData_def same_view_def)
      qed
    qed
  qed
  then show "data = toolData parse dp x loc" "caches_ok parse dp h q" "same_view p q" "pj_entries q = pj_entries p" by simp_all
qed

lemma timelineItem_tool:
  "timelineItem td x s loc = (if it_role x = UserRole \<or> it_role x = AssistantRole \<or> it_role x = PlanRole
     then timelineItem (\<lambda>_ _. None) x s loc else timelineItem (\<lambda>_ _. td x loc) x s loc)"
  by (auto simp: timelineItem_def)

lemma project_fresh_ok:
  assumes "caches_ok parse dp h p" and "\<And>d. it_details x = Some d \<Longrightarrow> oh_details h ref = d"
    and f: "project_fresh parse dp ref x s loc p = (v, q)"
  shows "v = timelineItem (toolData parse dp) x s loc" and "caches_ok parse dp h q" and "same_view p q"
    and "pj_entries q = pj_entries p"
proof -
  obtain data r where t: "projectTool parse dp ref x loc p = (data, r)" by fastforce
  note ok = projectTool_ok [OF assms(1,2) t]
  have "v = timelineItem (toolData parse dp) x s loc \<and> caches_ok parse dp h q \<and> same_view p q \<and> pj_entries q = pj_entries p"
  proof (cases "it_role x = UserRole \<or> it_role x = AssistantRole \<or> it_role x = PlanRole")
    case True
    then show ?thesis using f assms(1) timelineItem_tool [of "toolData parse dp" x s loc]
      by (simp add: project_fresh_def)
  next
    case False
    then show ?thesis using f ok t timelineItem_tool [of "toolData parse dp" x s loc]
      by (simp add: project_fresh_def)
  qed
  then show "v = timelineItem (toolData parse dp) x s loc" "caches_ok parse dp h q" "same_view p q"
    "pj_entries q = pj_entries p" by simp_all
qed

end
