(* ===== verification/Projector_Runs.thy ===== *)
theory Projector_Runs
  imports Projector_Props
begin

text \<open>
  The loop of the projector over the items, its three ways to reuse a previous output, and that one
  projection of a conversation returns the plain model and keeps the caches sound.
\<close>

subsection \<open>One index\<close>

definition target :: "json_parser \<Rightarrow> date_parser \<Rightarrow> seen_state \<Rightarrow> agent_locale \<Rightarrow> nat \<Rightarrow> timeline_item option" where
  "target parse dp s loc i = Some (timelineItem (toolData parse dp) (st_items (ss_state s) ! i) (ss_state s) loc)"

definition projector_ok :: "json_parser \<Rightarrow> date_parser \<Rightarrow> object_heap \<Rightarrow> projector \<Rightarrow> bool" where
  "projector_ok parse dp h p \<longleftrightarrow> caches_ok parse dp h p \<and> entries_ok parse dp h p \<and> previous_ok parse dp h p"

lemma coherent_nth:
  assumes "coherent h s" and "i < length (st_items (ss_state s))"
  shows "oh_item h (ss_refs s ! i) = st_items (ss_state s) ! i" and "i < length (ss_refs s)"
    and "item_ok (st_items (ss_state s) ! i)"
    and "it_details (st_items (ss_state s) ! i) = Some d \<Longrightarrow> oh_details h (ss_details s ! i) = d"
proof -
  have m: "map (oh_item h) (ss_refs s) = st_items (ss_state s)" using assms(1) by (simp add: coherent_def)
  then show "i < length (ss_refs s)" using assms(2) by (metis length_map)
  then show "oh_item h (ss_refs s ! i) = st_items (ss_state s) ! i" using m by (metis nth_map)
  show "item_ok (st_items (ss_state s) ! i)" using assms by (simp add: coherent_def)
  show "it_details (st_items (ss_state s) ! i) = Some d \<Longrightarrow> oh_details h (ss_details s ! i) = d"
    using assms by (simp add: coherent_def)
qed

lemma store_entry_ok:
  assumes q: "caches_ok parse dp h q" "same_view p q" "pj_entries q = pj_entries p" and p: "projector_ok parse dp h p"
    and x: "item_ok (oh_item h r)" and s: "st_sessionId st = pj_session p"
  shows "projector_ok parse dp h (q\<lparr>pj_entries := (pj_entries q)(r \<mapsto> (timelineProjectionKey (oh_item h r) st loc,
     timelineItem (toolData parse dp) (oh_item h r) st loc))\<rparr>)"
proof -
  have "entries_ok parse dp h (q\<lparr>pj_entries := (pj_entries q)(r \<mapsto> (timelineProjectionKey (oh_item h r) st loc,
     timelineItem (toolData parse dp) (oh_item h r) st loc))\<rparr>)"
    using p q(2,3) x s unfolding projector_ok_def entries_ok_def same_view_def by auto
  moreover have "previous_ok parse dp h q = previous_ok parse dp h p"
    using q(2) by (simp add: previous_ok_def same_view_def)
  ultimately show ?thesis using q(1) p by (simp add: projector_ok_def caches_ok_def previous_ok_def)
qed

lemma project_item_step:
  assumes p: "projector_ok parse dp h p" and c: "coherent h s" and i: "i < length (st_items (ss_state s))"
    and sid: "pj_session p = st_sessionId (ss_state s)"
  shows "\<exists>q. project_item parse dp s loc i (out, p) = (out[i := target parse dp s loc i], q)
     \<and> projector_ok parse dp h q \<and> same_view p q"
proof -
  let ?st = "ss_state s" and ?x = "st_items (ss_state s) ! i" and ?r = "ss_refs s ! i"
  note at = coherent_nth [OF c i]
  show ?thesis
  proof (cases "pj_previousContext p = item_context ?st loc
      \<and> (case pj_previousItems p of None \<Rightarrow> False | Some (_, refs) \<Rightarrow> i < length refs \<and> refs ! i = ?r)")
    case True
    then obtain a refs where prev: "pj_previousItems p = Some (a, refs)" "i < length refs" "refs ! i = ?r"
      by (auto split: option.splits)
    then obtain s0 loc0 where k: "pj_previousContext p = item_context s0 loc0"
      and o: "pj_previousOutput p = map (\<lambda>r. Some (timelineItem (toolData parse dp) (oh_item h r) s0 loc0)) refs"
      using p unfolding projector_ok_def previous_ok_def by blast
    have "timelineItem (toolData parse dp) ?x s0 loc0 = timelineItem (toolData parse dp) ?x ?st loc"
      using True k by (intro item_context_inject) simp
    then have "pj_previousOutput p ! i = target parse dp s loc i"
      using o prev at(1) by (simp add: target_def)
    then show ?thesis using True p by (auto simp: project_item_def Let_def)
  next
    case F: False
    obtain v q where f: "project_fresh parse dp (ss_details s ! i) ?x ?st loc p = (v, q)" by fastforce
    have cp: "caches_ok parse dp h p" using p by (simp add: projector_ok_def)
    note fresh = project_fresh_ok [OF cp at(4) f]
    let ?q = "q\<lparr>pj_entries := (pj_entries q)(?r \<mapsto> (timelineProjectionKey ?x ?st loc, v))\<rparr>"
    have stored: "projector_ok parse dp h ?q \<and> same_view p ?q \<and> Some v = target parse dp s loc i"
      using store_entry_ok [OF fresh(2-4) p, of ?r ?st loc] at fresh(1,3) sid
      by (simp add: target_def same_view_def)
    show ?thesis
    proof (cases "pj_entries p ?r")
      case None
      then show ?thesis unfolding project_item_def Let_def prod.case if_not_P [OF F] using f stored by simp
    next
      case (Some e)
      obtain k w where e: "e = (k, w)" by fastforce
      show ?thesis
      proof (cases "k = timelineProjectionKey ?x ?st loc")
        case True
        obtain s0 loc0 where "st_sessionId s0 = pj_session p" "k = timelineProjectionKey ?x s0 loc0"
          "w = timelineItem (toolData parse dp) ?x s0 loc0"
          using p Some e at(1) unfolding projector_ok_def entries_ok_def by metis
        then have "Some w = target parse dp s loc i"
          using projection_key [OF at(3), of s0 ?st loc0 loc parse dp] True sid by (simp add: target_def)
        then show ?thesis unfolding project_item_def Let_def prod.case if_not_P [OF F] using Some e True p by simp
      next
        case False
        then show ?thesis unfolding project_item_def Let_def prod.case if_not_P [OF F] using Some e f stored by simp
      qed
    qed
  qed
qed

lemma project_items_loop:
  assumes "projector_ok parse dp h p" and "coherent h s" and "\<forall>i \<in> set is. i < length (st_items (ss_state s))"
    and "pj_session p = st_sessionId (ss_state s)"
  shows "\<exists>q. fold (project_item parse dp s loc) is (out, p) = (fold (\<lambda>i xs. xs[i := target parse dp s loc i]) is out, q)
     \<and> projector_ok parse dp h q \<and> same_view p q"
  using assms
proof (induction "is" arbitrary: out p)
  case Nil
  then show ?case by simp
next
  case (Cons i ks)
  then obtain q where q: "project_item parse dp s loc i (out, p) = (out[i := target parse dp s loc i], q)"
    "projector_ok parse dp h q" "same_view p q"
    using project_item_step [OF Cons.prems(1,2), of i loc out] by auto
  then have "pj_session q = st_sessionId (ss_state s)" using Cons.prems(4) by (simp add: same_view_def)
  with Cons.IH [OF q(2) Cons.prems(2), of "out[i := target parse dp s loc i]"] Cons.prems(3) q same_view_trans
  show ?case by fastforce
qed

lemma length_fold_update [simp]: "length (fold (\<lambda>i xs. xs[i := f i]) is out) = length out"
  by (induction "is" arbitrary: out) simp_all

lemma nth_fold_update:
  "j < length out \<Longrightarrow> fold (\<lambda>i xs. xs[i := f i]) is out ! j = (if j \<in> set is then f j else out ! j)"
  by (induction "is" arbitrary: out) (auto simp: nth_list_update)

subsection \<open>All items\<close>

definition plain_items :: "json_parser \<Rightarrow> date_parser \<Rightarrow> stream_state \<Rightarrow> agent_locale \<Rightarrow> timeline_item list" where
  "plain_items parse dp state loc = map (\<lambda>item. timelineItem (toolData parse dp) item state loc) (st_items state)"

lemma plain_items_nth:
  "map Some (plain_items parse dp (ss_state s) loc) = map (target parse dp s loc) [0..<length (st_items (ss_state s))]"
  by (rule nth_equalityI) (simp_all add: plain_items_def target_def)

text \<open>What a previous output says of the current state, under the same context.\<close>

lemma previous_target:
  assumes p: "projector_ok parse dp h p" and c: "coherent h s" and prev: "pj_previousItems p = Some (a, refs)"
    and k: "pj_previousContext p = item_context (ss_state s) loc"
  shows "length (pj_previousOutput p) = length refs" and "refs = oh_array h a"
    and "i < length refs \<Longrightarrow> i < length (st_items (ss_state s)) \<Longrightarrow> refs ! i = ss_refs s ! i \<Longrightarrow>
       pj_previousOutput p ! i = target parse dp s loc i"
proof -
  obtain s0 loc0 where k0: "pj_previousContext p = item_context s0 loc0" and refs: "refs = oh_array h a"
    and o: "pj_previousOutput p = map (\<lambda>r. Some (timelineItem (toolData parse dp) (oh_item h r) s0 loc0)) refs"
    using p prev unfolding projector_ok_def previous_ok_def by blast
  show "length (pj_previousOutput p) = length refs" "refs = oh_array h a" using o refs by simp_all
  show "pj_previousOutput p ! i = target parse dp s loc i"
    if "i < length refs" "i < length (st_items (ss_state s))" "refs ! i = ss_refs s ! i"
    using o that coherent_nth(1) [OF c that(2)] item_context_inject [of s0 loc0 "ss_state s" loc] k0 k
    by (simp add: target_def)
qed

lemma previous_okI:
  assumes "coherent h s"
  shows "previous_ok parse dp h (p\<lparr>pj_previousItems := Some (ss_array s, ss_refs s),
     pj_previousOutput := map Some (plain_items parse dp (ss_state s) loc), pj_previousContext := item_context (ss_state s) loc\<rparr>)"
proof -
  have "map Some (plain_items parse dp (ss_state s) loc) =
      map (\<lambda>r. Some (timelineItem (toolData parse dp) (oh_item h r) (ss_state s) loc)) (ss_refs s)"
  proof -
    have m: "st_items (ss_state s) = map (oh_item h) (ss_refs s)" using assms by (simp add: coherent_def)
    show ?thesis by (simp add: plain_items_def m)
  qed
  then show ?thesis using assms by (auto simp: previous_ok_def coherent_def)
qed

lemma reset_session_ok:
  "projector_ok parse dp h p \<Longrightarrow> projector_ok parse dp h (reset_session state p)"
  "pj_session (reset_session state p) = st_sessionId state"
  by (auto simp: reset_session_def projector_ok_def createNativeTimelineProjector_def caches_ok_def entries_ok_def previous_ok_def)

lemma plain_itemsI:
  assumes "length out = length (st_items (ss_state s))"
    and "\<And>i. i < length (st_items (ss_state s)) \<Longrightarrow> out ! i = target parse dp s loc i"
  shows "out = map Some (plain_items parse dp (ss_state s) loc)"
  unfolding plain_items_nth by (rule nth_equalityI) (simp_all add: assms)

text \<open>The items of one call, and what the call leaves of the other caches.\<close>

lemma projector_items_ok:
  assumes p0: "projector_ok parse dp h p0" and c: "coherent h s" and rec: "sound_changes h recorded"
  shows "\<exists>q. projector_items parse dp recorded s loc p0 = (map Some (plain_items parse dp (ss_state s) loc), q)
     \<and> projector_ok parse dp h q
     \<and> pj_previousPending q = pj_previousPending (reset_session (ss_state s) p0)
     \<and> pj_previousPendingLocale q = pj_previousPendingLocale (reset_session (ss_state s) p0)
     \<and> pj_pendingProjection q = pj_pendingProjection (reset_session (ss_state s) p0)
     \<and> pj_lastTurnKey q = pj_lastTurnKey (reset_session (ss_state s) p0)
     \<and> pj_lastTurnItem q = pj_lastTurnItem (reset_session (ss_state s) p0)"
proof -
  define p where "p = reset_session (ss_state s) p0"
  define n where "n = length (st_items (ss_state s))"
  define same where "same \<longleftrightarrow> pj_previousContext p = item_context (ss_state s) loc"
  define changes where "changes = (case pj_previousItems p of
      Some (array, _) \<Rightarrow> if same then presentationItemChanges recorded array (ss_array s) else None
    | None \<Rightarrow> None)"
  have p: "projector_ok parse dp h p" and sid: "pj_session p = st_sessionId (ss_state s)"
    using p0 reset_session_ok by (simp_all add: p_def)
  have len: "length (ss_refs s) = n" and arr: "oh_array h (ss_array s) = ss_refs s"
    using c unfolding coherent_def n_def by (metis length_map, simp)
  show ?thesis
  proof (cases "same \<and> map_option fst (pj_previousItems p) = Some (ss_array s)")
    case True
    then obtain refs where prev: "pj_previousItems p = Some (ss_array s, refs)" by (cases "pj_previousItems p") auto
    have k: "pj_previousContext p = item_context (ss_state s) loc" using True same_def by simp
    note t = previous_target [OF p c prev k]
    have "pj_previousOutput p = map Some (plain_items parse dp (ss_state s) loc)"
      using t arr len by (intro plain_itemsI) (simp_all add: n_def)
    then show ?thesis using True p
      unfolding projector_items_def Let_def p_def [symmetric] same_def [symmetric] by simp
  next
    case F: False
    show ?thesis
    proof (cases "changes = Some [] \<and> length (pj_previousOutput p) = n")
      case True
      then obtain a refs where prev: "pj_previousItems p = Some (a, refs)" and s: "same"
        and r: "recorded (ss_array s) = Some (a, [])"
        unfolding changes_def presentationItemChanges_def by (auto split: option.splits if_splits)
      have k: "pj_previousContext p = item_context (ss_state s) loc" using s same_def by simp
      note t = previous_target [OF p c prev k]
      have "i < length refs \<and> ss_refs s ! i = refs ! i" if "i < n" for i
        using rec r that t(2) arr len unfolding sound_changes_def by fastforce
      then have o: "pj_previousOutput p = map Some (plain_items parse dp (ss_state s) loc)"
        using t True by (intro plain_itemsI) (simp_all add: n_def)
      have "previous_ok parse dp h (p\<lparr>pj_previousItems := Some (ss_array s, ss_refs s)\<rparr>)"
        using previous_okI [OF c, of parse dp loc p] k o arr by (simp add: previous_ok_def)
      then have "projector_ok parse dp h (p\<lparr>pj_previousItems := Some (ss_array s, ss_refs s)\<rparr>)"
        using p by (simp add: projector_ok_def caches_ok_def entries_ok_def)
      then show ?thesis
        unfolding projector_items_def Let_def p_def [symmetric] same_def [symmetric] n_def [symmetric] changes_def [symmetric]
          if_not_P [OF F] if_P [OF True]
        unfolding o by simp
    next
      case G: False
      define start where "start = (case changes of
          Some _ \<Rightarrow> take n (pj_previousOutput p) @ replicate (n - length (pj_previousOutput p)) None
        | None \<Rightarrow> replicate n None)"
      define indices where "indices = (case changes of Some is \<Rightarrow> is | None \<Rightarrow> [0..<n])"
      have lens: "length start = n" by (auto simp: start_def split: option.splits)
      have bound: "\<forall>i \<in> set indices. i < n"
        and rest: "\<And>i. i < n \<Longrightarrow> i \<notin> set indices \<Longrightarrow> start ! i = target parse dp s loc i"
      proof -
        have "(\<forall>i \<in> set indices. i < n) \<and> (\<forall>i < n. i \<notin> set indices \<longrightarrow> start ! i = target parse dp s loc i)"
        proof (cases changes)
          case None
          then show ?thesis by (simp add: indices_def)
        next
          case (Some ks)
          then obtain a refs where prev: "pj_previousItems p = Some (a, refs)" and s: "same"
            and r: "recorded (ss_array s) = Some (a, ks)"
            unfolding changes_def presentationItemChanges_def by (auto split: option.splits if_splits)
          have k: "pj_previousContext p = item_context (ss_state s) loc" using s same_def by simp
          note t = previous_target [OF p c prev k]
          have "i < length refs \<and> ss_refs s ! i = refs ! i" if "i < n" "i \<notin> set ks" for i
            using rec r that t(2) arr len unfolding sound_changes_def by fastforce
          moreover have "\<forall>i \<in> set ks. i < n" using rec r arr len unfolding sound_changes_def by metis
          ultimately show ?thesis using t Some
            by (auto simp: indices_def start_def nth_append n_def)
        qed
        then show "\<forall>i \<in> set indices. i < n"
          "\<And>i. i < n \<Longrightarrow> i \<notin> set indices \<Longrightarrow> start ! i = target parse dp s loc i" by simp_all
      qed
      obtain q where q: "fold (project_item parse dp s loc) indices (start, p) =
          (fold (\<lambda>i xs. xs[i := target parse dp s loc i]) indices start, q)"
        and qok: "projector_ok parse dp h q" "same_view p q"
        using project_items_loop [OF p c _ sid] bound unfolding n_def by blast
      have out: "fold (\<lambda>i xs. xs[i := target parse dp s loc i]) indices start = map Some (plain_items parse dp (ss_state s) loc)"
        by (rule plain_itemsI) (simp_all add: nth_fold_update lens rest flip: n_def)
      let ?q = "q\<lparr>pj_previousItems := Some (ss_array s, ss_refs s),
          pj_previousOutput := map Some (plain_items parse dp (ss_state s) loc), pj_previousContext := item_context (ss_state s) loc\<rparr>"
      have "projector_ok parse dp h ?q"
        using qok(1) previous_okI [OF c, of parse dp loc q] by (simp add: projector_ok_def caches_ok_def entries_ok_def)
      moreover have "projector_items parse dp recorded s loc p0 = (map Some (plain_items parse dp (ss_state s) loc), ?q)"
        unfolding projector_items_def Let_def p_def [symmetric] same_def [symmetric] n_def [symmetric] changes_def [symmetric]
          if_not_P [OF F] if_not_P [OF G] start_def [symmetric] indices_def [symmetric] q prod.case out ..
      ultimately show ?thesis using qok(2) by (simp add: same_view_def p_def)
    qed
  qed
qed

subsection \<open>One projection of the conversation\<close>

definition no_stray :: "stream_state \<Rightarrow> bool" where
  "no_stray state \<longleftrightarrow> (\<forall>entry \<in> set (prop_values (st_pending state)). \<exists>r b. entry = Pending r b)"

lemma nativeRequestPresentation_ok: "\<exists>x. nativeRequestPresentation loc (Pending r b) = Inr x"
  by (simp add: nativeRequestPresentation_def)

lemma projectPending_ok:
  assumes "no_stray state"
  shows "\<exists>x. projectPending state loc = Inr x"
proof -
  have "\<exists>x. fold_result (\<lambda>acc entry. andThen (nativeRequestPresentation loc entry) (\<lambda>p. Inr (split_presentation acc p)))
      acc entries = Inr x" if "\<forall>entry \<in> set entries. \<exists>r b. entry = Pending r b" for entries acc
    using that
  proof (induction entries arbitrary: acc)
    case (Cons entry entries)
    then obtain x where "nativeRequestPresentation loc entry = Inr x" using nativeRequestPresentation_ok by fastforce
    with Cons show ?case by simp
  qed simp
  then show ?thesis using assms unfolding projectPending_def no_stray_def by blast
qed

definition others_ok :: "object_heap \<Rightarrow> projector \<Rightarrow> bool" where
  "others_ok h p \<longleftrightarrow>
     (\<forall>a loc. pj_previousPending p = Some a \<longrightarrow> pj_previousPendingLocale p = Some loc \<longrightarrow>
        (\<forall>s. st_pending s = oh_pending h a \<longrightarrow> projectPending s loc = Inr (pj_pendingProjection p)))
   \<and> (\<forall>item. pj_lastTurnItem p = Some item \<longrightarrow> (\<exists>s loc. item = lastTurnPresentation s loc \<and> pj_lastTurnKey p =
        stringify (JArr [JStr (st_sessionId s), JStr (st_lastTurnStatus s), JStr (js (locale_name loc))])))"

lemma projectPending_cong: "st_pending s = st_pending t \<Longrightarrow> projectPending s loc = projectPending t loc"
  by (simp add: projectPending_def)

lemma projector_pending_ok:
  assumes o: "others_ok h p" and c: "coherent h s" and n: "no_stray (ss_state s)"
  shows "\<exists>q. projector_pending s loc p = (projectPending (ss_state s) loc, q) \<and> others_ok h q
     \<and> (projector_ok parse dp h p \<longrightarrow> projector_ok parse dp h q)"
proof -
  have pend: "oh_pending h (ss_pending s) = st_pending (ss_state s)" using c by (simp add: coherent_def)
  show ?thesis
  proof (cases "pj_previousPending p = Some (ss_pending s) \<and> pj_previousPendingLocale p = Some loc")
    case True
    then have "projectPending (ss_state s) loc = Inr (pj_pendingProjection p)"
      using o pend unfolding others_ok_def by metis
    with True o show ?thesis by (simp add: projector_pending_def)
  next
    case False
    obtain x where x: "projectPending (ss_state s) loc = Inr x" using projectPending_ok [OF n] by blast
    let ?q = "p\<lparr>pj_previousPending := Some (ss_pending s), pj_previousPendingLocale := Some loc, pj_pendingProjection := x\<rparr>"
    have "projector_pending s loc p = (Inr x, ?q)"
      unfolding projector_pending_def if_not_P [OF False] using x by (simp add: Let_def)
    moreover have "projectPending t loc = Inr x" if "st_pending t = oh_pending h (ss_pending s)" for t
      using projectPending_cong [of t "ss_state s" loc] that pend x by simp
    then have "others_ok h ?q" using o unfolding others_ok_def by simp
    moreover have "projector_ok parse dp h ?q" if "projector_ok parse dp h p"
      using that by (simp add: projector_ok_def caches_ok_def entries_ok_def previous_ok_def)
    ultimately show ?thesis using x by auto
  qed
qed

lemma last_turn_key:
  assumes "stringify (JArr [JStr (st_sessionId s), JStr (st_lastTurnStatus s), JStr (js (locale_name loc))]) =
     stringify (JArr [JStr (st_sessionId t), JStr (st_lastTurnStatus t), JStr (js (locale_name loc'))])"
  shows "lastTurnPresentation s loc = lastTurnPresentation t loc'"
proof -
  have "[st_sessionId s, st_lastTurnStatus s, js (locale_name loc)] = [st_sessionId t, st_lastTurnStatus t, js (locale_name loc')]"
    using assms stringify_texts_inject [of "[st_sessionId s, st_lastTurnStatus s, js (locale_name loc)]"
        "[st_sessionId t, st_lastTurnStatus t, js (locale_name loc')]"] by simp
  then show ?thesis by (simp add: lastTurnPresentation_def)
qed

lemma projector_lastTurn_ok:
  assumes o: "others_ok h p"
  shows "\<exists>q. projector_lastTurn s loc p = (lastTurnPresentation s loc, q) \<and> others_ok h q
     \<and> (projector_ok parse dp h p \<longrightarrow> projector_ok parse dp h q)"
proof -
  let ?key = "stringify (JArr [JStr (st_sessionId s), JStr (st_lastTurnStatus s), JStr (js (locale_name loc))])"
  let ?q = "p\<lparr>pj_lastTurnKey := ?key, pj_lastTurnItem := Some (lastTurnPresentation s loc)\<rparr>"
  have q: "others_ok h ?q \<and> (projector_ok parse dp h p \<longrightarrow> projector_ok parse dp h ?q)"
    using o by (auto simp: others_ok_def projector_ok_def caches_ok_def entries_ok_def previous_ok_def)
  show ?thesis
  proof (cases "pj_lastTurnItem p")
    case None
    then show ?thesis using q by (simp add: projector_lastTurn_def)
  next
    case (Some item)
    show ?thesis
    proof (cases "pj_lastTurnKey p = ?key")
      case True
      obtain s0 loc0 where "item = lastTurnPresentation s0 loc0" and "pj_lastTurnKey p =
          stringify (JArr [JStr (st_sessionId s0), JStr (st_lastTurnStatus s0), JStr (js (locale_name loc0))])"
        using o Some unfolding others_ok_def by blast
      then have "item = lastTurnPresentation s loc" using last_turn_key True by metis
      with Some True o show ?thesis by (simp add: projector_lastTurn_def)
    qed (use Some q in \<open>simp add: projector_lastTurn_def\<close>)
  qed
qed

definition as_projected :: "conversation_model \<Rightarrow> projected_model" where
  "as_projected m = \<lparr>pm_sessionKey = cm_sessionKey m, pm_items = map Some (cm_items m), pm_approvals = cm_approvals m,
     pm_userInputs = cm_userInputs m, pm_isRunning = cm_isRunning m\<rparr>"

lemma projected_conversation_ok:
  assumes p: "projector_ok parse dp h p" "others_ok h p" and c: "coherent h s" and rec: "sound_changes h recorded"
    and n: "no_stray (ss_state s)"
  shows "\<exists>m q. projected_conversation parse dp recorded s loc p = (Inr (as_projected m), q)
     \<and> nativeConversationModel parse dp (ss_state s) loc = Inr m \<and> projector_ok parse dp h q \<and> others_ok h q"
proof -
  obtain p1 where 1: "projector_items parse dp recorded s loc p = (map Some (plain_items parse dp (ss_state s) loc), p1)"
    "projector_ok parse dp h p1" and view: "pj_previousPending p1 = pj_previousPending (reset_session (ss_state s) p)"
     "pj_previousPendingLocale p1 = pj_previousPendingLocale (reset_session (ss_state s) p)"
     "pj_pendingProjection p1 = pj_pendingProjection (reset_session (ss_state s) p)"
     "pj_lastTurnKey p1 = pj_lastTurnKey (reset_session (ss_state s) p)"
     "pj_lastTurnItem p1 = pj_lastTurnItem (reset_session (ss_state s) p)"
    using projector_items_ok [OF p(1) c rec, of loc] by blast
  have "others_ok h (reset_session (ss_state s) p)"
    using p(2) by (simp add: others_ok_def reset_session_def createNativeTimelineProjector_def)
  then have o1: "others_ok h p1" unfolding others_ok_def view .
  obtain p2 where 2: "projector_pending s loc p1 = (projectPending (ss_state s) loc, p2)" "others_ok h p2"
    "projector_ok parse dp h p2"
    using projector_pending_ok [OF o1 c n, of loc parse dp] 1(2) by blast
  obtain p3 where 3: "projector_lastTurn (ss_state s) loc p2 = (lastTurnPresentation (ss_state s) loc, p3)"
    "others_ok h p3" "projector_ok parse dp h p3"
    using projector_lastTurn_ok [OF 2(2), of "ss_state s" loc parse dp] 2(3) by blast
  obtain approvals inputs where x: "projectPending (ss_state s) loc = Inr (approvals, inputs)"
    using projectPending_ok [OF n, of loc] by auto
  show ?thesis
    using 1 2 3 x unfolding projected_conversation_def nativeConversationModel_def Let_def plain_items_def [symmetric]
    by (cases "shows_last_turn (ss_state s)") (simp_all add: as_projected_def)
qed

lemma new_projector_ok: "projector_ok parse dp h createNativeTimelineProjector" "others_ok h createNativeTimelineProjector"
  by (simp_all add: createNativeTimelineProjector_def projector_ok_def caches_ok_def entries_ok_def previous_ok_def others_ok_def)

end
