(* ===== verification/Presentation_Props.thy ===== *)
theory Presentation_Props
  imports Projector_Runs Stream_Runs
begin

text \<open>
  Lemmas on answers: what the question card collects passes the check before sending, what an
  option click does to a typed text, and what an approval shows.
\<close>

subsection \<open>Collected answers\<close>

lemma length_insert_index: "length (insert_index k v m) = Suc (length m)"
  by (induction k v m rule: insert_index.induct) auto

lemma length_prop_put_new: "prop_get m k = None \<Longrightarrow> length (prop_put k v m) = Suc (length m)"
  by (auto simp: prop_put_def prop_get_def map_of_eq_None_iff length_insert_index)

lemma collect_answers_Some:
  assumes "collect_answers drafts qs acc = Some res" and "distinct (map uq_id qs)"
    and "js ''__proto__'' \<notin> set (map uq_id qs)" and "\<forall>q \<in> set qs. prop_get acc (uq_id q) = None"
  shows "length res = length acc + length qs"
    and "q \<in> set qs \<Longrightarrow> \<exists>a. prop_get res (uq_id q) = Some a \<and> resolvePendingUserInputAnswer q (draft_of drafts (uq_id q)) = Some a"
    and "k \<notin> set (map uq_id qs) \<Longrightarrow> prop_get res k = prop_get acc k"
proof -
  have "length res = length acc + length qs
      \<and> (\<forall>q \<in> set qs. \<exists>a. prop_get res (uq_id q) = Some a \<and> resolvePendingUserInputAnswer q (draft_of drafts (uq_id q)) = Some a)
      \<and> (\<forall>k. k \<notin> set (map uq_id qs) \<longrightarrow> prop_get res k = prop_get acc k)"
    using assms
  proof (induction qs arbitrary: acc)
    case Nil
    then show ?case by simp
  next
    case (Cons q qs)
    obtain a where a: "resolvePendingUserInputAnswer q (draft_of drafts (uq_id q)) = Some a"
      and r: "collect_answers drafts qs (prop_assign (uq_id q) a acc) = Some res"
      using Cons.prems(1) by (auto split: option.splits)
    have put: "prop_assign (uq_id q) a acc = prop_put (uq_id q) a acc"
      using Cons.prems(3) by (auto simp: prop_assign_def)
    have "\<forall>q' \<in> set qs. prop_get (prop_assign (uq_id q) a acc) (uq_id q') = None"
      unfolding put using Cons.prems(2,4) by (auto simp: rev_image_eqI)
    note IH = Cons.IH [OF r _ _ this]
    have "uq_id q \<notin> set (map uq_id qs)" using Cons.prems(2) by simp
    moreover have "length (prop_assign (uq_id q) a acc) = Suc (length acc)"
      unfolding put using Cons.prems(4) by (simp add: length_prop_put_new)
    ultimately show ?case using IH Cons.prems(2,3) a by (auto simp: put)
  qed
  then show "length res = length acc + length qs"
    "q \<in> set qs \<Longrightarrow> \<exists>a. prop_get res (uq_id q) = Some a \<and> resolvePendingUserInputAnswer q (draft_of drafts (uq_id q)) = Some a"
    "k \<notin> set (map uq_id qs) \<Longrightarrow> prop_get res k = prop_get acc k" by blast+
qed

lemma normalizeDraftAnswer_Some:
  "normalizeDraftAnswer v = Some t \<Longrightarrow> t \<noteq> [] \<and> trim t = t"
  by (auto simp: normalizeDraftAnswer_def split: option.splits if_splits)

lemma selected_of_distinct: "distinct (selected_of d)"
  by (simp add: selected_of_def normalizeSelectedOptionValues_def split: option.splits)

lemma presented_option_values:
  "(\<exists>opt \<in> set (uq_options (presented_question q)). option_value opt = v) \<longleftrightarrow> (\<exists>opt \<in> set (qu_options q). do_id opt = v)"
  by (auto simp: presented_question_def option_value_def)

lemma resolve_presented:
  "resolvePendingUserInputAnswer (presented_question q) d =
     (let sel = filter (\<lambda>v. \<exists>opt \<in> set (qu_options q). do_id opt = v) (selected_of d) in
      case (if qu_freeText q then normalizeDraftAnswer (custom_of d) else None) of
        Some t \<Rightarrow> Some (OneAnswer t)
      | None \<Rightarrow> if qu_multiple q then (if sel \<noteq> [] then Some (ManyAnswers sel) else None)
                else (case sel of [] \<Rightarrow> None | v # _ \<Rightarrow> Some (OneAnswer v)))"
  unfolding resolvePendingUserInputAnswer_def presented_option_values
  by (simp add: presented_question_def Let_def)

lemma good_valuesI:
  assumes "vs \<noteq> []" and "qu_multiple q \<or> length vs = 1" and "distinct vs"
    and "\<And>v. v \<in> set vs \<Longrightarrow> trim v \<noteq> [] \<and> (qu_freeText q \<or> (\<exists>opt \<in> set (qu_options q). do_id opt = v))"
  shows "\<not> bad_values q (Some vs)"
  using assms length_uniq_eq_iff [of vs] by (auto simp: bad_values_def list_ex_iff)

text \<open>An answer that the card resolves is one that the native check accepts.\<close>

lemma resolved_answer_good:
  assumes r: "resolvePendingUserInputAnswer (presented_question q) d = Some a"
    and o: "\<forall>opt \<in> set (qu_options q). trim (do_id opt) \<noteq> []"
  shows "\<not> bad_values q (Some (answer_list a))"
proof -
  let ?sel = "filter (\<lambda>v. \<exists>opt \<in> set (qu_options q). do_id opt = v) (selected_of d)"
  have sel: "distinct ?sel" "\<And>v. v \<in> set ?sel \<Longrightarrow> trim v \<noteq> [] \<and> (\<exists>opt \<in> set (qu_options q). do_id opt = v)"
    using selected_of_distinct o by auto
  consider t where "normalizeDraftAnswer (custom_of d) = Some t" "qu_freeText q" "a = OneAnswer t"
    | "qu_multiple q" "?sel \<noteq> []" "a = ManyAnswers ?sel" | v where "v \<in> set ?sel" "a = OneAnswer v"
  proof (cases "if qu_freeText q then normalizeDraftAnswer (custom_of d) else None")
    case (Some t)
    then show thesis using r that(1) unfolding resolve_presented Let_def by (simp split: if_splits)
  next
    case None
    show thesis
    proof (cases "?sel")
      case Nil
      then show thesis using r None unfolding resolve_presented Let_def by (simp split: if_splits)
    next
      case (Cons v vs)
      then have "v \<in> set ?sel" by (metis list.set_intros(1))
      show thesis
      proof (cases "qu_multiple q")
        case True
        then have "a = ManyAnswers ?sel" using r None Cons unfolding resolve_presented Let_def by simp
        moreover have "?sel \<noteq> []" using Cons by (rule ssubst) simp
        ultimately show thesis using that(2) True by blast
      next
        case False
        then have "a = OneAnswer v" using r None Cons unfolding resolve_presented Let_def by simp
        then show thesis using that(3) \<open>v \<in> set ?sel\<close> by blast
      qed
    qed
  qed
  then show ?thesis
  proof cases
    case 1
    then show ?thesis unfolding 1(3) answer_list_def ui_answer.case
      by (intro good_valuesI) (auto dest: normalizeDraftAnswer_Some)
  next
    case 2
    show ?thesis unfolding 2(3) answer_list_def ui_answer.case
      by (rule good_valuesI [OF 2(2) disjI1 [OF 2(1)] sel(1)]) (use sel(2) in blast)
  next
    case 3
    show ?thesis unfolding 3(2) answer_list_def ui_answer.case
      by (intro good_valuesI) (use sel(2) [OF 3(1)] in auto)
  qed
qed

lemma check_questions_ok:
  assumes "\<forall>q \<in> set qs. \<not> bad_values q (prop_get answers (qu_id q))"
  shows "\<exists>res. fold_result (check_question answers) acc qs = Inr res"
  using assms by (induction qs arbitrary: acc) (auto simp: check_question_def Let_def throw_if_def)

lemma submitted_answers_pass:
  assumes q: "pendingRequest s rid = Inr (Found r)" "rq_kind r = Exactly QuestionReq"
    and a: "submitted_answers (map presented_question (rq_questions r)) drafts = Some answers"
    and d: "distinct (map qu_id (rq_questions r))" and p: "js ''__proto__'' \<notin> set (map qu_id (rq_questions r))"
    and o: "\<forall>q \<in> set (rq_questions r). \<forall>opt \<in> set (qu_options q). trim (do_id opt) \<noteq> []"
  shows "\<exists>res. nativeQuestionAnswer s rid answers = Inr (Answers res)"
proof -
  let ?qs = "map presented_question (rq_questions r)"
  have ids: "map uq_id ?qs = map qu_id (rq_questions r)" by (simp add: presented_question_def)
  obtain built where b: "collect_answers drafts ?qs [] = Some built" and ans: "answers = map (\<lambda>(i, a). (i, answer_list a)) built"
    using a by (auto simp: submitted_answers_def buildPendingUserInputAnswers_def)
  have dis: "distinct (map uq_id ?qs)" "js ''__proto__'' \<notin> set (map uq_id ?qs)" using d p unfolding ids by simp_all
  note built = collect_answers_Some [OF b dis]
  have "length answers = length (rq_questions r)" using built(1) ans by simp
  moreover have "\<not> bad_values q (prop_get answers (qu_id q))" if "q \<in> set (rq_questions r)" for q
  proof -
    have "uq_id (presented_question q) = qu_id q" by (simp add: presented_question_def)
    moreover have "presented_question q \<in> set ?qs" using that by simp
    ultimately obtain x where x: "prop_get built (qu_id q) = Some x"
      "resolvePendingUserInputAnswer (presented_question q) (draft_of drafts (qu_id q)) = Some x"
      using built(2) [of "presented_question q"] by auto
    have "prop_get answers (qu_id q) = Some (answer_list x)"
      using x(1) unfolding ans prop_get_map [of "\<lambda>_. answer_list"] by simp
    then show ?thesis using resolved_answer_good [OF x(2)] o that by simp
  qed
  then obtain res where "fold_result (check_question answers) [] (rq_questions r) = Inr res"
    using check_questions_ok by blast
  ultimately show ?thesis using q by (simp add: nativeQuestionAnswer_def)
qed

text \<open>A question named \<open>__proto__\<close> loses its answer on the way.\<close>

lemma length_replace_prop [simp]: "length (replace_prop k v m) = length m"
  by (induction k v m rule: replace_prop.induct) auto

lemma length_prop_put: "length (prop_put k v m) \<le> Suc (length m)"
  by (simp add: prop_put_def length_insert_index)

lemma collect_answers_length:
  "collect_answers drafts qs acc = Some res \<Longrightarrow>
     length res \<le> length acc + length (filter (\<lambda>q. uq_id q \<noteq> js ''__proto__'') qs)"
proof (induction qs arbitrary: acc)
  case Nil
  then show ?case by simp
next
  case (Cons q qs)
  then obtain a where "collect_answers drafts qs (prop_assign (uq_id q) a acc) = Some res"
    by (auto split: option.splits)
  from Cons.IH [OF this] length_prop_put [of "uq_id q" a acc] show ?case
    by (auto simp: prop_assign_def)
qed

text \<open>What is sent has the collected values under every question.\<close>

lemma check_question_Inr:
  assumes "check_question answers acc q = Inr acc'"
  shows "\<exists>vs. prop_get answers (qu_id q) = Some vs \<and> acc' = prop_assign (qu_id q) vs acc"
  using assms by (cases "prop_get answers (qu_id q)") (auto simp: check_question_def Let_def result_simps bad_values_def)

lemma check_questions_get:
  assumes "fold_result (check_question answers) acc qs = Inr res" and "js ''__proto__'' \<notin> set (map qu_id qs)"
    and "distinct (map qu_id qs)"
  shows "(\<forall>q \<in> set qs. prop_get res (qu_id q) = prop_get answers (qu_id q))
    \<and> (\<forall>k. k \<notin> qu_id ` set qs \<longrightarrow> prop_get res k = prop_get acc k)"
  using assms
proof (induction qs arbitrary: acc)
  case (Cons q qs)
  obtain vs where vs: "prop_get answers (qu_id q) = Some vs"
    and rest: "fold_result (check_question answers) (prop_put (qu_id q) vs acc) qs = Inr res"
    using Cons.prems(1,2) check_question_Inr [of answers acc q] by (fastforce simp: result_simps prop_assign_def)
  from Cons.IH [OF rest] Cons.prems(2,3) vs show ?case by auto
qed simp

lemma check_questions_bad:
  assumes "fold_result (check_question answers) acc qs = Inr res" and "q \<in> set qs"
  shows "\<not> bad_values q (prop_get answers (qu_id q))"
  using assms by (induction qs arbitrary: acc) (auto simp: check_question_def Let_def result_simps)

subsection \<open>Approvals\<close>

lemma pendingRequest_Found:
  "pendingRequest s rid = Inr (Found r) \<longleftrightarrow> prop_get (st_pending s) rid = Some (Pending r False)"
  by (auto simp: pendingRequest_def member_get_def split: option.splits pending_entry.splits bool.splits)

lemma nativeApprovalAnswer_Inr:
  "nativeApprovalAnswer s rid decision = Inr a \<longleftrightarrow> a = ChosenOption decision \<and>
     (\<exists>r. prop_get (st_pending s) rid = Some (Pending r False) \<and> rq_kind r \<noteq> Exactly QuestionReq
        \<and> decision \<in> do_id ` set (rq_options r))"
  unfolding pendingRequest_Found [symmetric]
proof (cases "pendingRequest s rid")
  case (Inr found)
  show "nativeApprovalAnswer s rid decision = Inr a \<longleftrightarrow> a = ChosenOption decision \<and>
     (\<exists>r. pendingRequest s rid = Inr (Found r) \<and> rq_kind r \<noteq> Exactly QuestionReq
        \<and> decision \<in> do_id ` set (rq_options r))"
    using Inr by (cases found) (auto simp: nativeApprovalAnswer_def result_simps list_ex_iff)
qed (simp add: nativeApprovalAnswer_def)

lemma join_parts: "x \<in> set xs \<Longrightarrow> \<exists>a b. join sep xs = a @ x @ b"
proof (induction sep xs rule: join.induct)
  case (3 sep y z zs)
  show ?case
  proof (cases "x = y")
    case True
    then show ?thesis by (intro exI [of _ "[]"] exI [of _ "sep @ join sep (z # zs)"]) simp
  next
    case False
    then obtain a b where "join sep (z # zs) = a @ x @ b" using 3 by auto
    then show ?thesis by (intro exI [of _ "y @ sep @ a"] exI [of _ b]) simp
  qed
qed (auto intro: exI [of _ "[]"])

lemma approvalDetail_shows:
  assumes "Some t \<in> set (detail_parts r)" and "t \<noteq> []"
  shows "\<exists>a b. approvalDetail r = Some (a @ t @ b)"
proof -
  let ?lines = "uniq (map (get_or []) (filter truthy (detail_parts r)))"
  have "t \<in> set ?lines" using assms by (auto intro!: image_eqI [of _ _ "Some t"])
  then obtain a b where "join [10] ?lines = a @ t @ b" using join_parts by blast
  with assms(2) show ?thesis by (auto simp: approvalDetail_def kept_def)
qed

subsection \<open>Row identities\<close>

lemma timeline_id_inject:
  "timeline_id s x = timeline_id s y \<longleftrightarrow> it_turnId x = it_turnId y \<and> it_id x = it_id y"
  using stringify_texts_inject [of "[st_sessionId s, it_turnId x, it_id x]" "[st_sessionId s, it_turnId y, it_id y]"]
  by (simp add: timeline_id_def)

primrec row_id :: "timeline_item \<Rightarrow> jstr" where
  "row_id (Message m) = tm_id m"
| "row_id (Work w) = tw_id w"
| "row_id (Plan p) = tp_id p"
| "row_id (Custom c) = tc_id c"

lemma row_id_item: "row_id (timelineItem td x s loc) = timeline_id s x"
  by (simp add: timelineItem_def work_item_def Let_def)

lemma rows_distinct:
  assumes "items_ok s"
  shows "distinct (map row_id (plain_items parse dp s loc))"
proof -
  have "inj_on (timeline_id s) (set (st_items s))"
  proof (rule inj_onI)
    fix x y assume xy: "x \<in> set (st_items s)" "y \<in> set (st_items s)" "timeline_id s x = timeline_id s y"
    then have "it_key x = it_key y" using assms by (auto simp: timeline_id_inject items_ok_def item_ok_def)
    then show "x = y" using assms xy by (auto simp: items_ok_def distinct_map dest: inj_onD)
  qed
  moreover have "distinct (st_items s)" using assms by (auto simp: items_ok_def distinct_map)
  ultimately show ?thesis
    by (simp add: plain_items_def comp_def row_id_item distinct_map)
qed

lemma last_turn_row:
  "st_sessionId s \<noteq> [] \<Longrightarrow> hd (st_sessionId s) \<noteq> 91 \<Longrightarrow>
     row_id (lastTurnPresentation s loc) \<notin> set (map row_id (plain_items parse dp s loc))"
proof
  assume s: "st_sessionId s \<noteq> []" "hd (st_sessionId s) \<noteq> 91"
    and "row_id (lastTurnPresentation s loc) \<in> set (map row_id (plain_items parse dp s loc))"
  then obtain x where "st_sessionId s @ js '':last-turn'' = timeline_id s x"
    by (auto simp: plain_items_def row_id_item lastTurnPresentation_def)
  then have "hd (st_sessionId s) = 91" using s(1) by (cases "st_sessionId s") (simp_all add: timeline_id_def)
  with s(2) show False by simp
qed

subsection \<open>Entries without a request\<close>

lemma prop_get_in_values: "prop_get m k = Some v \<Longrightarrow> v \<in> set (prop_values m)"
  unfolding prop_get_def prop_values_def by (force dest: map_of_SomeD)

lemma projectPending_stray:
  assumes "\<not> no_stray s"
  shows "projectPending s loc = Inl (TypeError ''undefined request options'')"
proof -
  have "fold_result (\<lambda>acc entry. andThen (nativeRequestPresentation loc entry) (\<lambda>p. Inr (split_presentation acc p)))
      acc entries = Inl (TypeError ''undefined request options'')"
    if "Stray b \<in> set entries" for b entries acc
    using that
  proof (induction entries arbitrary: acc)
    case (Cons entry entries)
    then show ?case
    proof (cases entry)
      case (Pending r c)
      then obtain x where "nativeRequestPresentation loc entry = Inr x" using nativeRequestPresentation_ok by blast
      with Pending Cons show ?thesis by simp
    qed (simp add: nativeRequestPresentation_def)
  qed simp
  moreover obtain b where "Stray b \<in> set (prop_values (st_pending s))"
    using assms unfolding no_stray_def by (metis pending_entry.exhaust)
  ultimately show ?thesis unfolding projectPending_def by blast
qed

subsection \<open>Drafts\<close>

lemma complete_iff_counted:
  assumes "distinct (map uq_id qs)"
  shows "buildPendingUserInputAnswers qs drafts \<noteq> None \<longleftrightarrow>
     countAnsweredPendingUserInputQuestions qs drafts = length qs"
proof -
  have count: "foldl (\<lambda>count question.
       if resolvePendingUserInputAnswer question (draft_of drafts (uq_id question)) \<noteq> None
       then count + 1 else count) n qs =
      n + length (filter (\<lambda>q. resolvePendingUserInputAnswer q (draft_of drafts (uq_id q)) \<noteq> None) qs)" for n :: nat and qs
    by (induction qs arbitrary: n) auto
  have built: "collect_answers drafts qs acc \<noteq> None \<longleftrightarrow>
      (\<forall>q \<in> set qs. resolvePendingUserInputAnswer q (draft_of drafts (uq_id q)) \<noteq> None)" for acc qs
    by (induction qs arbitrary: acc) (auto split: option.splits)
  have "length (filter P qs) = length qs \<longleftrightarrow> (\<forall>q \<in> set qs. P q)" for P and qs :: "ui_question list"
    using sum_length_filter_compl [of P qs] by (auto simp: filter_empty_conv)
  then show ?thesis
    unfolding buildPendingUserInputAnswers_def countAnsweredPendingUserInputQuestions_def built count by simp
qed

end
