(* ===== verification/Presentation_Properties.thy ===== *)
theory Presentation_Properties
  imports Presentation_Props Stream_Requests Samples
begin

text \<open>
  The properties of the presentation and of the answers, each with a request or a display state
  that meets its hypotheses.
\<close>

subsection \<open>Samples\<close>

definition sample_question :: "string \<Rightarrow> agent_question" where
  "sample_question i = \<lparr>qu_id = js i, qu_text = js ''Continue?'',
     qu_options = [\<lparr>do_id = js ''yes'', do_label = js ''Yes'', do_kind = js ''choice'', do_description = None\<rparr>],
     qu_multiple = False, qu_freeText = True, qu_header = None\<rparr>"

definition sample_ask :: "string \<Rightarrow> agent_request" where
  "sample_ask i = sample_approval\<lparr>rq_kind := Exactly QuestionReq, rq_options := [], rq_questions := [sample_question i]\<rparr>"

definition asking_state :: "string \<Rightarrow> stream_state" where
  "asking_state i = sample_state\<lparr>st_pending := [(js ''i1'', Pending (sample_ask i) False)]\<rparr>"

definition sample_drafts :: "draft_answer js_record" where
  "sample_drafts = [(js ''q1'', \<lparr>da_selected = Some [js ''yes''], da_custom = Some []\<rparr>)]"

lemmas question_samples = sample_question_def sample_ask_def asking_state_def sample_drafts_def sample_approval_def
  sample_state_def emptyStream_def

lemma sample_pending: "pendingRequest (asking_state i) (js ''i1'') = Inr (Found (sample_ask i))"
  by (simp add: pendingRequest_Found asking_state_def prop_get_def)

lemma trim_js [simp]: "trim (js ''yes'') = js ''yes''" "trim [] = []"
  by code_simp+

lemma sample_submitted:
  "submitted_answers (map presented_question (rq_questions (sample_ask ''q1''))) sample_drafts = Some [(js ''q1'', [js ''yes''])]"
  by (simp add: submitted_answers_def buildPendingUserInputAnswers_def question_samples presented_question_def
      resolvePendingUserInputAnswer_def draft_of_def member_get_def prop_get_def custom_of_def selected_of_def
      normalizeDraftAnswer_def normalizeSelectedOptionValues_def option_value_def prop_assign_def prop_put_def
      answer_list_def is_index_def js_def is_digit_def)

subsection \<open>Answers to questions\<close>

text \<open>
  A question named \<open>__proto__\<close> cannot be answered from the card: its answer is assigned to the
  prototype of the collected object and lost, so whatever is typed or chosen, the answers sent
  are refused for not answering each question.
\<close>

theorem proto_question_is_refused:
  assumes "pendingRequest s rid = Inr (Found r)" and "js ''__proto__'' \<in> set (map qu_id (rq_questions r))"
    and "submitted_answers (map presented_question (rq_questions r)) drafts = Some answers"
  shows "nativeQuestionAnswer s rid answers = Inl (Error ''Answer each question in this request.'')"
proof -
  let ?qs = "map presented_question (rq_questions r)" and ?p = "\<lambda>q. uq_id q \<noteq> js ''__proto__''"
  obtain built where b: "collect_answers drafts ?qs [] = Some built" and l: "length answers = length built"
    using assms(3) by (auto simp: submitted_answers_def buildPendingUserInputAnswers_def)
  have "length answers \<le> length (filter ?p ?qs)" using collect_answers_length [OF b] l by simp
  obtain q where "q \<in> set (rq_questions r)" and "qu_id q = js ''__proto__''" using assms(2) by auto
  then have proto: "presented_question q \<in> set ?qs" "\<not> ?p (presented_question q)"
    by (simp, simp add: presented_question_def)
  have "length (filter ?p ?qs) < length ?qs"
    using length_filter_less [where P = ?p, OF proto] .
  with \<open>length answers \<le> _\<close> show ?thesis using assms(1) by (simp add: nativeQuestionAnswer_def)
qed

theorem proto_question_is_refused_witness:
  "\<exists>answers. submitted_answers (map presented_question (rq_questions (sample_ask ''__proto__'')))
       [(js ''__proto__'', \<lparr>da_selected = Some [js ''yes''], da_custom = None\<rparr>)] = Some answers
     \<and> nativeQuestionAnswer (asking_state ''__proto__'') (js ''i1'') answers =
         Inl (Error ''Answer each question in this request.'')"
proof -
  have "submitted_answers (map presented_question (rq_questions (sample_ask ''__proto__'')))
       [(js ''__proto__'', \<lparr>da_selected = Some [js ''yes''], da_custom = None\<rparr>)] = Some []"
    by (simp add: submitted_answers_def buildPendingUserInputAnswers_def question_samples presented_question_def
        resolvePendingUserInputAnswer_def draft_of_def member_get_def prop_get_def custom_of_def selected_of_def
        normalizeDraftAnswer_def normalizeSelectedOptionValues_def option_value_def prop_assign_def)
  with proto_question_is_refused [OF sample_pending _ this] show ?thesis by (simp add: question_samples)
qed

subsection \<open>Approvals\<close>

text \<open>
  An approval is answered with an offered choice or not at all: \<open>nativeApprovalAnswer\<close> returns
  a value exactly when the request is pending, not yet submitted, no question, and the decision
  is one of its options; the answer then is that decision.
\<close>

theorem only_offered_decisions:
  "nativeApprovalAnswer s rid decision = Inr a \<longleftrightarrow> a = ChosenOption decision \<and>
     (\<exists>r. prop_get (st_pending s) rid = Some (Pending r False) \<and> rq_kind r \<noteq> Exactly QuestionReq
        \<and> decision \<in> do_id ` set (rq_options r))"
  by (rule nativeApprovalAnswer_Inr)

subsection \<open>Stray entries\<close>

text \<open>
  One event can make a conversation unreadable. Marking as submitted a request that the client
  does not hold, under the name of a member that every object inherits, leaves a pending entry
  without a request; the model of the conversation then is a \<open>TypeError\<close>.
\<close>

theorem inherited_name_breaks_the_model:
  assumes "ev_kind e = InputSubmitted" and "ev_itemId e = Some i" and "reduceEvent s e = Inr s'"
    and "prop_get (st_pending s) i = None" and "i \<in> set object_prototype_keys"
  shows "nativeConversationModel parse dp s' loc = Inl (TypeError ''undefined request options'')"
proof -
  have "reduce_submitted s e (advance s e) = Inr s'" using input_event_kind(2) [OF assms(3,1)] .
  then have "prop_get (st_pending s') i = Some (Stray True)"
    using assms(2,4,5) by (auto simp: reduce_submitted_def member_get_def)
  then have "\<not> no_stray s'" by (auto simp: no_stray_def dest!: prop_get_in_values)
  from projectPending_stray [OF this] show ?thesis by (simp add: nativeConversationModel_def)
qed

theorem inherited_name_breaks_the_model_witness:
  "\<exists>s'. reduceEvent sample_state ((plain_event InputSubmitted 1)\<lparr>ev_itemId := Some (js ''constructor'')\<rparr>) = Inr s'
     \<and> nativeConversationModel (\<lambda>_. None) sample_dates s' En = Inl (TypeError ''undefined request options'')"
proof -
  let ?e = "(plain_event InputSubmitted 1)\<lparr>ev_itemId := Some (js ''constructor'')\<rparr>"
  obtain s' where "reduceEvent sample_state ?e = Inr s'"
    by (simp add: event_samples sample_state_def reduce_evals is_index_def prop_get_def object_prototype_keys_def)
  moreover have "prop_get (st_pending sample_state) (js ''constructor'') = None"
    by (simp add: sample_state_def emptyStream_def)
  ultimately show ?thesis
    using inherited_name_breaks_the_model [of ?e "js ''constructor''" sample_state s' "\<lambda>_. None" sample_dates En]
    by (auto simp: plain_event_def object_prototype_keys_def)
qed

end
