(* ===== verification/Js_Library.thy ===== *)
theory Js_Library
  imports Js_Value "HOL-Library.Sublist"
begin

text \<open>
  More of the string library of the language: \<open>indexOf\<close>, \<open>split\<close> at white space, and the two
  operations that rest on tables of the platform, which are parameters: \<open>toLowerCase\<close> and
  \<open>localeCompare\<close>.
\<close>

type_synonym lower_case = "jstr \<Rightarrow> jstr" \<comment> \<open>\<open>toLowerCase\<close>\<close>
type_synonym collation = "jstr \<Rightarrow> jstr \<Rightarrow> int" \<comment> \<open>\<open>localeCompare\<close>\<close>

text \<open>\<open>localeCompare\<close> is a consistent comparison.\<close>

definition consistent :: "('a \<Rightarrow> 'a \<Rightarrow> int) \<Rightarrow> bool" where
  "consistent cmp \<longleftrightarrow> (\<forall>a b. cmp a b < 0 \<longleftrightarrow> 0 < cmp b a)
     \<and> (\<forall>a b c. cmp a b \<le> 0 \<longrightarrow> cmp b c \<le> 0 \<longrightarrow> cmp a c \<le> 0)"

subsection \<open>\<open>indexOf\<close>\<close>

fun index_of :: "jstr \<Rightarrow> jstr \<Rightarrow> nat option" where
  "index_of [] p = (if p = [] then Some 0 else None)"
| "index_of (u # s) p = (if startsWith (u # s) p then Some 0 else map_option Suc (index_of s p))"

lemma startsWith_iff: "startsWith s p \<longleftrightarrow> prefix p s"
  by (auto simp: startsWith_def prefix_def) (metis append_take_drop_id)

lemma index_of_iff: "index_of s p \<noteq> None \<longleftrightarrow> sublist p s"
proof (induction s)
  case Nil
  then show ?case by simp
next
  case (Cons u s)
  then show ?case by (auto simp: startsWith_iff sublist_Cons_right)
qed

lemma index_of_Some:
  "index_of s p = Some i \<Longrightarrow> \<exists>a b. s = a @ p @ b \<and> length a = i"
proof (induction s arbitrary: i)
  case Nil
  then show ?case by (simp split: if_splits)
next
  case (Cons u s)
  show ?case
  proof (cases "startsWith (u # s) p")
    case True
    then show ?thesis using Cons.prems by (auto simp: startsWith_iff prefix_def)
  next
    case False
    then obtain j where "index_of s p = Some j" "i = Suc j" using Cons.prems by auto
    with Cons.IH obtain a b where "s = a @ p @ b" "length a = j" by blast
    then show ?thesis using \<open>i = Suc j\<close> by (intro exI [of _ "u # a"] exI [of _ b]) simp
  qed
qed

subsection \<open>\<open>split(/\s+/)\<close>\<close>

function split_spaces :: "jstr \<Rightarrow> jstr list" where
  "split_spaces s = (let word = takeWhile (\<lambda>u. \<not> is_space u) s; rest = dropWhile (\<lambda>u. \<not> is_space u) s in
     if rest = [] then [word] else word # split_spaces (dropWhile is_space rest))"
  by pat_completeness auto

lemma length_skip_spaces:
  assumes "dropWhile (\<lambda>u. \<not> is_space u) s \<noteq> []"
  shows "length (dropWhile is_space (dropWhile (\<lambda>u. \<not> is_space u) s)) < length s"
proof -
  let ?r = "dropWhile (\<lambda>u. \<not> is_space u) s"
  have "is_space (hd ?r)" using hd_dropWhile [OF assms] by simp
  then have "length (dropWhile is_space ?r) < length ?r"
    using assms by (cases ?r) (auto intro: le_less_trans [OF length_dropWhile_le])
  also have "\<dots> \<le> length s" by (rule length_dropWhile_le)
  finally show ?thesis .
qed

termination split_spaces
  by (relation "measure length") (auto simp: length_skip_spaces)

declare split_spaces.simps [simp del]

text \<open>The words of a text are free of white space, and spell the text without it.\<close>

lemma split_spaces_words: "w \<in> set (split_spaces s) \<Longrightarrow> \<not> list_ex is_space w"
proof (induction s rule: split_spaces.induct)
  case (1 s)
  let ?w = "takeWhile (\<lambda>u. \<not> is_space u) s" and ?r = "dropWhile (\<lambda>u. \<not> is_space u) s"
  have w: "\<not> list_ex is_space ?w" by (auto simp: list_ex_iff dest: set_takeWhileD)
  show ?case
  proof (cases "?r = []")
    case True
    then show ?thesis using 1(2) w by (subst (asm) split_spaces.simps) (simp add: Let_def)
  next
    case False
    then have "w = ?w \<or> w \<in> set (split_spaces (dropWhile is_space ?r))"
      using 1(2) unfolding split_spaces.simps [of s] Let_def if_not_P [OF False] by simp
    then show ?thesis using w 1(1) [OF refl refl False] by blast
  qed
qed

end
