(* ===== verification/Search.thy ===== *)
theory Search
  imports Js_Library
begin

text \<open>
  \<open>web/src/upstream/t3/searchRanking.ts\<close> and \<open>modelPickerSearch.ts\<close>: scores of a text against a
  query, the insertion of a result into a bounded ranking, and the search of the model picker.
  Scores are integers; a lower one is better.
\<close>

subsection \<open>Scores\<close>

text \<open>The pattern to trim is a function that removes its first match.\<close>

definition normalizeSearchQuery :: "lower_case \<Rightarrow> jstr \<Rightarrow> (jstr \<Rightarrow> jstr) option \<Rightarrow> jstr" where
  "normalizeSearchQuery lower input trimLeadingPattern =
     (let trimmed = trim input in
      if trimmed = [] then []
      else case trimLeadingPattern of Some strip \<Rightarrow> lower (strip trimmed) | None \<Rightarrow> lower trimmed)"

text \<open>The loop over the units of \<open>value\<close>, with the units of the query that are still to match.\<close>

fun subsequence_scan :: "nat \<Rightarrow> nat \<Rightarrow> jstr \<Rightarrow> jstr \<Rightarrow> int \<Rightarrow> int \<Rightarrow> int \<Rightarrow> int \<Rightarrow> int option" where
  "subsequence_scan vlen qlen [] query valueIndex first previous gap = None"
| "subsequence_scan vlen qlen (u # value) [] valueIndex first previous gap =
     subsequence_scan vlen qlen value [] (valueIndex + 1) first previous gap"
| "subsequence_scan vlen qlen (u # value) (c # query) valueIndex first previous gap =
     (if u \<noteq> c then subsequence_scan vlen qlen value (c # query) (valueIndex + 1) first previous gap
      else
        (let first' = (if first = -1 then valueIndex else first);
             gap' = (if previous \<noteq> -1 then gap + (valueIndex - previous - 1) else gap) in
         if query = [] then
           Some (first' * 2 + gap' * 3 + (valueIndex - first' + 1 - int qlen) + min 64 (int vlen - int qlen))
         else subsequence_scan vlen qlen value query (valueIndex + 1) first' valueIndex gap'))"

definition scoreSubsequenceMatch :: "jstr \<Rightarrow> jstr \<Rightarrow> int option" where
  "scoreSubsequenceMatch value query =
     (if query = [] then Some 0
      else subsequence_scan (length value) (length query) value query 0 (-1) (-1) 0)"

definition lengthPenalty :: "jstr \<Rightarrow> jstr \<Rightarrow> int" where
  "lengthPenalty value query = min 64 (max 0 (int (length value) - int (length query)))"

definition findBoundaryMatchIndex :: "jstr \<Rightarrow> jstr \<Rightarrow> jstr list \<Rightarrow> nat option" where
  "findBoundaryMatchIndex value query boundaryMarkers = foldl (\<lambda>bestIndex marker.
     case index_of value (marker @ query) of
       None \<Rightarrow> bestIndex
     | Some index \<Rightarrow>
         (let matchIndex = index + length marker in
          case bestIndex of
            None \<Rightarrow> Some matchIndex
          | Some best \<Rightarrow> if matchIndex < best then Some matchIndex else bestIndex))
     None boundaryMarkers"

record query_bases =
  qb_exact :: int
  qb_prefix :: "int option"
  qb_boundary :: "int option"
  qb_includes :: "int option"
  qb_fuzzy :: "int option"
  qb_markers :: "jstr list option"

definition default_markers :: "jstr list" where
  "default_markers = map js ['' '', ''-'', ''_'', ''/'']"

text \<open>The tiers below an exact match, each tried where its base is given.\<close>

definition prefix_score :: "query_bases \<Rightarrow> jstr \<Rightarrow> jstr \<Rightarrow> int option" where
  "prefix_score bases value query = (case qb_prefix bases of
       Some base \<Rightarrow> if startsWith value query then Some (base + lengthPenalty value query) else None
     | None \<Rightarrow> None)"

definition boundary_score :: "query_bases \<Rightarrow> jstr \<Rightarrow> jstr \<Rightarrow> int option" where
  "boundary_score bases value query = (case qb_boundary bases of
       Some base \<Rightarrow> map_option (\<lambda>i. base + int i * 2 + lengthPenalty value query)
         (findBoundaryMatchIndex value query (get_or default_markers (qb_markers bases)))
     | None \<Rightarrow> None)"

definition includes_score :: "query_bases \<Rightarrow> jstr \<Rightarrow> jstr \<Rightarrow> int option" where
  "includes_score bases value query = (case qb_includes bases of
       Some base \<Rightarrow> map_option (\<lambda>i. base + int i * 2 + lengthPenalty value query) (index_of value query)
     | None \<Rightarrow> None)"

definition fuzzy_score :: "query_bases \<Rightarrow> jstr \<Rightarrow> jstr \<Rightarrow> int option" where
  "fuzzy_score bases value query = (case qb_fuzzy bases of
       Some base \<Rightarrow> map_option (\<lambda>s. base + s) (scoreSubsequenceMatch value query)
     | None \<Rightarrow> None)"

definition scoreQueryMatch :: "jstr \<Rightarrow> jstr \<Rightarrow> query_bases \<Rightarrow> int option" where
  "scoreQueryMatch value query bases =
     (if value = [] \<or> query = [] then None
      else if value = query then Some (qb_exact bases)
      else or_else (prefix_score bases value query)
        (or_else (boundary_score bases value query)
          (or_else (includes_score bases value query) (fuzzy_score bases value query))))"

subsection \<open>The bounded ranking\<close>

record 'a ranked =
  rk_item :: 'a
  rk_score :: int
  rk_tieBreaker :: jstr

definition compareRankedSearchResults :: "collation \<Rightarrow> 'a ranked \<Rightarrow> 'a ranked \<Rightarrow> int" where
  "compareRankedSearchResults collate left right =
     (let scoreDelta = rk_score left - rk_score right in
      if scoreDelta \<noteq> 0 then scoreDelta else collate (rk_tieBreaker left) (rk_tieBreaker right))"

text \<open>The binary search; \<open>None\<close> is a loop that does not end.\<close>

partial_function (option) insertion_loop ::
  "collation \<Rightarrow> 'a ranked list \<Rightarrow> 'a ranked \<Rightarrow> nat \<Rightarrow> nat \<Rightarrow> nat option" where
  "insertion_loop collate entries candidate low high =
     (if low < high then
        (let middle = low + (high - low) div 2 in
         if \<not> middle < length entries then Some low
         else if compareRankedSearchResults collate candidate (entries ! middle) < 0
         then insertion_loop collate entries candidate low middle
         else insertion_loop collate entries candidate (middle + 1) high)
      else Some low)"

definition findInsertionIndex :: "collation \<Rightarrow> 'a ranked list \<Rightarrow> 'a ranked \<Rightarrow> nat option" where
  "findInsertionIndex collate entries candidate = insertion_loop collate entries candidate 0 (length entries)"

definition insert_at :: "nat \<Rightarrow> 'a \<Rightarrow> 'a list \<Rightarrow> 'a list" where
  "insert_at i x xs = take i xs @ x # drop i xs" \<comment> \<open>\<open>splice(i, 0, x)\<close>\<close>

definition insertRankedSearchResult ::
  "collation \<Rightarrow> 'a ranked list \<Rightarrow> 'a ranked \<Rightarrow> int \<Rightarrow> 'a ranked list option" where
  "insertRankedSearchResult collate entries candidate limit =
     (if limit \<le> 0 then Some entries
      else Option.bind (findInsertionIndex collate entries candidate) (\<lambda>insertionIndex.
        if int (length entries) < limit then Some (insert_at insertionIndex candidate entries)
        else if limit \<le> int insertionIndex then Some entries
        else Some (butlast (insert_at insertionIndex candidate entries))))"

subsection \<open>The model picker\<close>

record searchable_model =
  sm_driverKind :: jstr
  sm_providerDisplayName :: jstr
  sm_name :: jstr
  sm_shortName :: "jstr option"
  sm_subProvider :: "jstr option"
  sm_isFavorite :: "bool option"

definition favorite_score_boost :: int where
  "favorite_score_boost = 24"

definition buildModelPickerSearchText :: "lower_case \<Rightarrow> searchable_model \<Rightarrow> jstr" where
  "buildModelPickerSearchText lower model = normalizeSearchQuery lower
     (join [32] (map (get_or []) (filter truthy
        [Some (sm_name model), sm_shortName model, sm_subProvider model, Some (sm_driverKind model),
         Some (sm_providerDisplayName model)]))) None"

definition optional_field :: "lower_case \<Rightarrow> jstr option \<Rightarrow> jstr list" where
  "optional_field lower value = (if truthy value then [normalizeSearchQuery lower (get_or [] value) None] else [])"

definition getModelPickerSearchFields :: "lower_case \<Rightarrow> searchable_model \<Rightarrow> jstr list" where
  "getModelPickerSearchFields lower model =
     [normalizeSearchQuery lower (sm_name model) None] @ optional_field lower (sm_shortName model)
     @ optional_field lower (sm_subProvider model) @ [normalizeSearchQuery lower (sm_driverKind model) None,
       normalizeSearchQuery lower (sm_providerDisplayName model) None, buildModelPickerSearchText lower model]"

definition scoreModelPickerSearchToken :: "jstr \<Rightarrow> jstr \<Rightarrow> int \<Rightarrow> int option" where
  "scoreModelPickerSearchToken value token fieldBase = scoreQueryMatch value token
     \<lparr>qb_exact = fieldBase, qb_prefix = Some (fieldBase + 2), qb_boundary = Some (fieldBase + 4),
      qb_includes = Some (fieldBase + 6), qb_fuzzy = (if 3 \<le> length token then Some (fieldBase + 100) else None),
      qb_markers = None\<rparr>"

definition token_scores :: "jstr list \<Rightarrow> jstr \<Rightarrow> int list" where
  "token_scores texts token = List.map_filter
     (\<lambda>(index, value). scoreModelPickerSearchToken value token (int index * 10)) (enumerate 0 texts)"

fun score_tokens :: "jstr list \<Rightarrow> jstr list \<Rightarrow> int \<Rightarrow> int option" where
  "score_tokens texts [] score = Some score"
| "score_tokens texts (token # tokens) score =
     (case token_scores texts token of
        [] \<Rightarrow> None
      | s # ss \<Rightarrow> score_tokens texts tokens (score + foldl min s ss))"

definition search_tokens :: "lower_case \<Rightarrow> jstr \<Rightarrow> jstr list" where
  "search_tokens lower query = filter (\<lambda>token. 0 < length token) (split_spaces (normalizeSearchQuery lower query None))"

definition scoreModelPickerSearch :: "lower_case \<Rightarrow> searchable_model \<Rightarrow> jstr \<Rightarrow> int option" where
  "scoreModelPickerSearch lower model query =
     (let tokens = search_tokens lower query in
      if tokens = [] then Some 0
      else map_option (\<lambda>score. if sm_isFavorite model = Some True then score - favorite_score_boost else score)
        (score_tokens (getModelPickerSearchFields lower model) tokens 0))"

end
