(* ===== verification/Search_Props.thy ===== *)
theory Search_Props
  imports Search "HOL-Library.Multiset"
begin

text \<open>
  Lemmas on the search: which texts a query finds and with what scores, the binary search of the
  ranking, and the ranking as the first entries of a stable sort.
\<close>

subsection \<open>Subsequences\<close>

lemma scan_iff:
  "query \<noteq> [] \<Longrightarrow> subsequence_scan n m value query i first previous gap \<noteq> None \<longleftrightarrow> subseq query value"
proof (induction n m "value" query i first previous gap rule: subsequence_scan.induct)
  case (3 n m u "value" c query i first previous gap)
  then show ?case
    by (cases "query = []") (auto simp: Let_def subseq_Cons2_iff)
qed simp_all

lemma subsequence_match_iff: "scoreSubsequenceMatch value query \<noteq> None \<longleftrightarrow> subseq query value"
  using scan_iff [of query "length value" "length query" "value" 0 "-1" "-1" 0]
  by (cases "query = []") (simp_all add: scoreSubsequenceMatch_def)

text \<open>What the scan has passed so far is no shorter than what it has matched.\<close>

definition scan_state :: "nat \<Rightarrow> nat \<Rightarrow> int \<Rightarrow> int \<Rightarrow> int \<Rightarrow> bool" where
  "scan_state m rest i first previous \<longleftrightarrow> rest \<le> m \<and>
     (if first = -1 then rest = m \<and> previous = -1
      else 0 \<le> first \<and> first \<le> previous \<and> previous < i \<and> int m - int rest \<le> i - first)"

lemma scan_step:
  assumes "scan_state m (Suc rest) i first previous" and "0 \<le> i"
  shows "scan_state m rest (i + 1) (if first = -1 then i else first) i"
  using assms by (cases "first = -1") (auto simp: scan_state_def)

lemma scan_skip: "scan_state m rest i first previous \<Longrightarrow> scan_state m rest (i + 1) first previous"
  by (simp add: scan_state_def split: if_splits)

lemma scan_gap:
  "scan_state m (Suc rest) i first previous \<Longrightarrow> 0 \<le> gap \<Longrightarrow>
     0 \<le> (if previous \<noteq> -1 then gap + (i - previous - 1) else gap)"
  by (cases "first = -1") (auto simp: scan_state_def)

lemma scan_bound:
  assumes "subsequence_scan n m value query i first previous gap = Some s"
    and "int n = i + int (length value)" "0 \<le> i" "0 \<le> gap" "scan_state m (length query) i first previous"
  shows "0 \<le> s"
  using assms
proof (induction n m "value" query i first previous gap rule: subsequence_scan.induct)
  case (2 n m u "value" i first previous gap)
  show ?case by (rule "2.IH") (use 2(2-5) scan_skip [OF 2(6)] in simp_all)
next
  case (3 n m u "value" c query i first previous gap)
  let ?first = "if first = -1 then i else first" and ?gap = "if previous \<noteq> -1 then gap + (i - previous - 1) else gap"
  show ?case
  proof (cases "u = c")
    case False
    show ?thesis by (rule "3.IH"(1)) (use 3(3-6) scan_skip [OF 3(7)] False in simp_all)
  next
    case True
    have gap: "0 \<le> ?gap" using scan_gap 3(6,7) by simp
    have st: "scan_state m (length query) (i + 1) ?first i" using scan_step 3(5,7) by simp
    show ?thesis
    proof (cases "query = []")
      case True
      then have "s = ?first * 2 + ?gap * 3 + (i - ?first + 1 - int m) + min 64 (int n - int m)"
        using 3(3) \<open>u = c\<close> by (simp add: Let_def split: if_splits)
      moreover have "0 \<le> ?first" "int m \<le> i - ?first + 1" "int m \<le> int n"
        using st True 3(4,5) by (auto simp: scan_state_def split: if_splits)
      ultimately show ?thesis using gap by linarith
    next
      case False
      then have "subsequence_scan n m value query (i + 1) ?first i ?gap = Some s"
        using 3(3) \<open>u = c\<close> by (simp add: Let_def)
      from "3.IH"(2) [OF _ refl refl False this] show ?thesis using 3(4,5) gap st \<open>u = c\<close> by simp
    qed
  qed
qed simp

lemma subsequence_score_nonneg: "scoreSubsequenceMatch value query = Some s \<Longrightarrow> 0 \<le> s"
  using scan_bound [of "length value" "length query" "value" query 0 "-1" "-1" 0 s]
  by (cases "query = []") (simp_all add: scoreSubsequenceMatch_def scan_state_def)

subsection \<open>Tokens\<close>

lemma boundary_found:
  "findBoundaryMatchIndex value query markers \<noteq> None \<longleftrightarrow> (\<exists>m \<in> set markers. sublist (m @ query) value)"
proof -
  let ?f = "\<lambda>bestIndex marker. case index_of value (marker @ query) of None \<Rightarrow> bestIndex
     | Some index \<Rightarrow> (let matchIndex = index + length marker in case bestIndex of None \<Rightarrow> Some matchIndex
          | Some best \<Rightarrow> if matchIndex < best then Some matchIndex else bestIndex)"
  have "foldl ?f b markers \<noteq> None \<longleftrightarrow> b \<noteq> None \<or> (\<exists>m \<in> set markers. index_of value (m @ query) \<noteq> None)" for b
  proof (induction markers arbitrary: b)
    case (Cons m markers)
    have "?f b m \<noteq> None \<longleftrightarrow> b \<noteq> None \<or> index_of value (m @ query) \<noteq> None"
      by (auto simp: Let_def split: option.splits)
    then show ?case using Cons.IH [of "?f b m"] by auto
  qed simp
  then show ?thesis unfolding findBoundaryMatchIndex_def index_of_iff by blast
qed

lemma boundary_imp_sublist: "findBoundaryMatchIndex value query markers \<noteq> None \<Longrightarrow> sublist query value"
  unfolding boundary_found by (meson sublist_append_leftI sublist_order.order.refl sublist_order.order.trans)

lemma token_found:
  "scoreModelPickerSearchToken value token b \<noteq> None \<longleftrightarrow> value \<noteq> [] \<and> token \<noteq> []
     \<and> (if 3 \<le> length token then subseq token value else sublist token value)"
proof -
  have p: "startsWith value token \<Longrightarrow> sublist token value" by (simp add: startsWith_iff prefix_imp_sublist)
  have s: "sublist token value \<Longrightarrow> subseq token value" by (rule sublist_imp_subseq)
  have "startsWith value token \<or> findBoundaryMatchIndex value token default_markers \<noteq> None \<or> index_of value token \<noteq> None
      \<longleftrightarrow> sublist token value"
    using p boundary_imp_sublist [of "value" token default_markers] unfolding index_of_iff by blast
  then show ?thesis
    using s subsequence_match_iff [of "value" token]
    by (auto simp: scoreModelPickerSearchToken_def scoreQueryMatch_def prefix_score_def boundary_score_def
        includes_score_def fuzzy_score_def simp del: not_None_eq)
qed

lemma set_map_filter: "y \<in> set (List.map_filter f xs) \<longleftrightarrow> (\<exists>x \<in> set xs. f x = Some y)"
  by (induction xs) (auto simp: map_filter_simps split: option.splits)

lemma token_scores_iff: "s \<in> set (token_scores texts token) \<longleftrightarrow>
    (\<exists>i < length texts. scoreModelPickerSearchToken (texts ! i) token (int i * 10) = Some s)"
proof -
  have e: "enumerate 0 texts = map (\<lambda>i. (i, texts ! i)) [0..<length texts]"
    by (rule nth_equalityI) (simp_all add: nth_enumerate_eq)
  show ?thesis unfolding token_scores_def set_map_filter e by auto
qed

lemma token_scores_found: "token_scores texts token \<noteq> [] \<longleftrightarrow>
    (\<exists>v \<in> set texts. v \<noteq> [] \<and> token \<noteq> [] \<and> (if 3 \<le> length token then subseq token v else sublist token v))"
proof -
  have "token_scores texts token \<noteq> [] \<longleftrightarrow> (\<exists>s. s \<in> set (token_scores texts token))"
    by (cases "token_scores texts token") auto
  also have "\<dots> \<longleftrightarrow> (\<exists>i < length texts. scoreModelPickerSearchToken (texts ! i) token (int i * 10) \<noteq> None)"
    unfolding token_scores_iff by blast
  also have "\<dots> \<longleftrightarrow> (\<exists>v \<in> set texts. v \<noteq> [] \<and> token \<noteq> []
      \<and> (if 3 \<le> length token then subseq token v else sublist token v))"
    unfolding token_found by (metis in_set_conv_nth)
  finally show ?thesis .
qed

lemma score_tokens_found: "score_tokens texts tokens score \<noteq> None \<longleftrightarrow> (\<forall>t \<in> set tokens. token_scores texts t \<noteq> [])"
  by (induction tokens arbitrary: score) (auto split: list.splits)

lemma token_score_bound:
  assumes "scoreModelPickerSearchToken value token b = Some s"
  shows "b \<le> s"
proof -
  have "0 \<le> lengthPenalty value token" by (simp add: lengthPenalty_def)
  then show ?thesis using assms subsequence_score_nonneg [of "value" token]
    by (auto simp: scoreModelPickerSearchToken_def scoreQueryMatch_def prefix_score_def boundary_score_def
        includes_score_def fuzzy_score_def or_else_def split: if_splits option.splits)
qed

lemma score_tokens_bound: "score_tokens texts tokens score = Some s \<Longrightarrow> 0 \<le> score \<Longrightarrow> 0 \<le> s"
proof (induction tokens arbitrary: score)
  case (Cons t tokens)
  then obtain x xs where x: "token_scores texts t = x # xs" "score_tokens texts tokens (score + foldl min x xs) = Some s"
    by (auto split: list.splits)
  have "\<forall>y \<in> set (x # xs). 0 \<le> y"
    unfolding x(1) [symmetric] by (auto simp: token_scores_iff dest!: token_score_bound)
  moreover have "0 \<le> foldl min a ys" if "0 \<le> a" "\<forall>y \<in> set ys. 0 \<le> y" for a :: int and ys
    using that by (induction ys arbitrary: a) auto
  ultimately have "0 \<le> foldl min x xs" by simp
  then show ?case using Cons.IH [OF x(2)] Cons.prems(2) by simp
qed simp

subsection \<open>The binary search\<close>

lemma insertion_loop_returns:
  "low \<le> high \<Longrightarrow> high \<le> length entries \<Longrightarrow>
     \<exists>i. insertion_loop collate entries candidate low high = Some i \<and> low \<le> i \<and> i \<le> high"
proof (induction "high - low" arbitrary: low high rule: less_induct)
  case less
  show ?case
  proof (cases "low < high")
    case False
    then show ?thesis using less.prems by (subst insertion_loop.simps) simp
  next
    case True
    define middle where "middle = low + (high - low) div 2"
    have m: "low \<le> middle" "middle < high" using True by (auto simp: middle_def)
    have "\<exists>i. insertion_loop collate entries candidate low middle = Some i \<and> low \<le> i \<and> i \<le> middle"
      using m less.prems by (intro less.hyps) auto
    moreover have "\<exists>i. insertion_loop collate entries candidate (middle + 1) high = Some i \<and> middle + 1 \<le> i \<and> i \<le> high"
      using m less.prems by (intro less.hyps) auto
    ultimately show ?thesis
      using True m less.prems by (subst insertion_loop.simps) (auto simp: Let_def middle_def [symmetric])
  qed
qed

definition ranked_sorted :: "collation \<Rightarrow> 'a ranked list \<Rightarrow> bool" where
  "ranked_sorted collate = sorted_wrt (\<lambda>a b. compareRankedSearchResults collate a b \<le> 0)"

lemma compare_consistent: "consistent collate \<Longrightarrow> consistent (compareRankedSearchResults collate)"
  unfolding consistent_def compareRankedSearchResults_def Let_def
  by (intro conjI allI impI; simp split: if_splits; smt (verit))

lemma before_trans: "consistent cmp \<Longrightarrow> cmp c a < 0 \<Longrightarrow> cmp a b \<le> 0 \<Longrightarrow> cmp c b < 0"
  unfolding consistent_def by (meson not_le)

lemma after_trans: "consistent cmp \<Longrightarrow> \<not> cmp c b < 0 \<Longrightarrow> cmp a b \<le> 0 \<Longrightarrow> \<not> cmp c a < 0"
  by (meson before_trans)

lemma insertion_loop_place:
  assumes "consistent collate" and "ranked_sorted collate entries"
    and "insertion_loop collate entries candidate low high = Some i" and "low \<le> high" "high \<le> length entries"
    and "\<forall>j < low. \<not> compareRankedSearchResults collate candidate (entries ! j) < 0"
    and "\<forall>j < length entries. high \<le> j \<longrightarrow> compareRankedSearchResults collate candidate (entries ! j) < 0"
  shows "(\<forall>j < i. \<not> compareRankedSearchResults collate candidate (entries ! j) < 0)
     \<and> (\<forall>j < length entries. i \<le> j \<longrightarrow> compareRankedSearchResults collate candidate (entries ! j) < 0)"
  using assms(3-7)
proof (induction "high - low" arbitrary: low high rule: less_induct)
  case less
  let ?cmp = "compareRankedSearchResults collate"
  note c = compare_consistent [OF assms(1)]
  have sorted: "?cmp (entries ! j) (entries ! k) \<le> 0" if "j < k" "k < length entries" for j k
    using assms(2) that by (simp add: ranked_sorted_def sorted_wrt_iff_nth_less)
  show ?case
  proof (cases "low < high")
    case False
    then have "i = low" using less.prems(1) by (subst (asm) insertion_loop.simps) simp
    then show ?thesis using less.prems False by simp
  next
    case True
    define middle where "middle = low + (high - low) div 2"
    have m: "low \<le> middle" "middle < high" "middle < length entries" using True less.prems(3) by (auto simp: middle_def)
    show ?thesis
    proof (cases "?cmp candidate (entries ! middle) < 0")
      case before: True
      then have "insertion_loop collate entries candidate low middle = Some i"
        using less.prems(1) True m by (subst (asm) insertion_loop.simps) (simp add: Let_def middle_def [symmetric])
      moreover have "?cmp candidate (entries ! j) < 0" if "j < length entries" "middle \<le> j" for j
        using sorted [of middle j] that before before_trans [OF c before] by (cases "middle = j") auto
      ultimately show ?thesis using less.prems m by (intro less.hyps [of middle low]) auto
    next
      case after: False
      then have "insertion_loop collate entries candidate (middle + 1) high = Some i"
        using less.prems(1) True m by (subst (asm) insertion_loop.simps) (simp add: Let_def middle_def [symmetric])
      moreover have "\<not> ?cmp candidate (entries ! j) < 0" if "j < middle + 1" for j
        using sorted [of j middle] that after m(3) after_trans [OF c after] by (cases "j = middle") auto
      ultimately show ?thesis using less.prems m by (intro less.hyps [of high "middle + 1"]) auto
    qed
  qed
qed

subsection \<open>The ranking\<close>

text \<open>Stable insertion: behind every entry that is not worse than the candidate.\<close>

fun place :: "('a \<Rightarrow> 'a \<Rightarrow> int) \<Rightarrow> 'a \<Rightarrow> 'a list \<Rightarrow> 'a list" where
  "place cmp c [] = [c]"
| "place cmp c (x # xs) = (if cmp c x < 0 then c # x # xs else x # place cmp c xs)"

lemma length_place [simp]: "length (place cmp c xs) = Suc (length xs)"
  by (induction xs) auto

lemma mset_place: "mset (place cmp c xs) = add_mset c (mset xs)"
  by (induction xs) auto

lemma set_place: "set (place cmp c xs) = insert c (set xs)"
  by (induction xs) auto

lemma place_split:
  assumes "i \<le> length xs" and "\<forall>j < i. \<not> cmp c (xs ! j) < 0" and "\<forall>j < length xs. i \<le> j \<longrightarrow> cmp c (xs ! j) < 0"
  shows "place cmp c xs = insert_at i c xs"
  using assms
proof (induction xs arbitrary: i)
  case Nil
  then show ?case by (simp add: insert_at_def)
next
  case (Cons x xs)
  show ?case
  proof (cases i)
    case 0
    then show ?thesis using Cons.prems(3) by (force simp: insert_at_def)
  next
    case (Suc k)
    then have "\<not> cmp c x < 0" using Cons.prems(2) by force
    moreover have "place cmp c xs = insert_at k c xs"
      using Cons.prems Suc by (intro Cons.IH) force+
    ultimately show ?thesis by (simp add: Suc insert_at_def)
  qed
qed

lemma place_sorted:
  assumes "consistent cmp" and "sorted_wrt (\<lambda>a b. cmp a b \<le> 0) xs"
  shows "sorted_wrt (\<lambda>a b. cmp a b \<le> 0) (place cmp c xs)"
  using assms(2)
proof (induction xs)
  case (Cons x xs)
  show ?case
  proof (cases "cmp c x < 0")
    case True
    then show ?thesis using Cons.prems before_trans [OF assms(1) True] by fastforce
  next
    case False
    then have "cmp x c \<le> 0" using assms(1) by (auto simp: consistent_def)
    then show ?thesis using Cons False by (auto simp: set_place)
  qed
qed simp

lemma take_place: "take k (place cmp c xs) = take k (place cmp c (take k xs))"
proof (induction xs arbitrary: k)
  case (Cons x xs)
  then show ?case by (cases k) (auto simp: take_Cons')
qed simp

lemma insertRanked_place:
  assumes "consistent collate" and "ranked_sorted collate entries" and "length entries \<le> k"
  shows "insertRankedSearchResult collate entries c (int k) = Some (take k (place (compareRankedSearchResults collate) c entries))"
proof (cases k)
  case 0
  then show ?thesis using assms(3) by (simp add: insertRankedSearchResult_def)
next
  case (Suc m)
  obtain i where i: "insertion_loop collate entries c 0 (length entries) = Some i" "i \<le> length entries"
    using insertion_loop_returns [of 0 "length entries" entries collate c] by auto
  then have p: "place (compareRankedSearchResults collate) c entries = insert_at i c entries"
    using insertion_loop_place [OF assms(1,2) i(1)] by (intro place_split) auto
  have l: "length (insert_at i c entries) = Suc (length entries)" using i(2) by (simp add: insert_at_def)
  consider "length entries < k" | "length entries = k" "k \<le> i" | "length entries = k" "i < k" using assms(3) by linarith
  then show ?thesis
  proof cases
    case 1
    then show ?thesis using i l unfolding p by (simp add: insertRankedSearchResult_def findInsertionIndex_def)
  next
    case 2
    then have "insert_at i c entries = entries @ [c]" using i(2) by (simp add: insert_at_def)
    with 2 show ?thesis using i Suc unfolding p by (simp add: insertRankedSearchResult_def findInsertionIndex_def)
  next
    case 3
    have "butlast (insert_at i c entries) = take k (insert_at i c entries)" using 3 l by (simp add: butlast_conv_take)
    with 3 show ?thesis using i Suc unfolding p by (simp add: insertRankedSearchResult_def findInsertionIndex_def)
  qed
qed

text \<open>Ranking candidates one by one, and all of them without a bound.\<close>

definition rank_all :: "collation \<Rightarrow> 'a ranked list \<Rightarrow> int \<Rightarrow> 'a ranked list option" where
  "rank_all collate cs limit =
     foldl (\<lambda>r c. Option.bind r (\<lambda>entries. insertRankedSearchResult collate entries c limit)) (Some []) cs"

definition place_all :: "collation \<Rightarrow> 'a ranked list \<Rightarrow> 'a ranked list" where
  "place_all collate cs = foldl (\<lambda>xs c. place (compareRankedSearchResults collate) c xs) [] cs"

lemma place_all_snoc [simp]:
  "place_all collate (cs @ [c]) = place (compareRankedSearchResults collate) c (place_all collate cs)"
  by (simp add: place_all_def)

lemma place_all_sorted:
  assumes "consistent collate"
  shows "ranked_sorted collate (place_all collate cs) \<and> mset (place_all collate cs) = mset cs"
proof (induction cs rule: rev_induct)
  case (snoc c cs)
  then show ?case using place_sorted [OF compare_consistent [OF assms], of "place_all collate cs" c]
    by (simp add: ranked_sorted_def mset_place)
qed (simp_all add: place_all_def ranked_sorted_def)

lemma rank_all_take:
  assumes "consistent collate"
  shows "rank_all collate cs (int k) = Some (take k (place_all collate cs))"
proof (induction cs rule: rev_induct)
  case Nil
  then show ?case by (simp add: rank_all_def place_all_def)
next
  case (snoc c cs)
  let ?r = "take k (place_all collate cs)"
  have "ranked_sorted collate ?r"
    using place_all_sorted [OF assms, of cs] unfolding ranked_sorted_def by (simp add: sorted_wrt_take)
  from insertRanked_place [OF assms this, of k c] snoc show ?case
    by (simp add: rank_all_def take_place [of k _ c "place_all collate cs"])
qed

end
