(* ===== verification/Search_Properties.thy ===== *)
theory Search_Properties
  imports Search_Props
begin

text \<open>
  The properties of the search: the binary search returns, the bounded ranking keeps the best
  results of a stable sort, and exactly which models a query finds.
\<close>

definition plain_collation :: collation where
  "plain_collation a b = int (length a) - int (length b)"

lemma plain_collation_consistent: "consistent plain_collation"
  by (auto simp: consistent_def plain_collation_def)

text \<open>
  The binary search of the ranking always returns, whatever the order of the entries and
  whatever \<open>localeCompare\<close> says, and its index is a position of the list; so inserting a result
  returns too.
\<close>

theorem insertion_returns:
  "(\<exists>i \<le> length entries. findInsertionIndex collate entries candidate = Some i)
   \<and> (\<exists>following. insertRankedSearchResult collate entries candidate limit = Some following)"
proof -
  obtain i where "findInsertionIndex collate entries candidate = Some i" "i \<le> length entries"
    using insertion_loop_returns [of 0 "length entries" entries collate candidate]
    by (auto simp: findInsertionIndex_def)
  then show ?thesis by (auto simp: insertRankedSearchResult_def)
qed

text \<open>
  C25. A bounded ranking keeps the best. Under a consistent \<open>localeCompare\<close>, inserting candidates
  one by one into an empty ranking with a limit gives the first entries of the stable sort of all
  candidates: sorted, as many as the limit allows, and none left out is better than one kept.
\<close>

theorem ranking_keeps_the_best:
  assumes "consistent collate"
  shows "\<exists>r rest. rank_all collate cs (int k) = Some r \<and> place_all collate cs = r @ rest
     \<and> length r = min k (length cs) \<and> mset cs = mset r + mset rest \<and> ranked_sorted collate r
     \<and> (\<forall>a \<in> set r. \<forall>b \<in> set rest. compareRankedSearchResults collate a b \<le> 0)"
proof -
  let ?all = "place_all collate cs"
  note all = place_all_sorted [OF assms, of cs]
  have "sorted_wrt (\<lambda>a b. compareRankedSearchResults collate a b \<le> 0) (take k ?all @ drop k ?all)"
    using all by (simp add: ranked_sorted_def)
  then have "ranked_sorted collate (take k ?all)"
    "\<forall>a \<in> set (take k ?all). \<forall>b \<in> set (drop k ?all). compareRankedSearchResults collate a b \<le> 0"
    unfolding sorted_wrt_append ranked_sorted_def by blast+
  moreover have "length ?all = length cs" using all by (metis size_mset)
  moreover have "mset cs = mset (take k ?all) + mset (drop k ?all)"
    using all by (metis append_take_drop_id mset_append)
  ultimately show ?thesis using rank_all_take [OF assms, of cs k]
    by (intro exI [of _ "take k ?all"] exI [of _ "drop k ?all"]) (simp add: min.commute)
qed

theorem ranking_keeps_the_best_witness:
  "\<exists>r. rank_all plain_collation
      [\<lparr>rk_item = (1 :: nat), rk_score = 4, rk_tieBreaker = []\<rparr>, \<lparr>rk_item = 2, rk_score = 1, rk_tieBreaker = []\<rparr>,
       \<lparr>rk_item = 3, rk_score = 2, rk_tieBreaker = []\<rparr>] (int 2) = Some r \<and> length r = 2"
  using ranking_keeps_the_best [OF plain_collation_consistent, of
      "[\<lparr>rk_item = (1 :: nat), rk_score = 4, rk_tieBreaker = []\<rparr>, \<lparr>rk_item = 2, rk_score = 1, rk_tieBreaker = []\<rparr>,
       \<lparr>rk_item = 3, rk_score = 2, rk_tieBreaker = []\<rparr>]" 2] by auto

text \<open>
  C26. The model picker finds a model exactly if every word of the query occurs in one of its
  names: as a part of the name, or, from three units on, as a subsequence of it. No score is
  below the bonus of a favourite.
\<close>

theorem picker_finds_by_words:
  "(scoreModelPickerSearch lower model query \<noteq> None \<longleftrightarrow>
      (\<forall>token \<in> set (search_tokens lower query). \<exists>name \<in> set (getModelPickerSearchFields lower model).
         name \<noteq> [] \<and> (if 3 \<le> length token then subseq token name else sublist token name)))
   \<and> - favorite_score_boost \<le> get_or 0 (scoreModelPickerSearch lower model query)"
proof
  have ne: "\<forall>token \<in> set (search_tokens lower query). token \<noteq> []" by (auto simp: search_tokens_def)
  show "scoreModelPickerSearch lower model query \<noteq> None \<longleftrightarrow>
      (\<forall>token \<in> set (search_tokens lower query). \<exists>name \<in> set (getModelPickerSearchFields lower model).
         name \<noteq> [] \<and> (if 3 \<le> length token then subseq token name else sublist token name))"
    using ne score_tokens_found [of "getModelPickerSearchFields lower model" "search_tokens lower query" 0]
    unfolding scoreModelPickerSearch_def Let_def token_scores_found by (cases "search_tokens lower query = []") auto
  show "- favorite_score_boost \<le> get_or 0 (scoreModelPickerSearch lower model query)"
    using score_tokens_bound [of "getModelPickerSearchFields lower model" "search_tokens lower query" 0]
    by (cases "score_tokens (getModelPickerSearchFields lower model) (search_tokens lower query) 0")
      (auto simp: scoreModelPickerSearch_def Let_def favorite_score_boost_def)
qed

definition sample_model :: searchable_model where
  "sample_model = \<lparr>sm_driverKind = js ''d'', sm_providerDisplayName = js ''p'', sm_name = js ''sonnet'', sm_shortName = None,
     sm_subProvider = None, sm_isFavorite = None\<rparr>"

lemma sample_search:
  "search_tokens (\<lambda>s. s) (js ''snt p'') = [js ''snt'', js ''p'']"
  "getModelPickerSearchFields (\<lambda>s. s) sample_model = [js ''sonnet'', js ''d'', js ''p'', js ''sonnet d p'']"
  by code_simp+

theorem picker_finds_by_words_witness: "scoreModelPickerSearch (\<lambda>s. s) sample_model (js ''snt p'') \<noteq> None"
proof -
  have "subseq (js ''snt'') (js ''sonnet'')" "sublist (js ''p'') (js ''p'')" "js ''sonnet'' \<noteq> []" "js ''p'' \<noteq> []"
    "3 \<le> length (js ''snt'')" "\<not> 3 \<le> length (js ''p'')"
    by (simp_all add: js_def)
  then show ?thesis
    using picker_finds_by_words [of "\<lambda>s. s" sample_model "js ''snt p''"] unfolding sample_search by auto
qed

end
