(* ===== verification/Machine.thy ===== *)
theory Machine
  imports Prelude
begin

text \<open>
  Labelled machines: a step relation between states whose labels are the actions of the
  environment, its runs, and two contracts: a machine with an invariant, and one that also spends
  a finite budget on some of its actions.
\<close>

inductive runs :: "('s \<Rightarrow> 'a \<Rightarrow> 's \<Rightarrow> bool) \<Rightarrow> 's \<Rightarrow> 'a list \<Rightarrow> 's \<Rightarrow> bool" for step where
  start: "runs step s [] s"
| step: "runs step s as s' \<Longrightarrow> step s' a s'' \<Longrightarrow> runs step s (as @ [a]) s''"

lemma runs_single: "step s a s' \<Longrightarrow> runs step s [a] s'"
  using runs.step [OF runs.start] by fastforce

lemma runs_append: "runs step t bs u \<Longrightarrow> runs step s as t \<Longrightarrow> runs step s (as @ bs) u"
proof (induction rule: runs.induct)
  case (start t)
  then show ?case by simp
next
  case (step t bs u a v)
  then show ?case using runs.step [of step s "as @ bs" u a v] by simp
qed

lemma runs_split:
  assumes "runs step s (as @ bs) s''"
  shows "\<exists>s'. runs step s as s' \<and> runs step s' bs s''"
  using assms
proof (induction bs arbitrary: s'' rule: rev_induct)
  case Nil
  then show ?case using runs.start [of step s''] by auto
next
  case (snoc b bs)
  from snoc.prems obtain t where t: "runs step s (as @ bs) t" "step t b s''"
    by (cases rule: runs.cases) (auto simp flip: append_assoc)
  with snoc.IH obtain s' where "runs step s as s'" "runs step s' bs t" by blast
  then show ?case using runs.step [of step s' bs t b s''] t(2) by blast
qed

locale machine =
  fixes step :: "'s \<Rightarrow> 'a \<Rightarrow> 's \<Rightarrow> bool"
    and inv :: "'s \<Rightarrow> bool"
  assumes step_inv: "inv s \<Longrightarrow> step s a s' \<Longrightarrow> inv s'"
begin

lemma runs_inv: "runs step s as s' \<Longrightarrow> inv s \<Longrightarrow> inv s'"
  by (induction rule: runs.induct) (auto intro: step_inv)

text \<open>What every step keeps where the invariant holds, every run keeps.\<close>

lemma runs_keeps:
  assumes "runs step s as s'" and "inv s" and "P s"
    and "\<And>s a s'. inv s \<Longrightarrow> P s \<Longrightarrow> step s a s' \<Longrightarrow> P s'"
  shows "P s'"
  using assms(1-3)
proof (induction rule: runs.induct)
  case (step s as s' a s'')
  then show ?case using assms(4) runs_inv by blast
qed

end

locale budget_machine = machine step inv
  for step :: "'s \<Rightarrow> 'a \<Rightarrow> 's \<Rightarrow> bool" and inv :: "'s \<Rightarrow> bool" +
  fixes spends :: "'a \<Rightarrow> bool"
    and budget :: "'s \<Rightarrow> nat"
  assumes step_budget: "inv s \<Longrightarrow> step s a s' \<Longrightarrow> (if spends a then Suc (budget s') else budget s') \<le> budget s"
begin

lemma runs_budget: "runs step s as s' \<Longrightarrow> inv s \<Longrightarrow> length (filter spends as) + budget s' \<le> budget s"
proof (induction rule: runs.induct)
  case (step s as s' a s'')
  then show ?case using step_budget [OF runs_inv [OF step.hyps(1)] step.hyps(2)] by (auto split: if_splits)
qed simp

end

text \<open>
  A machine that makes calls one at a time: a call starts only while none is under way, and only the
  call under way settles. The cards and the composer are instances.
\<close>

locale flight_machine =
  fixes step :: "'s \<Rightarrow> 'a \<Rightarrow> 's \<Rightarrow> bool"
    and starts :: "'a \<Rightarrow> bool"
    and settles :: "'a \<Rightarrow> bool"
    and flying :: "'s \<Rightarrow> bool"
  assumes takes_off: "step s a s' \<Longrightarrow> starts a \<Longrightarrow> \<not> flying s \<and> flying s' \<and> \<not> settles a"
    and lands: "step s a s' \<Longrightarrow> settles a \<Longrightarrow> flying s \<and> \<not> flying s'"
    and cruises: "step s a s' \<Longrightarrow> \<not> starts a \<Longrightarrow> \<not> settles a \<Longrightarrow> flying s' = flying s"
begin

lemma one_flight:
  "runs step s as s' \<Longrightarrow> \<not> flying s \<Longrightarrow>
     length (filter starts as) = length (filter settles as) + (if flying s' then 1 else 0)"
proof (induction rule: runs.induct)
  case (step s as s' a s'')
  then show ?case using takes_off [of s' a s''] lands [of s' a s''] cruises [of s' a s''] by (auto split: if_splits)
qed simp

end

end
