(* ===== verification/Hook.thy ===== *)
theory Hook
  imports Seed Presentation Machine
begin

text \<open>
  \<open>web/src/useAgentStream.ts\<close>: one mounted effect of the hook as a state machine. The callbacks of
  the event stream, the answers of the client, the animation frame and the cleanup are its actions;
  each is the whole callback. \<open>JSON.parse\<close> is a parameter that returns a value or the message of its
  error; the transport (\<open>@xgc2/xrpc-client\<close>) is the environment that chooses the actions.
\<close>

subsection \<open>Connection\<close>

datatype connection =
  Idle | Connecting | Connected | InterruptedConn | Draining | InvalidConn | Refused

primrec connection_text :: "connection \<Rightarrow> string" where \<comment> \<open>\<open>AGENT_STREAM_STATUS\<close>\<close>
  "connection_text Idle = ''Not connected''"
| "connection_text Connecting = ''Connecting''"
| "connection_text Connected = ''Connected''"
| "connection_text InterruptedConn = ''Connection interrupted; resuming from the event cursor. The task is not resent.''"
| "connection_text Draining = ''The service is restarting; resuming from the event cursor. The task is not resent.''"
| "connection_text InvalidConn = ''Event validation failed''"
| "connection_text Refused = ''The event stream was refused''"

text \<open>What is thrown: an error of the transport with its code, another \<open>Error\<close>, or anything else as text.\<close>

datatype cause = XrpcCause (cause_code: jstr) (cause_message: jstr) | OtherCause (cause_message: jstr)

definition error_text :: "error \<Rightarrow> jstr" where
  "error_text e = (case e of Error m \<Rightarrow> js m | TypeError m \<Rightarrow> js m)"

subsection \<open>State\<close>

text \<open>
  \<open>Reading\<close> waits for the current seed, \<open>Following cursor reset\<close> for \<open>events\<close> to return, where \<open>cursor\<close>
  is that of the seed and \<open>reset\<close> the variable of that name; \<open>Ended\<close> is the end of \<open>follow\<close>.
\<close>

datatype follow_phase = Reading | Following nat bool | Ended

record hook =
  hk_current :: stream_state \<comment> \<open>\<open>current.current\<close>\<close>
  hk_state :: stream_state \<comment> \<open>the state of the component\<close>
  hk_connection :: connection
  hk_error :: jstr
  hk_lastReload :: nat
  hk_active :: bool
  hk_invalid :: bool
  hk_frame :: bool \<comment> \<open>an animation frame is requested\<close>
  hk_queue :: "unknown list"
  hk_bytes :: nat
  hk_phase :: follow_phase
  hk_resets :: nat

definition queue_byte_limit :: nat where "queue_byte_limit = 4 * 1024 * 1024"
definition queue_limit :: nat where "queue_limit = 256"
definition reset_limit :: nat where "reset_limit = 2"

text \<open>The effect starts anew where the session or \<open>reload\<close> changed.\<close>

definition mount :: "agent_session \<Rightarrow> nat \<Rightarrow> stream_state \<Rightarrow> stream_state \<Rightarrow> nat \<Rightarrow> hook" where
  "mount session reload current state lastReload =
     (let anew = (st_sessionId current \<noteq> se_id session \<or> lastReload \<noteq> reload);
          empty = emptyStream (se_id session) (se_provider session) in
      \<lparr>hk_current = (if anew then empty else current), hk_state = (if anew then empty else state),
       hk_connection = Connecting, hk_error = [], hk_lastReload = (if anew then reload else lastReload),
       hk_active = True, hk_invalid = False, hk_frame = False, hk_queue = [], hk_bytes = 0,
       hk_phase = Reading, hk_resets = 0\<rparr>)"

definition live :: "hook \<Rightarrow> bool" where
  "live h \<longleftrightarrow> hk_active h \<and> \<not> hk_invalid h"

definition fail :: "connection \<Rightarrow> jstr \<Rightarrow> hook \<Rightarrow> hook" where
  "fail status message h =
     (if \<not> live h then h
      else h\<lparr>hk_invalid := True, hk_queue := [], hk_bytes := 0, hk_connection := status, hk_error := message\<rparr>)"

subsection \<open>Events\<close>

definition flush :: "date_parser \<Rightarrow> (byte list \<Rightarrow> byte list) \<Rightarrow> hook \<Rightarrow> hook" where
  "flush dp sha h0 =
     (let h = h0\<lparr>hk_frame := False\<rparr> in
      if \<not> hk_active h then h
      else case fold_result (applyEvent dp sha) (hk_current h) (hk_queue h) of
          Inl e \<Rightarrow> fail InvalidConn (error_text e) h
        | Inr next_ \<Rightarrow> h\<lparr>hk_queue := [], hk_bytes := 0, hk_current := next_, hk_state := next_\<rparr>)"

type_synonym json_reader = "jstr \<Rightarrow> jstr + json"

text \<open>\<open>String(seq)\<close> of a safe integer.\<close>

definition check_cursor :: "json_reader \<Rightarrow> nat \<Rightarrow> jstr \<Rightarrow> jstr \<Rightarrow> jstr + unknown" where
  "check_cursor read cursor data i = (case read data of
       Inl message \<Rightarrow> Inl message
     | Inr parsed \<Rightarrow>
         (case own_member (Some parsed) ''seq'' of
            Some (JNum (IntNum seq)) \<Rightarrow>
              if \<not> isSafeInteger (IntNum seq) \<or> seq \<le> int cursor \<or> i \<noteq> number_text (IntNum seq)
              then Inl (js ''The stream cursor does not match its event.'') else Inr (Some parsed)
          | _ \<Rightarrow> Inl (js ''The stream cursor does not match its event.'')))"

definition take_in :: "date_parser \<Rightarrow> (byte list \<Rightarrow> byte list) \<Rightarrow> nat \<Rightarrow> unknown \<Rightarrow> hook \<Rightarrow> hook" where
  "take_in dp sha chars parsed h0 =
     (let h = (if hk_queue h0 \<noteq> [] \<and> queue_byte_limit < hk_bytes h0 + chars then flush dp sha h0 else h0) in
      if \<not> live h then h
      else
        (let q = h\<lparr>hk_queue := hk_queue h @ [parsed], hk_bytes := hk_bytes h + chars\<rparr> in
         if queue_limit \<le> length (hk_queue q) then flush dp sha q
         else if \<not> hk_frame q then q\<lparr>hk_frame := True\<rparr> else q))"

definition on_event ::
  "json_reader \<Rightarrow> date_parser \<Rightarrow> (byte list \<Rightarrow> byte list) \<Rightarrow> nat \<Rightarrow> bool \<Rightarrow> jstr \<Rightarrow> jstr \<Rightarrow> jstr \<Rightarrow> hook \<Rightarrow> hook" where
  "on_event read dp sha cursor reset name data i h =
     (if \<not> live h \<or> reset \<or> name \<noteq> js ''event'' then h
      else case check_cursor read cursor data i of
          Inl message \<Rightarrow> fail InvalidConn message h
        | Inr parsed \<Rightarrow> take_in dp sha (length data) parsed h)"

definition on_reset :: "nat \<Rightarrow> hook \<Rightarrow> hook" where
  "on_reset cursor h =
     (if \<not> live h then h
      else h\<lparr>hk_phase := Following cursor True, hk_frame := False, hk_queue := [], hk_bytes := 0,
             hk_connection := Connecting\<rparr>)"

definition set_connection :: "connection \<Rightarrow> hook \<Rightarrow> hook" where
  "set_connection status h = (if live h then h\<lparr>hk_connection := status\<rparr> else h)"

subsection \<open>Following\<close>

text \<open>The handler of \<open>follow().catch\<close>.\<close>

definition rejected :: "cause \<Rightarrow> hook \<Rightarrow> hook" where
  "rejected cause h0 =
     (let h = h0\<lparr>hk_phase := Ended\<rparr> in
      if \<not> live h then h
      else fail Refused (case cause of
          XrpcCause code message \<Rightarrow> message @ js '' ('' @ code @ js '')''
        | OtherCause message \<Rightarrow> message) h)"

definition exhausted_state :: "agent_session \<Rightarrow> stream_state" where
  "exhausted_state session = (emptyStream (se_id session) (se_provider session))
     \<lparr>st_worker := se_state session, st_historyBefore := Some 0\<rparr>"

definition seed_failed :: "agent_session \<Rightarrow> cause \<Rightarrow> hook \<Rightarrow> hook" where
  "seed_failed session cause h = rejected cause
     (case cause of
        XrpcCause code _ \<Rightarrow>
          if hk_active h \<and> code = js ''resource_exhausted''
          then h\<lparr>hk_current := exhausted_state session, hk_state := exhausted_state session\<rparr> else h
      | OtherCause _ \<Rightarrow> h)"

text \<open>The answer of \<open>getNativeCurrent\<close> is decoded before it is used.\<close>

definition seed_answered :: "date_parser \<Rightarrow> agent_session \<Rightarrow> unknown \<Rightarrow> hook \<Rightarrow> hook" where
  "seed_answered dp session body h = (case decodeCurrentSeed dp body session of
       Inl e \<Rightarrow> seed_failed session (OtherCause (error_text e)) h
     | Inr seed \<Rightarrow>
         if \<not> live h then h\<lparr>hk_phase := Ended\<rparr>
         else h\<lparr>hk_current := seed, hk_state := seed, hk_phase := Following (st_cursor seed) False\<rparr>)"

definition stream_returned :: "bool \<Rightarrow> hook \<Rightarrow> hook" where
  "stream_returned reset h =
     (if \<not> reset \<or> \<not> live h then h\<lparr>hk_phase := Ended\<rparr>
      else
        (let n = Suc (hk_resets h); h' = h\<lparr>hk_resets := n, hk_phase := Reading\<rparr> in
         if reset_limit < n
         then rejected (OtherCause (js ''The conversation cursor repeatedly reset; reopen the conversation.'')) h'
         else h'))"

definition unmount :: "hook \<Rightarrow> hook" where
  "unmount h = h\<lparr>hk_active := False, hk_frame := False, hk_queue := [], hk_bytes := 0\<rparr>"

text \<open>What the hook returns: the state of another session is not shown.\<close>

definition shown_state :: "agent_session option \<Rightarrow> stream_state \<Rightarrow> stream_state" where
  "shown_state session state =
     (if Some (st_sessionId state) = map_option se_id session then state
      else emptyStream (case session of None \<Rightarrow> [] | Some s \<Rightarrow> se_id s)
        (case session of None \<Rightarrow> Codex | Some s \<Rightarrow> se_provider s))"

subsection \<open>Steps\<close>

datatype hook_action =
    SeedAnswered unknown
  | SeedFailed cause
  | StreamOpened
  | StreamBroke
  | StreamClosing
  | CursorReset
  | EventArrived jstr jstr jstr
  | StreamReturned
  | StreamThrew cause
  | FrameFired
  | Unmounted

inductive hook_step ::
  "json_reader \<Rightarrow> date_parser \<Rightarrow> (byte list \<Rightarrow> byte list) \<Rightarrow> agent_session \<Rightarrow> hook \<Rightarrow> hook_action \<Rightarrow> hook \<Rightarrow> bool"
  for read dp sha session where
  answered: "hk_phase h = Reading \<Longrightarrow> hook_step read dp sha session h (SeedAnswered body) (seed_answered dp session body h)"
| failed: "hk_phase h = Reading \<Longrightarrow> hook_step read dp sha session h (SeedFailed cause) (seed_failed session cause h)"
| opened: "hk_phase h = Following cursor reset \<Longrightarrow>
    hook_step read dp sha session h StreamOpened (set_connection Connected h)"
| broke: "hk_phase h = Following cursor reset \<Longrightarrow>
    hook_step read dp sha session h StreamBroke (set_connection InterruptedConn h)"
| closing: "hk_phase h = Following cursor reset \<Longrightarrow>
    hook_step read dp sha session h StreamClosing (set_connection Draining h)"
| reset: "hk_phase h = Following cursor reset \<Longrightarrow> hook_step read dp sha session h CursorReset (on_reset cursor h)"
| event: "hk_phase h = Following cursor reset \<Longrightarrow>
    hook_step read dp sha session h (EventArrived name data i) (on_event read dp sha cursor reset name data i h)"
| returned: "hk_phase h = Following cursor reset \<Longrightarrow>
    hook_step read dp sha session h StreamReturned (stream_returned reset h)"
| threw: "hk_phase h = Following cursor reset \<Longrightarrow> hook_step read dp sha session h (StreamThrew cause) (rejected cause h)"
| fired: "hk_frame h \<Longrightarrow> hook_step read dp sha session h FrameFired (flush dp sha h)"
| unmounted: "hk_active h \<Longrightarrow> hook_step read dp sha session h Unmounted (unmount h)"

abbreviation hook_run ::
  "json_reader \<Rightarrow> date_parser \<Rightarrow> (byte list \<Rightarrow> byte list) \<Rightarrow> agent_session \<Rightarrow> hook \<Rightarrow> hook_action list \<Rightarrow> hook \<Rightarrow> bool"
  where "hook_run read dp sha session \<equiv> runs (hook_step read dp sha session)"

end
