(* ===== verification/Hook_Props.thy ===== *)
theory Hook_Props
  imports Hook Seed_Props Stream_Delivery
begin

text \<open>
  The hook as a machine: its invariant (a well-formed display state of its session, a bounded queue
  that always has a frame coming), the budget of seed reads, and the history of what it received.
\<close>

inductive_cases hook_stepE: "hook_step read dp sha session h a h'"

subsection \<open>Invariant\<close>

definition shows_session :: "agent_session \<Rightarrow> hook \<Rightarrow> bool" where
  "shows_session session h \<longleftrightarrow> stream_ok (hk_current h) \<and> hk_state h = hk_current h
     \<and> st_sessionId (hk_current h) = se_id session"

definition buffer_ok :: "hook \<Rightarrow> bool" where
  "buffer_ok h \<longleftrightarrow> (hk_queue h = [] \<longrightarrow> hk_bytes h = 0) \<and> length (hk_queue h) < queue_limit
     \<and> (hk_bytes h \<le> queue_byte_limit \<or> length (hk_queue h) = 1) \<and> (hk_queue h \<noteq> [] \<longrightarrow> live h \<and> hk_frame h)"

definition resting :: "hook \<Rightarrow> bool" where
  "resting h \<longleftrightarrow> hk_queue h = [] \<and> \<not> hk_frame h \<and> \<not> hk_invalid h"

definition phase_ok :: "hook \<Rightarrow> bool" where
  "phase_ok h \<longleftrightarrow> (case hk_phase h of
       Reading \<Rightarrow> resting h \<and> hk_resets h \<le> reset_limit
     | Following c reset \<Rightarrow> (reset \<longrightarrow> resting h) \<and> hk_resets h \<le> reset_limit
     | Ended \<Rightarrow> True)"

definition hook_ok :: "agent_session \<Rightarrow> hook \<Rightarrow> bool" where
  "hook_ok session h \<longleftrightarrow> shows_session session h \<and> buffer_ok h \<and> phase_ok h"

lemmas hook_ok_defs = hook_ok_def shows_session_def buffer_ok_def phase_ok_def resting_def live_def

subsection \<open>Flushing\<close>

lemma flush_empty: "hk_queue h = [] \<Longrightarrow> hk_bytes h = 0 \<Longrightarrow> hk_state h = hk_current h \<Longrightarrow> flush dp sha h = h\<lparr>hk_frame := False\<rparr>"
  by (cases h) (simp add: flush_def Let_def)

lemma flush_applied:
  "live h \<Longrightarrow> apply_all dp sha (hk_current h) (hk_queue h) = Inr s \<Longrightarrow>
     flush dp sha h = h\<lparr>hk_frame := False, hk_queue := [], hk_bytes := 0, hk_current := s, hk_state := s\<rparr>"
  by (simp add: flush_def live_def Let_def)

lemma flush_failed:
  "live h \<Longrightarrow> apply_all dp sha (hk_current h) (hk_queue h) = Inl e \<Longrightarrow>
     flush dp sha h = h\<lparr>hk_frame := False, hk_invalid := True, hk_queue := [], hk_bytes := 0,
       hk_connection := InvalidConn, hk_error := error_text e\<rparr>"
  by (simp add: flush_def live_def fail_def Let_def)

lemma apply_all_session: "apply_all dp sha s raws = Inr s' \<Longrightarrow> st_sessionId s' = st_sessionId s"
  using run_frame unfolding apply_all_decoded by blast

text \<open>
  What a flush leaves: an empty queue and the same phase; the display state has moved by the events
  of the queue, or the hook is invalid and it has not moved.
\<close>

definition flushed_from :: "date_parser \<Rightarrow> (byte list \<Rightarrow> byte list) \<Rightarrow> hook \<Rightarrow> hook \<Rightarrow> bool" where
  "flushed_from dp sha h g \<longleftrightarrow> hk_queue g = [] \<and> hk_bytes g = 0 \<and> \<not> hk_frame g \<and> hk_phase g = hk_phase h
     \<and> hk_resets g = hk_resets h \<and> hk_active g = hk_active h \<and> (hk_queue h = [] \<longrightarrow> hk_invalid g = hk_invalid h \<and> hk_current g = hk_current h)
     \<and> (live g \<longrightarrow> live h \<and> apply_all dp sha (hk_current h) (hk_queue h) = Inr (hk_current g))
     \<and> (\<not> live g \<longrightarrow> hk_current g = hk_current h) \<and> (\<not> live h \<longrightarrow> hk_connection g = hk_connection h \<and> hk_error g = hk_error h \<and> \<not> live g)"

lemma flush_ok:
  assumes "shows_session session h" and "hk_queue h = [] \<longrightarrow> hk_bytes h = 0" and "hk_queue h \<noteq> [] \<longrightarrow> live h"
  shows "shows_session session (flush dp sha h) \<and> flushed_from dp sha h (flush dp sha h)"
proof (cases "hk_queue h = []")
  case True
  then have "flush dp sha h = h\<lparr>hk_frame := False\<rparr>" using assms by (intro flush_empty) (auto simp: shows_session_def)
  then show ?thesis using True assms by (simp add: shows_session_def live_def flushed_from_def)
next
  case False
  then have l: "live h" using assms(3) by simp
  show ?thesis
  proof (cases "apply_all dp sha (hk_current h) (hk_queue h)")
    case (Inr s)
    have "stream_ok s" using assms(1) stream.run_inv [OF _ Inr] by (simp add: shows_session_def)
    then show ?thesis using flush_applied [OF l Inr] apply_all_session [OF Inr] assms(1) False l
      by (simp add: shows_session_def live_def Inr flushed_from_def)
  next
    case (Inl e)
    then show ?thesis using flush_failed [OF l Inl] assms(1) False l
      by (simp add: shows_session_def live_def flushed_from_def)
  qed
qed

subsection \<open>Taking events in\<close>

text \<open>The queue after an event came in: flushed on the way, or longer by the event.\<close>

definition taken :: "date_parser \<Rightarrow> (byte list \<Rightarrow> byte list) \<Rightarrow> unknown \<Rightarrow> hook \<Rightarrow> hook \<Rightarrow> bool" where
  "taken dp sha parsed h g \<longleftrightarrow> hk_phase g = hk_phase h \<and> hk_resets g = hk_resets h
     \<and> (live g \<longrightarrow> live h \<and> (\<exists>out. hk_queue h @ [parsed] = out @ hk_queue g
          \<and> apply_all dp sha (hk_current h) out = Inr (hk_current g)))
     \<and> (\<not> live g \<longrightarrow> (\<exists>out rest. hk_queue h @ [parsed] = out @ rest
          \<and> apply_all dp sha (hk_current h) out = Inr (hk_current g)))"

lemma taken_live:
  "hk_phase g = hk_phase h \<Longrightarrow> hk_resets g = hk_resets h \<Longrightarrow> live h \<Longrightarrow> live g \<Longrightarrow> hk_queue h @ [parsed] = out @ hk_queue g \<Longrightarrow>
     apply_all dp sha (hk_current h) out = Inr (hk_current g) \<Longrightarrow> taken dp sha parsed h g"
  unfolding taken_def by blast

lemma taken_dead:
  "hk_phase g = hk_phase h \<Longrightarrow> hk_resets g = hk_resets h \<Longrightarrow> \<not> live g \<Longrightarrow> hk_queue h @ [parsed] = out @ rest \<Longrightarrow>
     apply_all dp sha (hk_current h) out = Inr (hk_current g) \<Longrightarrow> taken dp sha parsed h g"
  unfolding taken_def by blast

lemma take_in_ok:
  assumes h: "shows_session session h" "buffer_ok h" and l: "live h"
  shows "shows_session session (take_in dp sha chars parsed h) \<and> buffer_ok (take_in dp sha chars parsed h)
     \<and> taken dp sha parsed h (take_in dp sha chars parsed h)"
proof -
  define g where "g = (if hk_queue h \<noteq> [] \<and> queue_byte_limit < hk_bytes h + chars then flush dp sha h else h)"
  define q where "q = g\<lparr>hk_queue := hk_queue g @ [parsed], hk_bytes := hk_bytes g + chars\<rparr>"
  have f: "shows_session session (flush dp sha h) \<and> flushed_from dp sha h (flush dp sha h)"
    using h l by (intro flush_ok) (auto simp: buffer_ok_def)
  have g: "shows_session session g" "buffer_ok g" "hk_phase g = hk_phase h" "hk_resets g = hk_resets h"
    using h f by (auto simp: g_def flushed_from_def buffer_ok_def queue_limit_def)
  have gl: "live g \<Longrightarrow> \<exists>out. hk_queue h = out @ hk_queue g \<and> apply_all dp sha (hk_current h) out = Inr (hk_current g)"
    using f by (auto simp: g_def flushed_from_def)
  have gb: "hk_queue g = [] \<or> hk_bytes g + chars \<le> queue_byte_limit"
    using f by (auto simp: g_def flushed_from_def not_less)
  have t: "take_in dp sha chars parsed h = (if \<not> live g then g else if queue_limit \<le> length (hk_queue q) then flush dp sha q
      else if \<not> hk_frame q then q\<lparr>hk_frame := True\<rparr> else q)"
    by (simp add: take_in_def g_def [symmetric] q_def [symmetric] Let_def)
  show ?thesis
  proof (cases "live g")
    case False
    then have "hk_current g = hk_current h" using f l by (auto simp: g_def flushed_from_def split: if_splits)
    then have "\<exists>out rest. hk_queue h @ [parsed] = out @ rest \<and> apply_all dp sha (hk_current h) out = Inr (hk_current g)"
      by (intro exI [of _ "[]"] exI [of _ "hk_queue h @ [parsed]"]) simp
    then have "taken dp sha parsed h g" using False g unfolding taken_def by blast
    with False g show ?thesis by (simp add: t)
  next
    case True
    then obtain out where d: "hk_queue h = out @ hk_queue g" "apply_all dp sha (hk_current h) out = Inr (hk_current g)"
      using gl by blast
    have ql: "live q" "shows_session session q" "hk_current q = hk_current g" "hk_phase q = hk_phase g" "hk_resets q = hk_resets g"
      using True g(1) by (simp_all add: q_def live_def shows_session_def)
    show ?thesis
    proof (cases "queue_limit \<le> length (hk_queue q)")
      case full: True
      have fq: "shows_session session (flush dp sha q) \<and> flushed_from dp sha q (flush dp sha q)"
        using ql by (intro flush_ok) (auto simp: q_def)
      have "buffer_ok (flush dp sha q)" using fq by (simp add: buffer_ok_def flushed_from_def queue_limit_def)
      moreover have "taken dp sha parsed h (flush dp sha q)"
      proof -
        have k: "hk_phase (flush dp sha q) = hk_phase h" "hk_resets (flush dp sha q) = hk_resets h"
          using fq ql(4,5) g(3,4) by (simp_all add: flushed_from_def)
        show ?thesis
        proof (cases "live (flush dp sha q)")
          case True
          then have "hk_queue h @ [parsed] = (out @ hk_queue q) @ hk_queue (flush dp sha q)"
            "apply_all dp sha (hk_current h) (out @ hk_queue q) = Inr (hk_current (flush dp sha q))"
            using fq d ql(3) by (simp_all add: flushed_from_def fold_result_append q_def)
          from taken_live [OF k l True this] show ?thesis .
        next
          case False
          then have "hk_queue h @ [parsed] = out @ hk_queue q"
            "apply_all dp sha (hk_current h) out = Inr (hk_current (flush dp sha q))"
            using fq d ql(3) by (simp_all add: flushed_from_def q_def)
          from taken_dead [OF k False this] show ?thesis .
        qed
      qed
      ultimately show ?thesis using True full fq by (simp add: t)
    next
      case False
      let ?r = "if \<not> hk_frame q then q\<lparr>hk_frame := True\<rparr> else q"
      have "buffer_ok ?r" using False gb ql(1) g(2) by (auto simp: buffer_ok_def q_def live_def)
      moreover have "shows_session session ?r" using ql(2) by (simp add: shows_session_def)
      moreover have "taken dp sha parsed h ?r"
        by (rule taken_live [where out = out]) (use ql g(3,4) d l in \<open>simp_all add: live_def q_def\<close>)
      ultimately show ?thesis using True False by (simp add: t)
    qed
  qed
qed

subsection \<open>Every step keeps the invariant\<close>

lemma fail_ok: "shows_session session h \<Longrightarrow> buffer_ok h \<Longrightarrow> shows_session session (fail c m h) \<and> buffer_ok (fail c m h)"
  by (auto simp: fail_def shows_session_def buffer_ok_def live_def queue_limit_def)

lemma rejected_ok:
  assumes "shows_session session h" and "buffer_ok h"
  shows "hook_ok session (rejected cause h)"
proof -
  have "shows_session session (h\<lparr>hk_phase := Ended\<rparr>)" "buffer_ok (h\<lparr>hk_phase := Ended\<rparr>)"
    using assms by (simp_all add: shows_session_def buffer_ok_def live_def)
  note f = fail_ok [OF this]
  have "hk_phase (rejected cause h) = Ended" by (simp add: rejected_def fail_def Let_def)
  moreover have "shows_session session (rejected cause h) \<and> buffer_ok (rejected cause h)"
    using f assms by (auto simp: rejected_def Let_def shows_session_def buffer_ok_def live_def)
  ultimately show ?thesis by (simp add: hook_ok_def phase_ok_def)
qed

lemma exhausted_state_ok: "stream_ok (exhausted_state session)" "st_sessionId (exhausted_state session) = se_id session"
  using emptyStream_ok [of "se_id session" "se_provider session"]
  by (simp_all add: exhausted_state_def stream_ok_def items_ok_def requests_ok_def notices_ok_def facts_ok_def recent_ok_def
      emptyStream_def agrees_def)

lemma seed_failed_ok:
  assumes "shows_session session h" and "buffer_ok h"
  shows "hook_ok session (seed_failed session cause h)"
proof -
  have "shows_session session (h\<lparr>hk_current := exhausted_state session, hk_state := exhausted_state session\<rparr>)"
    "buffer_ok (h\<lparr>hk_current := exhausted_state session, hk_state := exhausted_state session\<rparr>)"
    using assms(2) exhausted_state_ok by (simp_all add: shows_session_def buffer_ok_def live_def)
  from rejected_ok [OF this] rejected_ok [OF assms] show ?thesis
    by (cases cause) (simp_all add: seed_failed_def)
qed

lemma seed_answered_ok:
  assumes "shows_session session h" and "buffer_ok h" and "hk_queue h = []" and "hk_resets h \<le> reset_limit"
  shows "hook_ok session (seed_answered dp session body h)"
proof (cases "decodeCurrentSeed dp body session")
  case (Inl e)
  then show ?thesis using seed_failed_ok [OF assms(1,2)] by (simp add: seed_answered_def)
next
  case (Inr seed)
  have "stream_ok seed" "st_sessionId seed = se_id session" using decoded_seed_sound [OF Inr] by simp_all
  then show ?thesis using assms Inr
    by (auto simp: seed_answered_def hook_ok_defs)
qed

lemma on_event_ok:
  assumes h: "shows_session session h" "buffer_ok h" and p: "hk_phase h = Following c reset" and r: "phase_ok h"
  shows "hook_ok session (on_event read dp sha c reset name data i h)"
proof (cases "\<not> live h \<or> reset \<or> name \<noteq> js ''event''")
  case True
  then show ?thesis using h r by (simp add: on_event_def hook_ok_def)
next
  case False
  show ?thesis
  proof (cases "check_cursor read c data i")
    case (Inl m)
    have "phase_ok (fail InvalidConn m h)" using p r False by (simp add: phase_ok_def fail_def)
    then show ?thesis using False Inl fail_ok [OF h] by (simp add: on_event_def hook_ok_def)
  next
    case (Inr parsed)
    from take_in_ok [OF h, of dp sha "length data" parsed] False
    have t: "shows_session session (take_in dp sha (length data) parsed h)" "buffer_ok (take_in dp sha (length data) parsed h)"
      "taken dp sha parsed h (take_in dp sha (length data) parsed h)" by auto
    have "phase_ok (take_in dp sha (length data) parsed h)" using t(3) p r False by (simp add: taken_def phase_ok_def)
    then show ?thesis using t False Inr by (simp add: on_event_def hook_ok_def)
  qed
qed

lemma hook_step_ok:
  assumes "hook_ok session h" and "hook_step read dp sha session h a h'"
  shows "hook_ok session h'"
proof -
  have h: "shows_session session h" "buffer_ok h" "phase_ok h" using assms(1) by (simp_all add: hook_ok_def)
  from assms(2) show ?thesis
  proof (cases rule: hook_step.cases)
    case (answered body)
    then show ?thesis using h seed_answered_ok [OF h(1,2)] by (simp add: phase_ok_def resting_def)
  next
    case (failed cause)
    then show ?thesis using seed_failed_ok [OF h(1,2)] by simp
  next
    case (event c reset name data i)
    then show ?thesis using on_event_ok [OF h(1,2) _ h(3)] by simp
  next
    case (reset c r)
    then show ?thesis using h by (auto simp: on_reset_def hook_ok_defs queue_limit_def)
  next
    case (returned c r)
    show ?thesis
    proof (cases "\<not> r \<or> \<not> live h")
      case True
      then show ?thesis using h returned by (auto simp: stream_returned_def hook_ok_defs)
    next
      case False
      let ?g = "h\<lparr>hk_resets := Suc (hk_resets h), hk_phase := Reading\<rparr>"
      have g: "shows_session session ?g" "buffer_ok ?g" using h by (simp_all add: shows_session_def buffer_ok_def live_def)
      from False returned have "h' = (if reset_limit < Suc (hk_resets h)
          then rejected (OtherCause (js ''The conversation cursor repeatedly reset; reopen the conversation.'')) ?g else ?g)"
        by (simp add: stream_returned_def Let_def)
      moreover have "resting h" using returned(3) False h(3) by (simp add: phase_ok_def)
      ultimately show ?thesis using rejected_ok [OF g] g
        by (auto simp: hook_ok_def phase_ok_def resting_def live_def not_less)
    qed
  next
    case (threw c r cause)
    then show ?thesis using rejected_ok [OF h(1,2)] by simp
  next
    case fired
    have f: "shows_session session (flush dp sha h) \<and> flushed_from dp sha h (flush dp sha h)"
      using h by (intro flush_ok) (auto simp: buffer_ok_def)
    then have "phase_ok (flush dp sha h)" using h(3) fired
      by (auto simp: phase_ok_def resting_def flushed_from_def split: follow_phase.splits)
    with f fired show ?thesis by (simp add: hook_ok_def buffer_ok_def flushed_from_def queue_limit_def)
  next
    case unmounted
    then show ?thesis using h by (auto simp: unmount_def hook_ok_defs queue_limit_def split: follow_phase.splits)
  qed (use h in \<open>auto simp: set_connection_def hook_ok_defs\<close>)
qed

lemma mount_ok:
  assumes "stream_ok current" and "state = current"
  shows "hook_ok session (mount session reload current state lastReload)"
  using assms emptyStream_ok [of "se_id session" "se_provider session"]
  by (auto simp: mount_def hook_ok_defs queue_limit_def Let_def emptyStream_def)

interpretation hook: machine "hook_step read dp sha session" "hook_ok session"
  by unfold_locales (rule hook_step_ok)

subsection \<open>Seed reads\<close>

fun reads_seed :: "hook_action \<Rightarrow> bool" where
  "reads_seed (SeedAnswered _) = True"
| "reads_seed (SeedFailed _) = True"
| "reads_seed _ = False"

definition reads_left :: "hook \<Rightarrow> nat" where
  "reads_left h = (case hk_phase h of
       Reading \<Rightarrow> Suc (reset_limit - hk_resets h) | Following _ _ \<Rightarrow> reset_limit - hk_resets h | Ended \<Rightarrow> 0)"

lemma ended_phase [simp]: "hk_phase (fail c m h) = hk_phase h" "hk_phase (rejected cause h) = Ended"
    "hk_phase (seed_failed session cause h) = Ended"
  by (simp_all add: fail_def rejected_def seed_failed_def Let_def)

lemma rejected_simps [simp]: "hk_current (rejected cause h) = hk_current h" "\<not> live (rejected cause h)"
  by (simp_all add: rejected_def fail_def live_def Let_def)

lemma reads_left_step:
  assumes "hook_ok session h" and "hook_step read dp sha session h a h'"
  shows "(if reads_seed a then Suc (reads_left h') else reads_left h') \<le> reads_left h"
proof -
  have h: "shows_session session h" "buffer_ok h" "phase_ok h" using assms(1) by (simp_all add: hook_ok_def)
  from assms(2) show ?thesis
  proof (cases rule: hook_step.cases)
    case (answered body)
    then show ?thesis
      by (auto simp: seed_answered_def reads_left_def split: sum.splits)
  next
    case (event c r name data i)
    have "hk_phase (on_event read dp sha c r name data i h) = hk_phase h
        \<and> hk_resets (on_event read dp sha c r name data i h) = hk_resets h"
    proof (cases "live h \<and> \<not> r \<and> name = js ''event''")
      case False
      then show ?thesis by (auto simp: on_event_def)
    next
      case True
      then have "taken dp sha parsed h (take_in dp sha (length data) parsed h)" for parsed
        using take_in_ok [OF h(1,2)] by blast
      then show ?thesis using True
        by (auto simp: on_event_def taken_def fail_def split: sum.splits)
    qed
    then show ?thesis using event by (simp add: reads_left_def)
  next
    case (reset c r)
    then show ?thesis by (simp add: on_reset_def reads_left_def)
  next
    case (returned c r)
    then show ?thesis using h(3)
      by (auto simp: stream_returned_def reads_left_def Let_def phase_ok_def)
  next
    case fired
    have "flushed_from dp sha h (flush dp sha h)" using h flush_ok [OF h(1)] by (auto simp: buffer_ok_def)
    then show ?thesis using fired by (simp add: reads_left_def flushed_from_def split: follow_phase.splits)
  qed (simp_all add: reads_left_def set_connection_def unmount_def split: follow_phase.splits)
qed

interpretation hook_reads: budget_machine "hook_step read dp sha session" "hook_ok session" reads_seed reads_left
  by unfold_locales (rule reads_left_step)

subsection \<open>After the end\<close>

lemma dead_step:
  assumes ok: "hook_ok session h" and "\<not> live h" and "hook_step read dp sha session h a h'"
  shows "\<not> live h' \<and> hk_state h' = hk_state h \<and> hk_connection h' = hk_connection h \<and> hk_error h' = hk_error h"
proof -
  have h: "shows_session session h" "buffer_ok h" "phase_ok h" using ok by (simp_all add: hook_ok_def)
  have r: "rejected cause h = h\<lparr>hk_phase := Ended\<rparr>" for cause
    using assms(2) by (simp add: rejected_def live_def Let_def)
  have dead: "\<not> live (h\<lparr>hk_phase := p\<rparr>)" for p using assms(2) by (simp add: live_def)
  have f: "seed_failed session cause h = h\<lparr>hk_phase := Ended\<rparr>" if "hk_phase h = Reading" for cause
    using that h(3) assms(2) r by (cases cause) (auto simp: seed_failed_def phase_ok_def resting_def live_def)
  from assms(3) show ?thesis
  proof (cases rule: hook_step.cases)
    case (answered body)
    then show ?thesis using f dead assms(2) by (auto simp: seed_answered_def split: sum.splits)
  next
    case (failed cause)
    then show ?thesis using f dead by simp
  next
    case (returned c rs)
    then show ?thesis using dead assms(2) by (simp add: stream_returned_def)
  next
    case (threw c rs cause)
    then show ?thesis using r dead by simp
  next
    case fired
    have "shows_session session (flush dp sha h) \<and> flushed_from dp sha h (flush dp sha h)"
      using h by (intro flush_ok) (auto simp: buffer_ok_def)
    then show ?thesis using fired assms(2) h(1) by (auto simp: flushed_from_def shows_session_def)
  qed (use assms(2) in \<open>auto simp: set_connection_def on_reset_def on_event_def unmount_def live_def\<close>)
qed

subsection \<open>What was received\<close>

text \<open>The events that an action hands to the hook and the hook accepts.\<close>

definition accepted :: "json_reader \<Rightarrow> hook \<Rightarrow> hook_action \<Rightarrow> unknown list" where
  "accepted read h a = (case a of
       EventArrived name data i \<Rightarrow>
         (case hk_phase h of
            Following cursor reset \<Rightarrow>
              if \<not> live h \<or> reset \<or> name \<noteq> js ''event'' then []
              else (case check_cursor read cursor data i of Inl m \<Rightarrow> [] | Inr parsed \<Rightarrow> [parsed])
          | _ \<Rightarrow> [])
     | _ \<Rightarrow> [])"

text \<open>The display state at the last seed, and the events accepted since.\<close>

inductive received ::
  "json_reader \<Rightarrow> date_parser \<Rightarrow> (byte list \<Rightarrow> byte list) \<Rightarrow> agent_session \<Rightarrow> hook \<Rightarrow> stream_state \<Rightarrow> unknown list \<Rightarrow> hook \<Rightarrow> bool"
  for read dp sha session h0 where
  mounted: "received read dp sha session h0 (hk_current h0) [] h0"
| seeded: "received read dp sha session h0 base events h \<Longrightarrow> hook_step read dp sha session h a h' \<Longrightarrow> reads_seed a \<Longrightarrow>
    received read dp sha session h0 (hk_current h') [] h'"
| moved: "received read dp sha session h0 base events h \<Longrightarrow> hook_step read dp sha session h a h' \<Longrightarrow> \<not> reads_seed a \<Longrightarrow>
    received read dp sha session h0 base (events @ accepted read h a) h'"

lemma received_runs: "received read dp sha session h0 base events h \<Longrightarrow> \<exists>as. hook_run read dp sha session h0 as h"
  by (induction rule: received.induct) (auto intro: runs.intros)

text \<open>The queue holds what has been accepted and not applied, unless the stream has ended or is being reset.\<close>

definition open_queue :: "hook \<Rightarrow> bool" where
  "open_queue h \<longleftrightarrow> live h \<and> hk_phase h \<noteq> Reading \<and> (\<forall>c. hk_phase h \<noteq> Following c True)"

definition accounted :: "date_parser \<Rightarrow> (byte list \<Rightarrow> byte list) \<Rightarrow> stream_state \<Rightarrow> unknown list \<Rightarrow> hook \<Rightarrow> bool" where
  "accounted dp sha base events h \<longleftrightarrow> (\<exists>out rest. events = out @ rest
     \<and> apply_all dp sha base out = Inr (hk_current h) \<and> (open_queue h \<longrightarrow> rest = hk_queue h))"

lemma accounted_frame:
  assumes "accounted dp sha base events h" and "hk_current h' = hk_current h"
    and "open_queue h' \<Longrightarrow> open_queue h \<and> hk_queue h' = hk_queue h"
  shows "accounted dp sha base events h'"
  using assms unfolding accounted_def by auto

lemma accounted_taken:
  assumes a: "accounted dp sha base events h" and o: "open_queue h" and t: "taken dp sha parsed h g"
  shows "accounted dp sha base (events @ [parsed]) g"
proof -
  obtain out where e: "events = out @ hk_queue h" and b: "apply_all dp sha base out = Inr (hk_current h)"
    using a o unfolding accounted_def by blast
  obtain more rest where m: "hk_queue h @ [parsed] = more @ rest" "apply_all dp sha (hk_current h) more = Inr (hk_current g)"
    "live g \<longrightarrow> rest = hk_queue g"
    using t unfolding taken_def by (cases "live g") auto
  have "events @ [parsed] = (out @ more) @ rest" using e m(1) by simp
  moreover have "apply_all dp sha base (out @ more) = Inr (hk_current g)" using b m(2) by (simp add: fold_result_append)
  ultimately show ?thesis using m(3) unfolding accounted_def open_queue_def by blast
qed

lemma accounted_flush:
  assumes a: "accounted dp sha base events h" and ok: "hook_ok session h"
  shows "accounted dp sha base events (flush dp sha h)"
proof -
  let ?g = "flush dp sha h"
  have f: "flushed_from dp sha h ?g"
    using ok flush_ok [of session h] by (auto simp: hook_ok_def buffer_ok_def)
  show ?thesis
  proof (cases "open_queue h \<and> live ?g")
    case True
    then obtain out where "events = out @ hk_queue h" "apply_all dp sha base out = Inr (hk_current h)"
      using a unfolding accounted_def by blast
    with True f have "events = (out @ hk_queue h) @ []" "apply_all dp sha base (out @ hk_queue h) = Inr (hk_current ?g)"
      by (simp_all add: flushed_from_def fold_result_append)
    then show ?thesis using f unfolding accounted_def flushed_from_def by metis
  next
    case False
    have "hk_current ?g = hk_current h"
    proof (cases "live ?g")
      case True
      then have "hk_queue h = []" using False f ok
        by (auto simp: open_queue_def flushed_from_def hook_ok_def phase_ok_def resting_def split: follow_phase.splits)
      then show ?thesis using f by (simp add: flushed_from_def)
    qed (use f in \<open>simp add: flushed_from_def\<close>)
    moreover have "\<not> open_queue ?g" using False f by (auto simp: open_queue_def flushed_from_def)
    ultimately show ?thesis using accounted_frame [OF a] by blast
  qed
qed

lemma accounted_step:
  assumes a: "accounted dp sha base events h" and ok: "hook_ok session h"
    and st: "hook_step read dp sha session h act h'" and n: "\<not> reads_seed act"
  shows "accounted dp sha base (events @ accepted read h act) h'"
proof -
  have h: "shows_session session h" "buffer_ok h" "phase_ok h" using ok by (simp_all add: hook_ok_def)
  from st show ?thesis
  proof (cases rule: hook_step.cases)
    case (event c r name data i)
    show ?thesis
    proof (cases "\<not> live h \<or> r \<or> name \<noteq> js ''event''")
      case True
      then show ?thesis using event a by (auto simp: on_event_def accepted_def)
    next
      case False
      show ?thesis
      proof (cases "check_cursor read c data i")
        case (Inl m)
        have "accounted dp sha base events (fail InvalidConn m h)"
          by (rule accounted_frame [OF a]) (use False in \<open>simp_all add: fail_def open_queue_def live_def\<close>)
        then show ?thesis using event False Inl by (simp add: on_event_def accepted_def)
      next
        case (Inr parsed)
        have "open_queue h" using False event by (simp add: open_queue_def)
        moreover have "taken dp sha parsed h (take_in dp sha (length data) parsed h)" using take_in_ok [OF h(1,2)] False by blast
        ultimately show ?thesis using accounted_taken [OF a] event False Inr by (simp add: on_event_def accepted_def)
      qed
    qed
  next
    case fired
    then show ?thesis using accounted_flush [OF a ok] by (simp add: accepted_def)
  next
    case (returned c r)
    have "accounted dp sha base events (stream_returned r h)"
      by (rule accounted_frame [OF a])
        (use returned in \<open>auto simp: stream_returned_def open_queue_def live_def [of "_ \<lparr>hk_phase := _\<rparr>"]
           live_def [of h] Let_def split: if_splits\<close>)
    then show ?thesis using returned by (simp add: accepted_def)
  next
    case (threw c r cause)
    have "accounted dp sha base events (rejected cause h)"
      by (rule accounted_frame [OF a]) (simp_all add: open_queue_def)
    then show ?thesis using threw by (simp add: accepted_def)
  next
    case (reset c r)
    have "accounted dp sha base events (on_reset c h)"
      by (rule accounted_frame [OF a]) (auto simp: on_reset_def open_queue_def live_def)
    then show ?thesis using reset by (simp add: accepted_def)
  next
    case unmounted
    have "accounted dp sha base events (unmount h)"
      by (rule accounted_frame [OF a]) (auto simp: unmount_def open_queue_def live_def)
    then show ?thesis using unmounted by (simp add: accepted_def)
  next
    case (opened c r)
    have "accounted dp sha base events (set_connection Connected h)"
      by (rule accounted_frame [OF a]) (auto simp: set_connection_def open_queue_def live_def)
    then show ?thesis using opened by (simp add: accepted_def)
  next
    case (broke c r)
    have "accounted dp sha base events (set_connection InterruptedConn h)"
      by (rule accounted_frame [OF a]) (auto simp: set_connection_def open_queue_def live_def)
    then show ?thesis using broke by (simp add: accepted_def)
  next
    case (closing c r)
    have "accounted dp sha base events (set_connection Draining h)"
      by (rule accounted_frame [OF a]) (auto simp: set_connection_def open_queue_def live_def)
    then show ?thesis using closing by (simp add: accepted_def)
  qed (use n in simp_all)
qed

lemma seeded_queue:
  assumes ok: "hook_ok session h" and st: "hook_step read dp sha session h a h'" and r: "reads_seed a"
  shows "hk_queue h' = []"
proof -
  have h: "phase_ok h" "hook_ok session h'" using ok hook_step_ok [OF ok st] by (simp_all add: hook_ok_def)
  from st show ?thesis
  proof (cases rule: hook_step.cases)
    case (answered body)
    then show ?thesis using h(1)
      by (auto simp: seed_answered_def seed_failed_def rejected_def fail_def phase_ok_def resting_def Let_def
          split: sum.splits cause.splits)
  next
    case (failed cause)
    then show ?thesis using h(1)
      by (auto simp: seed_failed_def rejected_def fail_def phase_ok_def resting_def Let_def split: cause.splits)
  qed (use r in simp_all)
qed

lemma received_accounted:
  assumes "received read dp sha session h0 base events h" and "hook_ok session h0" and "hk_queue h0 = []"
  shows "hook_ok session h \<and> accounted dp sha base events h"
  using assms
proof (induction rule: received.induct)
  case mounted
  then show ?case by (simp add: accounted_def)
next
  case (seeded base events h a h')
  then have ok: "hook_ok session h" by simp
  have "accounted dp sha (hk_current h') [] h'"
    using seeded_queue [OF ok seeded.hyps(2,3)] by (simp add: accounted_def)
  then show ?case using hook_step_ok [OF ok seeded.hyps(2)] by simp
next
  case (moved base events h a h')
  then show ?case using hook_step_ok [of session h] accounted_step [of dp sha base events h session] by blast
qed

end
