(* ===== verification/Hook_Queue.thy ===== *)
theory Hook_Queue
  imports Hook_Props "HOL-Library.Sublist"
begin

text \<open>
  The events that wait for a frame: which texts of the stream they are, that the count of bytes is the
  sum of the lengths of those texts, and that a frame is requested exactly while one waits.
\<close>

subsection \<open>The texts that wait\<close>

definition arrived :: "hook_action list \<Rightarrow> jstr list" where
  "arrived as = concat (map (\<lambda>a. case a of EventArrived name data i \<Rightarrow> [data] | _ \<Rightarrow> []) as)"

definition parses :: "json_reader \<Rightarrow> jstr \<Rightarrow> unknown \<Rightarrow> bool" where
  "parses read t q \<longleftrightarrow> (\<exists>j. read t = Inr j \<and> q = Some j)"

definition waits :: "json_reader \<Rightarrow> hook_action list \<Rightarrow> hook \<Rightarrow> jstr list \<Rightarrow> bool" where
  "waits read as h ts \<longleftrightarrow> subseq ts (arrived as) \<and> list_all2 (parses read) ts (hk_queue h) \<and> hk_bytes h = sum_list (map length ts)"

text \<open>A step empties the queue, leaves it, adds the event that arrived, or leaves only that one.\<close>

definition emptied :: "hook \<Rightarrow> bool" where
  "emptied h \<longleftrightarrow> hk_queue h = [] \<and> hk_bytes h = 0"

definition same_queue :: "hook \<Rightarrow> hook \<Rightarrow> bool" where
  "same_queue h g \<longleftrightarrow> hk_queue g = hk_queue h \<and> hk_bytes g = hk_bytes h"

definition queued :: "hook \<Rightarrow> nat \<Rightarrow> unknown \<Rightarrow> hook \<Rightarrow> bool" where
  "queued h chars parsed g \<longleftrightarrow> hk_queue g = hk_queue h @ [parsed] \<and> hk_bytes g = hk_bytes h + chars
     \<or> hk_queue g = [parsed] \<and> hk_bytes g = chars"

lemmas queue_defs = emptied_def same_queue_def queued_def

lemma fail_queue: "emptied (fail c m h) \<or> same_queue h (fail c m h)"
  by (simp add: fail_def queue_defs)

lemma flush_queue: "emptied (flush dp sha h) \<or> same_queue h (flush dp sha h)"
  by (auto simp: flush_def fail_def queue_defs Let_def split: sum.splits)

lemma take_in_queue:
  "emptied (take_in dp sha chars parsed h) \<or> same_queue h (take_in dp sha chars parsed h)
     \<or> queued h chars parsed (take_in dp sha chars parsed h)"
proof -
  define g where "g = (if hk_queue h \<noteq> [] \<and> queue_byte_limit < hk_bytes h + chars then flush dp sha h else h)"
  define q where "q = g\<lparr>hk_queue := hk_queue g @ [parsed], hk_bytes := hk_bytes g + chars\<rparr>"
  have t: "take_in dp sha chars parsed h = (if \<not> live g then g else if queue_limit \<le> length (hk_queue q) then flush dp sha q
      else if \<not> hk_frame q then q\<lparr>hk_frame := True\<rparr> else q)"
    by (simp add: take_in_def g_def [symmetric] q_def [symmetric] Let_def)
  have g: "emptied g \<or> same_queue h g" using flush_queue [of dp sha h] by (auto simp: g_def queue_defs)
  then have q: "queued h chars parsed q" by (auto simp: q_def queue_defs)
  have "emptied (flush dp sha q) \<or> queued h chars parsed (flush dp sha q)" using flush_queue [of dp sha q] q by (auto simp: queue_defs)
  then show ?thesis unfolding t using g q by (auto simp: queue_defs)
qed

lemma on_event_queue:
  "emptied (on_event read dp sha c reset name data i h) \<or> same_queue h (on_event read dp sha c reset name data i h)
     \<or> (\<exists>j. read data = Inr j \<and> queued h (length data) (Some j) (on_event read dp sha c reset name data i h))"
proof (cases "\<not> live h \<or> reset \<or> name \<noteq> js ''event''")
  case True
  then show ?thesis by (simp add: on_event_def same_queue_def)
next
  case False
  show ?thesis
  proof (cases "check_cursor read c data i")
    case (Inl m)
    then show ?thesis using False fail_queue [of InvalidConn m h] by (auto simp: on_event_def)
  next
    case (Inr parsed)
    then have "\<exists>j. read data = Inr j \<and> parsed = Some j"
      by (auto simp: check_cursor_def split: sum.splits option.splits json.splits js_number.splits if_splits)
    then show ?thesis using False Inr take_in_queue [of dp sha "length data" parsed h] by (auto simp: on_event_def)
  qed
qed

lemma rejected_queue: "emptied (rejected cause h) \<or> same_queue h (rejected cause h)"
  by (auto simp: rejected_def fail_def queue_defs Let_def)

lemma seed_failed_queue: "emptied (seed_failed session cause h) \<or> same_queue h (seed_failed session cause h)"
  using rejected_queue [of cause h] rejected_queue [of cause "h\<lparr>hk_current := exhausted_state session, hk_state := exhausted_state session\<rparr>"]
  by (cases cause) (auto simp: seed_failed_def queue_defs)

lemma hook_step_queue:
  assumes "hook_step read dp sha session h a h'"
  shows "emptied h' \<or> same_queue h h'
     \<or> (\<exists>name data i j. a = EventArrived name data i \<and> read data = Inr j \<and> queued h (length data) (Some j) h')"
  using assms
proof (cases rule: hook_step.cases)
  case (answered body)
  then show ?thesis using seed_failed_queue [of session _ h]
    by (cases "decodeCurrentSeed dp body session") (auto simp: seed_answered_def same_queue_def)
next
  case (failed cause)
  then show ?thesis using seed_failed_queue by auto
next
  case (event c reset name data i)
  then show ?thesis using on_event_queue [of read dp sha c reset name data i h] by auto
next
  case (returned c reset)
  then show ?thesis using rejected_queue [of _ "h\<lparr>hk_resets := Suc (hk_resets h), hk_phase := Reading\<rparr>"]
    by (auto simp: stream_returned_def Let_def queue_defs)
next
  case (threw c reset cause)
  then show ?thesis using rejected_queue by auto
next
  case fired
  then show ?thesis using flush_queue by auto
qed (auto simp: set_connection_def on_reset_def unmount_def queue_defs)

lemma waits_run:
  assumes "hook_run read dp sha session h0 as h" and "hk_queue h0 = []" and "hk_bytes h0 = 0"
  shows "\<exists>ts. waits read as h ts"
  using assms
proof (induction rule: runs.induct)
  case (start h)
  then show ?case by (auto simp: waits_def arrived_def)
next
  case (step h0 as h a h')
  then obtain ts where ts: "waits read as h ts" by blast
  have more: "arrived (as @ [a]) = arrived as @ arrived [a]" by (simp add: arrived_def)
  from hook_step_queue [OF step.hyps(2)] show ?case
  proof (elim disjE exE conjE)
    assume "emptied h'"
    then show ?case by (intro exI [of _ "[]"]) (simp add: waits_def emptied_def)
  next
    assume "same_queue h h'"
    then have "waits read (as @ [a]) h' ts" using ts by (auto simp: waits_def same_queue_def more)
    then show ?case ..
  next
    fix name data i j assume e: "a = EventArrived name data i" "read data = Inr j" and q: "queued h (length data) (Some j) h'"
    have "arrived [a] = [data]" "parses read data (Some j)" using e by (simp_all add: arrived_def parses_def)
    moreover from this(2) ts have "list_all2 (parses read) (ts @ [data]) (hk_queue h @ [Some j])"
      by (intro list_all2_appendI) (simp_all add: waits_def)
    ultimately have "waits read (as @ [a]) h' (ts @ [data]) \<or> waits read (as @ [a]) h' [data]"
      using ts q unfolding waits_def queued_def more by auto
    then show ?case by blast
  qed
qed

subsection \<open>The frame\<close>

definition framed :: "hook \<Rightarrow> bool" where
  "framed h \<longleftrightarrow> (live h \<and> hk_frame h \<longrightarrow> hk_queue h \<noteq> [])"

lemma flush_unframed: "\<not> hk_frame (flush dp sha h)"
  by (auto simp: flush_def fail_def Let_def split: sum.splits)

lemma take_in_framed: "framed h \<Longrightarrow> framed (take_in dp sha chars parsed h)"
  using flush_unframed by (auto simp: take_in_def framed_def Let_def)

lemma hook_step_framed:
  assumes "hook_ok session h" and "framed h" and "hook_step read dp sha session h a h'"
  shows "framed h'"
  using assms(3)
proof (cases rule: hook_step.cases)
  case (answered body)
  then have "\<not> hk_frame h" using assms(1) by (simp add: hook_ok_def phase_ok_def resting_def)
  then show ?thesis using answered
    by (cases "decodeCurrentSeed dp body session")
      (auto simp: seed_answered_def seed_failed_def framed_def rejected_def fail_def live_def Let_def split: cause.splits)
next
  case (event c reset name data i)
  then show ?thesis using assms(2) take_in_framed
    by (auto simp: on_event_def framed_def fail_def live_def split: sum.splits)
next
  case fired
  then show ?thesis using flush_unframed by (simp add: framed_def)
qed (use assms(2) in \<open>auto simp: set_connection_def on_reset_def unmount_def stream_returned_def seed_failed_def rejected_def
    fail_def framed_def live_def Let_def split: cause.splits\<close>)

end
