(* ===== verification/Hook_Properties.thy ===== *)
theory Hook_Properties
  imports Hook_Queue
begin

text \<open>
  The properties of the hook over all runs of a mounted effect, with a run that reads a seed and
  receives an event.
\<close>

subsection \<open>A sample run\<close>

lemma hook_run_single: "hook_step read dp sha session h a h' \<Longrightarrow> hook_run read dp sha session h [a] h'"
  by (rule runs_single)

lemma hook_run_snoc:
  "hook_run read dp sha session h as h' \<Longrightarrow> hook_step read dp sha session h' a h'' \<Longrightarrow>
     hook_run read dp sha session h (as @ [a]) h''"
  by (rule runs.step)

definition sample_reader :: json_reader where
  "sample_reader data = Inr (JObj [(js ''seq'', JNum (IntNum 8))])"

definition sample_mount :: hook where
  "sample_mount = mount sample_expected 0 (emptyStream (se_id sample_expected) (se_provider sample_expected))
     (emptyStream (se_id sample_expected) (se_provider sample_expected)) 0"

definition sample_seeded :: hook where
  "sample_seeded = seed_answered sample_dates sample_expected sample_seed sample_mount"

definition sample_arrival :: hook_action where
  "sample_arrival = EventArrived (js ''event'') (js ''x'') (js ''8'')"

definition sample_waiting :: hook where
  "sample_waiting = on_event sample_reader sample_dates id 7 False (js ''event'') (js ''x'') (js ''8'') sample_seeded"

lemma sample_mount_ok: "hook_ok sample_expected sample_mount"
  unfolding sample_mount_def by (rule mount_ok) (simp_all add: emptyStream_ok)

lemma sample_mount_simps: "hk_phase sample_mount = Reading" "live sample_mount" "hk_queue sample_mount = []"
    "\<not> hk_frame sample_mount" "hk_bytes sample_mount = 0"
  by (simp_all add: sample_mount_def mount_def live_def Let_def)

lemma sample_seeded_simps: "hk_phase sample_seeded = Following 7 False" "live sample_seeded" "hk_queue sample_seeded = []"
    "\<not> hk_frame sample_seeded" "hk_bytes sample_seeded = 0"
proof -
  obtain s where s: "decodeCurrentSeed sample_dates sample_seed sample_expected = Inr s" "st_cursor s = 7"
    using sample_seed_decodes by blast
  then show "hk_phase sample_seeded = Following 7 False" "live sample_seeded" "hk_queue sample_seeded = []"
    "\<not> hk_frame sample_seeded" "hk_bytes sample_seeded = 0"
    using sample_mount_simps by (simp_all add: sample_seeded_def seed_answered_def live_def)
qed

lemma sample_cursor: "check_cursor sample_reader 7 (js ''x'') (js ''8'') = Inr (Some (JObj [(js ''seq'', JNum (IntNum 8))]))"
proof -
  have "number_text (IntNum 8) = js ''8''"
    by (simp add: number_text_def signed_text_def whole_text_def decimal.simps [of 8] js_def Let_def)
  then show ?thesis
    by (simp add: check_cursor_def sample_reader_def own_member_def field_def prop_get_def isSafeInteger_def max_safe_def)
qed

lemma sample_waiting_simps: "live sample_waiting" "hk_queue sample_waiting = [Some (JObj [(js ''seq'', JNum (IntNum 8))])]"
    "hk_frame sample_waiting"
  using sample_seeded_simps sample_cursor
  by (simp_all add: sample_waiting_def on_event_def take_in_def Let_def live_def queue_limit_def)

lemma sample_runs:
  "hook_run sample_reader sample_dates id sample_expected sample_mount [SeedAnswered sample_seed] sample_seeded"
  "hook_run sample_reader sample_dates id sample_expected sample_mount [SeedAnswered sample_seed, sample_arrival] sample_waiting"
proof -
  have s: "hook_step sample_reader sample_dates id sample_expected sample_mount (SeedAnswered sample_seed) sample_seeded"
    unfolding sample_seeded_def by (rule hook_step.answered [OF sample_mount_simps(1)])
  have e: "hook_step sample_reader sample_dates id sample_expected sample_seeded sample_arrival sample_waiting"
    unfolding sample_waiting_def sample_arrival_def by (rule hook_step.event [OF sample_seeded_simps(1)])
  show 1: "hook_run sample_reader sample_dates id sample_expected sample_mount [SeedAnswered sample_seed] sample_seeded"
    using s by (rule hook_run_single)
  show "hook_run sample_reader sample_dates id sample_expected sample_mount [SeedAnswered sample_seed, sample_arrival] sample_waiting"
    using hook_run_snoc [OF 1 e] by (simp only: append.simps)
qed

subsection \<open>Properties\<close>

text \<open>
  C18. Whatever the service sends and whenever the hook is unmounted, a mounted effect keeps showing a
  well-formed display state of its own session, and that state is the one the next events apply to. Events
  wait only while the stream is followed, and then a frame is requested exactly while one waits.
\<close>

theorem hook_shows_its_session:
  assumes "hook_run read dp sha session (mount session reload s s lastReload) as h" and "stream_ok s"
  shows "stream_ok (hk_state h) \<and> st_sessionId (hk_state h) = se_id session \<and> hk_state h = hk_current h
     \<and> shown_state (Some session) (hk_state h) = hk_state h
     \<and> (hk_queue h \<noteq> [] \<longrightarrow> hk_active h \<and> \<not> hk_invalid h)
     \<and> (hk_active h \<and> \<not> hk_invalid h \<longrightarrow> (hk_frame h \<longleftrightarrow> hk_queue h \<noteq> []))"
proof -
  have ok: "hook_ok session (mount session reload s s lastReload)" using mount_ok [OF assms(2)] by blast
  have "framed (mount session reload s s lastReload)" by (simp add: framed_def mount_def Let_def)
  then have f: "framed h" by (rule hook.runs_keeps [OF assms(1) ok]) (rule hook_step_framed)
  have "hook_ok session h" using hook.runs_inv [OF assms(1) ok] .
  then have s: "shows_session session h" and b: "hk_queue h \<noteq> [] \<longrightarrow> live h \<and> hk_frame h"
    by (simp_all add: hook_ok_def buffer_ok_def)
  then have "shown_state (Some session) (hk_state h) = hk_state h" by (simp add: shows_session_def shown_state_def)
  with s b f show ?thesis unfolding shows_session_def framed_def live_def by metis
qed

theorem hook_shows_its_session_witness:
  "stream_ok (hk_state sample_waiting) \<and> st_sessionId (hk_state sample_waiting) = js ''s1''
     \<and> hk_frame sample_waiting \<and> hk_queue sample_waiting \<noteq> []"
proof -
  note w = hook_shows_its_session [OF sample_runs(2) [unfolded sample_mount_def] emptyStream_ok]
  from w have "stream_ok (hk_state sample_waiting)" "st_sessionId (hk_state sample_waiting) = se_id sample_expected" by blast+
  then show ?thesis using sample_waiting_simps by (simp add: sample_expected_def)
qed

text \<open>
  C19. The events that wait for an animation frame are bounded: they are fewer than 256, they are the parses of
  texts that the stream delivered, in their order, the counter is the sum of the lengths of these texts, and
  that sum is at most 4 Mi units unless a single one waits.
\<close>

theorem waiting_events_are_bounded:
  assumes "hook_run read dp sha session (mount session reload s s lastReload) as h" and "stream_ok s"
  shows "length (hk_queue h) < 256
     \<and> (\<exists>ts. subseq ts (arrived as) \<and> list_all2 (\<lambda>t event. \<exists>j. read t = Inr j \<and> event = Some j) ts (hk_queue h)
          \<and> hk_bytes h = sum_list (map length ts)
          \<and> (sum_list (map length ts) \<le> 4 * 1024 * 1024 \<or> length ts = 1))"
proof -
  have "hook_ok session h" using hook.runs_inv [OF assms(1)] mount_ok [OF assms(2)] by blast
  then have b: "length (hk_queue h) < 256" "hk_bytes h \<le> 4 * 1024 * 1024 \<or> length (hk_queue h) = 1"
    by (simp_all add: hook_ok_def buffer_ok_def queue_limit_def queue_byte_limit_def)
  obtain ts where "waits read as h ts" using waits_run [OF assms(1)] by (auto simp: mount_def Let_def)
  then have ts: "subseq ts (arrived as)" "list_all2 (parses read) ts (hk_queue h)" "hk_bytes h = sum_list (map length ts)"
    by (simp_all add: waits_def)
  have "length ts = length (hk_queue h)" using ts(2) by (rule list_all2_lengthD)
  then show ?thesis using b ts unfolding parses_def [abs_def] by (intro conjI exI [of _ ts]) auto
qed

theorem waiting_events_are_bounded_witness:
  "length (hk_queue sample_waiting) < 256 \<and> hk_queue sample_waiting \<noteq> []
     \<and> (\<exists>ts. subseq ts [js ''x''] \<and> length ts = length (hk_queue sample_waiting) \<and> hk_bytes sample_waiting = sum_list (map length ts))"
proof -
  note w = waiting_events_are_bounded [OF sample_runs(2) [unfolded sample_mount_def] emptyStream_ok]
  have "arrived [SeedAnswered sample_seed, sample_arrival] = [js ''x'']" by (simp add: arrived_def sample_arrival_def)
  with w obtain ts where ts: "length (hk_queue sample_waiting) < 256" "subseq ts [js ''x'']" "hk_bytes sample_waiting = sum_list (map length ts)"
    "list_all2 (\<lambda>t event. \<exists>j. sample_reader t = Inr j \<and> event = Some j) ts (hk_queue sample_waiting)" by auto
  show ?thesis using ts(1-3) list_all2_lengthD [OF ts(4)] sample_waiting_simps by (intro conjI exI [of _ ts]) auto
qed

text \<open>
  C20. Batching changes nothing. Let \<open>base\<close> be the display state at the last seed and \<open>events\<close> the events
  accepted since, in order. At every moment the display state is \<open>base\<close> with a prefix of \<open>events\<close>
  applied by \<open>applyEvent\<close>; while the stream is followed, the rest of them is exactly the queue.
\<close>

theorem display_is_what_was_received:
  assumes "received read dp sha session (mount session reload s s lastReload) base events h" and "stream_ok s"
  shows "\<exists>out rest. events = out @ rest \<and> fold_result (applyEvent dp sha) base out = Inr (hk_state h)
     \<and> (hk_active h \<and> \<not> hk_invalid h \<and> (\<exists>c. hk_phase h = Following c False) \<longrightarrow> rest = hk_queue h)"
proof -
  have "hook_ok session h \<and> accounted dp sha base events h"
    by (rule received_accounted [OF assms(1) mount_ok [OF assms(2) refl]]) (simp add: mount_def Let_def)
  then obtain out rest where "events = out @ rest" "apply_all dp sha base out = Inr (hk_current h)"
    "open_queue h \<longrightarrow> rest = hk_queue h" "hk_state h = hk_current h"
    unfolding accounted_def hook_ok_def shows_session_def by blast
  then show ?thesis by (intro exI [of _ out] exI [of _ rest]) (auto simp: open_queue_def live_def)
qed

theorem display_is_what_was_received_witness:
  "\<exists>out. fold_result (applyEvent sample_dates id) (hk_current sample_seeded) out = Inr (hk_state sample_waiting)
     \<and> out @ hk_queue sample_waiting = [Some (JObj [(js ''seq'', JNum (IntNum 8))])]"
proof -
  let ?received = "received sample_reader sample_dates id sample_expected sample_mount"
  have "hook_step sample_reader sample_dates id sample_expected sample_mount (SeedAnswered sample_seed) sample_seeded"
    unfolding sample_seeded_def by (rule hook_step.answered [OF sample_mount_simps(1)])
  then have s: "?received (hk_current sample_seeded) [] sample_seeded"
    by (rule received.seeded [OF received.mounted]) simp
  have "hook_step sample_reader sample_dates id sample_expected sample_seeded sample_arrival sample_waiting"
    unfolding sample_waiting_def sample_arrival_def by (rule hook_step.event [OF sample_seeded_simps(1)])
  from received.moved [OF s this]
  have "?received (hk_current sample_seeded) ([] @ accepted sample_reader sample_seeded sample_arrival) sample_waiting"
    by (simp add: sample_arrival_def)
  moreover have "accepted sample_reader sample_seeded sample_arrival = [Some (JObj [(js ''seq'', JNum (IntNum 8))])]"
    using sample_seeded_simps sample_cursor by (simp add: accepted_def sample_arrival_def)
  ultimately have "?received (hk_current sample_seeded) [Some (JObj [(js ''seq'', JNum (IntNum 8))])] sample_waiting" by simp
  from display_is_what_was_received [OF this [unfolded sample_mount_def] emptyStream_ok]
  obtain out rest where "[Some (JObj [(js ''seq'', JNum (IntNum 8))])] = out @ rest"
    "fold_result (applyEvent sample_dates id) (hk_current sample_seeded) out = Inr (hk_state sample_waiting)"
    "(\<exists>c. hk_phase sample_waiting = Following c False) \<longrightarrow> rest = hk_queue sample_waiting"
    using sample_waiting_simps(1) unfolding live_def by blast
  moreover have "hk_phase sample_waiting = Following 7 False"
    using sample_seeded_simps sample_cursor
    by (simp add: sample_waiting_def on_event_def take_in_def Let_def live_def queue_limit_def)
  ultimately show ?thesis by (intro exI [of _ out]) auto
qed

text \<open>
  C21. Following ends: however often the service resets the cursor, a mounted effect reads the current
  seed at most three times.
\<close>

theorem at_most_three_seed_reads:
  assumes "hook_run read dp sha session (mount session reload s s lastReload) as h" and "stream_ok s"
  shows "length (filter reads_seed as) \<le> 3"
  using hook_reads.runs_budget [OF assms(1) mount_ok [OF assms(2) refl]]
  by (simp add: reads_left_def mount_def reset_limit_def Let_def)

theorem at_most_three_seed_reads_witness:
  "length (filter reads_seed [SeedAnswered sample_seed, sample_arrival]) \<le> 3"
  by (rule at_most_three_seed_reads [OF sample_runs(2) [unfolded sample_mount_def] emptyStream_ok])

text \<open>
  C22. No received event is stuck. Whenever events wait, the animation frame that is requested may fire,
  and firing it leaves none waiting: the display state has moved by all of them, or the stream has
  failed with the message of the error and the display state is as before.
\<close>

theorem waiting_events_get_shown:
  assumes "hook_run read dp sha session (mount session reload s s lastReload) as h" and "stream_ok s" and "hk_queue h \<noteq> []"
  shows "\<exists>h'. hook_step read dp sha session h FrameFired h' \<and> hk_queue h' = []
     \<and> (case fold_result (applyEvent dp sha) (hk_state h) (hk_queue h) of
          Inr t \<Rightarrow> hk_state h' = t \<and> \<not> hk_invalid h'
        | Inl e \<Rightarrow> hk_state h' = hk_state h \<and> hk_invalid h' \<and> hk_connection h' = InvalidConn \<and> hk_error h' = error_text e)"
proof -
  have ok: "hook_ok session h" using hook.runs_inv [OF assms(1)] mount_ok [OF assms(2)] by blast
  then have l: "live h" "hk_frame h" and c: "hk_state h = hk_current h"
    using assms(3) by (auto simp: hook_ok_def buffer_ok_def shows_session_def)
  show ?thesis
  proof (cases "apply_all dp sha (hk_current h) (hk_queue h)")
    case (Inr t)
    show ?thesis
      by (rule exI [of _ "flush dp sha h"], intro conjI hook_step.fired l(2))
        (use flush_applied [OF l(1) Inr] Inr c l(1) in \<open>simp_all add: live_def\<close>)
  next
    case (Inl e)
    show ?thesis
      by (rule exI [of _ "flush dp sha h"], intro conjI hook_step.fired l(2))
        (use flush_failed [OF l(1) Inl] Inl c in \<open>simp_all\<close>)
  qed
qed

theorem waiting_events_get_shown_witness:
  "\<exists>h'. hook_step sample_reader sample_dates id sample_expected sample_waiting FrameFired h' \<and> hk_queue h' = []"
proof -
  have "hk_queue sample_waiting \<noteq> []" by (simp add: sample_waiting_simps)
  from waiting_events_get_shown [OF sample_runs(2) [unfolded sample_mount_def] emptyStream_ok this] show ?thesis by auto
qed

text \<open>
  A failed or unmounted effect stays as it is: no later answer, callback or frame changes the
  display state, the status or the error that it shows.
\<close>

theorem failed_hook_is_settled:
  assumes "hook_run read dp sha session (mount session reload s s lastReload) as h" and "stream_ok s"
    and "\<not> live h" and "hook_run read dp sha session h bs h'"
  shows "hk_state h' = hk_state h \<and> hk_connection h' = hk_connection h \<and> hk_error h' = hk_error h"
proof -
  have "hook_ok session h" using hook.runs_inv [OF assms(1)] mount_ok [OF assms(2)] by blast
  from hook.runs_keeps [OF assms(4) this, of "\<lambda>g. \<not> live g \<and> hk_state g = hk_state h \<and> hk_connection g = hk_connection h
      \<and> hk_error g = hk_error h"] show ?thesis using assms(3) dead_step by (metis (no_types, lifting))
qed

theorem failed_hook_is_settled_witness:
  "hk_state (unmount (rejected (OtherCause (js ''x'')) sample_seeded)) = hk_state (rejected (OtherCause (js ''x'')) sample_seeded)
   \<and> hk_error (unmount (rejected (OtherCause (js ''x'')) sample_seeded)) = js ''x''"
proof -
  let ?run = "hook_run sample_reader sample_dates id sample_expected" and ?h = "rejected (OtherCause (js ''x'')) sample_seeded"
  have t: "hook_step sample_reader sample_dates id sample_expected sample_seeded (StreamThrew (OtherCause (js ''x''))) ?h"
    by (rule hook_step.threw [OF sample_seeded_simps(1)])
  from hook_run_snoc [OF sample_runs(1) this]
  have r: "?run sample_mount [SeedAnswered sample_seed, StreamThrew (OtherCause (js ''x''))] ?h"
    by (simp only: append.simps)
  have h: "\<not> live ?h" "hk_active ?h" "hk_error ?h = js ''x''"
    using sample_seeded_simps(2) by (simp_all add: rejected_def fail_def live_def Let_def)
  have "?run ?h [Unmounted] (unmount ?h)" by (intro hook_run_single hook_step.unmounted h(2))
  with h(1,3) r failed_hook_is_settled [of sample_reader sample_dates id sample_expected 0
      "emptyStream (se_id sample_expected) (se_provider sample_expected)" 0 _ ?h "[Unmounted]" "unmount ?h", folded sample_mount_def]
  show ?thesis using emptyStream_ok by (metis (no_types))
qed

end
