(* ===== verification/Conversation_Items.thy ===== *)
theory Conversation_Items
  imports Presentation Encode "HOL-Library.Product_Lexorder"
begin

text \<open>
  The rows of a conversation beside the native ones: \<open>web/src/optimisticMessages.ts\<close>,
  \<open>approvalStaleness.ts\<close>, \<open>promptIdentity.ts\<close>, and of \<open>AgentConversation.tsx\<close> the retained
  presentation, failures, decision cards and \<open>mergeTimelineItems\<close>. React nodes are records of what
  they show.
\<close>

subsection \<open>Optimistic messages\<close>

datatype outgoing_status = OutPending | OutQueued | OutFailed

record optimistic_message =
  om_id :: jstr
  om_sessionId :: "jstr option"
  om_turnId :: "jstr option"
  om_text :: jstr
  om_createdAt :: "jstr option"
  om_status :: outgoing_status
  om_error :: "jstr option"

fun outgoing_label :: "agent_locale \<Rightarrow> outgoing_status \<Rightarrow> jstr" where
  "outgoing_label En OutPending = js ''Sending''"
| "outgoing_label En OutQueued = js ''Queued''"
| "outgoing_label En OutFailed = js ''Send failed''"
| "outgoing_label Zh OutPending = [21457, 36865, 20013]"
| "outgoing_label Zh OutQueued = [24050, 25490, 38431]"
| "outgoing_label Zh OutFailed = [21457, 36865, 22833, 36133]"

primrec retry_label :: "agent_locale \<Rightarrow> jstr" where
  "retry_label En = js ''Retry''"
| "retry_label Zh = [37325, 35797]"

definition received_turns :: "agent_item list \<Rightarrow> jstr set" where
  "received_turns canonical = it_turnId ` set (filter (\<lambda>item. it_role item = UserRole) canonical)"

definition optimistic_id :: "jstr \<Rightarrow> optimistic_message \<Rightarrow> jstr" where
  "optimistic_id sessionId message = (case om_turnId message of
       Some (u # t) \<Rightarrow> stringify (JArr [JStr sessionId, JStr (u # t), JStr (js ''user'')])
     | _ \<Rightarrow> js ''optimistic:'' @ om_id message)"

definition optimistic_row :: "jstr \<Rightarrow> agent_locale \<Rightarrow> bool \<Rightarrow> optimistic_message \<Rightarrow> timeline_message" where
  "optimistic_row sessionId loc canRetry message =
     \<lparr>tm_id = optimistic_id sessionId message, tm_role = UserRole, tm_text = om_text message,
      tm_createdAt = om_createdAt message, tm_updatedAt = None, tm_streaming = None, tm_truncated = None,
      tm_delivery = Some (if om_status message = OutFailed then Failed else Sending,
        outgoing_label loc (om_status message), om_error message),
      tm_optimistic = True,
      tm_retry = (if om_status message = OutFailed \<and> canRetry then Some (retry_label loc, om_id message) else None)\<rparr>"

text \<open>The callback of \<open>flatMap\<close> with the set of identities it has seen.\<close>

definition optimistic_step ::
  "jstr \<Rightarrow> jstr set \<Rightarrow> agent_locale \<Rightarrow> bool \<Rightarrow> timeline_message list \<times> jstr set \<Rightarrow> optimistic_message
     \<Rightarrow> timeline_message list \<times> jstr set" where
  "optimistic_step sessionId received loc canRetry acc message = (case acc of (rows, seen) \<Rightarrow>
     if truthy (om_sessionId message) \<and> om_sessionId message \<noteq> Some sessionId then (rows, seen)
     else if truthy (om_turnId message) \<and> get_or [] (om_turnId message) \<in> received then (rows, seen)
     else
       (let i = optimistic_id sessionId message in
        if i \<in> seen then (rows, seen)
        else (rows @ [optimistic_row sessionId loc canRetry message], insert i seen)))"

definition optimisticTimelineItems ::
  "jstr \<Rightarrow> agent_item list \<Rightarrow> optimistic_message list \<Rightarrow> agent_locale \<Rightarrow> bool \<Rightarrow> timeline_message list" where
  "optimisticTimelineItems sessionId canonical outgoing loc canRetry =
     fst (foldl (optimistic_step sessionId (received_turns canonical) loc canRetry) ([], {}) outgoing)"

subsection \<open>Staleness\<close>

definition approval_stale_after_ms :: int where
  "approval_stale_after_ms = 5 * 60 * 1000"

definition isApprovalStale :: "date_parser \<Rightarrow> bool \<Rightarrow> jstr option \<Rightarrow> bool \<Rightarrow> int \<Rightarrow> bool" where
  "isApprovalStale dp opened createdAt missing now =
     (if missing then True
      else if \<not> opened \<or> \<not> truthy createdAt then False
      else case dp (get_or [] createdAt) of None \<Rightarrow> False | Some created \<Rightarrow> approval_stale_after_ms < now - created)"

subsection \<open>The identity of a prompt\<close>

definition hex_byte :: "byte \<Rightarrow> jstr" where \<comment> \<open>\<open>toString(16).padStart(2, '0')\<close>\<close>
  "hex_byte b = [hex_digit (ucast (drop_bit 4 b)), hex_digit (ucast (b AND 15))]"

definition agentPromptTurnId :: "(byte list \<Rightarrow> byte list) \<Rightarrow> jstr \<Rightarrow> jstr \<Rightarrow> jstr" where
  "agentPromptTurnId sha256 sessionId key =
     js ''t_'' @ take 32 (concat (map hex_byte (sha256 (utf8 (sessionId @ [0] @ key)))))"

subsection \<open>What an inactive conversation retains\<close>

record conversation_presentation =
  cp_state :: stream_state
  cp_locale :: agent_locale
  cp_additionalItems :: "timeline_item list"
  cp_optimistic :: "optimistic_message list"
  cp_canRetry :: bool
  cp_canRefresh :: bool

text \<open>One render: the reference \<open>retained\<close> after it, and the presentation it shows.\<close>

definition retain ::
  "bool \<Rightarrow> conversation_presentation \<Rightarrow> conversation_presentation option
     \<Rightarrow> conversation_presentation option \<times> conversation_presentation" where
  "retain active props retained =
     (let kept = (case retained of None \<Rightarrow> None
            | Some r \<Rightarrow> if st_sessionId (cp_state r) \<noteq> st_sessionId (cp_state props)
                 \<or> st_provider (cp_state r) \<noteq> st_provider (cp_state props) then None else Some r);
          now = (if active then Some props else kept)
      in (now, case now of Some r \<Rightarrow> r
          | None \<Rightarrow> \<lparr>cp_state = emptyStream (st_sessionId (cp_state props)) (st_provider (cp_state props)),
              cp_locale = cp_locale props, cp_additionalItems = [], cp_optimistic = [], cp_canRetry = False,
              cp_canRefresh = False\<rparr>))"

subsection \<open>Failures and decisions\<close>

record failure_row =
  fr_row :: timeline_custom
  fr_shown :: jstr

definition failure_row_of :: "stream_state \<Rightarrow> agent_locale \<Rightarrow> jstr \<times> turn_failure \<Rightarrow> failure_row" where
  "failure_row_of state loc entry = (case entry of (turnId, failure) \<Rightarrow>
     \<lparr>fr_row = \<lparr>tc_id = js ''failure:'' @ st_sessionId state @ js '':'' @ turnId, tc_createdAt = tf_createdAt failure\<rparr>,
      fr_shown = (if tf_message failure \<noteq> [] then tf_message failure
        else case loc of
            Zh \<Rightarrow> [27492, 36718, 22238, 22797, 22833, 36133, 65292, 20379, 24212, 32773, 26410, 25552, 20379, 20855, 20307,
                   21407, 22240, 12290]
          | En \<Rightarrow> js ''This response failed. The provider did not provide a reason.'')\<rparr>)"

definition failures :: "stream_state \<Rightarrow> agent_locale \<Rightarrow> failure_row list" where
  "failures state loc = map (failure_row_of state loc) (get_or [] (st_turnFailures state))"

datatype card_state = CardPending | CardSubmitted | CardAllowed | CardDenied | CardCanceled | CardExpired | CardResolved

fun card_label :: "agent_locale \<Rightarrow> card_state \<Rightarrow> jstr" where
  "card_label En CardExpired = js ''Request expired''"
| "card_label En CardAllowed = js ''Allowed''"
| "card_label En CardDenied = js ''Declined''"
| "card_label En CardCanceled = js ''Canceled''"
| "card_label En CardResolved = js ''Response completed''"
| "card_label En CardPending = js ''Awaiting response''"
| "card_label En CardSubmitted = js ''Response submitted''"
| "card_label Zh CardExpired = [35831, 27714, 24050, 22833, 25928]"
| "card_label Zh CardAllowed = [24050, 20801, 35768]"
| "card_label Zh CardDenied = [24050, 25298, 32477]"
| "card_label Zh CardCanceled = [24050, 21462, 28040]"
| "card_label Zh CardResolved = [24050, 22238, 22797]"
| "card_label Zh CardPending = [31561, 24453, 22238, 22797]"
| "card_label Zh CardSubmitted = [22238, 22797, 24050, 25552, 20132]"

record decision_card =
  dc_identity :: jstr
  dc_title :: jstr
  dc_timestamp :: "jstr option"
  dc_state :: card_state
  dc_status :: jstr
  dc_detail :: "jstr option"
  dc_summary :: "jstr option" \<comment> \<open>the first line of the detail\<close>
  dc_missing :: bool

definition first_line :: "jstr \<Rightarrow> jstr" where
  "first_line t = takeWhile (\<lambda>u. u \<noteq> 10) t"

definition history_state :: "decision_record \<Rightarrow> card_state" where
  "history_state record =
     (let outcome = map_option de_outcome (dr_decision record) in
      if dr_status record = ExpiredDecision then CardExpired
      else if outcome = Some (Exactly AllowOutcome) then CardAllowed
      else if outcome = Some (Exactly DenyOutcome) then CardDenied
      else if outcome = Some (Exactly CancelOutcome) then CardCanceled
      else CardResolved)"

definition history_status :: "agent_request \<Rightarrow> decision_record \<Rightarrow> agent_locale \<Rightarrow> jstr" where
  "history_status request record loc =
     (let actor = (case Option.bind (dr_decision record) de_actor of
            None \<Rightarrow> None | Some (i, label) \<Rightarrow> if truthy label then label else Some i);
          choice = map_option do_label (find (\<lambda>opt. Some (do_id opt) = Option.bind (dr_decision record) de_optionId) (rq_options request));
          earlier = (if dr_status record = ExpiredDecision \<and> truthy choice
             then (case loc of Zh \<Rightarrow> [27492, 21069, 22238, 22797] | En \<Rightarrow> js ''Earlier response'') @ js '': '' @ get_or [] choice
             else [])
      in join [32, 183, 32] (map (get_or []) (filter truthy [Some (card_label loc (history_state record)), actor, Some earlier])))"

text \<open>A record without a request fails where its identity is read.\<close>

definition decision_history :: "stream_state \<Rightarrow> agent_locale \<Rightarrow> decision_record \<Rightarrow> (timeline_custom \<times> decision_card option) result" where
  "decision_history state loc record = (case dr_request record of
       None \<Rightarrow> Inl (TypeError ''undefined request id'')
     | Some request \<Rightarrow>
         andThen (nativeRequestPresentation loc (Pending request True)) (\<lambda>shown_request.
         Inr (\<lparr>tc_id = js ''decision:'' @ st_sessionId state @ js '':'' @ rq_id request, tc_createdAt = rq_createdAt request\<rparr>,
           case shown_request of
             UserInput _ \<Rightarrow> None
           | Approval approval \<Rightarrow> Some
               \<lparr>dc_identity = st_sessionId state @ js '':'' @ rq_id request, dc_title = pa_title approval,
                dc_timestamp = dr_updatedAt record, dc_state = history_state record,
                dc_status = history_status request record loc, dc_detail = kept (pa_detail approval),
                dc_summary = map_option first_line (kept (pa_detail approval)),
                dc_missing = (dr_status record = ExpiredDecision \<and> dr_decision record = None)\<rparr>)))"

definition decisions :: "stream_state \<Rightarrow> agent_locale \<Rightarrow> (timeline_custom \<times> decision_card option) list result" where
  "decisions state loc = traverse (decision_history state loc)
     (filter (\<lambda>record. dr_status record = AnsweredDecision \<or> dr_status record = ExpiredDecision) (prop_values (st_decisions state)))"

subsection \<open>Merging\<close>

definition itemTime :: "date_parser \<Rightarrow> timeline_item \<Rightarrow> int option" where
  "itemTime dp item =
     (let createdAt = (case item of Message m \<Rightarrow> tm_createdAt m | Custom c \<Rightarrow> tc_createdAt c | _ \<Rightarrow> None) in
      if truthy createdAt then dp (get_or [] createdAt) else None)"

record dated_item =
  di_item :: timeline_item
  di_index :: nat
  di_at :: "int option"

text \<open>The order of the comparator: dated entries by time, the others last, ties by index.\<close>

definition dated_key :: "dated_item \<Rightarrow> bool \<times> int \<times> nat" where
  "dated_key d = (di_at d = None, get_or 0 (di_at d), di_index d)"

definition dated_items :: "date_parser \<Rightarrow> timeline_item list \<Rightarrow> dated_item list" where
  "dated_items dp items = sort_key dated_key
     (map (\<lambda>(index, item). \<lparr>di_item = item, di_index = index, di_at = itemTime dp item\<rparr>) (enumerate 0 items))"

definition due :: "int option \<Rightarrow> dated_item \<Rightarrow> bool" where
  "due at d \<longleftrightarrow> (case (at, di_at d) of (Some t, Some s) \<Rightarrow> s \<le> t | _ \<Rightarrow> False)"

fun merge_dated :: "date_parser \<Rightarrow> timeline_item list \<Rightarrow> dated_item list \<Rightarrow> timeline_item list" where
  "merge_dated dp [] dated = map di_item dated"
| "merge_dated dp (item # rest) dated =
     map di_item (takeWhile (due (itemTime dp item)) dated) @ item # merge_dated dp rest (dropWhile (due (itemTime dp item)) dated)"

definition mergeTimelineItems :: "date_parser \<Rightarrow> timeline_item list \<Rightarrow> timeline_item list \<Rightarrow> timeline_item list" where
  "mergeTimelineItems dp nativeItems additionalItems = merge_dated dp nativeItems (dated_items dp additionalItems)"

text \<open>The items of the conversation: merged only where there is something to merge.\<close>

definition conversation_items ::
  "json_parser \<Rightarrow> date_parser \<Rightarrow> conversation_presentation \<Rightarrow> timeline_item list result" where
  "conversation_items parse dp p =
     (let state = cp_state p in
      andThen (nativeConversationModel parse dp state (cp_locale p)) (\<lambda>model.
      andThen (decisions state (cp_locale p)) (\<lambda>decided.
        (let optimistic = optimisticTimelineItems (st_sessionId state) (st_items state) (cp_optimistic p) (cp_locale p) (cp_canRetry p);
             failed = failures state (cp_locale p)
         in Inr (if decided = [] \<and> failed = [] \<and> cp_additionalItems p = [] \<and> optimistic = [] then cm_items model
            else mergeTimelineItems dp (cm_items model)
              (map (\<lambda>d. Custom (fst d)) decided @ map (\<lambda>f. Custom (fr_row f)) failed @ cp_additionalItems p
               @ map Message optimistic))))))"

text \<open>The state behind a single request that is shown as a notification.\<close>

definition input_state :: "jstr \<Rightarrow> agent_request \<Rightarrow> bool \<Rightarrow> stream_state" where
  "input_state sessionId request submitted =
     (emptyStream sessionId Codex)\<lparr>st_pending := [(rq_id request, Pending request submitted)]\<rparr>"

definition input_model ::
  "json_parser \<Rightarrow> date_parser \<Rightarrow> agent_locale \<Rightarrow> jstr \<Rightarrow> agent_request \<Rightarrow> bool \<Rightarrow> conversation_model result" where
  "input_model parse dp loc sessionId request submitted =
     andThen (nativeConversationModel parse dp (input_state sessionId request submitted) loc) (\<lambda>model.
     Inr (model\<lparr>cm_sessionKey := js ''notification:'' @ sessionId @ js '':'' @ rq_id request\<rparr>))"

end
