(* ===== verification/Items_Properties.thy ===== *)
theory Items_Properties
  imports Conversation_Items Text_Props Samples "HOL-Library.Multiset"
begin

text \<open>
  The rows beside the native ones: optimistic messages stand for messages that are not there yet, and
  merging puts dated rows among the native ones without moving those.
\<close>

subsection \<open>Optimistic messages\<close>

definition wanted :: "jstr \<Rightarrow> jstr set \<Rightarrow> optimistic_message \<Rightarrow> bool" where
  "wanted sessionId received m \<longleftrightarrow> \<not> (truthy (om_sessionId m) \<and> om_sessionId m \<noteq> Some sessionId)
     \<and> \<not> (truthy (om_turnId m) \<and> get_or [] (om_turnId m) \<in> received)"

definition rows_ok :: "jstr \<Rightarrow> jstr set \<Rightarrow> agent_locale \<Rightarrow> bool \<Rightarrow> optimistic_message list \<Rightarrow> timeline_message list \<times> jstr set \<Rightarrow> bool" where
  "rows_ok sessionId received loc canRetry ms acc \<longleftrightarrow> distinct (map tm_id (fst acc)) \<and> snd acc = tm_id ` set (fst acc)
     \<and> (\<forall>r \<in> set (fst acc). \<exists>m \<in> set ms. wanted sessionId received m \<and> r = optimistic_row sessionId loc canRetry m)
     \<and> (\<forall>m \<in> set ms. wanted sessionId received m \<longrightarrow> optimistic_id sessionId m \<in> snd acc)"

lemma optimistic_row_id [simp]: "tm_id (optimistic_row sessionId loc canRetry m) = optimistic_id sessionId m"
  by (simp add: optimistic_row_def)

lemma optimistic_step_eq:
  "optimistic_step sessionId received loc canRetry (rows, seen) m =
     (if wanted sessionId received m \<and> optimistic_id sessionId m \<notin> seen
      then (rows @ [optimistic_row sessionId loc canRetry m], insert (optimistic_id sessionId m) seen) else (rows, seen))"
  by (auto simp: optimistic_step_def wanted_def Let_def)

lemma rows_ok_step:
  assumes "rows_ok sessionId received loc canRetry ms acc"
  shows "rows_ok sessionId received loc canRetry (ms @ [m]) (optimistic_step sessionId received loc canRetry acc m)"
proof (cases acc)
  case (Pair rows seen)
  show ?thesis
  proof (cases "wanted sessionId received m \<and> optimistic_id sessionId m \<notin> seen")
    case True
    then have "optimistic_id sessionId m \<notin> tm_id ` set rows" using assms Pair by (simp add: rows_ok_def)
    then show ?thesis using assms True unfolding Pair optimistic_step_eq by (auto simp: rows_ok_def)
  next
    case False
    then show ?thesis using assms unfolding Pair optimistic_step_eq if_not_P [OF False] by (auto simp: rows_ok_def)
  qed
qed

lemma optimistic_rows_ok:
  "rows_ok sessionId received loc canRetry ms (foldl (optimistic_step sessionId received loc canRetry) ([], {}) ms)"
proof (induction ms rule: rev_induct)
  case Nil
  then show ?case by (simp add: rows_ok_def)
next
  case (snoc m ms)
  then show ?case using rows_ok_step by simp
qed

lemma optimistic_id_canonical:
  assumes "wanted (st_sessionId s) (received_turns canonical) m" and "x \<in> set canonical" "it_role x = UserRole"
  shows "optimistic_id (st_sessionId s) m \<noteq> timeline_id s x"
proof (cases "truthy (om_turnId m)")
  case True
  then obtain t where t: "om_turnId m = Some t" "t \<noteq> []" by (cases "om_turnId m") auto
  then have "it_turnId x \<noteq> t" using assms by (auto simp: wanted_def received_turns_def)
  then show ?thesis
    using t stringify_texts_inject [of "[st_sessionId s, t, js ''user'']" "[st_sessionId s, it_turnId x, it_id x]"]
    by (cases t) (auto simp: optimistic_id_def timeline_id_def)
next
  case False
  then have "optimistic_id (st_sessionId s) m = js ''optimistic:'' @ om_id m"
    by (auto simp: optimistic_id_def split: option.splits list.splits)
  then show ?thesis by (simp add: timeline_id_def js_def)
qed

text \<open>
  C23. An optimistic row stands for a message that has no row yet. Each row comes from an outgoing
  message of this session whose turn has no received user message, none shares its identity with
  another or with a received user message, and every such outgoing message has its row.
\<close>

theorem optimistic_rows_are_missing_messages:
  "(let rows = optimisticTimelineItems (st_sessionId s) canonical outgoing loc canRetry in
      distinct (map tm_id rows)
    \<and> (\<forall>r \<in> set rows. \<exists>m \<in> set outgoing. r = optimistic_row (st_sessionId s) loc canRetry m
         \<and> (truthy (om_sessionId m) \<longrightarrow> om_sessionId m = Some (st_sessionId s))
         \<and> (\<forall>x \<in> set canonical. it_role x = UserRole \<longrightarrow> om_turnId m \<noteq> Some (it_turnId x) \<or> it_turnId x = []))
    \<and> (\<forall>r \<in> set rows. \<forall>x \<in> set canonical. it_role x = UserRole \<longrightarrow> tm_id r \<noteq> timeline_id s x)
    \<and> (\<forall>m \<in> set outgoing. om_sessionId m = None \<and> om_turnId m = None \<longrightarrow> js ''optimistic:'' @ om_id m \<in> tm_id ` set rows))"
proof -
  define rows where "rows = optimisticTimelineItems (st_sessionId s) canonical outgoing loc canRetry"
  have ok: "rows_ok (st_sessionId s) (received_turns canonical) loc canRetry outgoing
      (foldl (optimistic_step (st_sessionId s) (received_turns canonical) loc canRetry) ([], {}) outgoing)"
    by (rule optimistic_rows_ok)
  have src: "\<exists>m \<in> set outgoing. wanted (st_sessionId s) (received_turns canonical) m
      \<and> r = optimistic_row (st_sessionId s) loc canRetry m" if "r \<in> set rows" for r
    using ok that unfolding rows_ok_def rows_def optimisticTimelineItems_def by blast
  have 1: "distinct (map tm_id rows)" using ok by (simp add: rows_ok_def rows_def optimisticTimelineItems_def)
  have 2: "\<forall>r \<in> set rows. \<exists>m \<in> set outgoing. r = optimistic_row (st_sessionId s) loc canRetry m
      \<and> (truthy (om_sessionId m) \<longrightarrow> om_sessionId m = Some (st_sessionId s))
      \<and> (\<forall>x \<in> set canonical. it_role x = UserRole \<longrightarrow> om_turnId m \<noteq> Some (it_turnId x) \<or> it_turnId x = [])"
  proof
    fix r assume "r \<in> set rows"
    then obtain m where m: "m \<in> set outgoing" "wanted (st_sessionId s) (received_turns canonical) m"
      "r = optimistic_row (st_sessionId s) loc canRetry m" using src by blast
    then have "\<forall>x \<in> set canonical. it_role x = UserRole \<longrightarrow> om_turnId m \<noteq> Some (it_turnId x) \<or> it_turnId x = []"
      "truthy (om_sessionId m) \<longrightarrow> om_sessionId m = Some (st_sessionId s)"
      by (auto simp: wanted_def received_turns_def)
    with m show "\<exists>m \<in> set outgoing. r = optimistic_row (st_sessionId s) loc canRetry m
      \<and> (truthy (om_sessionId m) \<longrightarrow> om_sessionId m = Some (st_sessionId s))
      \<and> (\<forall>x \<in> set canonical. it_role x = UserRole \<longrightarrow> om_turnId m \<noteq> Some (it_turnId x) \<or> it_turnId x = [])" by blast
  qed
  have 3: "\<forall>r \<in> set rows. \<forall>x \<in> set canonical. it_role x = UserRole \<longrightarrow> tm_id r \<noteq> timeline_id s x"
    proof (intro ballI impI)
    fix r x assume r: "r \<in> set rows" and x: "x \<in> set canonical" "it_role x = UserRole"
    obtain m where "wanted (st_sessionId s) (received_turns canonical) m"
      "r = optimistic_row (st_sessionId s) loc canRetry m" using src [OF r] by blast
    then show "tm_id r \<noteq> timeline_id s x" using optimistic_id_canonical x by simp
  qed
  have 4: "js ''optimistic:'' @ om_id m \<in> tm_id ` set rows"
    if "m \<in> set outgoing" "om_sessionId m = None \<and> om_turnId m = None" for m
  proof -
    have "wanted (st_sessionId s) (received_turns canonical) m" using that(2) by (simp add: wanted_def)
    moreover have "tm_id ` set rows = snd (foldl (optimistic_step (st_sessionId s) (received_turns canonical) loc canRetry) ([], {}) outgoing)"
      using ok unfolding rows_ok_def rows_def optimisticTimelineItems_def by blast
    ultimately have "optimistic_id (st_sessionId s) m \<in> tm_id ` set rows"
      using ok that(1) unfolding rows_ok_def by blast
    then show ?thesis using that(2) by (simp add: optimistic_id_def)
  qed
  show ?thesis unfolding rows_def [symmetric] Let_def using 1 2 3 4 by blast
qed

definition sample_outgoing :: "optimistic_message list" where
  "sample_outgoing = [\<lparr>om_id = js ''o1'', om_sessionId = None, om_turnId = None, om_text = js ''Hello'', om_createdAt = None,
     om_status = OutPending, om_error = None\<rparr>]"

theorem optimistic_rows_are_missing_messages_witness:
  "js ''optimistic:o1'' \<in> tm_id ` set (optimisticTimelineItems (js ''s1'') [] sample_outgoing En False)"
  using optimistic_rows_are_missing_messages [of sample_state "[]" sample_outgoing En False]
  by (simp add: sample_outgoing_def sample_state_def emptyStream_def Let_def js_append [symmetric])

subsection \<open>Merging\<close>

lemma append_in_shuffles: "zs \<in> shuffles xs ys \<Longrightarrow> ws @ zs \<in> shuffles xs (ws @ ys)"
  by (induction ws) (auto intro: Cons_in_shuffles_rightI)

lemma merge_dated_shuffle: "merge_dated dp native dated \<in> shuffles native (map di_item dated)"
proof (induction native arbitrary: dated)
  case Nil
  then show ?case by simp
next
  case (Cons x native)
  let ?p = "due (itemTime dp x)"
  have "x # merge_dated dp native (dropWhile ?p dated) \<in> shuffles (x # native) (map di_item (dropWhile ?p dated))"
    using Cons.IH by (rule Cons_in_shuffles_leftI)
  from append_in_shuffles [OF this, of "map di_item (takeWhile ?p dated)"] show ?case
    by (simp flip: map_append)
qed

lemma sorted_dropWhile: "sorted (map f ds) \<Longrightarrow> sorted (map f (dropWhile p ds))"
  by (simp add: dropWhile_eq_drop sorted_wrt_drop flip: drop_map)

lemma not_due_after:
  assumes "sorted (map dated_key ds)" and "d \<in> set (dropWhile (due at) ds)"
  shows "\<not> due at d"
proof -
  obtain h t where h: "dropWhile (due at) ds = h # t" using assms(2) by (cases "dropWhile (due at) ds") auto
  then have nh: "\<not> due at h" by (metis dropWhile_eq_Cons_conv)
  have "sorted (map dated_key (h # t))"
    using sorted_dropWhile [OF assms(1), of "due at"] h by simp
  then have "d = h \<or> dated_key h \<le> dated_key d" using assms(2) h by auto
  then show ?thesis using nh
    by (cases at; cases "di_at h"; cases "di_at d") (auto simp: due_def dated_key_def less_eq_prod_def)
qed

lemma merge_dated_split:
  assumes "sorted (map dated_key dated)" and "n < length native"
  shows "\<exists>a b ds1 ds2. merge_dated dp native dated = a @ native ! n # b \<and> dated = ds1 @ ds2
     \<and> a \<in> shuffles (take n native) (map di_item ds1) \<and> b \<in> shuffles (drop (Suc n) native) (map di_item ds2)
     \<and> (\<forall>d \<in> set ds2. \<not> due (itemTime dp (native ! n)) d)
     \<and> (\<forall>d \<in> set ds1. \<exists>x \<in> set (take (Suc n) native). due (itemTime dp x) d)"
  using assms
proof (induction native arbitrary: dated n)
  case Nil
  then show ?case by simp
next
  case (Cons x native)
  let ?p = "due (itemTime dp x)"
  let ?t = "takeWhile ?p dated" and ?d = "dropWhile ?p dated"
  have td: "dated = ?t @ ?d" by simp
  have dt: "\<forall>d \<in> set ?t. ?p d" by (auto dest: set_takeWhileD)
  show ?case
  proof (cases n)
    case 0
    have "\<forall>d \<in> set ?d. \<not> ?p d" using not_due_after [OF Cons.prems(1)] by blast
    then show ?thesis using 0 dt merge_dated_shuffle [of dp native ?d]
      by (intro exI [of _ "map di_item ?t"] exI [of _ "merge_dated dp native ?d"] exI [of _ ?t] exI [of _ ?d]) auto
  next
    case (Suc m)
    have "sorted (map dated_key ?d)"
      using Cons.prems(1) by (rule sorted_dropWhile)
    from Cons.IH [OF this, of m] obtain a b ds1 ds2 where r: "merge_dated dp native ?d = a @ native ! m # b" "?d = ds1 @ ds2"
      "a \<in> shuffles (take m native) (map di_item ds1)" "b \<in> shuffles (drop (Suc m) native) (map di_item ds2)"
      "\<forall>d \<in> set ds2. \<not> due (itemTime dp (native ! m)) d"
      "\<forall>d \<in> set ds1. \<exists>x \<in> set (take (Suc m) native). due (itemTime dp x) d"
      using Cons.prems(2) Suc by (elim exE conjE meta_impE) simp_all
    have "map di_item ?t @ x # a \<in> shuffles (x # take m native) (map di_item ?t @ map di_item ds1)"
      using append_in_shuffles [OF Cons_in_shuffles_leftI [OF r(3), of x], of "map di_item ?t"] .
    moreover have "\<forall>d \<in> set (?t @ ds1). \<exists>y \<in> set (take (Suc n) (x # native)). due (itemTime dp y) d"
      using dt r(6) Suc by auto
    moreover have "dated = (?t @ ds1) @ ds2" using td r(2) by simp
    moreover have "merge_dated dp (x # native) dated = (map di_item ?t @ x # a) @ (x # native) ! n # b" using r(1) Suc by simp
    moreover have "map di_item ?t @ x # a \<in> shuffles (take n (x # native)) (map di_item (?t @ ds1))"
      using calculation(1) Suc by simp
    moreover have "b \<in> shuffles (drop (Suc n) (x # native)) (map di_item ds2)" using r(4) Suc by simp
    moreover have "\<forall>d \<in> set ds2. \<not> due (itemTime dp ((x # native) ! n)) d" using r(5) Suc by simp
    ultimately show ?thesis by blast
  qed
qed

lemma dated_items_mset: "mset (map di_item (dated_items dp items)) = mset items"
proof -
  have "map di_item (map (\<lambda>(index, item). \<lparr>di_item = item, di_index = index, di_at = itemTime dp item\<rparr>) (enumerate 0 items)) = items"
    by (simp add: comp_def case_prod_unfold)
  then show ?thesis unfolding dated_items_def mset_map mset_sort by (metis mset_map)
qed

text \<open>
  C24. Merging moves nothing and loses nothing. The merged timeline is an interleaving of the native
  items in their order and the added ones, dated ones by time and then the others; a row before a
  native item is due at it or at an earlier one, and none after it was due at it.
\<close>

theorem merge_places_by_time:
  assumes "n < length native"
  shows "\<exists>a b ds1 ds2. mergeTimelineItems dp native extra = a @ native ! n # b \<and> dated_items dp extra = ds1 @ ds2
     \<and> mset (map di_item (ds1 @ ds2)) = mset extra \<and> sorted (map dated_key (ds1 @ ds2))
     \<and> a \<in> shuffles (take n native) (map di_item ds1) \<and> b \<in> shuffles (drop (Suc n) native) (map di_item ds2)
     \<and> (\<forall>d \<in> set ds2. \<not> due (itemTime dp (native ! n)) d)
     \<and> (\<forall>d \<in> set ds1. \<exists>x \<in> set (take (Suc n) native). due (itemTime dp x) d)"
proof -
  have s: "sorted (map dated_key (dated_items dp extra))" by (simp add: dated_items_def)
  obtain a b ds1 ds2 where "merge_dated dp native (dated_items dp extra) = a @ native ! n # b" "dated_items dp extra = ds1 @ ds2"
     "a \<in> shuffles (take n native) (map di_item ds1)" "b \<in> shuffles (drop (Suc n) native) (map di_item ds2)"
     "\<forall>d \<in> set ds2. \<not> due (itemTime dp (native ! n)) d"
     "\<forall>d \<in> set ds1. \<exists>x \<in> set (take (Suc n) native). due (itemTime dp x) d"
    using merge_dated_split [OF s assms, of dp] by (elim exE conjE)
  moreover from this have "mset (map di_item (ds1 @ ds2)) = mset extra" "sorted (map dated_key (ds1 @ ds2))"
    using s dated_items_mset [of dp extra] by metis+
  ultimately show ?thesis unfolding mergeTimelineItems_def by blast
qed

theorem merge_places_by_time_witness:
  "\<exists>a b. mergeTimelineItems sample_dates [Plan \<lparr>tp_id = js ''p'', tp_title = [], tp_text = [], tp_truncated = False\<rparr>]
      [Custom \<lparr>tc_id = js ''c'', tc_createdAt = Some sample_time\<rparr>] =
     a @ Plan \<lparr>tp_id = js ''p'', tp_title = [], tp_text = [], tp_truncated = False\<rparr> # b"
  using merge_places_by_time [of 0 "[Plan \<lparr>tp_id = js ''p'', tp_title = [], tp_text = [], tp_truncated = False\<rparr>]" sample_dates
      "[Custom \<lparr>tc_id = js ''c'', tc_createdAt = Some sample_time\<rparr>]"] by fastforce

end
