(* ===== verification/Provider_Settings.thy ===== *)
theory Provider_Settings
  imports Decode
begin

text \<open>
  \<open>web/src/providerSettings.ts\<close>: the configuration of the providers as the service reports it, and its
  decoder, which has primitive decoders with messages of its own.
\<close>

subsection \<open>Types\<close>

record value_option =
  vo_id :: jstr
  vo_label :: jstr

record model_option = value_option +
  mo_efforts :: "value_option list"
  mo_defaultEffort :: "jstr option"

record permission_option = value_option +
  po_description :: jstr

datatype login_status = UnknownLogin | Authenticated | Unauthenticated

primrec login_name :: "login_status \<Rightarrow> string" where
  "login_name UnknownLogin = ''unknown''"
| "login_name Authenticated = ''authenticated''"
| "login_name Unauthenticated = ''unauthenticated''"

definition login_statuses :: "login_status list" where
  "login_statuses = [UnknownLogin, Authenticated, Unauthenticated]"

record provider_configuration =
  pc_id :: jstr
  pc_provider :: agent_provider
  pc_enabled :: bool
  pc_binaryPath :: jstr
  pc_available :: bool
  pc_version :: jstr
  pc_detail :: "jstr option"
  pc_login :: "login_status printed \<times> jstr" \<comment> \<open>status, detail\<close>
  pc_defaults :: turn_options
  pc_models :: "model_option list"
  pc_permissions :: "permission_option list"

record agent_settings =
  as_revision :: jstr
  as_providers :: "provider_configuration list"

text \<open>What a host sends to change one provider.\<close>

record settings_update =
  su_revision :: jstr
  su_id :: jstr
  su_provider :: agent_provider
  su_enabled :: bool
  su_defaults :: turn_options
  su_binaryPath :: "jstr option"

subsection \<open>Primitive decoders\<close>

definition settings_record :: "unknown \<Rightarrow> js_object result" where
  "settings_record value = (case value of Some (JObj ps) \<Rightarrow> Inr ps
     | _ \<Rightarrow> Inl (Error ''Invalid provider settings.''))"

definition settings_text :: "nat \<Rightarrow> unknown \<Rightarrow> jstr result" where
  "settings_text maximum value = (case value of
       Some (JStr s) \<Rightarrow> if maximum < length s \<or> 0 \<in> set s then Inl (Error ''Invalid provider setting text.'') else Inr s
     | _ \<Rightarrow> Inl (Error ''Invalid provider setting text.''))"

definition settings_id :: "unknown \<Rightarrow> jstr result" where
  "settings_id value = andThen (settings_text 256 value) (\<lambda>i.
     if i = [] \<or> list_ex (\<lambda>u. u = 13 \<or> u = 10) i then Inl (Error ''Missing provider setting identity.'') else Inr i)"

definition settings_bool :: "unknown \<Rightarrow> bool result" where
  "settings_bool value = (case value of Some (JBool b) \<Rightarrow> Inr b
     | _ \<Rightarrow> Inl (Error ''Invalid provider setting state.''))"

definition settings_array :: "(unknown \<Rightarrow> 'a result) \<Rightarrow> nat \<Rightarrow> unknown \<Rightarrow> 'a list result" where
  "settings_array read limit value = (case value of
       Some (JArr xs) \<Rightarrow> if limit < length xs then Inl (Error ''Invalid provider settings collection.'')
                       else traverse (\<lambda>x. read (Some x)) xs
     | _ \<Rightarrow> Inl (Error ''Invalid provider settings collection.''))"

definition unique_by :: "('a \<Rightarrow> jstr) \<Rightarrow> 'a list \<Rightarrow> 'a list result" where
  "unique_by key values =
     (if length (uniq (map key values)) \<noteq> length values
      then Inl (Error ''Duplicate provider setting identity.'') else Inr values)"

definition settings_option :: "unknown \<Rightarrow> value_option result" where
  "settings_option value =
     andThen (settings_record value) (\<lambda>row.
     andThen (settings_id (field row ''id'')) (\<lambda>i.
     andThen (settings_text 512 (field row ''label'')) (\<lambda>label.
     Inr \<lparr>vo_id = i, vo_label = label\<rparr>)))"

subsection \<open>The settings\<close>

definition settings_model :: "unknown \<Rightarrow> model_option result" where
  "settings_model value =
     andThen (settings_record value) (\<lambda>model.
     andThen (settings_array settings_option 64 (field model ''efforts'')) (\<lambda>listed.
     andThen (unique_by vo_id listed) (\<lambda>efforts.
     andThen (optional settings_id (field model ''defaultEffort'')) (\<lambda>defaultEffort.
     andThen (throw_if (truthy defaultEffort \<and> \<not> list_ex (\<lambda>item. Some (vo_id item) = defaultEffort) efforts)
       ''Provider default effort is unavailable.'') (\<lambda>_.
     andThen (settings_option value) (\<lambda>opt.
     Inr \<lparr>vo_id = vo_id opt, vo_label = vo_label opt, mo_efforts = efforts, mo_defaultEffort = defaultEffort\<rparr>))))))"

definition settings_permission :: "unknown \<Rightarrow> permission_option result" where
  "settings_permission value =
     andThen (settings_option value) (\<lambda>opt.
     andThen (settings_record value) (\<lambda>row.
     andThen (settings_text 4096 (field row ''description'')) (\<lambda>description.
     Inr \<lparr>vo_id = vo_id opt, vo_label = vo_label opt, po_description = description\<rparr>)))"

definition settings_provider :: "unknown \<Rightarrow> provider_configuration result" where
  "settings_provider value =
     andThen (settings_record value) (\<lambda>row.
     andThen (settings_record (field row ''login'')) (\<lambda>login.
     andThen (provider_of (field row ''provider'')) (\<lambda>provider.
     andThen (printed_of login_name login_statuses ''Unknown provider login state.'' (field login ''status'')) (\<lambda>status.
     andThen (andThen (settings_array settings_model 2048 (field row ''models'')) (unique_by vo_id)) (\<lambda>models.
     andThen (andThen (settings_array settings_permission 32 (field row ''permissions'')) (unique_by vo_id)) (\<lambda>permissions.
     andThen (settings_id (field row ''id'')) (\<lambda>i.
     andThen (settings_bool (field row ''enabled'')) (\<lambda>enabled.
     andThen (settings_text 4096 (field row ''binaryPath'')) (\<lambda>binaryPath.
     andThen (settings_bool (field row ''available'')) (\<lambda>available.
     andThen (settings_text 256 (field row ''version'')) (\<lambda>version.
     andThen (optional (settings_text 4096) (field row ''detail'')) (\<lambda>detail.
     andThen (settings_text 4096 (field login ''detail'')) (\<lambda>loginDetail.
     andThen (decodeNativeTurnOptions (field row ''defaults'')) (\<lambda>defaults.
     Inr \<lparr>pc_id = i, pc_provider = provider, pc_enabled = enabled, pc_binaryPath = binaryPath,
          pc_available = available, pc_version = version, pc_detail = detail, pc_login = (status, loginDetail),
          pc_defaults = defaults, pc_models = models, pc_permissions = permissions\<rparr>))))))))))))))"

definition decodeNativeSettings :: "unknown \<Rightarrow> agent_settings result" where
  "decodeNativeSettings value =
     andThen (settings_record value) (\<lambda>settings.
     andThen (settings_array settings_provider 16 (field settings ''providers'')) (\<lambda>listed.
     andThen (unique_by pc_id listed) (\<lambda>providers.
     andThen (settings_id (field settings ''revision'')) (\<lambda>revision.
     Inr \<lparr>as_revision = revision, as_providers = providers\<rparr>))))"

lemmas [decode_defs] = settings_record_def settings_text_def settings_id_def settings_bool_def
  settings_array_def unique_by_def settings_option_def

end
