(* ===== verification/Client.thy ===== *)
theory Client
  imports Seed Provider_Settings Presentation
begin

text \<open>
  \<open>web/src/client.ts\<close>: the calls of the service. A call is the request that is handed to the transport
  (\<open>call\<close> of \<open>@xgc2/xrpc-client\<close>, which is not modelled) together with the decoder of its answer.
  The platform's \<open>URL\<close> parser is a parameter; signals and \<open>fetch\<close> functions are identities.
\<close>

subsection \<open>Platform text encodings\<close>

type_synonym handle = nat

definition upper_hex :: "byte \<Rightarrow> code_unit" where
  "upper_hex d = (if d < 10 then 48 + ucast d else 55 + ucast d)"

definition percent_byte :: "byte \<Rightarrow> jstr" where
  "percent_byte b = [37, upper_hex (drop_bit 4 b), upper_hex (b AND 15)]"

definition unreserved :: "code_unit \<Rightarrow> bool" where
  "unreserved u \<longleftrightarrow> is_alnum u \<or> u \<in> set (js ''-_.!~*()'') \<or> u = 39"

fun has_lone_surrogate :: "jstr \<Rightarrow> bool" where
  "has_lone_surrogate [] = False"
| "has_lone_surrogate (u # s) =
     (if is_high_surrogate u then
        (case s of [] \<Rightarrow> True | v # t \<Rightarrow> if is_low_surrogate v then has_lone_surrogate t else True)
      else is_low_surrogate u \<or> has_lone_surrogate s)"

definition encode_byte :: "byte \<Rightarrow> jstr" where
  "encode_byte b = (if b < 128 \<and> unreserved (ucast b) then [ucast b] else percent_byte b)"

definition encodeURIComponent :: "jstr \<Rightarrow> jstr result" where
  "encodeURIComponent s =
     (if has_lone_surrogate s then Inl (Error ''URI malformed'') else Inr (concat (map encode_byte (utf8 s))))"

text \<open>\<open>URLSearchParams.prototype.toString\<close>.\<close>

definition form_byte :: "byte \<Rightarrow> jstr" where
  "form_byte b = (if b = 32 then [43]
     else if b < 128 \<and> (is_alnum (ucast b) \<or> ucast b \<in> set (js ''*-._'')) then [ucast b] else percent_byte b)"

definition form_encode :: "(jstr \<times> jstr) list \<Rightarrow> jstr" where
  "form_encode params = join [38] (map (\<lambda>(name, value).
     concat (map form_byte (utf8 name)) @ [61] @ concat (map form_byte (utf8 value))) params)"

definition query_suffix :: "(jstr \<times> jstr) list \<Rightarrow> jstr" where
  "query_suffix params = (if params = [] then [] else [63] @ form_encode params)"

subsection \<open>The service root\<close>

record url =
  url_protocol :: jstr
  url_username :: jstr
  url_password :: jstr
  url_hostname :: jstr
  url_search :: jstr
  url_hash :: jstr

type_synonym url_parser = "jstr \<Rightarrow> url option" \<comment> \<open>\<open>None\<close> where \<open>new URL\<close> throws\<close>

definition strip_slash :: "jstr \<Rightarrow> jstr" where \<comment> \<open>\<open>replace(/\/$/, '')\<close>\<close>
  "strip_slash value = (if value \<noteq> [] \<and> last value = 47 then butlast value else value)"

definition segment_unit :: "code_unit \<Rightarrow> bool" where
  "segment_unit u \<longleftrightarrow> is_alnum u \<or> u = 95 \<or> u = 45"

text \<open>\<open>/^\/(?:[A-Za-z0-9_-]+\/)*[A-Za-z0-9_-]+$/\<close>: no segment between slashes is empty.\<close>

fun segments_ok :: "bool \<Rightarrow> jstr \<Rightarrow> bool" where
  "segments_ok started [] = started"
| "segments_ok started (u # s) =
     (if u = 47 then started \<and> segments_ok False s else segment_unit u \<and> segments_ok True s)"

definition relative_root :: "jstr \<Rightarrow> bool" where
  "relative_root path = (case path of [] \<Rightarrow> False | u # s \<Rightarrow> u = 47 \<and> segments_ok False s)"

definition absolute_root :: "url_parser \<Rightarrow> jstr \<Rightarrow> bool" where
  "absolute_root parse_url path = (case parse_url path of
       None \<Rightarrow> False
     | Some url \<Rightarrow> (url_protocol url = js ''https:'' \<or> url_protocol url = js ''http:'') \<and> url_username url = []
         \<and> url_password url = [] \<and> url_search url = [] \<and> url_hash url = [] \<and> url_hostname url \<noteq> [])"

definition nativeAgentBasePath :: "url_parser \<Rightarrow> jstr \<Rightarrow> jstr result" where
  "nativeAgentBasePath parse_url value =
     (let path = strip_slash value in
      if relative_root path \<or> absolute_root parse_url path then Inr path
      else Inl (Error ''The client needs an origin-relative path or an http(s) URL as the API root.''))"

subsection \<open>Requests\<close>

definition short_deadline :: int where "short_deadline = 15000"
definition long_deadline :: int where "long_deadline = 70000"

record client_options =
  co_basePath :: jstr
  co_headers :: "(jstr \<times> jstr) list option"
  co_fetch :: "handle option"
  co_short :: "int option" \<comment> \<open>\<open>deadlines\<close>\<close>
  co_long :: "int option"

record client =
  cl_root :: jstr
  cl_short :: int
  cl_long :: int
  cl_headers :: "(jstr \<times> jstr) list option"
  cl_fetch :: "handle option"

definition createAgentClient :: "url_parser \<Rightarrow> client_options \<Rightarrow> client result" where
  "createAgentClient parse_url options = andThen (nativeAgentBasePath parse_url (co_basePath options)) (\<lambda>root.
     Inr \<lparr>cl_root = root, cl_short = get_or short_deadline (co_short options),
          cl_long = get_or long_deadline (co_long options), cl_headers = co_headers options, cl_fetch = co_fetch options\<rparr>)"

record metadata_update =
  mu_expectedRevision :: int
  mu_title :: "jstr option"
  mu_archived :: "bool option"

datatype queue_operation = Enqueue | Edit | Remove | Reorder | Pause | Resume

record queue_command =
  qc_operation :: queue_operation
  qc_expectedRevision :: "int option"
  qc_id :: "jstr option"
  qc_text :: "jstr option"
  qc_options :: "turn_options option"
  qc_order :: "jstr list option"

text \<open>The payloads, before the transport prints them.\<close>

datatype payload =
    NoPayload
  | SettingsPayload settings_update
  | IdPayload jstr
  | MetadataPayload metadata_update
  | ScopePayload scope
  | QueuePayload queue_command
  | PromptPayload jstr "turn_options option"
  | AnswerPayload agent_answer

datatype http_method = GET | POST

record request_init =
  in_body :: payload
  in_deadlineMs :: "int option"
  in_requestId :: "jstr option"
  in_signal :: "handle option"
  in_maxResponseBytes :: "nat option"

definition plain_init :: request_init where
  "plain_init = \<lparr>in_body = NoPayload, in_deadlineMs = None, in_requestId = None, in_signal = None,
     in_maxResponseBytes = None\<rparr>"

text \<open>What \<open>call\<close> is given: the URL, the method, the body and its options.\<close>

record xrpc_call =
  xc_url :: jstr
  xc_method :: http_method
  xc_body :: payload
  xc_deadlineMs :: int
  xc_requestId :: "jstr option"
  xc_signal :: "handle option"
  xc_maxResponseBytes :: "nat option"
  xc_headers :: "(jstr \<times> jstr) list option"
  xc_fetch :: "handle option"

record xrpc_error =
  xe_code :: jstr
  xe_message :: jstr
  xe_details :: unknown

datatype xrpc_answer = Answered unknown | Rejected xrpc_error

datatype thrown = XrpcThrown xrpc_error | ErrorThrown error

type_synonym 'a client_call = "xrpc_call \<times> (unknown \<Rightarrow> 'a result)"

definition call_request :: "client \<Rightarrow> http_method \<Rightarrow> jstr \<Rightarrow> (unknown \<Rightarrow> 'a result) \<Rightarrow> request_init \<Rightarrow> 'a client_call" where
  "call_request c m path decode init =
     (\<lparr>xc_url = cl_root c @ path, xc_method = m, xc_body = in_body init,
       xc_deadlineMs = get_or (cl_short c) (in_deadlineMs init), xc_requestId = in_requestId init,
       xc_signal = in_signal init, xc_maxResponseBytes = in_maxResponseBytes init,
       xc_headers = cl_headers c, xc_fetch = cl_fetch c\<rparr>, decode)"

definition call_outcome :: "'a client_call \<Rightarrow> xrpc_answer \<Rightarrow> thrown + 'a" where
  "call_outcome c answer = (case answer of
       Rejected e \<Rightarrow> Inl (XrpcThrown e)
     | Answered body \<Rightarrow> (case snd c body of Inl e \<Rightarrow> Inl (ErrorThrown e) | Inr x \<Rightarrow> Inr x))"

definition isStaleRequest :: "thrown \<Rightarrow> bool" where
  "isStaleRequest e = (case e of
       XrpcThrown x \<Rightarrow> xe_code x = js ''conflict'' \<and> own_member (xe_details x) ''reason'' = Some (JStr (js ''stale''))
     | ErrorThrown _ \<Rightarrow> False)"

subsection \<open>Decoders\<close>

definition client_record :: "unknown \<Rightarrow> js_object result" where
  "client_record value = (case value of Some (JObj ps) \<Rightarrow> Inr ps
     | _ \<Rightarrow> Inl (Error ''The operation returned no result.''))"

definition decodeSessionPage :: "date_parser \<Rightarrow> unknown \<Rightarrow> (agent_session list \<times> jstr option) result" where
  "decodeSessionPage dp value =
     andThen (client_record value) (\<lambda>page.
     andThen (case field page ''nextCursor'' of
           None \<Rightarrow> Inr None
         | Some (JStr s) \<Rightarrow> if 1024 < length s then Inl (Error ''Invalid conversation cursor.'') else Inr (Some s)
         | Some _ \<Rightarrow> Inl (Error ''Invalid conversation cursor.'')) (\<lambda>nextCursor.
     andThen (decodeSessions dp (field page ''sessions'')) (\<lambda>sessions. Inr (sessions, nextCursor))))"

definition client_input :: "date_parser \<Rightarrow> unknown \<Rightarrow> (agent_request \<times> bool) result" where
  "client_input dp entry =
     andThen (client_record entry) (\<lambda>input. case field input ''submitted'' of
       Some (JBool submitted) \<Rightarrow> andThen (decodeNativeRequest dp (field input ''request'')) (\<lambda>req. Inr (req, submitted))
     | _ \<Rightarrow> Inl (Error ''Invalid pending input state.''))"

definition decodeInputs :: "date_parser \<Rightarrow> unknown \<Rightarrow> (agent_request \<times> bool) list result" where
  "decodeInputs dp value = (case value of
       Some (JArr xs) \<Rightarrow> if 16 < length xs then Inl (Error ''Invalid pending inputs.'')
                       else traverse (\<lambda>x. client_input dp (Some x)) xs
     | _ \<Rightarrow> Inl (Error ''Invalid pending inputs.''))"

record history_page =
  hp_events :: "agent_event list"
  hp_lastSeq :: nat
  hp_nextBefore :: "nat option"

text \<open>Each event follows the one before it and none lies beyond the end of the journal.\<close>

fun order_broken :: "nat \<Rightarrow> nat option \<Rightarrow> agent_event list \<Rightarrow> bool" where
  "order_broken lastSeq previous [] = False"
| "order_broken lastSeq previous (e # es) =
     (lastSeq < ev_seq e \<or> (case previous of None \<Rightarrow> False | Some s \<Rightarrow> ev_seq e \<noteq> s + 1)
      \<or> order_broken lastSeq (Some (ev_seq e)) es)"

definition history_events :: "unknown \<Rightarrow> json list result" where
  "history_events value = (case value of
       Some (JArr xs) \<Rightarrow> if 32 < length xs then Inl (Error ''Invalid history page.'') else Inr xs
     | _ \<Rightarrow> Inl (Error ''Invalid history page.''))"

definition history_last :: "unknown \<Rightarrow> nat result" where
  "history_last value = (case safe_int value of
       Some n \<Rightarrow> if n < 0 then Inl (Error ''Invalid history page.'') else Inr (nat n)
     | None \<Rightarrow> Inl (Error ''Invalid history page.''))"

definition history_cursor :: "agent_event list \<Rightarrow> unknown \<Rightarrow> nat option result" where
  "history_cursor events nextBefore = (case nextBefore of
       None \<Rightarrow> Inr None
     | Some v \<Rightarrow> (case (safe_int (Some v), events) of
           (Some n, e # _) \<Rightarrow> if n \<noteq> int (ev_seq e) \<or> n < 2 then Inl (Error ''Invalid history cursor.'') else Inr (Some (nat n))
         | _ \<Rightarrow> Inl (Error ''Invalid history cursor.'')))"

definition decodeHistory :: "date_parser \<Rightarrow> agent_session \<Rightarrow> unknown \<Rightarrow> history_page result" where
  "decodeHistory dp session value =
     andThen (client_record value) (\<lambda>page.
     andThen (history_last (field page ''lastSeq'')) (\<lambda>lastSeq.
     andThen (history_events (field page ''events'')) (\<lambda>raws.
     andThen (traverse (\<lambda>raw. decodeEvent dp (Some raw) (se_id session) (se_provider session)) raws) (\<lambda>events.
     andThen (throw_if (order_broken lastSeq None events) ''History event order is invalid.'') (\<lambda>_.
     andThen (history_cursor events (field page ''nextBefore'')) (\<lambda>nextBefore.
     Inr \<lparr>hp_events = events, hp_lastSeq = lastSeq, hp_nextBefore = nextBefore\<rparr>))))))"

definition scope_differs :: "scope \<Rightarrow> scope \<Rightarrow> bool" where
  "scope_differs created asked \<longleftrightarrow> sc_profileId created \<noteq> sc_profileId asked
     \<or> sc_accessConfirmed created \<noteq> sc_accessConfirmed asked
     \<or> fst (sc_context created) \<noteq> fst (sc_context asked) \<or> snd (sc_context created) \<noteq> snd (sc_context asked)
     \<or> fst (sc_workspace created) \<noteq> fst (sc_workspace asked) \<or> snd (sc_workspace created) \<noteq> snd (sc_workspace asked)"

definition options_differ :: "turn_options option \<Rightarrow> turn_options option \<Rightarrow> bool" where
  "options_differ created asked \<longleftrightarrow>
     list_ex (\<lambda>read. Option.bind created read \<noteq> Option.bind asked read) [opt_model, opt_effort, opt_permission]"

definition decodeCreated :: "date_parser \<Rightarrow> scope \<Rightarrow> unknown \<Rightarrow> agent_session result" where
  "decodeCreated dp asked value =
     andThen (decodeSession dp value) (\<lambda>session.
     andThen (throw_if (scope_differs (se_scope session) asked)
       ''The created conversation does not match the requested scope.'') (\<lambda>_.
     andThen (throw_if (options_differ (sc_options (se_scope session)) (sc_options asked))
       ''Session options do not match the request.'') (\<lambda>_. Inr session)))"

definition is_hex_unit :: "code_unit \<Rightarrow> bool" where
  "is_hex_unit u \<longleftrightarrow> is_digit u \<or> (97 \<le> u \<and> u \<le> 102)"

text \<open>\<open>/^t_[a-f0-9]{32}$/\<close>.\<close>

definition is_turn_id :: "jstr \<Rightarrow> bool" where
  "is_turn_id s \<longleftrightarrow> startsWith s (js ''t_'') \<and> length s = 34 \<and> list_all is_hex_unit (drop 2 s)"

definition decodeTurnId :: "unknown \<Rightarrow> jstr result" where
  "decodeTurnId value = andThen (client_record value) (\<lambda>result. case field result ''turnId'' of
       Some (JStr s) \<Rightarrow> if is_turn_id s then Inr s
           else Inl (Error ''The prompt was accepted without a stable turn identity.'')
     | _ \<Rightarrow> Inl (Error ''The prompt was accepted without a stable turn identity.''))"

end
