(* ===== verification/Client_Calls.thy ===== *)
theory Client_Calls
  imports Client
begin

text \<open>
  The operations of \<open>createAgentClient\<close> in \<open>web/src/client.ts\<close>, one definition each: the request it makes
  and how its answer is decoded. An operation on a session fails before it makes a request where the
  identity cannot be encoded.
\<close>

definition response_limit :: nat where "response_limit = 4 * 1024 * 1024"

definition sessionPath :: "jstr \<Rightarrow> jstr result" where
  "sessionPath i = andThen (encodeURIComponent i) (\<lambda>e. Inr (js ''/sessions/'' @ e))"

definition on_session ::
  "client \<Rightarrow> http_method \<Rightarrow> jstr \<Rightarrow> string \<Rightarrow> (unknown \<Rightarrow> 'a result) \<Rightarrow> request_init \<Rightarrow> 'a client_call result" where
  "on_session c m i suffix decode init = andThen (sessionPath i) (\<lambda>path. Inr (call_request c m (path @ js suffix) decode init))"

definition read_init :: "handle option \<Rightarrow> request_init" where
  "read_init signal = plain_init\<lparr>in_signal := signal\<rparr>"

definition long_init :: "client \<Rightarrow> payload \<Rightarrow> request_init" where
  "long_init c body = plain_init\<lparr>in_body := body, in_deadlineMs := Some (cl_long c)\<rparr>"

subsection \<open>Settings and profiles\<close>

definition getNativeSettings :: "client \<Rightarrow> handle option \<Rightarrow> agent_settings client_call" where
  "getNativeSettings c signal = call_request c GET (js ''/settings'') decodeNativeSettings (read_init signal)"

definition updateNativeSettings :: "client \<Rightarrow> settings_update \<Rightarrow> agent_settings client_call" where
  "updateNativeSettings c update =
     call_request c POST (js ''/settings'') decodeNativeSettings (long_init c (SettingsPayload update))"

definition refreshNativeSettings :: "client \<Rightarrow> jstr \<Rightarrow> agent_settings client_call" where
  "refreshNativeSettings c i =
     call_request c POST (js ''/settings/refresh'') decodeNativeSettings (long_init c (IdPayload i))"

definition getNativeProfiles :: "client \<Rightarrow> handle option \<Rightarrow> agent_profile list client_call" where
  "getNativeProfiles c signal = call_request c GET (js ''/providers'') decodeProfiles (read_init signal)"

subsection \<open>Reading sessions\<close>

definition limit_param :: "string \<Rightarrow> js_number option \<Rightarrow> (jstr \<times> jstr) list" where
  "limit_param name value = (case value of None \<Rightarrow> [] | Some n \<Rightarrow> [(js name, number_text n)])"

definition getNativeSessionPage ::
  "client \<Rightarrow> date_parser \<Rightarrow> handle option \<Rightarrow> jstr option \<Rightarrow> js_number option
     \<Rightarrow> (agent_session list \<times> jstr option) client_call" where
  "getNativeSessionPage c dp signal after limit =
     (let query = (if truthy after then [(js ''after'', get_or [] after)] else []) @ limit_param ''limit'' limit in
      call_request c GET (js ''/sessions'' @ query_suffix query) (decodeSessionPage dp) (read_init signal))"

definition getNativeSession :: "client \<Rightarrow> date_parser \<Rightarrow> jstr \<Rightarrow> handle option \<Rightarrow> agent_session client_call result" where
  "getNativeSession c dp i signal = on_session c GET i '''' (decodeSession dp) (read_init signal)"

definition getNativeCurrent ::
  "client \<Rightarrow> date_parser \<Rightarrow> agent_session \<Rightarrow> handle option \<Rightarrow> stream_state client_call result" where
  "getNativeCurrent c dp session signal = on_session c GET (se_id session) ''/current''
     (\<lambda>value. decodeCurrentSeed dp value session) ((read_init signal)\<lparr>in_maxResponseBytes := Some response_limit\<rparr>)"

definition getNativeHistory ::
  "client \<Rightarrow> date_parser \<Rightarrow> agent_session \<Rightarrow> js_number option \<Rightarrow> js_number option \<Rightarrow> handle option
     \<Rightarrow> history_page client_call result" where
  "getNativeHistory c dp session before limit signal =
     (let query = limit_param ''before'' before @ limit_param ''limit'' limit in
      andThen (sessionPath (se_id session)) (\<lambda>path.
      Inr (call_request c GET (path @ js ''/history'' @ query_suffix query) (decodeHistory dp session)
        ((read_init signal)\<lparr>in_maxResponseBytes := Some response_limit\<rparr>))))"

definition getNativeInputs ::
  "client \<Rightarrow> date_parser \<Rightarrow> jstr \<Rightarrow> handle option \<Rightarrow> (agent_request \<times> bool) list client_call result" where
  "getNativeInputs c dp i signal = on_session c GET i ''/inputs'' (decodeInputs dp) (read_init signal)"

subsection \<open>Commands\<close>

definition evaluateNativeInputs :: "client \<Rightarrow> jstr \<Rightarrow> js_object client_call result" where
  "evaluateNativeInputs c i = on_session c POST i ''/evaluate-inputs'' client_record plain_init"

definition updateNativeSession ::
  "client \<Rightarrow> date_parser \<Rightarrow> jstr \<Rightarrow> metadata_update \<Rightarrow> agent_session client_call result" where
  "updateNativeSession c dp i update =
     on_session c POST i ''/metadata'' (decodeSession dp) (plain_init\<lparr>in_body := MetadataPayload update\<rparr>)"

text \<open>\<open>key\<close> is the idempotency identity of the operation.\<close>

definition createNativeSession :: "client \<Rightarrow> date_parser \<Rightarrow> scope \<Rightarrow> jstr \<Rightarrow> agent_session client_call" where
  "createNativeSession c dp asked key = call_request c POST (js ''/sessions'') (decodeCreated dp asked)
     ((long_init c (ScopePayload asked))\<lparr>in_requestId := Some key\<rparr>)"

definition updateNativePromptQueue ::
  "client \<Rightarrow> date_parser \<Rightarrow> jstr \<Rightarrow> queue_command \<Rightarrow> jstr \<Rightarrow> prompt_queue client_call result" where
  "updateNativePromptQueue c dp i command key = on_session c POST i ''/queue'' (decodePromptQueue dp)
     (plain_init\<lparr>in_body := QueuePayload command, in_requestId := Some key\<rparr>)"

definition sendNativePrompt ::
  "client \<Rightarrow> jstr \<Rightarrow> jstr \<Rightarrow> jstr \<Rightarrow> turn_options option \<Rightarrow> jstr client_call result" where
  "sendNativePrompt c i prompt key promptOptions = on_session c POST i ''/prompts'' decodeTurnId
     ((long_init c (PromptPayload prompt promptOptions))\<lparr>in_requestId := Some key\<rparr>)"

definition answerNativeRequest :: "client \<Rightarrow> jstr \<Rightarrow> jstr \<Rightarrow> agent_answer \<Rightarrow> js_object client_call result" where
  "answerNativeRequest c i requestId answer =
     andThen (sessionPath i) (\<lambda>path. andThen (encodeURIComponent requestId) (\<lambda>e.
     Inr (call_request c POST (path @ js ''/inputs/'' @ e) client_record (plain_init\<lparr>in_body := AnswerPayload answer\<rparr>))))"

definition cancelNativeTurn :: "client \<Rightarrow> jstr \<Rightarrow> js_object client_call result" where
  "cancelNativeTurn c i = on_session c POST i ''/cancel'' client_record plain_init"

definition reconnectNativeSession :: "client \<Rightarrow> jstr \<Rightarrow> js_object client_call result" where
  "reconnectNativeSession c i = on_session c POST i ''/reconnect'' client_record plain_init"

definition closeNativeSession :: "client \<Rightarrow> jstr \<Rightarrow> js_object client_call result" where
  "closeNativeSession c i = on_session c POST i ''/close'' client_record plain_init"

text \<open>
  The operations on one session, by what they are given. Two of them are given the session itself,
  the others its identity; \<open>addressed\<close> is the identity an operation is for.
\<close>

datatype session_operation =
    GetSession "handle option" | GetCurrent agent_session "handle option"
  | GetHistory agent_session "js_number option" "js_number option" "handle option"
  | GetInputs "handle option" | EvaluateInputs
  | UpdateSession metadata_update | UpdateQueue queue_command jstr
  | SendPrompt jstr jstr "turn_options option" | AnswerRequest jstr agent_answer
  | CancelTurn | Reconnect | CloseSession

fun addressed :: "jstr \<Rightarrow> session_operation \<Rightarrow> jstr" where
  "addressed i (GetCurrent session _) = se_id session"
| "addressed i (GetHistory session _ _ _) = se_id session"
| "addressed i _ = i"

fun session_request :: "client \<Rightarrow> date_parser \<Rightarrow> jstr \<Rightarrow> session_operation \<Rightarrow> xrpc_call result" where
  "session_request c dp i (GetSession signal) = andThen (getNativeSession c dp i signal) (\<lambda>r. Inr (fst r))"
| "session_request c dp i (GetCurrent session signal) = andThen (getNativeCurrent c dp session signal) (\<lambda>r. Inr (fst r))"
| "session_request c dp i (GetHistory session before limit signal) =
     andThen (getNativeHistory c dp session before limit signal) (\<lambda>r. Inr (fst r))"
| "session_request c dp i (GetInputs signal) = andThen (getNativeInputs c dp i signal) (\<lambda>r. Inr (fst r))"
| "session_request c dp i EvaluateInputs = andThen (evaluateNativeInputs c i) (\<lambda>r. Inr (fst r))"
| "session_request c dp i (UpdateSession update) = andThen (updateNativeSession c dp i update) (\<lambda>r. Inr (fst r))"
| "session_request c dp i (UpdateQueue command key) = andThen (updateNativePromptQueue c dp i command key) (\<lambda>r. Inr (fst r))"
| "session_request c dp i (SendPrompt prompt key opts) = andThen (sendNativePrompt c i prompt key opts) (\<lambda>r. Inr (fst r))"
| "session_request c dp i (AnswerRequest requestId answer) = andThen (answerNativeRequest c i requestId answer) (\<lambda>r. Inr (fst r))"
| "session_request c dp i CancelTurn = andThen (cancelNativeTurn c i) (\<lambda>r. Inr (fst r))"
| "session_request c dp i Reconnect = andThen (reconnectNativeSession c i) (\<lambda>r. Inr (fst r))"
| "session_request c dp i CloseSession = andThen (closeNativeSession c i) (\<lambda>r. Inr (fst r))"

end
