(* ===== verification/Client_Properties.thy ===== *)
theory Client_Properties
  imports Client_Calls Conversation_Items Decode_Props Samples
begin

text \<open>
  What the calls of the client promise: where they go, what a page of history is, that a prompt's
  identity as the conversation computes it passes the client's check, and which roots are stable.
\<close>

subsection \<open>Encoding\<close>

lemma ascii_units: "u < 128 \<Longrightarrow> u \<in> set (map of_nat [0..<128])" for u :: code_unit
proof -
  assume "u < 128"
  then have "u = of_nat (unat u)" "unat u \<in> set [0..<128]" by (simp_all add: word_less_nat_alt)
  then show ?thesis by (metis image_eqI set_map)
qed

text \<open>What a segment of a path is made of.\<close>

definition path_unit :: "code_unit \<Rightarrow> bool" where
  "path_unit u \<longleftrightarrow> unreserved u \<or> u = 37"

lemma hex_units: "unat d < 16 \<Longrightarrow> path_unit (upper_hex d)"
proof -
  have "list_all (\<lambda>d. path_unit (upper_hex d)) (map of_nat [0..<16])" by code_simp
  moreover have "d = of_nat (unat d)" by simp
  ultimately show "unat d < 16 \<Longrightarrow> ?thesis" by (metis atLeastLessThan_iff bot_nat_0.extremum image_eqI list.set_map list_all_iff set_upt)
qed

lemma nibbles: "unat (drop_bit 4 b) < 16" "unat (b AND 15) < 16" for b :: byte
proof -
  have b: "unat b < 2 ^ LENGTH(8)" by (rule unsigned_less)
  then have "unat (drop_bit 4 b) = unat b div 16"
    by (simp only: unsigned_drop_bit_eq) (simp add: drop_bit_eq_div take_bit_eq_mod)
  then show "unat (drop_bit 4 b) < 16" using b by simp
  have "b AND 15 = take_bit 4 b" by (simp add: take_bit_eq_mask mask_eq_exp_minus_1)
  then have "unat (b AND 15) = take_bit 4 (unat b)" by (simp add: unsigned_take_bit_eq)
  then show "unat (b AND 15) < 16" by (simp add: take_bit_eq_mod)
qed

lemma encode_byte_units: "list_all path_unit (encode_byte b)"
proof -
  have "path_unit 37" by (simp add: path_unit_def)
  then show ?thesis using hex_units [OF nibbles(1)] hex_units [OF nibbles(2)]
    by (simp add: encode_byte_def percent_byte_def path_unit_def)
qed

lemma encodeURIComponent_units: "encodeURIComponent s = Inr e \<Longrightarrow> list_all path_unit e"
  using encode_byte_units by (auto simp: encodeURIComponent_def list_all_iff split: if_splits)

lemma path_unit_no_delimiter: "list_all path_unit e \<Longrightarrow> 47 \<notin> set e \<and> 63 \<notin> set e \<and> 35 \<notin> set e"
proof -
  have "\<not> path_unit 47" "\<not> path_unit 63" "\<not> path_unit 35" by code_simp+
  then show "list_all path_unit e \<Longrightarrow> ?thesis" by (auto simp: list_all_iff)
qed

definition id_unit :: "code_unit \<Rightarrow> bool" where
  "id_unit u \<longleftrightarrow> is_alnum u \<or> u = 46 \<or> u = 95 \<or> u = 45"

lemma id_unit_ascii:
  assumes "id_unit u"
  shows "u < 128 \<and> concat (map encode_byte (utf8_unit u)) = [u] \<and> \<not> is_high_surrogate u \<and> \<not> is_low_surrogate u"
proof -
  have "u < 128" using assms by (auto simp: id_unit_def is_alnum_def char_class_defs word_less_nat_alt word_le_nat_alt)
  moreover have "list_all (\<lambda>u. id_unit u \<longrightarrow> concat (map encode_byte (utf8_unit u)) = [u]) (map of_nat [0..<128])" by code_simp
  moreover have "\<not> is_high_surrogate u \<and> \<not> is_low_surrogate u"
    using \<open>u < 128\<close> by (auto simp: char_class_defs word_less_nat_alt word_le_nat_alt)
  ultimately show ?thesis using ascii_units [of u] assms unfolding list_all_iff by blast
qed

lemma encode_ids:
  assumes "list_all id_unit s"
  shows "encodeURIComponent s = Inr s"
proof -
  have "\<not> has_lone_surrogate s \<and> concat (map encode_byte (utf8 s)) = s" using assms
  proof (induction s)
    case Nil
    then show ?case by simp
  next
    case (Cons u s)
    then show ?case using id_unit_ascii [of u] by simp
  qed
  then show ?thesis by (simp add: encodeURIComponent_def)
qed

lemma is_safe_id_units: "is_safe_id s \<Longrightarrow> list_all id_unit s"
  by (cases s) (auto simp: is_safe_id_def id_unit_def list_all_iff)

subsection \<open>Where requests go\<close>

lemma sessionPath_ok:
  assumes "sessionPath i = Inr path"
  shows "\<exists>e. encodeURIComponent i = Inr e \<and> path = js ''/sessions/'' @ e \<and> list_all path_unit e"
  using assms encodeURIComponent_units by (auto simp: sessionPath_def result_simps)

text \<open>The paths below a session, and the query of a page of history.\<close>

definition operation_suffix :: "session_operation \<Rightarrow> jstr \<Rightarrow> bool" where
  "operation_suffix op rest \<longleftrightarrow> (case op of
       GetSession _ \<Rightarrow> rest = []
     | GetCurrent _ _ \<Rightarrow> rest = js ''/current''
     | GetHistory _ _ _ _ \<Rightarrow> rest = js ''/history''
     | GetInputs _ \<Rightarrow> rest = js ''/inputs''
     | EvaluateInputs \<Rightarrow> rest = js ''/evaluate-inputs''
     | UpdateSession _ \<Rightarrow> rest = js ''/metadata''
     | UpdateQueue _ _ \<Rightarrow> rest = js ''/queue''
     | SendPrompt _ _ _ \<Rightarrow> rest = js ''/prompts''
     | AnswerRequest requestId _ \<Rightarrow> (\<exists>e. encodeURIComponent requestId = Inr e \<and> 47 \<notin> set e \<and> rest = js ''/inputs/'' @ e)
     | CancelTurn \<Rightarrow> rest = js ''/cancel''
     | Reconnect \<Rightarrow> rest = js ''/reconnect''
     | CloseSession \<Rightarrow> rest = js ''/close'')"

definition operation_query :: "session_operation \<Rightarrow> jstr" where
  "operation_query op = (case op of
       GetHistory _ before limit _ \<Rightarrow> query_suffix (limit_param ''before'' before @ limit_param ''limit'' limit)
     | _ \<Rightarrow> [])"

text \<open>The segments below the session, by the slashes that open them.\<close>

definition segments_below :: "session_operation \<Rightarrow> nat" where
  "segments_below op = (case op of GetSession _ \<Rightarrow> 0 | AnswerRequest _ _ \<Rightarrow> 2 | _ \<Rightarrow> 1)"

lemmas session_call_defs = getNativeSession_def getNativeCurrent_def getNativeHistory_def getNativeInputs_def
  evaluateNativeInputs_def updateNativeSession_def updateNativePromptQueue_def sendNativePrompt_def answerNativeRequest_def
  cancelNativeTurn_def reconnectNativeSession_def closeNativeSession_def on_session_def call_request_def

lemma encoded_segment: "encodeURIComponent s = Inr e \<Longrightarrow> 47 \<notin> set e \<and> 63 \<notin> set e \<and> 35 \<notin> set e"
  using encodeURIComponent_units path_unit_no_delimiter by blast

lemma session_request_path:
  assumes "session_request c dp i op = Inr r"
  shows "\<exists>path rest. sessionPath (addressed i op) = Inr path \<and> xc_url r = cl_root c @ path @ rest @ operation_query op
     \<and> operation_suffix op rest"
  using assms encoded_segment
  by (cases op) (auto simp: session_call_defs result_simps operation_suffix_def operation_query_def)

lemma suffix_delimiters:
  assumes "operation_suffix op rest"
  shows "(rest = [] \<or> hd rest = 47) \<and> 63 \<notin> set rest \<and> 35 \<notin> set rest \<and> count_list rest 47 = segments_below op"
proof (cases op)
  case (AnswerRequest requestId answer)
  then obtain e where e: "encodeURIComponent requestId = Inr e" "rest = js ''/inputs/'' @ e"
    using assms by (auto simp: operation_suffix_def)
  then show ?thesis using encoded_segment [OF e(1)] AnswerRequest
    by (simp add: js_def segments_below_def count_list_0_iff)
qed (use assms in \<open>auto simp: operation_suffix_def segments_below_def js_def\<close>)

text \<open>What \<open>URLSearchParams\<close> prints has no delimiter of a path or of a fragment.\<close>

lemma form_byte_units: "47 \<notin> set (form_byte b) \<and> 35 \<notin> set (form_byte b)"
proof -
  have p: "list_all path_unit (percent_byte b)"
    using hex_units [OF nibbles(1)] hex_units [OF nibbles(2)] by (simp add: percent_byte_def path_unit_def)
  have "\<not> is_alnum 47" "\<not> is_alnum 35" by code_simp+
  then show ?thesis using path_unit_no_delimiter [OF p] by (auto simp: form_byte_def js_def)
qed

lemma join_set: "set (join sep xs) \<subseteq> set sep \<union> \<Union> (set ` set xs)"
  by (induction sep xs rule: join.induct) auto

lemma query_delimiters: "operation_query op \<noteq> [] \<longrightarrow> hd (operation_query op) = 63"
  "47 \<notin> set (operation_query op) \<and> 35 \<notin> set (operation_query op)"
proof -
  have "47 \<notin> set (form_encode params) \<and> 35 \<notin> set (form_encode params)" for params
    using join_set [of "[38]"] form_byte_units unfolding form_encode_def by fastforce
  then show "operation_query op \<noteq> [] \<longrightarrow> hd (operation_query op) = 63"
    "47 \<notin> set (operation_query op) \<and> 35 \<notin> set (operation_query op)"
    by (auto simp: operation_query_def query_suffix_def split: session_operation.splits)
qed

text \<open>
  C31. A request stays on its session. For each of the twelve operations on a session, and whatever the
  identity of the session or of a request is, the URL is the root, \<open>/sessions/\<close>, one segment that
  stands for the session, the path of the operation and, for a page of history, its query. The identity
  of the session adds no further segment, no query and no fragment; the path of the operation has
  no segment, one or, for the answer to a request, two, of which the identity of the request is the last; a
  decoded identity of a session is its segment as it is.
\<close>

theorem requests_stay_on_their_session:
  assumes "session_request c dp i op = Inr r"
  shows "\<exists>e rest. encodeURIComponent (addressed i op) = Inr e
     \<and> xc_url r = cl_root c @ js ''/sessions/'' @ e @ rest @ operation_query op
     \<and> operation_suffix op rest \<and> set e \<inter> {47, 63, 35} = {} \<and> (rest = [] \<or> hd rest = 47) \<and> set rest \<inter> {63, 35} = {}
     \<and> count_list rest 47 = segments_below op
     \<and> (operation_query op \<noteq> [] \<longrightarrow> hd (operation_query op) = 63) \<and> set (operation_query op) \<inter> {47, 35} = {}
     \<and> (is_safe_id (addressed i op) \<longrightarrow> e = addressed i op)"
proof -
  obtain path rest where p: "sessionPath (addressed i op) = Inr path" "xc_url r = cl_root c @ path @ rest @ operation_query op"
    "operation_suffix op rest"
    using session_request_path [OF assms] by blast
  obtain e where e: "encodeURIComponent (addressed i op) = Inr e" "path = js ''/sessions/'' @ e" "list_all path_unit e"
    using sessionPath_ok [OF p(1)] by blast
  have "is_safe_id (addressed i op) \<longrightarrow> e = addressed i op" using encode_ids [OF is_safe_id_units] e(1) by auto
  then show ?thesis using p e path_unit_no_delimiter [OF e(3)] suffix_delimiters [OF p(3)] query_delimiters [of op]
    by (intro exI [of _ e] exI [of _ rest]) simp
qed

definition sample_client :: client where
  "sample_client = \<lparr>cl_root = js ''/agent'', cl_short = short_deadline, cl_long = long_deadline, cl_headers = None, cl_fetch = None\<rparr>"

theorem requests_stay_on_their_session_witness:
  "\<exists>r e rest. session_request sample_client sample_dates (js ''s1'') (AnswerRequest (js ''r1'') CancelRequest) = Inr r
     \<and> xc_url r = js ''/agent'' @ js ''/sessions/'' @ e @ rest \<and> e = js ''s1''"
proof -
  have u: "list_all id_unit (js ''s1'')" "list_all id_unit (js ''r1'')" "is_safe_id (js ''s1'')" by code_simp+
  obtain r where r: "session_request sample_client sample_dates (js ''s1'') (AnswerRequest (js ''r1'') CancelRequest) = Inr r"
    using encode_ids [OF u(1)] encode_ids [OF u(2)] by (simp add: answerNativeRequest_def sessionPath_def)
  obtain e rest where "xc_url r = cl_root sample_client @ js ''/sessions/'' @ e @ rest" "is_safe_id (js ''s1'') \<longrightarrow> e = js ''s1''"
    using requests_stay_on_their_session [OF r] by (auto simp: operation_query_def)
  then have "xc_url r = js ''/agent'' @ js ''/sessions/'' @ e @ rest" "e = js ''s1''"
    using u(3) by (simp_all only: sample_client_def client.simps simp_thms)
  with r show ?thesis by (intro exI conjI)
qed

subsection \<open>The root\<close>

lemma segments_ok_last: "segments_ok started s \<Longrightarrow> s \<noteq> [] \<Longrightarrow> last s \<noteq> 47"
  by (induction started s rule: segments_ok.induct) (auto split: if_splits)

lemma relative_root_last: "relative_root path \<Longrightarrow> path \<noteq> [] \<and> last path \<noteq> 47"
  using segments_ok_last by (auto simp: relative_root_def split: list.splits)

text \<open>
  An origin-relative root is stable: passing the root of a client to another client, as the event
  stream does, changes nothing. Only an absolute root that still ends with a slash is shortened
  again, so that the two then disagree.
\<close>

theorem base_path_is_stable:
  assumes "nativeAgentBasePath parse_url value = Inr root"
  shows "(nativeAgentBasePath parse_url root = Inr root \<longleftrightarrow> root = [] \<or> last root \<noteq> 47)
     \<and> (relative_root root \<longrightarrow> last root \<noteq> 47)"
proof -
  have ok: "relative_root root \<or> absolute_root parse_url root"
    using assms by (auto simp: nativeAgentBasePath_def Let_def split: if_splits)
  show ?thesis
  proof (cases "root \<noteq> [] \<and> last root = 47")
    case True
    then have "strip_slash root = butlast root" by (simp add: strip_slash_def)
    moreover have "butlast root \<noteq> root" using True by (metis append_butlast_last_id append_self_conv list.distinct(1))
    ultimately show ?thesis using True relative_root_last [of root]
      by (auto simp: nativeAgentBasePath_def Let_def split: if_splits)
  next
    case False
    then have "strip_slash root = root" by (auto simp: strip_slash_def)
    then show ?thesis using False ok relative_root_last [of root] by (auto simp: nativeAgentBasePath_def)
  qed
qed

theorem base_path_is_stable_witness:
  "nativeAgentBasePath (\<lambda>_. None) (js ''/agent/v1'') = Inr (js ''/agent/v1'')"
proof -
  have "nativeAgentBasePath (\<lambda>_. None) (js ''/agent/v1/'') = Inr (js ''/agent/v1'')" by code_simp
  from base_path_is_stable [OF this] show ?thesis by (simp add: js_def)
qed

subsection \<open>History\<close>

lemma order_kept:
  assumes "\<not> order_broken lastSeq previous es"
  shows "\<exists>s. (case previous of None \<Rightarrow> True | Some p \<Rightarrow> s = p + 1) \<and> map ev_seq es = [s..<s + length es]
     \<and> (\<forall>e \<in> set es. ev_seq e \<le> lastSeq)"
  using assms
proof (induction es arbitrary: previous)
  case Nil
  then show ?case by (cases previous) auto
next
  case (Cons e es)
  from Cons.prems have "\<not> order_broken lastSeq (Some (ev_seq e)) es" by simp
  from Cons.IH [OF this] have "map ev_seq es = [ev_seq e + 1..<ev_seq e + 1 + length es]" "\<forall>e \<in> set es. ev_seq e \<le> lastSeq"
    by auto
  then have "map ev_seq (e # es) = [ev_seq e..<ev_seq e + length (e # es)]" by (simp add: upt_rec)
  then show ?case using Cons.prems \<open>\<forall>e \<in> set es. ev_seq e \<le> lastSeq\<close>
    by (intro exI [of _ "ev_seq e"]) (auto split: option.splits)
qed

text \<open>
  C32. A page of history is a piece of the journal. Its events, at most 32, carry consecutive sequence
  numbers up to the last one the service reports, belong to the session, and the cursor for the
  older page is the number of its first event; so the pages before it join without a gap.
\<close>

theorem history_page_is_a_piece:
  assumes "decodeHistory dp session value = Inr page"
  shows "\<exists>s. map ev_seq (hp_events page) = [s..<s + length (hp_events page)] \<and> length (hp_events page) \<le> 32
     \<and> (\<forall>e \<in> set (hp_events page). ev_seq e \<le> hp_lastSeq page \<and> ev_sessionId e = se_id session \<and> ev_provider e = se_provider session)
     \<and> (hp_nextBefore page \<noteq> None \<longrightarrow> hp_events page \<noteq> [] \<and> hp_nextBefore page = Some s \<and> 2 \<le> s)"
proof -
  obtain ps raws where d: "client_record value = Inr ps" "history_events (field ps ''events'') = Inr raws"
    "traverse (\<lambda>raw. decodeEvent dp (Some raw) (se_id session) (se_provider session)) raws = Inr (hp_events page)"
    "\<not> order_broken (hp_lastSeq page) None (hp_events page)"
    and cur: "history_cursor (hp_events page) (field ps ''nextBefore'') = Inr (hp_nextBefore page)"
    using assms unfolding decodeHistory_def by (fastforce simp: result_simps)
  have n: "hp_nextBefore page \<noteq> None \<longrightarrow> (\<exists>e es. hp_events page = e # es \<and> hp_nextBefore page = Some (ev_seq e) \<and> 2 \<le> ev_seq e)"
    using cur by (auto simp: history_cursor_def split: option.splits list.splits if_splits)
  have "length raws \<le> 32" using d(2) by (auto simp: history_events_def split: option.splits json.splits if_splits)
  then have l: "length (hp_events page) \<le> 32" using traverse_length [OF d(3)] by simp
  obtain s where s: "map ev_seq (hp_events page) = [s..<s + length (hp_events page)]"
    "\<forall>e \<in> set (hp_events page). ev_seq e \<le> hp_lastSeq page" using order_kept [OF d(4)] by auto
  have own: "ev_sessionId e = se_id session \<and> ev_provider e = se_provider session" if "e \<in> set (hp_events page)" for e
    using traverse_set [OF d(3) that] decodeEvent_ok(2,3) by blast
  have "hp_nextBefore page \<noteq> None \<longrightarrow> hp_events page \<noteq> [] \<and> hp_nextBefore page = Some s \<and> 2 \<le> s"
    using n s(1) by (cases "hp_events page") (auto simp: upt_rec split: if_splits)
  then show ?thesis using s l own by blast
qed

definition reader_session :: agent_session where
  "reader_session = \<lparr>se_id = js ''s1'',
     se_scope = \<lparr>sc_profileId = js ''p1'', sc_context = (js ''project'', js ''c1''), sc_workspace = (js ''w1'', js ''v1''),
        sc_accessConfirmed = True, sc_options = None\<rparr>,
     se_options = None, se_provider = Codex, se_state = Ready, se_providerSessionId = None, se_createdAt = sample_time,
     se_lastSeq = 9, se_metadata = \<lparr>md_title = [], md_archived = False, md_revision = 1\<rparr>, se_runtimeId = None\<rparr>"

definition sample_page :: unknown where
  "sample_page = Some (JObj [(js ''lastSeq'', JNum (IntNum 9)), (js ''nextBefore'', JNum (IntNum 3)),
     (js ''events'', JArr [the (sample_item ''item.delta'' 3 ''Hel''), the (sample_item ''item.delta'' 4 ''lo'')])])"

theorem history_page_is_a_piece_witness:
  "\<exists>page. decodeHistory sample_dates reader_session sample_page = Inr page \<and> length (hp_events page) \<le> 32"
proof -
  obtain page where "decodeHistory sample_dates reader_session sample_page = Inr page"
    by (simp add: decodeHistory_def sample_page_def reader_session_def client_record_def history_last_def history_events_def
        history_cursor_def decode_defs event_evals sample_defs cong: andThen_weak_cong)
  then show ?thesis using history_page_is_a_piece by blast
qed

subsection \<open>The identity of a prompt\<close>

lemma hex_byte_units: "list_all is_hex_unit (hex_byte b)"
proof -
  have "is_hex_unit (hex_digit d)" if "unat d < 16" for d :: code_unit
  proof -
    have "list_all (\<lambda>d. is_hex_unit (hex_digit d)) (map of_nat [0..<16])" by code_simp
    moreover have "d = of_nat (unat d)" by simp
    ultimately show ?thesis using that
      by (metis atLeastLessThan_iff bot_nat_0.extremum image_eqI list.set_map list_all_iff set_upt)
  qed
  moreover have "unat (ucast x :: code_unit) < 16" if "unat x < 16" for x :: byte
    using that by (simp add: unsigned_ucast_eq take_bit_eq_mod)
  ultimately show ?thesis using nibbles [of b] by (simp add: hex_byte_def)
qed

lemma hex_text: "length (concat (map hex_byte bs)) = 2 * length bs" "list_all is_hex_unit (concat (map hex_byte bs))"
  using hex_byte_units by (induction bs) (auto simp: hex_byte_def)

text \<open>
  Client and conversation agree on the identity of a prompt: for a digest of SHA-256's length the
  identity computed from the session and the idempotency key has the form that the client demands
  of the service's answer, and such an answer is decoded to it.
\<close>

theorem prompt_identity_is_accepted:
  assumes "\<And>bytes. length (sha256 bytes) = 32"
  shows "is_turn_id (agentPromptTurnId sha256 sessionId key)
     \<and> decodeTurnId (Some (JObj [(js ''turnId'', JStr (agentPromptTurnId sha256 sessionId key))])) = Inr (agentPromptTurnId sha256 sessionId key)"
proof -
  define h where "h = concat (map hex_byte (sha256 (utf8 (sessionId @ [0] @ key))))"
  have "length h = 64" unfolding h_def hex_text(1) assms by simp
  moreover have "list_all is_hex_unit h" unfolding h_def by (rule hex_text)
  ultimately have "length (take 32 h) = 32" "list_all is_hex_unit (take 32 h)" by (auto simp: list_all_iff dest: in_set_takeD)
  moreover have "agentPromptTurnId sha256 sessionId key = 116 # 95 # take 32 h"
    by (simp add: agentPromptTurnId_def h_def js_def)
  moreover have "js ''t_'' = [116, 95]" by (simp add: js_def)
  ultimately have "is_turn_id (agentPromptTurnId sha256 sessionId key)"
    by (auto simp: is_turn_id_def startsWith_def list_all_iff)
  then show ?thesis by (simp add: decodeTurnId_def client_record_def field_def prop_get_def)
qed

theorem prompt_identity_is_accepted_witness:
  "is_turn_id (agentPromptTurnId (\<lambda>bytes. replicate 32 (of_nat (length bytes))) (js ''s1'') (js ''k1''))"
  using prompt_identity_is_accepted [of "\<lambda>bytes. replicate 32 (of_nat (length bytes))"] by simp

end
