(* ===== verification/Composer_Controls.thy ===== *)
theory Composer_Controls
  imports Provider_Settings Search Presentation
begin

text \<open>
  The choice of provider, model, effort and permission for the next turn: \<open>AgentComposerControls.tsx\<close>
  with \<open>ProviderModelPicker.tsx\<close> and the two controls of \<open>ComposerOptionControls.tsx\<close>. A component's
  state is a record, a callback a function of the props it reads; what a callback passes to the host
  is its result.
\<close>

subsection \<open>Labels\<close>

primrec provider_label :: "agent_provider \<Rightarrow> string" where \<comment> \<open>\<open>providerLabels\<close>\<close>
  "provider_label Codex = ''Codex''"
| "provider_label Claude = ''Claude''"
| "provider_label Cursor = ''Cursor''"
| "provider_label Grok = ''Grok''"
| "provider_label Opencode = ''OpenCode''"

subsection \<open>The picker of models\<close>

record picker_row =
  pr_provider :: provider_configuration
  pr_model :: model_option
  pr_key :: jstr

definition pickable :: "provider_configuration list \<Rightarrow> provider_configuration list" where \<comment> \<open>\<open>available\<close>\<close>
  "pickable configs = filter (\<lambda>p. pc_enabled p \<and> pc_available p \<and> 0 < length (pc_models p)) configs"

definition initial_profile :: "provider_configuration list \<Rightarrow> jstr \<Rightarrow> jstr option" where
  "initial_profile configs profileId =
     (if list_ex (\<lambda>p. pc_id p = profileId) configs then Some profileId
      else case configs of [] \<Rightarrow> None | p # _ \<Rightarrow> Some (pc_id p))"

definition picker_rows :: "provider_configuration list \<Rightarrow> picker_row list" where
  "picker_rows configs = concat (map (\<lambda>p. map (\<lambda>m.
     \<lparr>pr_provider = p, pr_model = m, pr_key = stringify (JArr [JStr (pc_id p), JStr (vo_id m)])\<rparr>) (pc_models p)) configs)"

definition row_score :: "lower_case \<Rightarrow> jstr \<Rightarrow> picker_row \<Rightarrow> int option" where
  "row_score lower query row = scoreModelPickerSearch lower
     \<lparr>sm_driverKind = js (provider_name (pc_provider (pr_provider row))),
      sm_providerDisplayName = js (provider_label (pc_provider (pr_provider row))),
      sm_name = vo_label (pr_model row), sm_shortName = Some (vo_id (pr_model row)), sm_subProvider = None,
      sm_isFavorite = None\<rparr> query"

definition filtered_rows ::
  "lower_case \<Rightarrow> provider_configuration list \<Rightarrow> jstr option \<Rightarrow> jstr \<Rightarrow> picker_row list" where
  "filtered_rows lower configs selectedProfile query = sort_key (\<lambda>row. get_or 0 (row_score lower query row))
     (filter (\<lambda>row. (trim query \<noteq> [] \<or> Some (pc_id (pr_provider row)) = selectedProfile) \<and> row_score lower query row \<noteq> None)
       (picker_rows configs))"

definition select_row :: "picker_row list \<Rightarrow> jstr \<Rightarrow> (jstr \<times> jstr) option" where
  "select_row rows key = map_option (\<lambda>row. (pc_id (pr_provider row), vo_id (pr_model row)))
     (find (\<lambda>row. pr_key row = key) rows)"

text \<open>A click on a provider of the side bar shows its models and drops the query.\<close>

record picker_state =
  pk_open :: bool
  pk_selected :: "jstr option"
  pk_query :: jstr

text \<open>Opening the popover mounts its content anew.\<close>

definition picker_open :: "bool \<Rightarrow> provider_configuration list \<Rightarrow> jstr \<Rightarrow> bool \<Rightarrow> picker_state \<Rightarrow> picker_state" where
  "picker_open disabled configs profileId value s =
     (let opened = (\<not> disabled \<and> value) in
      if opened = pk_open s then s
      else \<lparr>pk_open = opened, pk_selected = initial_profile (pickable configs) profileId, pk_query = []\<rparr>)"

definition picker_side :: "jstr \<Rightarrow> picker_state \<Rightarrow> picker_state" where
  "picker_side i s = s\<lparr>pk_selected := Some i, pk_query := []\<rparr>"

definition picker_select ::
  "lower_case \<Rightarrow> bool \<Rightarrow> provider_configuration list \<Rightarrow> jstr \<Rightarrow> picker_state \<Rightarrow> picker_state \<times> (jstr \<times> jstr) option" where
  "picker_select lower disabled configs key s =
     (case select_row (filtered_rows lower (pickable configs) (pk_selected s) (pk_query s)) key of
        None \<Rightarrow> (s, None)
      | Some choice \<Rightarrow> if disabled then (s, None) else (s\<lparr>pk_open := False\<rparr>, Some choice))"

text \<open>The label of the trigger, and whether it is marked as unavailable.\<close>

definition picker_title ::
  "agent_locale \<Rightarrow> provider_configuration list \<Rightarrow> jstr \<Rightarrow> jstr option \<Rightarrow> jstr \<times> bool" where
  "picker_title loc configs profileId model =
     (let entry = find (\<lambda>p. pc_id p = profileId) configs;
          resolved = or_else model (Option.bind entry (\<lambda>p. opt_model (pc_defaults p)));
          chosen = Option.bind entry (\<lambda>p. find (\<lambda>m. Some (vo_id m) = resolved) (pc_models p))
      in (get_or (case loc of En \<Rightarrow> js ''Provider / model'' | Zh \<Rightarrow> [24037, 20316, 32773, 32, 47, 32, 27169, 22411])
            (or_else (map_option vo_label chosen) resolved),
          truthy resolved \<and> (chosen = None \<or> (case entry of None \<Rightarrow> True | Some p \<Rightarrow> \<not> pc_available p \<or> \<not> pc_enabled p))))"

subsection \<open>The selection\<close>

record selection =
  sl_profileId :: jstr
  sl_options :: turn_options

record composer_props =
  cx_providers :: "provider_configuration list"
  cx_value :: selection
  cx_disabled :: bool
  cx_active :: bool

record composer_state =
  cs_busy :: bool
  cs_error :: jstr
  cs_inFlight :: bool

definition composer_start :: composer_state where
  "composer_start = \<lparr>cs_busy = False, cs_error = [], cs_inFlight = False\<rparr>"

definition selected_provider :: "composer_props \<Rightarrow> provider_configuration option" where
  "selected_provider p = find (\<lambda>c. pc_id c = sl_profileId (cx_value p)) (cx_providers p)"

definition selected_model :: "composer_props \<Rightarrow> model_option option" where
  "selected_model p = Option.bind (selected_provider p) (\<lambda>s.
     find (\<lambda>m. Some (vo_id m) = or_else (opt_model (sl_options (cx_value p))) (opt_model (pc_defaults s))) (pc_models s))"

definition shown_permission :: "composer_props \<Rightarrow> jstr option" where
  "shown_permission p = or_else (opt_permission (sl_options (cx_value p)))
     (Option.bind (selected_provider p) (\<lambda>s. opt_permission (pc_defaults s)))"

definition shown_effort :: "composer_props \<Rightarrow> jstr option" where
  "shown_effort p =
     (let model = opt_model (sl_options (cx_value p));
          defaults = map_option pc_defaults (selected_provider p)
      in or_else (opt_effort (sl_options (cx_value p)))
           (or_else (if model = None \<or> model = Option.bind defaults opt_model then Option.bind defaults opt_effort else None)
             (Option.bind (selected_model p) mo_defaultEffort)))"

definition composer_locked :: "composer_props \<Rightarrow> composer_state \<Rightarrow> bool" where
  "composer_locked p s \<longleftrightarrow> cx_disabled p \<or> \<not> cx_active p \<or> cs_busy s"

definition provider_locked :: "composer_props \<Rightarrow> composer_state \<Rightarrow> bool" where
  "provider_locked p s \<longleftrightarrow> composer_locked p s
     \<or> (case selected_provider p of None \<Rightarrow> True | Some c \<Rightarrow> \<not> pc_enabled c \<or> \<not> pc_available c)"

text \<open>The start of \<open>change\<close>: the state, and the selection that \<open>onChange\<close> is called with.\<close>

definition change_selection :: "composer_props \<Rightarrow> selection \<Rightarrow> composer_state \<Rightarrow> composer_state \<times> selection option" where
  "change_selection current following s =
     (if cx_disabled current \<or> \<not> cx_active current \<or> cs_inFlight s
         \<or> (case find (\<lambda>c. pc_id c = sl_profileId following) (cx_providers current) of
              None \<Rightarrow> True | Some c \<Rightarrow> \<not> pc_enabled c \<or> \<not> pc_available c)
      then (s, None)
      else (s\<lparr>cs_inFlight := True, cs_busy := True, cs_error := []\<rparr>, Some following))"

text \<open>Its end: \<open>onChange\<close> has returned or thrown.\<close>

definition change_settled :: "jstr option \<Rightarrow> composer_state \<Rightarrow> composer_state" where
  "change_settled failure s = s\<lparr>cs_error := get_or (cs_error s) failure, cs_inFlight := False, cs_busy := False\<rparr>"

text \<open>Switching the provider copies neither permission nor effort.\<close>

definition kept_option :: "jstr option \<Rightarrow> 'a value_option_scheme list \<Rightarrow> jstr option" where
  "kept_option value offered = (if truthy value \<and> list_ex (\<lambda>opt. Some (vo_id opt) = value) offered then value else None)"

definition model_selection :: "composer_props \<Rightarrow> jstr \<Rightarrow> jstr \<Rightarrow> selection option" where
  "model_selection p profileId modelId =
     (case find (\<lambda>c. pc_id c = profileId) (cx_providers p) of
        None \<Rightarrow> None
      | Some c \<Rightarrow>
          if \<not> pc_enabled c \<or> \<not> pc_available c then None
          else case find (\<lambda>m. vo_id m = modelId) (pc_models c) of
              None \<Rightarrow> None
            | Some m \<Rightarrow> Some \<lparr>sl_profileId = profileId, sl_options =
                (if profileId = sl_profileId (cx_value p)
                 then \<lparr>opt_model = Some modelId, opt_effort = kept_option (opt_effort (sl_options (cx_value p))) (mo_efforts m),
                       opt_permission = kept_option (opt_permission (sl_options (cx_value p))) (pc_permissions c)\<rparr>
                 else \<lparr>opt_model = Some modelId, opt_effort = None, opt_permission = None\<rparr>)\<rparr>)"

definition pick_model :: "composer_props \<Rightarrow> composer_props \<Rightarrow> jstr \<Rightarrow> jstr \<Rightarrow> composer_state \<Rightarrow> composer_state \<times> selection option" where
  "pick_model current p profileId modelId s = (case model_selection p profileId modelId of
       None \<Rightarrow> (s, None)
     | Some following \<Rightarrow> change_selection current following s)"

text \<open>The controls for effort and permission admit only what they list.\<close>

definition control_value :: "bool \<Rightarrow> 'a value_option_scheme list \<Rightarrow> jstr \<Rightarrow> jstr option" where
  "control_value disabled offered value =
     (if \<not> disabled \<and> list_ex (\<lambda>opt. vo_id opt = value) offered then Some value else None)"

text \<open>Their labels: the chosen option, or the value with a mark, or the name of the control.\<close>

definition control_label :: "agent_locale \<Rightarrow> jstr \<Rightarrow> 'a value_option_scheme list \<Rightarrow> jstr option \<Rightarrow> jstr" where
  "control_label loc name offered value =
     (case find (\<lambda>opt. Some (vo_id opt) = value) offered of
        Some opt \<Rightarrow> vo_label opt
      | None \<Rightarrow> if truthy value
          then get_or [] value @ [32, 183, 32] @ (case loc of En \<Rightarrow> js ''Unavailable'' | Zh \<Rightarrow> [19981, 21487, 29992])
          else name)"

definition effort_label :: "agent_locale \<Rightarrow> composer_props \<Rightarrow> value_option list \<Rightarrow> jstr" where
  "effort_label loc p offered = control_label loc
     (case loc of En \<Rightarrow> js ''Thinking effort'' | Zh \<Rightarrow> [24605, 32771, 24378, 24230]) offered (shown_effort p)"

definition permission_label :: "agent_locale \<Rightarrow> composer_props \<Rightarrow> permission_option list \<Rightarrow> jstr" where
  "permission_label loc p offered = control_label loc
     (case loc of En \<Rightarrow> js ''Permissions'' | Zh \<Rightarrow> [25191, 34892, 26435, 38480]) offered (shown_permission p)"

definition pick_effort :: "composer_props \<Rightarrow> composer_props \<Rightarrow> jstr \<Rightarrow> composer_state \<Rightarrow> composer_state \<times> selection option" where
  "pick_effort current p value s =
     (case Option.bind (selected_model p) (\<lambda>m. control_value (provider_locked p s) (mo_efforts m) value) of
        None \<Rightarrow> (s, None)
      | Some effort \<Rightarrow> change_selection current ((cx_value p)\<lparr>sl_options := (sl_options (cx_value p))\<lparr>opt_effort := Some effort\<rparr>\<rparr>) s)"

definition pick_permission :: "composer_props \<Rightarrow> composer_props \<Rightarrow> jstr \<Rightarrow> composer_state \<Rightarrow> composer_state \<times> selection option" where
  "pick_permission current p value s =
     (case Option.bind (selected_provider p) (\<lambda>c. control_value (provider_locked p s) (pc_permissions c) value) of
        None \<Rightarrow> (s, None)
      | Some permission \<Rightarrow> change_selection current ((cx_value p)\<lparr>sl_options := (sl_options (cx_value p))\<lparr>opt_permission := Some permission\<rparr>\<rparr>) s)"

end
