(* ===== verification/Composer_Properties.thy ===== *)
theory Composer_Properties
  imports Composer_Controls Decode_Props Text_Props Samples
begin

text \<open>
  Decoded settings are consistent, and a choice made in the composer is one the settings offer.
\<close>

subsection \<open>Decoded settings\<close>

lemma unique_by_ok: "unique_by key xs = Inr ys \<Longrightarrow> ys = xs \<and> distinct (map key ys)"
  using length_uniq_eq_iff [of "map key xs"] by (auto simp: unique_by_def split: if_splits)

lemma settings_array_ok:
  "settings_array read limit v = Inr ys \<Longrightarrow> length ys \<le> limit \<and> (\<forall>y \<in> set ys. \<exists>x. read x = Inr y)"
  by (auto simp: settings_array_def split: option.splits json.splits if_splits dest: traverse_length traverse_set)

lemma settings_id_ok: "settings_id v = Inr i \<Longrightarrow> i \<noteq> [] \<and> length i \<le> 256"
  by (auto simp: settings_id_def settings_text_def result_simps split: option.splits json.splits if_splits)

definition model_ok :: "model_option \<Rightarrow> bool" where
  "model_ok m \<longleftrightarrow> vo_id m \<noteq> [] \<and> distinct (map vo_id (mo_efforts m)) \<and> length (mo_efforts m) \<le> 64
     \<and> (\<forall>e. mo_defaultEffort m = Some e \<longrightarrow> e \<in> vo_id ` set (mo_efforts m))"

lemma settings_model_ok:
  assumes "settings_model v = Inr m"
  shows "model_ok m"
proof -
  obtain row listed efforts default opt where d: "settings_array settings_option 64 (field row ''efforts'') = Inr listed"
    "unique_by vo_id listed = Inr efforts" "optional settings_id (field row ''defaultEffort'') = Inr default"
    "\<not> (truthy default \<and> \<not> list_ex (\<lambda>item. Some (vo_id item) = default) efforts)" "settings_option v = Inr opt"
    "m = \<lparr>vo_id = vo_id opt, vo_label = vo_label opt, mo_efforts = efforts, mo_defaultEffort = default\<rparr>"
    using assms unfolding settings_model_def by (fastforce simp: result_simps)
  have "vo_id opt \<noteq> []" using d(5) settings_id_ok by (auto simp: settings_option_def result_simps)
  moreover have "e \<in> vo_id ` set efforts" if "default = Some e" for e
  proof -
    have "e \<noteq> []" using d(3) that settings_id_ok by (auto simp: optional_eq_Some)
    then show ?thesis using d(4) that by (auto simp: list_ex_iff)
  qed
  ultimately show ?thesis using d(6) unique_by_ok [OF d(2)] settings_array_ok [OF d(1)] by (auto simp: model_ok_def)
qed

definition provider_ok :: "provider_configuration \<Rightarrow> bool" where
  "provider_ok p \<longleftrightarrow> pc_id p \<noteq> [] \<and> distinct (map vo_id (pc_models p)) \<and> length (pc_models p) \<le> 2048
     \<and> (\<forall>m \<in> set (pc_models p). model_ok m) \<and> distinct (map vo_id (pc_permissions p)) \<and> length (pc_permissions p) \<le> 32"

lemma settings_provider_ok:
  assumes "settings_provider v = Inr p"
  shows "provider_ok p"
proof -
  obtain row models permissions where d:
    "andThen (settings_array settings_model 2048 (field row ''models'')) (unique_by vo_id) = Inr models"
    "andThen (settings_array settings_permission 32 (field row ''permissions'')) (unique_by vo_id) = Inr permissions"
    "settings_id (field row ''id'') = Inr (pc_id p)" "pc_models p = models" "pc_permissions p = permissions"
    using assms unfolding settings_provider_def by (fastforce simp: result_simps)
  obtain ms where ms: "settings_array settings_model 2048 (field row ''models'') = Inr ms" "unique_by vo_id ms = Inr models"
    using d(1) by (auto simp: result_simps)
  obtain ps where ps: "settings_array settings_permission 32 (field row ''permissions'') = Inr ps" "unique_by vo_id ps = Inr permissions"
    using d(2) by (auto simp: result_simps)
  show ?thesis using d(3-5) settings_id_ok settings_array_ok [OF ms(1)] settings_array_ok [OF ps(1)]
      unique_by_ok [OF ms(2)] unique_by_ok [OF ps(2)] settings_model_ok by (auto simp: provider_ok_def)
qed

lemma decoded_settings_ok:
  assumes "decodeNativeSettings v = Inr s"
  shows "distinct (map pc_id (as_providers s)) \<and> length (as_providers s) \<le> 16 \<and> as_revision s \<noteq> []
     \<and> (\<forall>p \<in> set (as_providers s). provider_ok p)"
proof -
  obtain ps listed where d: "settings_array settings_provider 16 (field ps ''providers'') = Inr listed"
    "unique_by pc_id listed = Inr (as_providers s)" "settings_id (field ps ''revision'') = Inr (as_revision s)"
    using assms unfolding decodeNativeSettings_def by (fastforce simp: result_simps)
  show ?thesis using settings_array_ok [OF d(1)] unique_by_ok [OF d(2)] settings_id_ok [OF d(3)] settings_provider_ok by auto
qed

subsection \<open>Choices\<close>

lemma find_distinct:
  assumes "distinct (map key xs)" and "x \<in> set xs"
  shows "find (\<lambda>y. key y = key x) xs = Some x"
  using assms by (induction xs) auto

lemma kept_option_offered: "kept_option v offered = Some e \<Longrightarrow> e \<in> vo_id ` set offered"
  by (auto simp: kept_option_def list_ex_iff split: if_splits)

lemma filtered_row:
  "row \<in> set (filtered_rows lower configs sel q) \<Longrightarrow> \<exists>c \<in> set configs. \<exists>m \<in> set (pc_models c).
     row = \<lparr>pr_provider = c, pr_model = m, pr_key = stringify (JArr [JStr (pc_id c), JStr (vo_id m)])\<rparr>"
  by (auto simp: filtered_rows_def picker_rows_def)

lemma row_key_inject: "stringify (JArr [JStr a, JStr b]) = stringify (JArr [JStr c, JStr d]) \<longleftrightarrow> a = c \<and> b = d"
  using stringify_texts_inject [of "[a, b]" "[c, d]"] by auto

lemma select_row_own:
  assumes "row \<in> set (filtered_rows lower configs sel q)"
  shows "select_row (filtered_rows lower configs sel q) (pr_key row) = Some (pc_id (pr_provider row), vo_id (pr_model row))"
proof -
  obtain r where r: "find (\<lambda>y. pr_key y = pr_key row) (filtered_rows lower configs sel q) = Some r"
    using assms by (cases "find (\<lambda>y. pr_key y = pr_key row) (filtered_rows lower configs sel q)") (auto simp: find_None_iff)
  then have "r \<in> set (filtered_rows lower configs sel q)" "pr_key r = pr_key row" by (auto simp: find_Some_iff)
  moreover have key: "pr_key x = stringify (JArr [JStr (pc_id (pr_provider x)), JStr (vo_id (pr_model x))])"
    if "x \<in> set (filtered_rows lower configs sel q)" for x using filtered_row [OF that] by auto
  ultimately have "pc_id (pr_provider r) = pc_id (pr_provider row) \<and> vo_id (pr_model r) = vo_id (pr_model row)"
    using key [OF assms] key [of r] by (simp only: row_key_inject)
  with r show ?thesis by (simp add: select_row_def)
qed

text \<open>
  Settings are consistent once decoded. Providers, the models and permissions of each and the
  efforts of a model have distinct identities within their limits, and a default effort is one of
  the model's efforts.
\<close>

theorem decoded_settings_are_consistent:
  assumes "decodeNativeSettings v = Inr s"
  shows "distinct (map pc_id (as_providers s)) \<and> length (as_providers s) \<le> 16
     \<and> (\<forall>p \<in> set (as_providers s). distinct (map vo_id (pc_models p)) \<and> length (pc_models p) \<le> 2048
          \<and> distinct (map vo_id (pc_permissions p)) \<and> length (pc_permissions p) \<le> 32
          \<and> (\<forall>m \<in> set (pc_models p). distinct (map vo_id (mo_efforts m)) \<and> length (mo_efforts m) \<le> 64
               \<and> (\<forall>e. mo_defaultEffort m = Some e \<longrightarrow> e \<in> vo_id ` set (mo_efforts m))))"
  using decoded_settings_ok [OF assms] unfolding provider_ok_def model_ok_def by blast

definition sample_settings :: unknown where
  "sample_settings = Some (JObj [text_field ''revision'' ''v1'', (js ''providers'', JArr [JObj [
     text_field ''id'' ''p1'', text_field ''provider'' ''codex'', (js ''enabled'', JBool True), text_field ''binaryPath'' '''',
     (js ''available'', JBool True), text_field ''version'' ''1'',
     (js ''login'', JObj [text_field ''status'' ''authenticated'', text_field ''detail'' '''']),
     (js ''defaults'', JObj [text_field ''model'' ''m1'']),
     (js ''models'', JArr [JObj [text_field ''id'' ''m1'', text_field ''label'' ''M 1'', text_field ''defaultEffort'' ''low'',
        (js ''efforts'', JArr [JObj [text_field ''id'' ''low'', text_field ''label'' ''Low'']])]]),
     (js ''permissions'', JArr [])]])])"

lemma sample_settings_decode:
  "\<exists>s c m. decodeNativeSettings sample_settings = Inr s \<and> as_providers s = [c] \<and> pc_enabled c \<and> pc_available c \<and> pc_models c = [m]
     \<and> vo_id m = js ''m1'' \<and> pc_id c = js ''p1''"
  by (simp add: sample_settings_def decodeNativeSettings_def settings_provider_def settings_model_def settings_permission_def
      printed_of_def String_of_def login_statuses_def decode_defs sample_defs cong: andThen_weak_cong)
    (simp add: js_def)

theorem decoded_settings_are_consistent_witness:
  "\<exists>s. decodeNativeSettings sample_settings = Inr s \<and> length (as_providers s) \<le> 16"
  using sample_settings_decode decoded_settings_are_consistent [of sample_settings] by blast

text \<open>
  C33. A choice of the composer is one the service offers. A row of the picker reports its own provider
  and model, and picking a model of an enabled, available provider calls the host with exactly that
  provider and model, an effort of that model and a permission of that provider at most, and with
  neither where the provider changed.
\<close>

theorem picked_model_is_offered:
  assumes "decodeNativeSettings v = Inr s" and "cx_providers p = as_providers s" and "c \<in> set (as_providers s)"
    and "pc_enabled c" and "pc_available c" and "m \<in> set (pc_models c)"
    and "\<not> cx_disabled p" and "cx_active p" and "\<not> cs_inFlight st"
  shows "(\<forall>row \<in> set (filtered_rows lower (pickable (as_providers s)) sel q). pr_provider row = c \<and> pr_model row = m \<longrightarrow>
        select_row (filtered_rows lower (pickable (as_providers s)) sel q) (pr_key row) = Some (pc_id c, vo_id m))
     \<and> (\<exists>opts. snd (pick_model p p (pc_id c) (vo_id m) st) = Some \<lparr>sl_profileId = pc_id c, sl_options = opts\<rparr>
        \<and> opt_model opts = Some (vo_id m)
        \<and> (\<forall>e. opt_effort opts = Some e \<longrightarrow> e \<in> vo_id ` set (mo_efforts m))
        \<and> (\<forall>r. opt_permission opts = Some r \<longrightarrow> r \<in> vo_id ` set (pc_permissions c))
        \<and> (pc_id c \<noteq> sl_profileId (cx_value p) \<longrightarrow> opt_effort opts = None \<and> opt_permission opts = None))"
proof -
  have ok: "distinct (map pc_id (as_providers s))" "provider_ok c" using decoded_settings_ok [OF assms(1)] assms(3) by blast+
  have c: "find (\<lambda>x. pc_id x = pc_id c) (cx_providers p) = Some c"
    unfolding assms(2) using find_distinct [OF ok(1) assms(3)] .
  have m: "find (\<lambda>x. vo_id x = vo_id m) (pc_models c) = Some m"
    using find_distinct [of vo_id, OF _ assms(6)] ok(2) by (simp add: provider_ok_def)
  define opts where "opts = (if pc_id c = sl_profileId (cx_value p)
     then \<lparr>opt_model = Some (vo_id m), opt_effort = kept_option (opt_effort (sl_options (cx_value p))) (mo_efforts m),
           opt_permission = kept_option (opt_permission (sl_options (cx_value p))) (pc_permissions c)\<rparr>
     else \<lparr>opt_model = Some (vo_id m), opt_effort = None, opt_permission = None\<rparr>)"
  have o: "opt_model opts = Some (vo_id m)" "\<forall>e. opt_effort opts = Some e \<longrightarrow> e \<in> vo_id ` set (mo_efforts m)"
    "\<forall>r. opt_permission opts = Some r \<longrightarrow> r \<in> vo_id ` set (pc_permissions c)"
    "pc_id c \<noteq> sl_profileId (cx_value p) \<longrightarrow> opt_effort opts = None \<and> opt_permission opts = None"
    using kept_option_offered unfolding opts_def by (cases "pc_id c = sl_profileId (cx_value p)"; force)+
  have "model_selection p (pc_id c) (vo_id m) = Some \<lparr>sl_profileId = pc_id c, sl_options = opts\<rparr>"
    using assms(4,5) c m by (simp add: model_selection_def opts_def)
  then have "snd (pick_model p p (pc_id c) (vo_id m) st) = Some \<lparr>sl_profileId = pc_id c, sl_options = opts\<rparr>"
    using c assms(4,5,7-9) by (simp add: pick_model_def change_selection_def)
  then show ?thesis using o select_row_own by blast
qed

theorem picked_model_is_offered_witness:
  "\<exists>s opts. decodeNativeSettings sample_settings = Inr s
     \<and> snd (pick_model \<lparr>cx_providers = as_providers s, cx_value = \<lparr>sl_profileId = [], sl_options = no_options\<rparr>, cx_disabled = False, cx_active = True\<rparr>
         \<lparr>cx_providers = as_providers s, cx_value = \<lparr>sl_profileId = [], sl_options = no_options\<rparr>, cx_disabled = False, cx_active = True\<rparr>
         (js ''p1'') (js ''m1'') composer_start) = Some \<lparr>sl_profileId = js ''p1'', sl_options = opts\<rparr>"
proof -
  obtain s c m where s: "decodeNativeSettings sample_settings = Inr s" "as_providers s = [c]" "pc_enabled c" "pc_available c"
    "pc_models c = [m]" "vo_id m = js ''m1''" "pc_id c = js ''p1''" using sample_settings_decode by blast
  define p where "p = \<lparr>cx_providers = as_providers s, cx_value = \<lparr>sl_profileId = [], sl_options = no_options\<rparr>,
     cx_disabled = False, cx_active = True\<rparr>"
  have "cx_providers p = as_providers s" "c \<in> set (as_providers s)" "m \<in> set (pc_models c)" "\<not> cx_disabled p" "cx_active p"
    "\<not> cs_inFlight composer_start" using s by (simp_all add: p_def composer_start_def)
  from picked_model_is_offered [OF s(1) this(1,2) s(3,4) this(3-6)]
  have "\<exists>opts. snd (pick_model p p (pc_id c) (vo_id m) composer_start) = Some \<lparr>sl_profileId = pc_id c, sl_options = opts\<rparr>" by blast
  then show ?thesis using s unfolding p_def by auto
qed

end
