(* ===== verification/Settings_Editor.thy ===== *)
theory Settings_Editor
  imports Provider_Settings Presentation
begin

text \<open>
  Editing the settings of a provider: the values of \<open>upstream/t3/settings/ProviderSettingsForm.tsx\<close> and
  the drafts of \<open>AgentProviderSettings.tsx\<close>. A draft has an identity, because the component compares
  drafts as objects.
\<close>

subsection \<open>Fields\<close>

datatype field_kind = TextField | PasswordField | TextareaField | SwitchField | SelectField
datatype clear_mode = OmitEmpty | PersistEmpty

record field_model =
  fm_key :: jstr
  fm_control :: field_kind
  fm_label :: jstr
  fm_description :: "jstr option"
  fm_placeholder :: "jstr option"
  fm_clearWhenEmpty :: clear_mode
  fm_defaultBoolean :: "bool option"
  fm_options :: "(jstr \<times> jstr) list option" \<comment> \<open>value, label\<close>

datatype field_value = BoolValue bool | TextValue jstr

text \<open>The own properties of a configuration; a spread copies them.\<close>

definition config_entries :: "unknown \<Rightarrow> js_object" where
  "config_entries config = (case config of
       Some (JObj ps) \<Rightarrow> ps
     | Some (JArr xs) \<Rightarrow> map (\<lambda>(i, x). (decimal i, x)) (enumerate 0 xs)
     | _ \<Rightarrow> [])"

definition readProviderConfigString :: "unknown \<Rightarrow> jstr \<Rightarrow> jstr" where
  "readProviderConfigString config key = (case prop_get (config_entries config) key of Some (JStr s) \<Rightarrow> s | _ \<Rightarrow> [])"

definition readProviderConfigBoolean :: "unknown \<Rightarrow> jstr \<Rightarrow> bool option \<Rightarrow> bool" where
  "readProviderConfigBoolean config key defaultValue =
     (case prop_get (config_entries config) key of Some (JBool b) \<Rightarrow> b | _ \<Rightarrow> get_or False defaultValue)"

definition nextProviderConfigWithFieldValue :: "unknown \<Rightarrow> field_model \<Rightarrow> field_value \<Rightarrow> js_object option" where
  "nextProviderConfigWithFieldValue config f value =
     (let base = config_entries config;
          cleared = (case value of
              BoolValue b \<Rightarrow> fm_clearWhenEmpty f = OmitEmpty \<and> b = get_or False (fm_defaultBoolean f)
            | TextValue t \<Rightarrow> fm_clearWhenEmpty f = OmitEmpty \<and> length (trim t) = 0);
          following = (if cleared then prop_delete (fm_key f) base
            else prop_assign (fm_key f) (case value of BoolValue b \<Rightarrow> JBool b | TextValue t \<Rightarrow> JStr t) base)
      in if 0 < length following then Some following else None)"

text \<open>\<open>ProviderSettingsSelect\<close>: the first option stands for an absent value.\<close>

definition select_fallback :: "field_model \<Rightarrow> jstr" where
  "select_fallback f = (case get_or [] (fm_options f) of [] \<Rightarrow> [] | (v, _) # _ \<Rightarrow> v)"

definition select_shown :: "field_model \<Rightarrow> unknown \<Rightarrow> jstr \<times> jstr" where \<comment> \<open>value, label\<close>
  "select_shown f config =
     (let read = readProviderConfigString config (fm_key f);
          current = (if read \<noteq> [] then read else select_fallback f)
      in (current, case find (\<lambda>(v, _). v = current) (get_or [] (fm_options f)) of Some (_, l) \<Rightarrow> l | None \<Rightarrow> current))"

definition select_changed :: "unknown \<Rightarrow> field_model \<Rightarrow> jstr \<Rightarrow> js_object option" where
  "select_changed config f value =
     nextProviderConfigWithFieldValue config f (TextValue (if value = select_fallback f then [] else value))"

text \<open>The control of a row, with what it shows.\<close>

datatype control_view =
    SwitchControl bool
  | SelectControl jstr jstr "(jstr \<times> jstr) list"
  | TextareaControl jstr
  | InputControl bool jstr \<comment> \<open>whether it hides its text, and the text\<close>

definition row_control :: "field_model \<Rightarrow> unknown \<Rightarrow> control_view" where
  "row_control f config = (case fm_control f of
       SwitchField \<Rightarrow> SwitchControl (readProviderConfigBoolean config (fm_key f) (fm_defaultBoolean f))
     | SelectField \<Rightarrow> SelectControl (fst (select_shown f config)) (snd (select_shown f config)) (get_or [] (fm_options f))
     | TextareaField \<Rightarrow> TextareaControl (readProviderConfigString config (fm_key f))
     | k \<Rightarrow> InputControl (k = PasswordField) (readProviderConfigString config (fm_key f)))"

subsection \<open>The fields of a provider\<close>

definition options_entries :: "turn_options \<Rightarrow> js_object" where
  "options_entries o' = List.map_filter (\<lambda>(k, v). map_option (\<lambda>t. (js k, JStr t)) v)
     [(''model'', opt_model o'), (''effort'', opt_effort o'), (''permission'', opt_permission o')]"

definition configOf :: "provider_configuration \<Rightarrow> js_object" where
  "configOf p = [(js ''enabled'', JBool (pc_enabled p)), (js ''binaryPath'', JStr (pc_binaryPath p))] @ options_entries (pc_defaults p)"

definition in_locale :: "bool \<Rightarrow> string \<Rightarrow> jstr \<Rightarrow> jstr" where
  "in_locale zh en translated = (if zh then translated else js en)"

definition choice_field :: "bool \<Rightarrow> string \<Rightarrow> jstr \<Rightarrow> 'a value_option_scheme list \<Rightarrow> field_model" where
  "choice_field zh key label offered =
     \<lparr>fm_key = js key, fm_control = SelectField, fm_label = label, fm_description = None, fm_placeholder = None,
      fm_clearWhenEmpty = OmitEmpty, fm_defaultBoolean = None,
      fm_options = Some (([], in_locale zh ''Provider default'' [20379, 24212, 32773, 40664, 35748, 20540])
        # map (\<lambda>opt. (vo_id opt, vo_label opt)) offered)\<rparr>"

definition edited_model :: "provider_configuration \<Rightarrow> js_object \<Rightarrow> model_option option" where
  "edited_model p config =
     (let wanted = (case field config ''model'' of Some (JStr s) \<Rightarrow> Some s | _ \<Rightarrow> opt_model (pc_defaults p)) in
      find (\<lambda>m. Some (vo_id m) = wanted) (pc_models p))"

definition fieldsFor :: "provider_configuration \<Rightarrow> js_object \<Rightarrow> bool \<Rightarrow> field_model list" where
  "fieldsFor p config zh =
     [\<lparr>fm_key = js ''enabled'', fm_control = SwitchField, fm_label = in_locale zh ''Enabled'' [21551, 29992],
       fm_description = None, fm_placeholder = None, fm_clearWhenEmpty = PersistEmpty, fm_defaultBoolean = None, fm_options = None\<rparr>,
      \<lparr>fm_key = js ''binaryPath'', fm_control = TextField, fm_label = in_locale zh ''CLI path'' [67, 76, 73, 32, 36335, 24452],
       fm_description = None,
       fm_placeholder = Some (in_locale zh ''Leave empty to discover the installed CLI on PATH.''
         [30041, 31354, 20197, 33258, 21160, 21457, 29616, 24050, 23433, 35013, 30340, 32, 67, 76, 73, 12290]),
       fm_clearWhenEmpty = PersistEmpty, fm_defaultBoolean = None, fm_options = None\<rparr>]
     @ (if pc_models p \<noteq> [] then [choice_field zh ''model'' (in_locale zh ''Default model'' [40664, 35748, 27169, 22411]) (pc_models p)] else [])
     @ (case edited_model p config of
          Some m \<Rightarrow> if mo_efforts m \<noteq> []
            then [choice_field zh ''effort'' (in_locale zh ''Default thinking effort'' [40664, 35748, 24605, 32771, 24378, 24230]) (mo_efforts m)] else []
        | None \<Rightarrow> [])
     @ (if pc_permissions p \<noteq> [] then [choice_field zh ''permission''
          (in_locale zh ''Default permissions'' [40664, 35748, 26435, 38480]) (pc_permissions p)] else [])"

subsection \<open>Drafts\<close>

record settings_draft =
  sd_identity :: nat
  sd_revision :: jstr
  sd_provider :: provider_configuration
  sd_config :: js_object

definition option_entry :: "js_object \<Rightarrow> string \<Rightarrow> jstr option" where
  "option_entry config key = (case field config key of Some (JStr s) \<Rightarrow> if s \<noteq> [] then Some s else None | _ \<Rightarrow> None)"

definition updateOf :: "settings_draft \<Rightarrow> settings_update" where
  "updateOf d =
     \<lparr>su_revision = sd_revision d, su_id = pc_id (sd_provider d), su_provider = pc_provider (sd_provider d),
      su_enabled = (field (sd_config d) ''enabled'' = Some (JBool True)),
      su_defaults = \<lparr>opt_model = option_entry (sd_config d) ''model'', opt_effort = option_entry (sd_config d) ''effort'',
        opt_permission = option_entry (sd_config d) ''permission''\<rparr>,
      su_binaryPath = Some (case field (sd_config d) ''binaryPath'' of Some (JStr s) \<Rightarrow> s | _ \<Rightarrow> [])\<rparr>"

record settings_message =
  sm_error :: "jstr option"
  sm_saved :: "bool option"

definition no_message :: settings_message where
  "no_message = \<lparr>sm_error = None, sm_saved = None\<rparr>"

record editor_props =
  ep_settings :: agent_settings
  ep_canSave :: bool
  ep_canRefresh :: bool
  ep_disabled :: bool
  ep_active :: bool

record editor =
  ed_selected :: jstr
  ed_drafts :: "settings_draft js_record"
  ed_busy :: "jstr option"
  ed_messages :: "settings_message js_record"
  ed_inFlight :: bool
  ed_identities :: nat \<comment> \<open>drafts made so far\<close>

definition editor_start :: "editor_props \<Rightarrow> editor" where
  "editor_start p = \<lparr>ed_selected = (case as_providers (ep_settings p) of [] \<Rightarrow> [] | c # _ \<Rightarrow> pc_id c),
     ed_drafts = [], ed_busy = None, ed_messages = [], ed_inFlight = False, ed_identities = 0\<rparr>"

definition edited_provider :: "editor_props \<Rightarrow> editor \<Rightarrow> provider_configuration option" where
  "edited_provider p s = (case find (\<lambda>c. pc_id c = ed_selected s) (as_providers (ep_settings p)) of
       Some c \<Rightarrow> Some c
     | None \<Rightarrow> (case as_providers (ep_settings p) of [] \<Rightarrow> None | c # _ \<Rightarrow> Some c))"

text \<open>
  \<open>drafts[provider.id]\<close>: for an identity that names an inherited member the component finds an object
  that is no draft; it has no configuration of its own.
\<close>

definition edited_draft :: "editor \<Rightarrow> provider_configuration \<Rightarrow> settings_draft member" where
  "edited_draft s c = member_get (ed_drafts s) (pc_id c)"

definition edited_config :: "editor \<Rightarrow> provider_configuration \<Rightarrow> js_object" where
  "edited_config s c = (case edited_draft s c of Own d \<Rightarrow> sd_config d | _ \<Rightarrow> configOf c)"

definition editor_locked :: "editor_props \<Rightarrow> editor \<Rightarrow> bool" where
  "editor_locked p s \<longleftrightarrow> ep_disabled p \<or> \<not> ep_active p \<or> ed_busy s \<noteq> None"

text \<open>A new model drops the effort chosen for the old one.\<close>

definition edited_next :: "js_object \<Rightarrow> js_object option \<Rightarrow> js_object" where
  "edited_next config following =
     (let copied = get_or [] following in
      if field copied ''model'' \<noteq> field config ''model'' then prop_delete (js ''effort'') copied else copied)"

definition editor_edit :: "editor_props \<Rightarrow> provider_configuration \<Rightarrow> js_object option \<Rightarrow> editor \<Rightarrow> editor" where
  "editor_edit p c following s =
     (if editor_locked p s \<or> \<not> ep_canSave p then s
      else
        (let config = edited_next (edited_config s c) following;
             draft = \<lparr>sd_identity = ed_identities s,
               sd_revision = (case edited_draft s c of Own d \<Rightarrow> sd_revision d | _ \<Rightarrow> as_revision (ep_settings p)),
               sd_provider = (case edited_draft s c of Own d \<Rightarrow> sd_provider d | _ \<Rightarrow> c), sd_config = config\<rparr>
         in s\<lparr>ed_drafts := prop_put (pc_id c) draft (ed_drafts s), ed_messages := prop_put (pc_id c) no_message (ed_messages s),
              ed_identities := Suc (ed_identities s)\<rparr>))"

definition editor_discard :: "provider_configuration \<Rightarrow> editor \<Rightarrow> editor" where
  "editor_discard c s = s\<lparr>ed_drafts := prop_delete (pc_id c) (ed_drafts s),
     ed_messages := prop_put (pc_id c) no_message (ed_messages s)\<rparr>"

subsection \<open>Saving and refreshing\<close>

datatype run_kind = Save | Refresh
datatype run_call = SaveCall settings_update nat | RefreshCall jstr

text \<open>The end of \<open>run\<close> for the provider \<open>i\<close>: by an error, or with success.\<close>

definition run_failed :: "jstr \<Rightarrow> jstr \<Rightarrow> editor \<Rightarrow> editor" where
  "run_failed i message s = s\<lparr>ed_messages := prop_put i \<lparr>sm_error = Some message, sm_saved = None\<rparr> (ed_messages s),
     ed_inFlight := False, ed_busy := None\<rparr>"

definition run_saved :: "jstr \<Rightarrow> nat \<Rightarrow> editor \<Rightarrow> editor" where
  "run_saved i saved s =
     (let drafts = (case prop_get (ed_drafts s) i of
           Some d \<Rightarrow> if sd_identity d = saved then prop_delete i (ed_drafts s) else ed_drafts s
         | None \<Rightarrow> ed_drafts s)
      in s\<lparr>ed_drafts := drafts, ed_messages := prop_put i \<lparr>sm_error = None, sm_saved = Some True\<rparr> (ed_messages s),
           ed_inFlight := False, ed_busy := None\<rparr>)"

definition run_refreshed :: "editor \<Rightarrow> editor" where
  "run_refreshed s = s\<lparr>ed_inFlight := False, ed_busy := None\<rparr>"

definition run_started :: "jstr \<Rightarrow> editor \<Rightarrow> editor" where
  "run_started i s = s\<lparr>ed_inFlight := True, ed_busy := Some i, ed_messages := prop_put i no_message (ed_messages s)\<rparr>"

text \<open>\<open>run\<close> up to its call; \<open>updateOf\<close> throws for what is no draft.\<close>

definition editor_run :: "editor_props \<Rightarrow> run_kind \<Rightarrow> editor \<Rightarrow> editor \<times> run_call option" where
  "editor_run p kind s = (case edited_provider p s of
       None \<Rightarrow> (s, None)
     | Some c \<Rightarrow>
         if ed_inFlight s \<or> ep_disabled p \<or> \<not> ep_active p
             \<or> (case kind of Save \<Rightarrow> \<not> ep_canSave p \<or> edited_draft s c = Missing | Refresh \<Rightarrow> \<not> ep_canRefresh p)
         then (s, None)
         else (case kind of
             Refresh \<Rightarrow> (run_started (pc_id c) s, Some (RefreshCall (pc_id c)))
           | Save \<Rightarrow> (case edited_draft s c of
                 Own d \<Rightarrow> (run_started (pc_id c) s, Some (SaveCall (updateOf d) (sd_identity d)))
               | _ \<Rightarrow> (run_failed (pc_id c) (js ''Cannot read properties of undefined (reading 'model')'')
                   (run_started (pc_id c) s), None))))"

end
