(* ===== verification/Editor_Properties.thy ===== *)
theory Editor_Properties
  imports Settings_Editor Composer_Properties
begin

text \<open>
  The settings editor: an edit reaches the service as it was made and nothing else changes, and what
  was edited while a save was under way is kept.
\<close>

lemma native_option_ok: "optional native_option v = Inr (Some t) \<Longrightarrow> t \<noteq> []"
  by (auto simp: optional_eq_Some native_option_def result_simps split: if_splits)

definition options_ok :: "turn_options \<Rightarrow> bool" where
  "options_ok opts \<longleftrightarrow> opt_model opts \<noteq> Some [] \<and> opt_effort opts \<noteq> Some [] \<and> opt_permission opts \<noteq> Some []"

lemma decodeNativeTurnOptions_ok: "decodeNativeTurnOptions v = Inr opts \<Longrightarrow> options_ok opts"
  unfolding decodeNativeTurnOptions_def options_ok_def by (fastforce simp: result_simps dest: native_option_ok)

lemma settings_defaults_ok:
  assumes "decodeNativeSettings v = Inr s" and "c \<in> set (as_providers s)"
  shows "options_ok (pc_defaults c)"
proof -
  obtain ps listed where d: "settings_array settings_provider 16 (field ps ''providers'') = Inr listed"
    "unique_by pc_id listed = Inr (as_providers s)"
    using assms(1) unfolding decodeNativeSettings_def by (fastforce simp: result_simps)
  then obtain x where "settings_provider x = Inr c"
    using assms(2) settings_array_ok [OF d(1)] unique_by_ok [OF d(2)] by auto
  then obtain row where "decodeNativeTurnOptions (field row ''defaults'') = Inr (pc_defaults c)"
    unfolding settings_provider_def by (fastforce simp: result_simps)
  then show ?thesis by (rule decodeNativeTurnOptions_ok)
qed

text \<open>The configuration of a provider holds its settings under their keys.\<close>

lemma config_fields:
  "field (configOf c) ''enabled'' = Some (JBool (pc_enabled c))"
  "field (configOf c) ''binaryPath'' = Some (JStr (pc_binaryPath c))"
  "field (configOf c) ''model'' = map_option JStr (opt_model (pc_defaults c))"
  "field (configOf c) ''effort'' = map_option JStr (opt_effort (pc_defaults c))"
  "field (configOf c) ''permission'' = map_option JStr (opt_permission (pc_defaults c))"
  by (auto simp: field_def prop_get_def configOf_def options_entries_def List.map_filter_simps js_def split: option.splits)

lemma option_entry_map: "opts \<noteq> Some [] \<Longrightarrow> field config key = map_option JStr opts \<Longrightarrow> option_entry config key = opts"
  by (cases opts) (auto simp: option_entry_def)

lemma keys_differ:
  "js ''enabled'' \<noteq> js ''model''" "js ''enabled'' \<noteq> js ''effort''" "js ''enabled'' \<noteq> js ''permission''" "js ''enabled'' \<noteq> js ''binaryPath''"
  "js ''binaryPath'' \<noteq> js ''model''" "js ''binaryPath'' \<noteq> js ''effort''" "js ''binaryPath'' \<noteq> js ''permission''"
  "js ''model'' \<noteq> js ''effort''" "js ''model'' \<noteq> js ''permission''" "js ''effort'' \<noteq> js ''permission''"
  "js ''enabled'' \<noteq> js ''__proto__''" "js ''model'' \<noteq> js ''__proto__''" "js ''binaryPath'' \<noteq> js ''__proto__''"
  by (simp_all add: js_def)

definition draft_with :: "agent_settings \<Rightarrow> provider_configuration \<Rightarrow> js_object \<Rightarrow> settings_draft" where
  "draft_with s c config = \<lparr>sd_identity = 0, sd_revision = as_revision s, sd_provider = c, sd_config = config\<rparr>"

definition own_update :: "agent_settings \<Rightarrow> provider_configuration \<Rightarrow> settings_update" where
  "own_update s c = \<lparr>su_revision = as_revision s, su_id = pc_id c, su_provider = pc_provider c, su_enabled = pc_enabled c,
     su_defaults = pc_defaults c, su_binaryPath = Some (pc_binaryPath c)\<rparr>"

text \<open>
  C39. Editing is exact. The update made of a provider's untouched configuration repeats the decoded
  settings of that provider; after the switch \<open>Enabled\<close> was set it differs in that alone, and after
  another default model was chosen it has that model and no effort, all else unchanged.
\<close>

theorem settings_edits_are_exact:
  assumes "decodeNativeSettings v = Inr s" and "c \<in> set (as_providers s)"
    and "trim model \<noteq> []" and "opt_model (pc_defaults c) \<noteq> Some model"
  shows "updateOf (draft_with s c (configOf c)) = own_update s c
     \<and> updateOf (draft_with s c (edited_next (configOf c)
          (nextProviderConfigWithFieldValue (Some (JObj (configOf c))) (hd (fieldsFor c (configOf c) zh)) (BoolValue b))))
        = (own_update s c)\<lparr>su_enabled := b\<rparr>
     \<and> updateOf (draft_with s c (edited_next (configOf c)
          (select_changed (Some (JObj (configOf c))) (choice_field zh ''model'' label (pc_models c)) model)))
        = (own_update s c)\<lparr>su_defaults := (pc_defaults c)\<lparr>opt_model := Some model, opt_effort := None\<rparr>\<rparr>"
proof -
  have ok: "opt_model (pc_defaults c) \<noteq> Some []" "opt_effort (pc_defaults c) \<noteq> Some []" "opt_permission (pc_defaults c) \<noteq> Some []"
    using settings_defaults_ok [OF assms(1,2)] by (simp_all add: options_ok_def)
  have m: "model \<noteq> []" using assms(3) by (auto simp: trim_eq_Nil_iff)
  note f = config_fields [of c, unfolded field_def]
  have 1: "updateOf (draft_with s c (configOf c)) = own_update s c"
    using ok by (simp add: updateOf_def draft_with_def own_update_def config_fields option_entry_map [OF _ config_fields(3)]
        option_entry_map [OF _ config_fields(4)] option_entry_map [OF _ config_fields(5)])
  let ?b = "prop_assign (js ''enabled'') (JBool b) (configOf c)"
  have ne: "prop_put k x m \<noteq> []" for k and x :: json and m 
    by (cases m) (auto simp: prop_put_def split: if_splits)
  have nb: "nextProviderConfigWithFieldValue (Some (JObj (configOf c))) (hd (fieldsFor c (configOf c) zh)) (BoolValue b) = Some ?b"
    using ne by (simp add: nextProviderConfigWithFieldValue_def fieldsFor_def config_entries_def Let_def prop_assign_def keys_differ)
  have gb: "field ?b ''enabled'' = Some (JBool b)" "field ?b ''binaryPath'' = field (configOf c) ''binaryPath''"
    "field ?b ''model'' = field (configOf c) ''model''" "field ?b ''effort'' = field (configOf c) ''effort''"
    "field ?b ''permission'' = field (configOf c) ''permission''"
    by (simp_all add: field_def prop_assign_def keys_differ keys_differ [symmetric])
  have 2: "updateOf (draft_with s c (edited_next (configOf c) (Some ?b))) = (own_update s c)\<lparr>su_enabled := b\<rparr>"
    using ok gb by (simp add: edited_next_def updateOf_def draft_with_def own_update_def config_fields option_entry_map)
  let ?m = "prop_assign (js ''model'') (JStr model) (configOf c)"
  have nm: "select_changed (Some (JObj (configOf c))) (choice_field zh ''model'' label (pc_models c)) model = Some ?m"
    using ne m assms(3)
    by (simp add: select_changed_def nextProviderConfigWithFieldValue_def select_fallback_def choice_field_def config_entries_def
        Let_def prop_assign_def keys_differ)
  have gm: "field ?m ''model'' = Some (JStr model)" "field ?m ''enabled'' = field (configOf c) ''enabled''"
    "field ?m ''binaryPath'' = field (configOf c) ''binaryPath''" "field ?m ''permission'' = field (configOf c) ''permission''"
    by (simp_all add: field_def prop_assign_def keys_differ keys_differ [symmetric])
  have changed: "field ?m ''model'' \<noteq> field (configOf c) ''model''"
    using assms(4) gm(1) config_fields(3) [of c] by (cases "opt_model (pc_defaults c)") auto
  have e: "edited_next (configOf c) (Some ?m) = prop_delete (js ''effort'') ?m" using changed by (simp add: edited_next_def)
  have gd: "field (prop_delete (js ''effort'') ?m) k = (if js k = js ''effort'' then None else field ?m k)" for k
    by (simp add: field_def)
  have 3: "updateOf (draft_with s c (prop_delete (js ''effort'') ?m))
      = (own_update s c)\<lparr>su_defaults := (pc_defaults c)\<lparr>opt_model := Some model, opt_effort := None\<rparr>\<rparr>"
    using ok gm m unfolding updateOf_def option_entry_def draft_with_def own_update_def
    by (auto simp: gd keys_differ keys_differ [symmetric] config_fields split: option.splits)
  show ?thesis unfolding nb nm e using 1 2 3 by blast
qed

theorem settings_edits_are_exact_witness:
  "\<exists>s c. decodeNativeSettings sample_settings = Inr s \<and> c \<in> set (as_providers s)
     \<and> updateOf (draft_with s c (configOf c)) = own_update s c"
proof -
  obtain s c m where s: "decodeNativeSettings sample_settings = Inr s" "as_providers s = [c]" using sample_settings_decode by blast
  define model where "model = (if opt_model (pc_defaults c) = Some (js ''m2'') then js ''m3'' else js ''m2'')"
  have "trim (js ''m2'') \<noteq> [] \<and> trim (js ''m3'') \<noteq> [] \<and> js ''m2'' \<noteq> js ''m3''" by code_simp
  then have "trim model \<noteq> []" "opt_model (pc_defaults c) \<noteq> Some model" by (auto simp: model_def)
  moreover have "c \<in> set (as_providers s)" using s by simp
  ultimately show ?thesis using settings_edits_are_exact [OF s(1)] s(1) by blast
qed

end
