(* ===== verification/Question_Card.thy ===== *)
theory Question_Card
  imports UserInput Presentation Machine
begin

text \<open>
  The card of a question: \<open>UserInputCard\<close> of \<open>T3Conversation.tsx\<close> with
  \<open>upstream/t3/ComposerPendingUserInputPanel.tsx\<close>. Callbacks close over the props and the state of the
  render they belong to; a reference (\<open>inFlight\<close>, \<open>activeRef\<close>, \<open>onAdvanceRef\<close>) reads what is current.
  So the machine keeps both: the state, and the props and state of the last render.
\<close>

subsection \<open>State\<close>

record card_props =
  kp_requestId :: jstr
  kp_questions :: "ui_question list"
  kp_submitted :: "bool option"
  kp_active :: bool
  kp_disabled :: bool
  kp_carries :: bool \<comment> \<open>\<open>onDisplacedAnswer\<close> is given\<close>

record question_card =
  ca_answers :: "draft_answer js_record"
  ca_questionIndex :: int
  ca_busy :: bool
  ca_acknowledged :: bool
  ca_error :: jstr
  ca_inFlight :: bool
  ca_optimistic :: "(jstr \<times> jstr) option" \<comment> \<open>\<open>optimisticSingleSelect\<close>: question, value\<close>
  ca_collapsed :: "jstr option"
  ca_timer :: bool \<comment> \<open>an automatic advance is due\<close>

definition fresh_card :: question_card where
  "fresh_card = \<lparr>ca_answers = [], ca_questionIndex = 0, ca_busy = False, ca_acknowledged = False, ca_error = [],
     ca_inFlight = False, ca_optimistic = None, ca_collapsed = None, ca_timer = False\<rparr>"

definition card_progress :: "card_props \<Rightarrow> question_card \<Rightarrow> ui_progress" where
  "card_progress p s = derivePendingUserInputProgress (kp_questions p) (ca_answers s) (ca_questionIndex s)"

definition card_locked :: "card_props \<Rightarrow> question_card \<Rightarrow> bool" where
  "card_locked p s \<longleftrightarrow> kp_disabled p \<or> \<not> kp_active p \<or> ca_busy s \<or> ca_acknowledged s \<or> kp_submitted p = Some True"

definition active_question_id :: "card_props \<Rightarrow> question_card \<Rightarrow> jstr option" where
  "active_question_id p s = map_option uq_id (up_activeQuestion (card_progress p s))"

subsection \<open>Calls\<close>

datatype card_call = CancelCall jstr | AnswerCall jstr "jstr list js_record"

text \<open>\<open>submit\<close> up to its call: \<open>shown\<close> is the state its closure has seen.\<close>

definition submit_card :: "card_props \<Rightarrow> question_card \<Rightarrow> bool \<Rightarrow> question_card \<Rightarrow> question_card \<times> card_call option" where
  "submit_card p shown cancel s =
     (if card_locked p shown \<or> ca_inFlight s \<or> \<not> kp_active p then (s, None)
      else case (if cancel then Some (CancelCall (kp_requestId p))
                 else map_option (AnswerCall (kp_requestId p)) (submitted_answers (kp_questions p) (ca_answers shown))) of
          None \<Rightarrow> (s, None)
        | Some c \<Rightarrow> (s\<lparr>ca_inFlight := True, ca_busy := True, ca_error := []\<rparr>, Some c))"

definition card_settled :: "jstr option \<Rightarrow> question_card \<Rightarrow> question_card" where
  "card_settled failure s =
     (let told = (case failure of None \<Rightarrow> s\<lparr>ca_acknowledged := True\<rparr> | Some message \<Rightarrow> s\<lparr>ca_error := message\<rparr>) in
      told\<lparr>ca_inFlight := False, ca_busy := False\<rparr>)"

definition card_advance :: "card_props \<Rightarrow> question_card \<Rightarrow> question_card \<Rightarrow> question_card" where
  "card_advance p shown s =
     (let progress = card_progress p shown in
      if card_locked p shown \<or> \<not> kp_active p \<or> \<not> up_canAdvance progress then s
      else if \<not> up_isLastQuestion progress then s\<lparr>ca_questionIndex := ca_questionIndex s + 1\<rparr> else s)"

text \<open>The two buttons below the question; a disabled button does nothing.\<close>

definition primary_disabled :: "card_props \<Rightarrow> question_card \<Rightarrow> bool" where
  "primary_disabled p shown \<longleftrightarrow> card_locked p shown
     \<or> (let progress = card_progress p shown in if up_isLastQuestion progress then \<not> up_isComplete progress else \<not> up_canAdvance progress)"

definition primary_click :: "card_props \<Rightarrow> question_card \<Rightarrow> question_card \<Rightarrow> question_card \<times> card_call option" where
  "primary_click p shown s =
     (if primary_disabled p shown then (s, None)
      else if up_isLastQuestion (card_progress p shown) then submit_card p shown False s
      else (card_advance p shown s, None))"

definition previous_click :: "card_props \<Rightarrow> question_card \<Rightarrow> question_card \<Rightarrow> question_card" where
  "previous_click p shown s =
     (if card_locked p shown \<or> ca_questionIndex shown \<le> 0 then s else s\<lparr>ca_questionIndex := ca_questionIndex s - 1\<rparr>)"

subsection \<open>Answers\<close>

text \<open>\<open>onToggleOption\<close>: the drafts, and the text that goes back to the conversation's draft.\<close>

definition card_toggle :: "card_props \<Rightarrow> question_card \<Rightarrow> jstr \<Rightarrow> jstr \<Rightarrow> question_card \<Rightarrow> question_card \<times> jstr option" where
  "card_toggle p shown i value s =
     (case find (\<lambda>q. uq_id q = i) (kp_questions p) of
        None \<Rightarrow> (s, None)
      | Some question \<Rightarrow>
          if card_locked p shown then (s, None)
          else
            (let displaced = custom_of (draft_of (ca_answers shown) i) in
             (s\<lparr>ca_answers := prop_put i (togglePendingUserInputOptionSelection question (draft_of (ca_answers s) i) value) (ca_answers s)\<rparr>,
              if truthy (map_option trim displaced) \<and> uq_isSecret question \<noteq> Some True \<and> kp_carries p then displaced else None)))"

definition card_typed :: "card_props \<Rightarrow> question_card \<Rightarrow> jstr \<Rightarrow> question_card \<Rightarrow> question_card" where
  "card_typed p shown value s =
     (case active_question_id p shown of
        None \<Rightarrow> s
      | Some i \<Rightarrow> if i = [] then s
          else s\<lparr>ca_answers := prop_put i (setPendingUserInputCustomAnswer (draft_of (ca_answers s) i) value) (ca_answers s)\<rparr>)"

text \<open>The editor for a typed answer is shown unless the question excludes one, and disabled with the card.\<close>

definition can_type :: "card_props \<Rightarrow> question_card \<Rightarrow> bool" where
  "can_type p shown \<longleftrightarrow> Option.bind (up_activeQuestion (card_progress p shown)) uq_allowCustomAnswer \<noteq> Some False \<and> \<not> card_locked p shown"

subsection \<open>The panel\<close>

definition is_multi :: "ui_question option \<Rightarrow> bool" where
  "is_multi question \<longleftrightarrow> Option.bind question uq_multiSelect = Some True"

text \<open>\<open>handleOptionSelection\<close>: a single choice also starts the timer of the automatic advance.\<close>

definition option_selection :: "card_props \<Rightarrow> question_card \<Rightarrow> jstr \<Rightarrow> jstr \<Rightarrow> question_card \<Rightarrow> question_card \<times> jstr option" where
  "option_selection p shown i value s =
     (if card_locked p shown then (s, None)
      else if is_multi (up_activeQuestion (card_progress p shown)) then card_toggle p shown i value s
      else
        (let (s', displaced) = card_toggle p shown i value (s\<lparr>ca_optimistic := Some (i, value)\<rparr>) in
         (s'\<lparr>ca_timer := True\<rparr>, displaced)))"

definition is_collapsed :: "card_props \<Rightarrow> question_card \<Rightarrow> bool" where
  "is_collapsed p s \<longleftrightarrow> ca_collapsed s \<noteq> None \<and> ca_collapsed s = active_question_id p s"

text \<open>The keys 1 to 9; \<open>admitted\<close> stands for the tests of the event and of the focused element.\<close>

definition key_option :: "card_props \<Rightarrow> question_card \<Rightarrow> nat \<Rightarrow> (jstr \<times> jstr) option" where
  "key_option p shown digit = (case up_activeQuestion (card_progress p shown) of
       None \<Rightarrow> None
     | Some question \<Rightarrow>
         if card_locked p shown \<or> is_collapsed p shown \<or> digit < 1 \<or> 9 < digit \<or> length (uq_options question) \<le> digit - 1 then None
         else Some (uq_id question, option_value (uq_options question ! (digit - 1))))"

definition key_pressed :: "card_props \<Rightarrow> question_card \<Rightarrow> bool \<Rightarrow> nat \<Rightarrow> question_card \<Rightarrow> question_card \<times> jstr option" where
  "key_pressed p shown admitted digit s = (case key_option p shown digit of
       Some (i, value) \<Rightarrow> if admitted then option_selection p shown i value s else (s, None)
     | None \<Rightarrow> (s, None))"

definition disclosure_changed :: "card_props \<Rightarrow> question_card \<Rightarrow> bool \<Rightarrow> question_card \<Rightarrow> question_card" where
  "disclosure_changed p shown opened s = s\<lparr>ca_collapsed := (if opened then None else active_question_id p shown)\<rparr>"

text \<open>What an option of the active question shows: label, description, chosen, key.\<close>

record option_view =
  ov_label :: jstr
  ov_description :: "jstr option"
  ov_selected :: bool
  ov_shortcut :: "nat option"
  ov_disabled :: bool

definition view_option :: "card_props \<Rightarrow> question_card \<Rightarrow> ui_question \<Rightarrow> nat \<Rightarrow> ui_option \<Rightarrow> option_view" where
  "view_option p s question index opt =
     (let progress = card_progress p s; value = option_value opt;
          selected = (ca_optimistic s = Some (uq_id question, value)
            \<or> (\<not> 0 < length (trim (up_customAnswer progress)) \<and> value \<in> set (up_selectedOptionValues progress)))
      in \<lparr>ov_label = uo_label opt,
          ov_description = (if truthy (uo_description opt) \<and> uo_description opt \<noteq> Some (uo_label opt) then uo_description opt else None),
          ov_selected = selected, ov_shortcut = (if selected then None else if index < 9 then Some (index + 1) else None),
          ov_disabled = card_locked p s\<rparr>)"

subsection \<open>Effects of a render\<close>

text \<open>The optimistic choice ends with its question, or when the drafts show it.\<close>

definition settle_optimistic :: "card_props \<Rightarrow> question_card \<Rightarrow> question_card" where
  "settle_optimistic p s =
     (let progress = card_progress p s in
      case (up_activeQuestion progress, ca_optimistic s) of
        (Some question, Some (i, value)) \<Rightarrow>
          if uq_multiSelect question = Some True then s
          else if i \<noteq> uq_id question \<or> (length (trim (up_customAnswer progress)) = 0 \<and> value \<in> set (up_selectedOptionValues progress))
          then s\<lparr>ca_optimistic := None\<rparr> else s
      | _ \<Rightarrow> s)"

text \<open>The timer is cleared where the question or the activity of the panel changed.\<close>

definition panel_active :: "card_props \<Rightarrow> question_card \<Rightarrow> bool" where
  "panel_active p s \<longleftrightarrow> kp_active p \<and> \<not> card_locked p s"

definition settle_timer :: "card_props \<Rightarrow> question_card \<Rightarrow> card_props \<Rightarrow> question_card \<Rightarrow> question_card" where
  "settle_timer old_p old p s =
     (if active_question_id old_p old \<noteq> active_question_id p s \<or> panel_active old_p old \<noteq> panel_active p s
      then s\<lparr>ca_timer := False\<rparr> else s)"

subsection \<open>The machine\<close>

record card_machine =
  cm_props :: card_props
  cm_shown :: question_card
  cm_now :: question_card

definition mounted_card :: "card_props \<Rightarrow> card_machine" where
  "mounted_card p = \<lparr>cm_props = p, cm_shown = fresh_card, cm_now = fresh_card\<rparr>"

definition rendered_card :: "card_props \<Rightarrow> card_machine \<Rightarrow> card_machine" where
  "rendered_card p m = \<lparr>cm_props = p, cm_shown = cm_now m,
     cm_now = settle_optimistic p (settle_timer (cm_props m) (cm_shown m) p (cm_now m))\<rparr>"

datatype card_action =
    CardRendered card_props
  | OptionClicked jstr jstr
  | KeyPressed bool nat
  | AnswerTyped jstr
  | TimerFired
  | PreviousClicked
  | PrimaryClicked
  | CancelClicked
  | DisclosureChanged bool
  | CallSettled "jstr option"

text \<open>What an action does beyond the state: a call of the host, or a text given back.\<close>

datatype card_effect = NoEffect | GivenBack jstr | Called card_call

definition given_back :: "jstr option \<Rightarrow> card_effect" where
  "given_back text = (case text of None \<Rightarrow> NoEffect | Some t \<Rightarrow> GivenBack t)"

definition called :: "card_call option \<Rightarrow> card_effect" where
  "called c = (case c of None \<Rightarrow> NoEffect | Some x \<Rightarrow> Called x)"

fun card_act :: "card_machine \<Rightarrow> card_action \<Rightarrow> card_machine \<times> card_effect" where
  "card_act m (CardRendered p) = (rendered_card p m, NoEffect)"
| "card_act m (OptionClicked i value) =
     (let (s, displaced) = option_selection (cm_props m) (cm_shown m) i value (cm_now m) in (m\<lparr>cm_now := s\<rparr>, given_back displaced))"
| "card_act m (KeyPressed admitted digit) =
     (let (s, displaced) = key_pressed (cm_props m) (cm_shown m) admitted digit (cm_now m) in (m\<lparr>cm_now := s\<rparr>, given_back displaced))"
| "card_act m (AnswerTyped value) =
     (if can_type (cm_props m) (cm_shown m) then (m\<lparr>cm_now := card_typed (cm_props m) (cm_shown m) value (cm_now m)\<rparr>, NoEffect)
      else (m, NoEffect))"
| "card_act m TimerFired = (m\<lparr>cm_now := card_advance (cm_props m) (cm_shown m) ((cm_now m)\<lparr>ca_timer := False\<rparr>)\<rparr>, NoEffect)"
| "card_act m PreviousClicked = (m\<lparr>cm_now := previous_click (cm_props m) (cm_shown m) (cm_now m)\<rparr>, NoEffect)"
| "card_act m PrimaryClicked =
     (let (s, c) = primary_click (cm_props m) (cm_shown m) (cm_now m) in (m\<lparr>cm_now := s\<rparr>, called c))"
| "card_act m CancelClicked =
     (let (s, c) = submit_card (cm_props m) (cm_shown m) True (cm_now m) in (m\<lparr>cm_now := s\<rparr>, called c))"
| "card_act m (DisclosureChanged opened) = (m\<lparr>cm_now := disclosure_changed (cm_props m) (cm_shown m) opened (cm_now m)\<rparr>, NoEffect)"
| "card_act m (CallSettled failure) = (m\<lparr>cm_now := card_settled failure (cm_now m)\<rparr>, NoEffect)"

text \<open>
  The steps of a mounted card. The timer fires where it is set and a call settles where one is under
  way; React renders the busy state in a microtask queued before the call's promise settles.
\<close>

inductive card_step :: "card_machine \<Rightarrow> card_action \<times> card_effect \<Rightarrow> card_machine \<Rightarrow> bool" where
  rendered: "kp_requestId p = kp_requestId (cm_props m) \<Longrightarrow> card_act m (CardRendered p) = (m', e) \<Longrightarrow>
    card_step m (CardRendered p, e) m'"
| fired: "ca_timer (cm_now m) \<Longrightarrow> card_act m TimerFired = (m', e) \<Longrightarrow> card_step m (TimerFired, e) m'"
| settled: "ca_inFlight (cm_now m) \<Longrightarrow> ca_busy (cm_shown m) \<Longrightarrow> card_act m (CallSettled failure) = (m', e) \<Longrightarrow>
    card_step m (CallSettled failure, e) m'"
| acted: "a \<notin> {TimerFired} \<union> range CardRendered \<union> range CallSettled \<Longrightarrow> card_act m a = (m', e) \<Longrightarrow> card_step m (a, e) m'"

end
