(* ===== verification/Question_Properties.thy ===== *)
theory Question_Properties
  imports Question_Card Presentation_Props Samples
begin

text \<open>
  The card of a question calls the host one call at a time, never again after a call succeeded, and
  only with complete answers.
\<close>

definition makes_call :: "card_action \<times> card_effect \<Rightarrow> bool" where
  "makes_call l \<longleftrightarrow> (\<exists>c. snd l = Called c)"

definition settles_call :: "card_action \<times> card_effect \<Rightarrow> bool" where
  "settles_call l \<longleftrightarrow> (\<exists>failure. fst l = CallSettled failure)"

lemma option_selection_flags:
  "option_selection p shown i value s = (s', d) \<Longrightarrow>
     ca_inFlight s' = ca_inFlight s \<and> ca_busy s' = ca_busy s \<and> ca_acknowledged s' = ca_acknowledged s"
  by (auto simp: option_selection_def card_toggle_def Let_def split: if_splits option.splits prod.splits)

lemma key_pressed_flags:
  "key_pressed p shown admitted digit s = (s', d) \<Longrightarrow>
     ca_inFlight s' = ca_inFlight s \<and> ca_busy s' = ca_busy s \<and> ca_acknowledged s' = ca_acknowledged s"
  by (auto simp: key_pressed_def split: if_splits option.splits prod.splits dest: option_selection_flags)

lemma submit_card_cases:
  assumes "submit_card p shown cancel s = (s', c)"
  shows "(c = None \<and> s' = s)
     \<or> (\<exists>x. c = Some x \<and> \<not> card_locked p shown \<and> \<not> ca_inFlight s \<and> ca_inFlight s' \<and> ca_busy s' \<and> ca_acknowledged s' = ca_acknowledged s
          \<and> (if cancel then x = CancelCall (kp_requestId p)
             else \<exists>answers. submitted_answers (kp_questions p) (ca_answers shown) = Some answers \<and> x = AnswerCall (kp_requestId p) answers))"
  using assms by (cases cancel) (auto simp: submit_card_def split: if_splits option.splits)

lemma settle_flags [simp]:
  "ca_inFlight (settle_optimistic p s) = ca_inFlight s" "ca_busy (settle_optimistic p s) = ca_busy s"
  "ca_acknowledged (settle_optimistic p s) = ca_acknowledged s"
  "ca_inFlight (settle_timer op old p s) = ca_inFlight s" "ca_busy (settle_timer op old p s) = ca_busy s"
  "ca_acknowledged (settle_timer op old p s) = ca_acknowledged s"
  by (auto simp: settle_optimistic_def settle_timer_def Let_def split: option.splits)

lemma quiet_flags [simp]:
  "ca_inFlight (card_advance p shown s) = ca_inFlight s" "ca_busy (card_advance p shown s) = ca_busy s"
  "ca_acknowledged (card_advance p shown s) = ca_acknowledged s"
  "ca_inFlight (card_typed p shown value s) = ca_inFlight s" "ca_busy (card_typed p shown value s) = ca_busy s"
  "ca_acknowledged (card_typed p shown value s) = ca_acknowledged s"
  "ca_inFlight (previous_click p shown s) = ca_inFlight s" "ca_busy (previous_click p shown s) = ca_busy s"
  "ca_acknowledged (previous_click p shown s) = ca_acknowledged s"
  by (auto simp: card_advance_def card_typed_def previous_click_def Let_def split: option.splits)

lemma primary_click_cases:
  assumes "primary_click p shown s = (s', c)"
  shows "(c = None \<and> ca_inFlight s' = ca_inFlight s \<and> ca_busy s' = ca_busy s \<and> ca_acknowledged s' = ca_acknowledged s)
     \<or> (submit_card p shown False s = (s', c) \<and> c \<noteq> None)"
  using assms submit_card_cases [of p shown False s s' c] by (cases c) (auto simp: primary_click_def split: if_splits)

text \<open>What a step does to the call under way.\<close>

definition quiet :: "card_machine \<Rightarrow> card_machine \<Rightarrow> bool" where
  "quiet m m' \<longleftrightarrow> ca_inFlight (cm_now m') = ca_inFlight (cm_now m) \<and> ca_busy (cm_now m') = ca_busy (cm_now m)
     \<and> ca_acknowledged (cm_now m') = ca_acknowledged (cm_now m)
     \<and> (cm_shown m' = cm_shown m \<and> cm_props m' = cm_props m
        \<or> cm_shown m' = cm_now m \<and> kp_requestId (cm_props m') = kp_requestId (cm_props m))"

definition call_made :: "card_machine \<Rightarrow> card_call \<Rightarrow> card_machine \<Rightarrow> bool" where
  "call_made m c m' \<longleftrightarrow> \<not> card_locked (cm_props m) (cm_shown m) \<and> \<not> ca_inFlight (cm_now m)
     \<and> ca_inFlight (cm_now m') \<and> ca_busy (cm_now m') \<and> ca_acknowledged (cm_now m') = ca_acknowledged (cm_now m)
     \<and> cm_shown m' = cm_shown m \<and> cm_props m' = cm_props m
     \<and> (c = CancelCall (kp_requestId (cm_props m))
        \<or> (\<exists>answers. submitted_answers (kp_questions (cm_props m)) (ca_answers (cm_shown m)) = Some answers
             \<and> c = AnswerCall (kp_requestId (cm_props m)) answers))"

lemma called_submit:
  assumes "submit_card (cm_props m) (cm_shown m) cancel (cm_now m) = (s, c)"
  shows "(c = None \<and> quiet m (m\<lparr>cm_now := s\<rparr>)) \<or> (\<exists>x. c = Some x \<and> call_made m x (m\<lparr>cm_now := s\<rparr>))"
  using submit_card_cases [OF assms] by (auto simp: quiet_def call_made_def split: if_splits)

lemma card_act_cases:
  assumes "card_act m a = (m', e)" and "a \<notin> range CardRendered \<union> range CallSettled"
  shows "(quiet m m' \<and> (\<forall>c. e \<noteq> Called c)) \<or> (\<exists>c. e = Called c \<and> call_made m c m')"
proof (cases a)
  case PrimaryClicked
  obtain s c where sc: "primary_click (cm_props m) (cm_shown m) (cm_now m) = (s, c)" by fastforce
  then have m': "m' = m\<lparr>cm_now := s\<rparr>" "e = called c" using assms(1) PrimaryClicked by simp_all
  show ?thesis
  proof (cases c)
    case None
    then show ?thesis using primary_click_cases [OF sc] m' by (auto simp: quiet_def called_def)
  next
    case (Some x)
    then have "submit_card (cm_props m) (cm_shown m) False (cm_now m) = (s, Some x)" using primary_click_cases [OF sc] by auto
    from called_submit [OF this] show ?thesis using m' Some by (auto simp: called_def)
  qed
next
  case CancelClicked
  obtain s c where sc: "submit_card (cm_props m) (cm_shown m) True (cm_now m) = (s, c)" by fastforce
  then show ?thesis using assms(1) CancelClicked called_submit [OF sc] by (auto simp: called_def)
next
  case (OptionClicked i v)
  then show ?thesis using assms(1) option_selection_flags
    by (auto simp: quiet_def given_back_def split: prod.splits option.splits)
next
  case (KeyPressed admitted digit)
  then show ?thesis using assms(1) key_pressed_flags
    by (auto simp: quiet_def given_back_def split: prod.splits option.splits)
next
  case (DisclosureChanged opened)
  then show ?thesis using assms(1) by (auto simp: quiet_def disclosure_changed_def)
next
  case (AnswerTyped v)
  then show ?thesis using assms(1) by (auto simp: quiet_def split: if_splits)
next
  case TimerFired
  then show ?thesis using assms(1) by (auto simp: quiet_def)
next
  case PreviousClicked
  then show ?thesis using assms(1) by (auto simp: quiet_def)
next
  case (CardRendered p)
  then show ?thesis using assms(2) by blast
next
  case (CallSettled failure)
  then show ?thesis using assms(2) by blast
qed

definition landed :: "card_machine \<Rightarrow> jstr option \<Rightarrow> card_machine \<Rightarrow> bool" where
  "landed m failure m' \<longleftrightarrow> ca_inFlight (cm_now m) \<and> ca_busy (cm_shown m) \<and> \<not> ca_inFlight (cm_now m') \<and> \<not> ca_busy (cm_now m')
     \<and> ca_acknowledged (cm_now m') = (failure = None \<or> ca_acknowledged (cm_now m))
     \<and> cm_shown m' = cm_shown m \<and> cm_props m' = cm_props m"

lemma card_step_cases:
  assumes "card_step m l m'"
  shows "(quiet m m' \<and> \<not> makes_call l \<and> \<not> settles_call l) \<or> (\<exists>c. snd l = Called c \<and> \<not> settles_call l \<and> call_made m c m')
     \<or> (\<exists>failure. l = (CallSettled failure, NoEffect) \<and> landed m failure m')"
  using assms
proof (cases rule: card_step.cases)
  case (rendered p e)
  then show ?thesis by (auto simp: quiet_def makes_call_def settles_call_def rendered_card_def)
next
  case (fired e)
  then show ?thesis by (auto simp: quiet_def makes_call_def settles_call_def)
next
  case (settled failure e)
  then show ?thesis by (auto simp: landed_def card_settled_def Let_def split: option.splits)
next
  case (acted a e)
  then show ?thesis using card_act_cases [of m a m' e] by (auto simp: makes_call_def settles_call_def)
qed

interpretation card: flight_machine card_step makes_call settles_call "\<lambda>m. ca_inFlight (cm_now m)"
proof
  fix m l m' assume st: "card_step m l m'"
  note cases = card_step_cases [OF st]
  show "makes_call l \<Longrightarrow> \<not> ca_inFlight (cm_now m) \<and> ca_inFlight (cm_now m') \<and> \<not> settles_call l"
    using cases by (auto simp: makes_call_def call_made_def)
  show "settles_call l \<Longrightarrow> ca_inFlight (cm_now m) \<and> \<not> ca_inFlight (cm_now m')"
    using cases by (auto simp: landed_def)
  show "\<not> makes_call l \<Longrightarrow> \<not> settles_call l \<Longrightarrow> ca_inFlight (cm_now m') = ca_inFlight (cm_now m)"
    using cases by (auto simp: quiet_def makes_call_def settles_call_def)
qed

text \<open>After an acknowledged call the last render is locked.\<close>

definition card_inv :: "jstr \<Rightarrow> card_machine \<Rightarrow> bool" where
  "card_inv i m \<longleftrightarrow> kp_requestId (cm_props m) = i
     \<and> (ca_acknowledged (cm_now m) \<longrightarrow> ca_busy (cm_shown m) \<or> ca_acknowledged (cm_shown m))"

interpretation card_kept: machine card_step "card_inv i" for i
proof
  fix m l m' assume "card_inv i m" "card_step m l m'"
  then show "card_inv i m'" using card_step_cases [of m l m']
    by (auto simp: card_inv_def quiet_def call_made_def landed_def card_locked_def)
qed

lemma acknowledged_stays: "card_step m l m' \<Longrightarrow> ca_acknowledged (cm_now m) \<Longrightarrow> ca_acknowledged (cm_now m')"
  using card_step_cases [of m l m'] by (auto simp: quiet_def call_made_def landed_def)

lemma no_call_after_success:
  assumes "runs card_step m as m'" and "card_inv i m" and "ca_acknowledged (cm_now m)"
  shows "\<not> list_ex makes_call as \<and> ca_acknowledged (cm_now m')"
  using assms
proof (induction rule: runs.induct)
  case (start m)
  then show ?case by simp
next
  case (step m as m' a m'')
  then have ack: "ca_acknowledged (cm_now m')" "\<not> list_ex makes_call as" by blast+
  moreover have "card_inv i m'" using card_kept.runs_inv [OF step.hyps(1)] step.prems by blast
  ultimately have "card_locked (cm_props m') (cm_shown m')" by (auto simp: card_inv_def card_locked_def)
  then have "\<not> makes_call a" using card_step_cases [OF step.hyps(2)] by (auto simp: call_made_def makes_call_def)
  then show ?case using ack acknowledged_stays [OF step.hyps(2)] by simp
qed

text \<open>A call is made by a click, from a state of the run, with the props and the drafts that are shown there.\<close>

definition call_of :: "card_machine \<Rightarrow> jstr \<Rightarrow> card_action \<Rightarrow> card_call \<Rightarrow> bool" where
  "call_of m i a c \<longleftrightarrow> a = CancelClicked \<and> c = CancelCall i
     \<or> a = PrimaryClicked \<and> (\<exists>answers. submitted_answers (kp_questions (cm_props m)) (ca_answers (cm_shown m)) = Some answers
          \<and> c = AnswerCall i answers)"

lemma card_act_call:
  assumes "card_act m a = (m', Called c)"
  shows "call_of m (kp_requestId (cm_props m)) a c"
proof (cases a)
  case PrimaryClicked
  obtain s d where sd: "primary_click (cm_props m) (cm_shown m) (cm_now m) = (s, d)" by fastforce
  with assms PrimaryClicked have "d = Some c" by (auto simp: called_def split: option.splits)
  with sd have "submit_card (cm_props m) (cm_shown m) False (cm_now m) = (s, Some c)" using primary_click_cases by fastforce
  from submit_card_cases [OF this] PrimaryClicked show ?thesis by (auto simp: call_of_def)
next
  case CancelClicked
  obtain s d where sd: "submit_card (cm_props m) (cm_shown m) True (cm_now m) = (s, d)" by fastforce
  with assms CancelClicked have "d = Some c" by (auto simp: called_def split: option.splits)
  with submit_card_cases [OF sd] CancelClicked show ?thesis by (auto simp: call_of_def)
qed (use assms in \<open>auto simp: given_back_def split: prod.splits option.splits if_splits\<close>)

lemma card_step_call: "card_step m l m' \<Longrightarrow> snd l = Called c \<Longrightarrow> call_of m (kp_requestId (cm_props m)) (fst l) c"
  by (auto elim!: card_step.cases dest!: card_act_call)

lemma calls_from_the_card:
  assumes "runs card_step m ls m'" and "card_inv i m" and "l \<in> set ls" and "snd l = Called c"
  shows "\<exists>xs ys t. ls = xs @ l # ys \<and> runs card_step m xs t \<and> call_of t i (fst l) c"
  using assms
proof (induction rule: runs.induct)
  case (step m as m' a m'')
  show ?case
  proof (cases "l \<in> set as")
    case True
    with step.IH step.prems obtain xs ys t where "as = xs @ l # ys" "runs card_step m xs t" "call_of t i (fst l) c" by blast
    then show ?thesis by (intro exI [of _ xs] exI [of _ "ys @ [a]"] exI [of _ t]) simp
  next
    case False
    then have "a = l" using step.prems by simp
    moreover have "card_inv i m'" using card_kept.runs_inv [OF step.hyps(1) step.prems(1)] .
    ultimately have "call_of m' i (fst l) c" using card_step_call [OF step.hyps(2)] step.prems(3) by (simp add: card_inv_def)
    with \<open>a = l\<close> step.hyps(1) show ?thesis by (intro exI [of _ as] exI [of _ "[]"] exI [of _ m']) simp
  qed
qed simp

text \<open>Answers are complete for questions and drafts: each question is answered, by what its draft says.\<close>

definition answers_all :: "ui_question list \<Rightarrow> draft_answer js_record \<Rightarrow> jstr list js_record \<Rightarrow> bool" where
  "answers_all questions drafts answers \<longleftrightarrow>
     (\<forall>q \<in> set questions. resolvePendingUserInputAnswer q (draft_of drafts (uq_id q)) \<noteq> None)
     \<and> (distinct (map uq_id questions) \<and> js ''__proto__'' \<notin> set (map uq_id questions) \<longrightarrow>
          length answers = length questions
        \<and> (\<forall>q \<in> set questions. \<exists>a. resolvePendingUserInputAnswer q (draft_of drafts (uq_id q)) = Some a
            \<and> answer_list a \<noteq> [] \<and> prop_get answers (uq_id q) = Some (answer_list a)))"

lemma resolved_nonempty: "resolvePendingUserInputAnswer q d = Some a \<Longrightarrow> answer_list a \<noteq> []"
  by (auto simp: resolvePendingUserInputAnswer_def Let_def answer_list_def split: option.splits list.splits if_splits)

lemma collect_resolves:
  "collect_answers drafts qs acc = Some res \<Longrightarrow> q \<in> set qs \<Longrightarrow> resolvePendingUserInputAnswer q (draft_of drafts (uq_id q)) \<noteq> None"
  by (induction drafts qs acc rule: collect_answers.induct) (auto split: option.splits)

lemma submitted_answers_all:
  assumes "submitted_answers questions drafts = Some answers"
  shows "answers_all questions drafts answers"
proof -
  obtain built where b: "collect_answers drafts questions [] = Some built" and ans: "answers = map (\<lambda>(i, a). (i, answer_list a)) built"
    using assms by (auto simp: submitted_answers_def buildPendingUserInputAnswers_def)
  have "\<exists>a. resolvePendingUserInputAnswer q (draft_of drafts (uq_id q)) = Some a \<and> answer_list a \<noteq> []
      \<and> prop_get answers (uq_id q) = Some (answer_list a)"
    if d: "distinct (map uq_id questions)" "js ''__proto__'' \<notin> set (map uq_id questions)" and q: "q \<in> set questions" for q
  proof -
    obtain a where a: "prop_get built (uq_id q) = Some a" "resolvePendingUserInputAnswer q (draft_of drafts (uq_id q)) = Some a"
      using collect_answers_Some(2) [OF b d _ q] by auto
    have "prop_get answers (uq_id q) = Some (answer_list a)"
      using a(1) unfolding ans prop_get_map [of "\<lambda>_. answer_list"] by simp
    with a(2) resolved_nonempty show ?thesis by blast
  qed
  moreover have "length answers = length questions"
    if "distinct (map uq_id questions)" "js ''__proto__'' \<notin> set (map uq_id questions)"
    using collect_answers_Some(1) [OF b that] ans by simp
  ultimately show ?thesis using collect_resolves [OF b] unfolding answers_all_def by blast
qed

text \<open>
  C28. A question is answered once. However clicks, keys, renders and settlements interleave, the card
  calls the host with one call at a time and makes no call after one has succeeded. Every call is made from a
  state of the run: the cancel button cancels the card's own request, the primary button answers it with the drafts that the card shows in
  that state, none of the questions it shows there without an answer; where the identities of these questions are distinct
  and none is \<open>__proto__\<close>, what is sent has one entry per question, the values that its draft resolves to.
\<close>

theorem card_answers_once:
  assumes "runs card_step (mounted_card p) ls m"
  shows "length (filter makes_call ls) = length (filter settles_call ls) + (if ca_inFlight (cm_now m) then 1 else 0)
     \<and> (\<forall>xs ys. ls = xs @ [(CallSettled None, NoEffect)] @ ys \<longrightarrow> \<not> list_ex makes_call ys)
     \<and> (\<forall>l \<in> set ls. \<forall>c. snd l = Called c \<longrightarrow> (\<exists>xs ys t. ls = xs @ l # ys \<and> runs card_step (mounted_card p) xs t
          \<and> (fst l = CancelClicked \<and> c = CancelCall (kp_requestId p)
             \<or> fst l = PrimaryClicked \<and> (\<exists>answers. c = AnswerCall (kp_requestId p) answers
               \<and> answers_all (kp_questions (cm_props t)) (ca_answers (cm_shown t)) answers))))"
proof (intro conjI allI impI ballI)
  have inv: "card_inv (kp_requestId p) (mounted_card p)" by (simp add: card_inv_def mounted_card_def fresh_card_def)
  show "length (filter makes_call ls) = length (filter settles_call ls) + (if ca_inFlight (cm_now m) then 1 else 0)"
    using card.one_flight [OF assms] by (simp add: mounted_card_def fresh_card_def)
  show "\<not> list_ex makes_call ys" if e: "ls = xs @ [(CallSettled None, NoEffect)] @ ys" for xs ys
  proof -
    obtain t where t: "runs card_step (mounted_card p) xs t" "runs card_step t ([(CallSettled None, NoEffect)] @ ys) m"
      using runs_split [of card_step "mounted_card p" xs "[(CallSettled None, NoEffect)] @ ys" m] assms e by blast
    obtain u where u: "runs card_step t [(CallSettled None, NoEffect)] u" "runs card_step u ys m" 
      using runs_split [of card_step t "[(CallSettled None, NoEffect)]" ys m] t(2) by blast
    have "card_step t (CallSettled None, NoEffect) u" using u(1) by (cases rule: runs.cases) (auto elim: runs.cases)
    then have "ca_acknowledged (cm_now u)"
      using card_step_cases [of t "(CallSettled None, NoEffect)" u] by (auto simp: landed_def settles_call_def makes_call_def)
    moreover have "card_inv (kp_requestId p) u" using card_kept.runs_inv [OF u(1)] card_kept.runs_inv [OF t(1) inv] by blast
    ultimately show ?thesis using no_call_after_success [OF u(2)] by blast
  qed
  show "\<exists>xs ys t. ls = xs @ l # ys \<and> runs card_step (mounted_card p) xs t
      \<and> (fst l = CancelClicked \<and> c = CancelCall (kp_requestId p)
             \<or> fst l = PrimaryClicked \<and> (\<exists>answers. c = AnswerCall (kp_requestId p) answers
           \<and> answers_all (kp_questions (cm_props t)) (ca_answers (cm_shown t)) answers))"
    if "l \<in> set ls" "snd l = Called c" for l c
    using calls_from_the_card [OF assms inv that] submitted_answers_all unfolding call_of_def by blast
qed

definition sample_card :: card_props where
  "sample_card = \<lparr>kp_requestId = js ''r1'', kp_questions = [], kp_submitted = None, kp_active = True, kp_disabled = False, kp_carries = True\<rparr>"

theorem card_answers_once_witness:
  "\<exists>m. runs card_step (mounted_card sample_card) [(CancelClicked, Called (CancelCall (js ''r1'')))] m \<and> ca_inFlight (cm_now m)"
proof -
  let ?l = "(CancelClicked, Called (CancelCall (js ''r1'')))"
  obtain m where "card_act (mounted_card sample_card) CancelClicked = (m, Called (CancelCall (js ''r1'')))"
    by (simp add: mounted_card_def sample_card_def submit_card_def card_locked_def fresh_card_def called_def)
  then have "card_step (mounted_card sample_card) ?l m" by (intro card_step.acted) auto
  then have r: "runs card_step (mounted_card sample_card) [?l] m" by (rule runs_single)
  have "makes_call ?l" "\<not> settles_call ?l" by (simp_all add: makes_call_def settles_call_def)
  then have "ca_inFlight (cm_now m)" using conjunct1 [OF card_answers_once [OF r]] by (simp split: if_splits)
  with r show ?thesis by blast
qed

end
