(* ===== verification/Approval_Cards.thy ===== *)
theory Approval_Cards
  imports Conversation_Items Machine
begin

text \<open>
  Pending approvals: \<open>PendingRequestsContent\<close> of \<open>T3Conversation.tsx\<close>, the options of
  \<open>ComposerPendingApprovalActions.tsx\<close> and the advice of \<open>StaleApprovalNotice.tsx\<close>. As for the card of
  a question, a callback sees the props and the state of its render and the current references.
\<close>

subsection \<open>Responding\<close>

record approvals_props =
  ap_active :: bool
  ap_disabled :: bool
  ap_stale :: "jstr list" \<comment> \<open>\<open>staleRequestIds\<close>\<close>

record approvals_state =
  as_busy :: "jstr set"
  as_submitted :: "jstr set"
  as_error :: jstr
  as_inFlight :: "jstr set"

definition fresh_approvals :: approvals_state where
  "fresh_approvals = \<lparr>as_busy = {}, as_submitted = {}, as_error = [], as_inFlight = {}\<rparr>"

datatype approval_call = CancelRequestCall jstr | ApprovalCall jstr jstr

definition approval_call_of :: "jstr \<Rightarrow> jstr option \<Rightarrow> approval_call" where
  "approval_call_of i decision = (case decision of None \<Rightarrow> CancelRequestCall i | Some d \<Rightarrow> ApprovalCall i d)"

definition respond_started ::
  "approvals_props \<Rightarrow> approvals_state \<Rightarrow> jstr \<Rightarrow> jstr option \<Rightarrow> approvals_state \<Rightarrow> approvals_state \<times> approval_call option" where
  "respond_started p shown i decision s =
     (if \<not> ap_active p \<or> ap_disabled p \<or> i \<in> set (ap_stale p) \<or> i \<in> as_inFlight s \<or> i \<in> as_submitted shown then (s, None)
      else
        (let flying = insert i (as_inFlight s) in
         (s\<lparr>as_inFlight := flying, as_busy := flying, as_error := []\<rparr>, Some (approval_call_of i decision))))"

definition respond_settled :: "jstr \<Rightarrow> jstr option \<Rightarrow> approvals_state \<Rightarrow> approvals_state" where
  "respond_settled i failure s =
     (let told = (case failure of None \<Rightarrow> s\<lparr>as_submitted := insert i (as_submitted s)\<rparr> | Some message \<Rightarrow> s\<lparr>as_error := message\<rparr>);
          flying = as_inFlight told - {i}
      in told\<lparr>as_inFlight := flying, as_busy := flying\<rparr>)"

subsection \<open>What is shown\<close>

record approval_view =
  av_identity :: jstr
  av_title :: jstr
  av_timestamp :: "jstr option"
  av_locked :: bool \<comment> \<open>every button is disabled\<close>
  av_state :: card_state
  av_status :: "jstr option"
  av_review :: jstr
  av_partial :: bool
  av_controls :: bool \<comment> \<open>the host's controls are rendered\<close>
  av_open :: bool \<comment> \<open>props of the stale notice\<close>
  av_missing :: bool
  av_summary :: "jstr option"
  av_buttons :: "(jstr \<times> jstr \<times> jstr option) list" \<comment> \<open>decision, label, warning\<close>

definition awaiting_provider :: "approvals_state \<Rightarrow> pending_approval \<Rightarrow> bool" where
  "awaiting_provider s a \<longleftrightarrow> pa_requestId a \<in> as_submitted s \<or> pa_submitted a"

definition approval_locked :: "approvals_props \<Rightarrow> approvals_state \<Rightarrow> pending_approval \<Rightarrow> bool" where
  "approval_locked p s a \<longleftrightarrow> pa_requestId a \<in> set (ap_stale p) \<or> \<not> ap_active p \<or> ap_disabled p
     \<or> pa_requestId a \<in> as_busy s \<or> awaiting_provider s a"

definition approval_status :: "agent_locale \<Rightarrow> approvals_state \<Rightarrow> pending_approval \<Rightarrow> jstr option" where
  "approval_status loc s a =
     (if awaiting_provider s a
      then Some (case loc of Zh \<Rightarrow> [22238, 22797, 24050, 25552, 20132] | En \<Rightarrow> js ''Response submitted'')
      else if pa_requestId a \<in> as_busy s
      then Some (case loc of Zh \<Rightarrow> [25552, 20132, 22238, 22797, 20013] | En \<Rightarrow> js ''Submitting response'') else None)"

definition view_approval ::
  "jstr \<Rightarrow> agent_locale \<Rightarrow> approvals_props \<Rightarrow> approvals_state \<Rightarrow> pending_approval \<Rightarrow> approval_view" where
  "view_approval sessionKey loc p s a =
     (let title = (if pa_title a \<noteq> [] then pa_title a else js ''Approval request'') in
      \<lparr>av_identity = sessionKey @ js '':'' @ pa_requestId a, av_title = title, av_timestamp = pa_createdAt a,
       av_locked = approval_locked p s a,
       av_state = (if awaiting_provider s a \<or> pa_requestId a \<in> as_busy s then CardSubmitted else CardPending),
       av_status = approval_status loc s a,
       av_review = (if truthy (pa_detail a) then get_or [] (pa_detail a) else title),
       av_partial = (pa_truncated a = Some True), av_controls = (\<not> approval_locked p s a),
       av_open = (\<not> awaiting_provider s a), av_missing = (pa_requestId a \<in> set (ap_stale p)),
       av_summary = map_option first_line (kept (pa_detail a)),
       av_buttons = map (\<lambda>opt. (ao_decision opt, ao_label opt, kept (ao_warning opt))) (pa_options a)\<rparr>)"

subsection \<open>The advice on a stale approval\<close>

record notice_state =
  no_now :: int
  no_busy :: bool
  no_error :: jstr
  no_timer :: "int option" \<comment> \<open>delay of the timer that is set\<close>

definition max_delay :: int where "max_delay = 2147483647"

text \<open>The effect of \<open>open\<close>, \<open>createdAt\<close> and \<open>missing\<close> at the time \<open>now\<close>.\<close>

definition notice_effect :: "date_parser \<Rightarrow> bool \<Rightarrow> jstr option \<Rightarrow> bool \<Rightarrow> int \<Rightarrow> notice_state \<Rightarrow> notice_state" where
  "notice_effect dp opened createdAt missing now s =
     (let created = (if truthy createdAt then dp (get_or [] createdAt) else None) in
      s\<lparr>no_now := now, no_timer := (case created of
          None \<Rightarrow> None
        | Some c \<Rightarrow> if \<not> opened \<or> missing then None
            else (let delay = c + approval_stale_after_ms + 1 - now in if delay \<le> 0 then None else Some (min delay max_delay)))\<rparr>)"

definition notice_fired :: "int \<Rightarrow> notice_state \<Rightarrow> notice_state" where
  "notice_fired now s = s\<lparr>no_now := now, no_timer := None\<rparr>"

definition notice_shown :: "date_parser \<Rightarrow> bool \<Rightarrow> jstr option \<Rightarrow> bool \<Rightarrow> notice_state \<Rightarrow> bool" where
  "notice_shown dp opened createdAt missing s = isApprovalStale dp opened createdAt missing (no_now s)"

definition notice_refresh :: "bool \<Rightarrow> notice_state \<Rightarrow> notice_state \<Rightarrow> notice_state \<times> bool" where \<comment> \<open>the call is made\<close>
  "notice_refresh canRefresh shown s =
     (if \<not> canRefresh \<or> no_busy shown then (s, False) else (s\<lparr>no_busy := True, no_error := []\<rparr>, True))"

definition notice_settled :: "jstr option \<Rightarrow> notice_state \<Rightarrow> notice_state" where
  "notice_settled failure s = s\<lparr>no_error := get_or (no_error s) failure, no_busy := False\<rparr>"

subsection \<open>The machine\<close>

record approvals =
  am_props :: approvals_props
  am_shown :: approvals_state
  am_now :: approvals_state

definition mounted_approvals :: "approvals_props \<Rightarrow> approvals" where
  "mounted_approvals p = \<lparr>am_props = p, am_shown = fresh_approvals, am_now = fresh_approvals\<rparr>"

datatype approvals_action =
    ApprovalsRendered approvals_props
  | Responded jstr "jstr option" "approval_call option" \<comment> \<open>with the call that is made\<close>
  | ResponseSettled jstr "jstr option"

text \<open>A locked card has disabled buttons. A call settles after its busy state was rendered.\<close>

inductive approvals_step :: "approvals \<Rightarrow> approvals_action \<Rightarrow> approvals \<Rightarrow> bool" where
  rendered: "approvals_step m (ApprovalsRendered p) (m\<lparr>am_props := p, am_shown := am_now m\<rparr>)"
| responded: "\<not> approval_locked (am_props m) (am_shown m) a \<Longrightarrow>
    respond_started (am_props m) (am_shown m) (pa_requestId a) decision (am_now m) = (s, c) \<Longrightarrow>
    approvals_step m (Responded (pa_requestId a) decision c) (m\<lparr>am_now := s\<rparr>)"
| settled: "i \<in> as_inFlight (am_now m) \<Longrightarrow> i \<in> as_busy (am_shown m) \<Longrightarrow>
    approvals_step m (ResponseSettled i failure) (m\<lparr>am_now := respond_settled i failure (am_now m)\<rparr>)"

end
