(* ===== verification/Composer_Send.thy ===== *)
theory Composer_Send
  imports UserInput Conversation_Items Machine
begin

text \<open>
  The composer of a conversation: \<open>ConversationContent\<close> of \<open>T3Conversation.tsx\<close>, the buttons of
  \<open>ComposerPrimaryActions.tsx\<close> and the callbacks that \<open>AgentConversation.tsx\<close> passes.
\<close>

subsection \<open>State\<close>

record composer_view =
  vp_composerEnabled :: bool
  vp_active :: bool
  vp_disabled :: bool
  vp_sendDisabled :: bool
  vp_queueEnabled :: bool
  vp_interruptEnabled :: bool
  vp_isRunning :: bool
  vp_isSending :: "bool option"
  vp_draft :: "jstr option" \<comment> \<open>a draft of the host\<close>
  vp_clearDraftOnSend :: bool

record sender =
  sn_internal :: jstr \<comment> \<open>\<open>internalPrompt\<close>\<close>
  sn_busy :: bool
  sn_error :: jstr
  sn_inFlight :: bool

definition fresh_sender :: sender where
  "fresh_sender = \<lparr>sn_internal = [], sn_busy = False, sn_error = [], sn_inFlight = False\<rparr>"

definition shown_prompt :: "composer_view \<Rightarrow> sender \<Rightarrow> jstr" where
  "shown_prompt p s = get_or (sn_internal s) (vp_draft p)"

definition sender_locked :: "composer_view \<Rightarrow> bool" where
  "sender_locked p \<longleftrightarrow> \<not> vp_active p \<or> vp_disabled p"

text \<open>\<open>setPrompt\<close>: the host hears of every change; only without a draft of the host is it kept here.\<close>

definition set_prompt :: "composer_view \<Rightarrow> jstr \<Rightarrow> sender \<Rightarrow> sender" where
  "set_prompt p value s = (if vp_draft p = None then s\<lparr>sn_internal := value\<rparr> else s)"

subsection \<open>Sending and interrupting\<close>

datatype sender_call = SendCall jstr | InterruptCall

definition send_started :: "composer_view \<Rightarrow> sender \<Rightarrow> sender \<Rightarrow> sender \<times> sender_call option" where
  "send_started p shown s =
     (if \<not> vp_composerEnabled p \<or> sender_locked p \<or> vp_sendDisabled p
         \<or> (\<not> vp_queueEnabled p \<and> (vp_isRunning p \<or> vp_isSending p = Some True)) \<or> sn_inFlight s
         \<or> trim (shown_prompt p shown) = []
      then (s, None)
      else (s\<lparr>sn_inFlight := True, sn_busy := True, sn_error := []\<rparr>, Some (SendCall (shown_prompt p shown))))"

definition interrupt_started :: "composer_view \<Rightarrow> sender \<Rightarrow> sender \<times> sender_call option" where
  "interrupt_started p s =
     (if \<not> vp_interruptEnabled p \<or> sender_locked p \<or> sn_inFlight s then (s, None)
      else (s\<lparr>sn_inFlight := True, sn_busy := True, sn_error := []\<rparr>, Some InterruptCall))"

definition sender_landed :: "sender \<Rightarrow> sender" where
  "sender_landed s = s\<lparr>sn_inFlight := False, sn_busy := False\<rparr>"

text \<open>
  A send has settled. On success the draft is cleared where it is still the text that was sent; the
  render at that time decides.
\<close>

definition send_settled ::
  "composer_view \<Rightarrow> composer_view \<Rightarrow> sender \<Rightarrow> jstr \<Rightarrow> jstr option \<Rightarrow> sender \<Rightarrow> sender \<times> jstr option" where
  "send_settled sent_p p shown sent failure s = (case failure of
       Some message \<Rightarrow> (sender_landed (s\<lparr>sn_error := message\<rparr>), None)
     | None \<Rightarrow> if vp_clearDraftOnSend sent_p \<and> shown_prompt p shown = sent
         then (sender_landed (set_prompt p [] s), Some []) else (sender_landed s, None))"

definition interrupt_settled :: "jstr option \<Rightarrow> sender \<Rightarrow> sender" where
  "interrupt_settled failure s = sender_landed (s\<lparr>sn_error := get_or (sn_error s) failure\<rparr>)"

text \<open>An answer that an option displaced goes back to the prompt.\<close>

definition keep_typed_answer :: "composer_view \<Rightarrow> sender \<Rightarrow> jstr \<Rightarrow> sender \<Rightarrow> sender \<times> jstr" where
  "keep_typed_answer p shown displaced s =
     (let prompt = carryDisplacedCustomAnswerIntoPrompt (shown_prompt p shown) (Some displaced) in (set_prompt p prompt s, prompt))"

text \<open>Enter sends, with Shift it does not; a composition of the input method keeps the key.\<close>

datatype key_outcome = KeyIgnored | KeyTaken | KeySends

definition command_key :: "jstr \<Rightarrow> bool \<Rightarrow> bool \<Rightarrow> key_outcome" where
  "command_key key shift composing =
     (if key \<noteq> js ''Enter'' \<or> shift then KeyIgnored else if composing then KeyTaken else KeySends)"

subsection \<open>What is shown\<close>

datatype button = StopButton bool | SendButton bool jstr bool \<comment> \<open>disabled; for sending also the label and \<open>aria-busy\<close>\<close>

definition primary_actions :: "bool \<Rightarrow> bool \<Rightarrow> bool \<Rightarrow> bool \<Rightarrow> bool \<Rightarrow> bool \<Rightarrow> button list" where
  "primary_actions isRunning isSending disabled hasContent interruptEnabled queueEnabled =
     (if isRunning \<and> \<not> interruptEnabled \<and> \<not> queueEnabled then []
      else
        (let stop = (if isRunning \<and> interruptEnabled then [StopButton disabled] else []) in
         if isRunning \<and> \<not> queueEnabled then stop
         else stop @ [SendButton (disabled \<or> isSending \<or> \<not> hasContent)
           (js (if isRunning then ''Queue message'' else ''Send message'')) isSending]))"

definition composer_buttons :: "composer_view \<Rightarrow> sender \<Rightarrow> button list" where
  "composer_buttons p s = primary_actions (vp_isRunning p) (sn_busy s \<or> vp_isSending p = Some True)
     (sender_locked p \<or> sn_busy s \<or> (\<not> vp_isRunning p \<and> vp_sendDisabled p)) (trim (shown_prompt p s) \<noteq> [])
     (vp_interruptEnabled p) (vp_queueEnabled p)"

record conversation_layout =
  ly_requests :: bool \<comment> \<open>the area of pending requests\<close>
  ly_footer :: bool
  ly_composer :: bool
  ly_error :: jstr

definition layout_of :: "composer_view \<Rightarrow> sender \<Rightarrow> bool \<Rightarrow> bool \<Rightarrow> bool \<Rightarrow> jstr option \<Rightarrow> conversation_layout" where
  "layout_of p s anyRequest additionalRequests dock externalError =
     (let composer = (vp_composerEnabled p \<or> (vp_isRunning p \<and> vp_interruptEnabled p)) in
      \<lparr>ly_requests = (anyRequest \<or> additionalRequests), ly_footer = (composer \<or> dock), ly_composer = composer,
       ly_error = get_or [] (or_text externalError (Some (sn_error s)))\<rparr>)"

subsection \<open>The callbacks of the adapter\<close>

text \<open>\<open>AgentConversation\<close> decides what the composer may do, and answers requests through the checks.\<close>

definition adapter_send_disabled :: "bool option \<Rightarrow> bool \<Rightarrow> stream_state \<Rightarrow> bool" where
  "adapter_send_disabled sendDisabled hasSend state = get_or (\<not> hasSend \<or> st_worker state \<noteq> Ready) sendDisabled"

datatype adapter_call = AdapterSend jstr | AdapterInterrupt | AdapterAnswer jstr agent_answer

definition adapter_send :: "bool \<Rightarrow> jstr \<Rightarrow> adapter_call result" where
  "adapter_send hasSend content = (if hasSend then Inr (AdapterSend content) else Inl (Error ''No native session is connected.''))"

definition adapter_interrupt :: "bool \<Rightarrow> adapter_call result" where
  "adapter_interrupt hasInterrupt =
     (if hasInterrupt then Inr AdapterInterrupt else Inl (Error ''This session cannot be interrupted here.''))"

definition adapter_approval :: "stream_state \<Rightarrow> jstr \<Rightarrow> jstr \<Rightarrow> adapter_call result" where
  "adapter_approval state requestId decision =
     andThen (nativeApprovalAnswer state requestId decision) (\<lambda>answer. Inr (AdapterAnswer requestId answer))"

definition adapter_input :: "stream_state \<Rightarrow> jstr \<Rightarrow> jstr list js_record \<Rightarrow> adapter_call result" where
  "adapter_input state requestId answers =
     andThen (nativeQuestionAnswer state requestId answers) (\<lambda>answer. Inr (AdapterAnswer requestId answer))"

definition adapter_cancel :: "stream_state \<Rightarrow> jstr \<Rightarrow> adapter_call result" where
  "adapter_cancel state requestId = andThen (nativeCancelAnswer state requestId) (\<lambda>answer. Inr (AdapterAnswer requestId answer))"

subsection \<open>The machine\<close>

text \<open>\<open>mc_sent\<close> are the props and the text of the call under way; the host's draft is a prop.\<close>

record composer_machine =
  mc_props :: composer_view
  mc_shown :: sender
  mc_now :: sender
  mc_sent :: "(composer_view \<times> jstr option) option" \<comment> \<open>\<open>None\<close> for the text of an interrupt\<close>

definition mounted_composer :: "composer_view \<Rightarrow> composer_machine" where
  "mounted_composer p = \<lparr>mc_props = p, mc_shown = fresh_sender, mc_now = fresh_sender, mc_sent = None\<rparr>"

datatype composer_action =
    ComposerRendered composer_view
  | Typed jstr
  | AnswerGivenBack jstr
  | SendPressed "sender_call option" \<comment> \<open>with the call that is made\<close>
  | StopPressed "sender_call option"
  | SenderSettled "jstr option"

definition sent_text :: "sender_call \<Rightarrow> jstr option" where
  "sent_text c = (case c of SendCall t \<Rightarrow> Some t | InterruptCall \<Rightarrow> None)"

definition note_call :: "composer_view \<Rightarrow> sender_call option \<Rightarrow> (composer_view \<times> jstr option) option \<Rightarrow> (composer_view \<times> jstr option) option" where
  "note_call p c previous = (case c of None \<Rightarrow> previous | Some x \<Rightarrow> Some (p, sent_text x))"

inductive composer_step :: "composer_machine \<Rightarrow> composer_action \<Rightarrow> composer_machine \<Rightarrow> bool" where
  rendered: "composer_step m (ComposerRendered p) (m\<lparr>mc_props := p, mc_shown := mc_now m\<rparr>)"
| typed: "\<not> sender_locked (mc_props m) \<Longrightarrow> composer_step m (Typed value) (m\<lparr>mc_now := set_prompt (mc_props m) value (mc_now m)\<rparr>)"
| given_back: "composer_step m (AnswerGivenBack displaced)
    (m\<lparr>mc_now := fst (keep_typed_answer (mc_props m) (mc_shown m) displaced (mc_now m))\<rparr>)"
| sent: "send_started (mc_props m) (mc_shown m) (mc_now m) = (s, c) \<Longrightarrow>
    composer_step m (SendPressed c) (m\<lparr>mc_now := s, mc_sent := note_call (mc_props m) c (mc_sent m)\<rparr>)"
| stopped: "interrupt_started (mc_props m) (mc_now m) = (s, c) \<Longrightarrow>
    composer_step m (StopPressed c) (m\<lparr>mc_now := s, mc_sent := note_call (mc_props m) c (mc_sent m)\<rparr>)"
| send_settled: "mc_sent m = Some (p, Some sent) \<Longrightarrow>
    composer_step m (SenderSettled failure)
      (m\<lparr>mc_now := fst (send_settled p (mc_props m) (mc_shown m) sent failure (mc_now m)), mc_sent := None\<rparr>)"
| interrupt_settled: "mc_sent m = Some (p, None) \<Longrightarrow>
    composer_step m (SenderSettled failure) (m\<lparr>mc_now := interrupt_settled failure (mc_now m), mc_sent := None\<rparr>)"

end
