(* ===== verification/Conversation_Properties.thy ===== *)
theory Conversation_Properties
  imports Approval_Cards Composer_Send Presentation_Props Samples "HOL-Library.Sublist"
begin

text \<open>
  Approvals and the composer: a card shows all that is asked, one call at a time for each request and for the composer,
  no second answer to an approval, and no draft lost by a send.
\<close>

subsection \<open>Approvals\<close>

definition responds :: "jstr \<Rightarrow> approvals_action \<Rightarrow> bool" where
  "responds i a \<longleftrightarrow> (\<exists>decision c. a = Responded i decision (Some c))"

definition response_settles :: "jstr \<Rightarrow> approvals_action \<Rightarrow> bool" where
  "response_settles i a \<longleftrightarrow> (\<exists>failure. a = ResponseSettled i failure)"

lemma respond_started_cases:
  assumes "respond_started p shown i decision s = (s', c)"
  shows "(c = None \<and> s' = s) \<or> (c = Some (approval_call_of i decision) \<and> i \<notin> as_inFlight s \<and> i \<notin> as_submitted shown
     \<and> s' = s\<lparr>as_inFlight := insert i (as_inFlight s), as_busy := insert i (as_inFlight s), as_error := []\<rparr>)"
  using assms by (auto simp: respond_started_def Let_def split: if_splits)

lemma respond_settled_flags [simp]:
  "as_inFlight (respond_settled i failure s) = as_inFlight s - {i}"
  "as_busy (respond_settled i failure s) = as_inFlight s - {i}"
  "as_submitted (respond_settled i failure s) = (if failure = None then insert i (as_submitted s) else as_submitted s)"
  by (auto simp: respond_settled_def Let_def split: option.splits)

interpretation approval: flight_machine approvals_step "responds i" "response_settles i" "\<lambda>m. i \<in> as_inFlight (am_now m)" for i
proof
  fix m a m' assume st: "approvals_step m a m'"
  show "responds i a \<Longrightarrow> i \<notin> as_inFlight (am_now m) \<and> i \<in> as_inFlight (am_now m') \<and> \<not> response_settles i a"
    using st by (cases rule: approvals_step.cases) (auto simp: responds_def response_settles_def dest: respond_started_cases)
  show "response_settles i a \<Longrightarrow> i \<in> as_inFlight (am_now m) \<and> i \<notin> as_inFlight (am_now m')"
    using st by (cases rule: approvals_step.cases) (auto simp: response_settles_def)
  show "\<not> responds i a \<Longrightarrow> \<not> response_settles i a \<Longrightarrow> (i \<in> as_inFlight (am_now m')) = (i \<in> as_inFlight (am_now m))"
    using st by (cases rule: approvals_step.cases) (auto simp: responds_def response_settles_def dest: respond_started_cases)
qed

text \<open>A response that succeeded is busy or submitted in the last render.\<close>

definition approvals_inv :: "jstr \<Rightarrow> approvals \<Rightarrow> bool" where
  "approvals_inv i m \<longleftrightarrow> (i \<in> as_submitted (am_now m) \<longrightarrow> i \<in> as_busy (am_shown m) \<or> i \<in> as_submitted (am_shown m))"

interpretation approval_kept: machine approvals_step "approvals_inv i" for i
proof
  fix m a m' assume inv: "approvals_inv i m" and st: "approvals_step m a m'"
  from st inv show "approvals_inv i m'"
    by (cases rule: approvals_step.cases) (auto simp: approvals_inv_def split: if_splits dest: respond_started_cases)
qed

lemma submitted_stays: "approvals_step m a m' \<Longrightarrow> i \<in> as_submitted (am_now m) \<Longrightarrow> i \<in> as_submitted (am_now m')"
  by (cases rule: approvals_step.cases) (auto dest: respond_started_cases)

lemma submitted_locks: "approvals_step m a m' \<Longrightarrow> approvals_inv i m \<Longrightarrow> i \<in> as_submitted (am_now m) \<Longrightarrow> \<not> responds i a"
  by (cases rule: approvals_step.cases)
    (auto simp: approvals_inv_def responds_def approval_locked_def awaiting_provider_def dest: respond_started_cases)

lemma no_response_after_success:
  assumes "runs approvals_step m as m'" and "approvals_inv i m" and "i \<in> as_submitted (am_now m)"
  shows "\<not> list_ex (responds i) as \<and> i \<in> as_submitted (am_now m')"
  using assms
proof (induction rule: runs.induct)
  case (start m)
  then show ?case by simp
next
  case (step m as m' a m'')
  then have "i \<in> as_submitted (am_now m')" "\<not> list_ex (responds i) as" "approvals_inv i m'"
    using approval_kept.runs_inv [OF step.hyps(1)] by blast+
  then show ?case using submitted_locks [OF step.hyps(2)] submitted_stays [OF step.hyps(2)] by auto
qed

text \<open>
  C27. An approval is answered once. However clicks on any of the cards, renders and settlements
  interleave, each request has at most one call under way, whatever happens to the others, and none
  after a call for it has succeeded.
\<close>

theorem approvals_answered_once:
  assumes "runs approvals_step (mounted_approvals p) ls m"
  shows "length (filter (responds i) ls) = length (filter (response_settles i) ls) + (if i \<in> as_inFlight (am_now m) then 1 else 0)
     \<and> (\<forall>xs ys. ls = xs @ [ResponseSettled i None] @ ys \<longrightarrow> \<not> list_ex (responds i) ys)"
proof (intro conjI allI impI)
  have inv: "approvals_inv i (mounted_approvals p)" by (simp add: approvals_inv_def mounted_approvals_def fresh_approvals_def)
  show "length (filter (responds i) ls) = length (filter (response_settles i) ls) + (if i \<in> as_inFlight (am_now m) then 1 else 0)"
    using approval.one_flight [OF assms] by (simp add: mounted_approvals_def fresh_approvals_def)
  show "\<not> list_ex (responds i) ys" if e: "ls = xs @ [ResponseSettled i None] @ ys" for xs ys
  proof -
    obtain t where t: "runs approvals_step (mounted_approvals p) xs t" "runs approvals_step t ([ResponseSettled i None] @ ys) m"
      using runs_split [of approvals_step "mounted_approvals p" xs "[ResponseSettled i None] @ ys" m] assms e by blast
    obtain u where u: "runs approvals_step t [ResponseSettled i None] u" "runs approvals_step u ys m"
      using runs_split [of approvals_step t "[ResponseSettled i None]" ys m] t(2) by blast
    have "approvals_step t (ResponseSettled i None) u" using u(1) by (cases rule: runs.cases) (auto elim: runs.cases)
    then have "i \<in> as_submitted (am_now u)" by (cases rule: approvals_step.cases) auto
    moreover have "approvals_inv i u" using approval_kept.runs_inv [OF u(1)] approval_kept.runs_inv [OF t(1) inv] by blast
    ultimately show ?thesis using no_response_after_success [OF u(2)] by blast
  qed
qed

definition sample_approvals :: approvals_props where
  "sample_approvals = \<lparr>ap_active = True, ap_disabled = False, ap_stale = []\<rparr>"

definition sample_pending :: pending_approval where
  "sample_pending = \<lparr>pa_requestId = js ''r1'', pa_requestKind = Inl [], pa_title = [], pa_submitted = False, pa_createdAt = None,
     pa_detail = None, pa_truncated = None, pa_options = []\<rparr>"

theorem approvals_answered_once_witness:
  "\<exists>m. runs approvals_step (mounted_approvals sample_approvals) [Responded (js ''r1'') None (Some (CancelRequestCall (js ''r1'')))] m
     \<and> js ''r1'' \<in> as_inFlight (am_now m)"
proof -
  let ?a = "Responded (js ''r1'') None (Some (CancelRequestCall (js ''r1'')))"
  obtain s where s: "respond_started sample_approvals fresh_approvals (js ''r1'') None fresh_approvals = (s, Some (CancelRequestCall (js ''r1'')))"
    by (simp add: respond_started_def sample_approvals_def fresh_approvals_def approval_call_of_def Let_def)
  have "approvals_step (mounted_approvals sample_approvals) ?a ((mounted_approvals sample_approvals)\<lparr>am_now := s\<rparr>)"
    using approvals_step.responded [of "mounted_approvals sample_approvals" sample_pending None s] s
    by (simp add: mounted_approvals_def sample_pending_def sample_approvals_def fresh_approvals_def approval_locked_def awaiting_provider_def)
  then have r: "runs approvals_step (mounted_approvals sample_approvals) [?a] ((mounted_approvals sample_approvals)\<lparr>am_now := s\<rparr>)"
    by (rule runs_single)
  have "responds (js ''r1'') ?a" "\<not> response_settles (js ''r1'') ?a" by (simp_all add: responds_def response_settles_def)
  then have "js ''r1'' \<in> as_inFlight s"
    using conjunct1 [OF approvals_answered_once [OF r, of "js ''r1''"]] by (simp split: if_splits)
  with r show ?thesis by (intro exI conjI) auto
qed

text \<open>The review text of a card has every part of the approval's detail in it.\<close>

lemma review_shows:
  assumes "nativeRequestPresentation loc (Pending r b) = Inr (Approval appr)" and "Some t \<in> set (detail_parts r)"
  shows "sublist t (av_review (view_approval sessionKey loc p s appr))"
proof (cases "t = []")
  case False
  have "pa_detail appr = approvalDetail r"
    using assms(1) by (auto simp: nativeRequestPresentation_def split: if_splits)
  then obtain a c where "pa_detail appr = Some (a @ t @ c)" using approvalDetail_shows [OF assms(2) False] by auto
  with False have "av_review (view_approval sessionKey loc p s appr) = a @ t @ c" by (simp add: view_approval_def Let_def)
  then show ?thesis by (simp add: sublist_appendI)
qed simp

lemma sublist_labelled: "sublist (xs @ t) ys \<Longrightarrow> sublist t ys"
  using sublist_order.order_trans [OF sublist_append_leftI] by blast

lemma trim_nil: "trim [] = []"
  by code_simp

text \<open>
  C14. An approval card hides nothing of what is asked for: the text of the request, and of its details the
  command, the target, the preview, the working directory, the requested access, the protocol and the host of
  the network, the reason and the note on a truncated preview each occur, whole but for space around the
  text, the command and the reason, in what the card shows for review, whatever the state of the card.
\<close>

theorem approval_hides_nothing:
  assumes "nativeRequestPresentation loc (Pending r b) = Inr (Approval appr)"
  shows "let shown = av_review (view_approval sessionKey loc p s appr) in
     sublist (trim (get_or [] (rq_text r))) shown
     \<and> (case rq_details r of None \<Rightarrow> True | Some d \<Rightarrow>
          sublist (trim (get_or [] (rd_command d))) shown \<and> sublist (get_or [] (rd_target d)) shown
        \<and> sublist (get_or [] (rd_preview d)) shown \<and> sublist (get_or [] (rd_cwd d)) shown
        \<and> sublist (get_or [] (rd_grantRoot d)) shown \<and> sublist (trim (get_or [] (rd_reason d))) shown
        \<and> (case rd_network d of None \<Rightarrow> True | Some (protocol, host) \<Rightarrow> sublist (protocol @ [32] @ host) shown)
        \<and> sublist (if rd_truncated d = Some True then js ''Preview truncated. Review the complete operation before allowing.'' else []) shown)"
proof -
  define shown where "shown = av_review (view_approval sessionKey loc p s appr)"
  note parts = review_shows [OF assms, of _ sessionKey p s, folded shown_def]
  have plain: "sublist (get_or [] t) shown" if "t \<in> set (detail_parts r)" for t
    using that parts [of "get_or [] t"] by (cases "t = None") auto
  have labelled: "sublist (get_or [] t) shown" if "prefixed label t \<in> set (detail_parts r)" for label t
    using plain [OF that] sublist_labelled by (cases t) (auto simp: prefixed_def split: if_splits)
  have trimmed: "sublist (trim (get_or [] t)) shown" if "map_option trim t \<in> set (detail_parts r)" for t
    using plain [OF that] by (cases t) (simp_all add: trim_nil)
  have "sublist (trim (get_or [] (rq_text r))) shown" by (rule trimmed) (simp add: detail_parts_def Let_def)
  moreover have "sublist (trim (get_or [] (rd_command d))) shown \<and> sublist (get_or [] (rd_target d)) shown
      \<and> sublist (get_or [] (rd_preview d)) shown \<and> sublist (get_or [] (rd_cwd d)) shown
      \<and> sublist (get_or [] (rd_grantRoot d)) shown \<and> sublist (trim (get_or [] (rd_reason d))) shown
      \<and> (case rd_network d of None \<Rightarrow> True | Some (protocol, host) \<Rightarrow> sublist (protocol @ [32] @ host) shown)
      \<and> sublist (if rd_truncated d = Some True then js ''Preview truncated. Review the complete operation before allowing.'' else []) shown"
    if d: "rq_details r = Some d" for d
  proof (intro conjI)
    show "sublist (trim (get_or [] (rd_command d))) shown" "sublist (trim (get_or [] (rd_reason d))) shown"
      by (rule trimmed, simp add: detail_parts_def d)+
    show "sublist (get_or [] (rd_target d)) shown" by (rule labelled [of "''Target: ''"]) (simp add: detail_parts_def d)
    show "sublist (get_or [] (rd_preview d)) shown" by (rule plain) (simp add: detail_parts_def d)
    show "sublist (get_or [] (rd_cwd d)) shown" by (rule labelled [of "''Working directory: ''"]) (simp add: detail_parts_def d)
    show "sublist (get_or [] (rd_grantRoot d)) shown" by (rule labelled [of "''Requested access: ''"]) (simp add: detail_parts_def d)
    show "case rd_network d of None \<Rightarrow> True | Some (protocol, host) \<Rightarrow> sublist (protocol @ [32] @ host) shown"
      using plain [of "Some (js ''Network: '' @ fst (the (rd_network d)) @ [32] @ snd (the (rd_network d)))"] sublist_labelled
      by (auto simp: detail_parts_def d split: option.splits)
    show "sublist (if rd_truncated d = Some True then js ''Preview truncated. Review the complete operation before allowing.'' else []) shown"
      using plain [of "Some (js ''Preview truncated. Review the complete operation before allowing.'')"]
      by (simp add: detail_parts_def d)
  qed
  ultimately show ?thesis unfolding Let_def shown_def [symmetric] by (cases "rq_details r") (simp_all only: option.case simp_thms)
qed

theorem approval_hides_nothing_witness:
  "\<exists>appr. nativeRequestPresentation En (Pending (sample_approval\<lparr>rq_text := Some (js ''yes'')\<rparr>) False) = Inr (Approval appr)
     \<and> sublist (js ''yes'') (av_review (view_approval (js ''k'') En sample_approvals fresh_approvals appr))"
proof -
  let ?r = "sample_approval\<lparr>rq_text := Some (js ''yes'')\<rparr>"
  obtain appr where appr: "nativeRequestPresentation En (Pending ?r False) = Inr (Approval appr)"
    by (simp add: nativeRequestPresentation_def sample_approval_def)
  have "trim (js ''yes'') = js ''yes''" by code_simp
  then show ?thesis
    using approval_hides_nothing [OF appr, of "js ''k''" sample_approvals fresh_approvals] appr by (auto simp: Let_def)
qed

subsection \<open>The composer\<close>

definition calls_host :: "composer_action \<Rightarrow> bool" where
  "calls_host a \<longleftrightarrow> (\<exists>c. a = SendPressed (Some c) \<or> a = StopPressed (Some c))"

definition host_settles :: "composer_action \<Rightarrow> bool" where
  "host_settles a \<longleftrightarrow> (\<exists>failure. a = SenderSettled failure)"

lemma send_started_cases:
  assumes "send_started p shown s = (s', c)"
  shows "(c = None \<and> s' = s) \<or> (c = Some (SendCall (shown_prompt p shown)) \<and> \<not> sn_inFlight s \<and> trim (shown_prompt p shown) \<noteq> []
     \<and> s' = s\<lparr>sn_inFlight := True, sn_busy := True, sn_error := []\<rparr>)"
  using assms by (auto simp: send_started_def split: if_splits)

lemma interrupt_started_cases:
  assumes "interrupt_started p s = (s', c)"
  shows "(c = None \<and> s' = s) \<or> (c = Some InterruptCall \<and> \<not> sn_inFlight s \<and> s' = s\<lparr>sn_inFlight := True, sn_busy := True, sn_error := []\<rparr>)"
  using assms by (auto simp: interrupt_started_def split: if_splits)

lemma sender_flags [simp]:
  "sn_inFlight (set_prompt p v s) = sn_inFlight s" "\<not> sn_inFlight (sender_landed s)" "sn_internal (sender_landed s) = sn_internal s"
  "\<not> sn_inFlight (fst (send_settled sp p shown sent failure s))" "\<not> sn_inFlight (interrupt_settled failure s)"
  "sn_internal (interrupt_settled failure s) = sn_internal s"
  "sn_inFlight (fst (keep_typed_answer p shown d s)) = sn_inFlight s"
  by (auto simp: set_prompt_def sender_landed_def send_settled_def interrupt_settled_def keep_typed_answer_def Let_def split: option.splits)

text \<open>The call under way is the one that will settle.\<close>

definition composer_inv :: "composer_machine \<Rightarrow> bool" where
  "composer_inv m \<longleftrightarrow> (mc_sent m \<noteq> None \<longleftrightarrow> sn_inFlight (mc_now m))"

definition composer_flow :: "composer_machine \<Rightarrow> composer_action \<Rightarrow> composer_machine \<Rightarrow> bool" where
  "composer_flow m a m' \<longleftrightarrow> composer_step m a m' \<and> composer_inv m"

lemma composer_inv_step: "composer_step m a m' \<Longrightarrow> composer_inv m \<Longrightarrow> composer_inv m'"
  by (cases rule: composer_step.cases)
    (auto simp: composer_inv_def note_call_def dest: send_started_cases interrupt_started_cases split: option.splits)

interpretation composer: machine composer_step composer_inv
  by unfold_locales (rule composer_inv_step)

interpretation composer_call: flight_machine composer_flow calls_host host_settles "\<lambda>m. sn_inFlight (mc_now m)"
proof
  fix m a m' assume "composer_flow m a m'"
  then have st: "composer_step m a m'" and inv: "composer_inv m" by (simp_all add: composer_flow_def)
  show "calls_host a \<Longrightarrow> \<not> sn_inFlight (mc_now m) \<and> sn_inFlight (mc_now m') \<and> \<not> host_settles a"
    using st by (cases rule: composer_step.cases) (auto simp: calls_host_def host_settles_def dest: send_started_cases interrupt_started_cases)
  show "host_settles a \<Longrightarrow> sn_inFlight (mc_now m) \<and> \<not> sn_inFlight (mc_now m')"
    using st inv by (cases rule: composer_step.cases) (auto simp: host_settles_def composer_inv_def)
  show "\<not> calls_host a \<Longrightarrow> \<not> host_settles a \<Longrightarrow> sn_inFlight (mc_now m') = sn_inFlight (mc_now m)"
    using st by (cases rule: composer_step.cases) (auto simp: calls_host_def host_settles_def dest: send_started_cases interrupt_started_cases)
qed

lemma composer_flows: "runs composer_step m as m' \<Longrightarrow> composer_inv m \<Longrightarrow> runs composer_flow m as m'"
proof (induction rule: runs.induct)
  case (start m)
  show ?case by (rule runs.start)
next
  case (step m as m' a m'')
  have "composer_flow m' a m''" using step composer.runs_inv [OF step.hyps(1)] by (simp add: composer_flow_def)
  then show ?case using runs.step [of composer_flow m as m' a m''] step by blast
qed

lemma sent_texts:
  "runs composer_step m as m' \<Longrightarrow> SendPressed (Some (SendCall t)) \<in> set as \<Longrightarrow> trim t \<noteq> []"
proof (induction rule: runs.induct)
  case (step m as m' a m'')
  then show ?case
    by (cases rule: composer_step.cases [OF step.hyps(2)]) (auto dest: send_started_cases)
qed simp

text \<open>
  C29. A send loses no draft. The composer makes one call at a time, sending and stopping together; it
  never sends blank text; and when a call settles the prompt kept here changes only where a
  send has succeeded whose text is still the prompt of the last render.
\<close>

theorem prompt_is_sent_once:
  assumes "runs composer_step (mounted_composer p) ls m"
  shows "length (filter calls_host ls) = length (filter host_settles ls) + (if sn_inFlight (mc_now m) then 1 else 0)
     \<and> (\<forall>t. SendPressed (Some (SendCall t)) \<in> set ls \<longrightarrow> trim t \<noteq> [])
     \<and> (\<forall>failure m'. composer_step m (SenderSettled failure) m' \<longrightarrow> sn_internal (mc_now m') = sn_internal (mc_now m)
          \<or> (failure = None \<and> (\<exists>q. mc_sent m = Some (q, Some (shown_prompt (mc_props m) (mc_shown m))))))"
proof (intro conjI allI impI)
  have inv: "composer_inv (mounted_composer p)" by (simp add: composer_inv_def mounted_composer_def fresh_sender_def)
  show "length (filter calls_host ls) = length (filter host_settles ls) + (if sn_inFlight (mc_now m) then 1 else 0)"
    using composer_call.one_flight [OF composer_flows [OF assms inv]] by (simp add: mounted_composer_def fresh_sender_def)
  show "SendPressed (Some (SendCall t)) \<in> set ls \<Longrightarrow> trim t \<noteq> []" for t using sent_texts [OF assms] .
  show "sn_internal (mc_now m') = sn_internal (mc_now m) \<or> (failure = None \<and> (\<exists>q. mc_sent m = Some (q, Some (shown_prompt (mc_props m) (mc_shown m)))))"
    if "composer_step m (SenderSettled failure) m'" for failure m'
    using that by (cases rule: composer_step.cases) (auto simp: send_settled_def split: option.splits if_splits)
qed

definition sample_composer :: composer_view where
  "sample_composer = \<lparr>vp_composerEnabled = True, vp_active = True, vp_disabled = False, vp_sendDisabled = False,
     vp_queueEnabled = False, vp_interruptEnabled = True, vp_isRunning = False, vp_isSending = None,
     vp_draft = Some (js ''Hi''), vp_clearDraftOnSend = True\<rparr>"

theorem prompt_is_sent_once_witness:
  "\<exists>m. runs composer_step (mounted_composer sample_composer) [SendPressed (Some (SendCall (js ''Hi'')))] m \<and> sn_inFlight (mc_now m)"
proof -
  let ?a = "SendPressed (Some (SendCall (js ''Hi'')))"
  have "trim (js ''Hi'') \<noteq> []" by code_simp
  then obtain s where s: "send_started sample_composer fresh_sender fresh_sender = (s, Some (SendCall (js ''Hi'')))"
    by (simp add: send_started_def sample_composer_def fresh_sender_def sender_locked_def shown_prompt_def)
  define m where "m = (mounted_composer sample_composer)\<lparr>mc_now := s, mc_sent := note_call sample_composer (Some (SendCall (js ''Hi''))) None\<rparr>"
  have "composer_step (mounted_composer sample_composer) ?a m"
    using composer_step.sent [of "mounted_composer sample_composer" s] s by (simp add: mounted_composer_def m_def)
  then have r: "runs composer_step (mounted_composer sample_composer) [?a] m" by (rule runs_single)
  have "calls_host ?a" "\<not> host_settles ?a" by (simp_all add: calls_host_def host_settles_def)
  then have "sn_inFlight (mc_now m)" using conjunct1 [OF prompt_is_sent_once [OF r]] by (simp split: if_splits)
  with r show ?thesis by blast
qed

end
