(* ===== verification/Timeline_View.thy ===== *)
theory Timeline_View
  imports Presentation Encode Complex_Main
begin

text \<open>
  The view of the timeline: which user messages are collapsed, what an expanded tool shows and when
  the viewport follows the end (\<open>upstream/t3/MessagesTimeline.tsx\<close>), and the disclosure state that
  outlives a row (\<open>timelineState.tsx\<close>). Lengths of the viewport are rational numbers.
\<close>

subsection \<open>Collapsed messages\<close>

text \<open>
  \<open>/!?\[([^\]\n]*)\]\((?:<[^>\n]*>|[^\s)]*)\)/g\<close>: the label and the rest after a link that starts here.
  Each class excludes the unit that ends it, so no repetition gives back a unit.
\<close>

definition link_target :: "jstr \<Rightarrow> jstr option" where
  "link_target s =
     (let plain = (case dropWhile (\<lambda>u. \<not> is_space u \<and> u \<noteq> 41) s of u # rest \<Rightarrow> if u = 41 then Some rest else None | [] \<Rightarrow> None) in
      case s of
        u # t \<Rightarrow> if u = 60
          then (case dropWhile (\<lambda>v. v \<noteq> 62 \<and> v \<noteq> 10) t of v # w # rest \<Rightarrow> if v = 62 \<and> w = 41 then Some rest else plain | _ \<Rightarrow> plain)
          else plain
      | [] \<Rightarrow> None)"

definition bracket_link :: "jstr \<Rightarrow> (jstr \<times> jstr) option" where
  "bracket_link s = (case s of
       u # t \<Rightarrow> if u \<noteq> 91 then None
         else (let label = takeWhile (\<lambda>v. v \<noteq> 93 \<and> v \<noteq> 10) t in
           case drop (length label) t of
             v # w # rest \<Rightarrow> if v = 93 \<and> w = 40 then map_option (\<lambda>r. (label, r)) (link_target rest) else None
           | _ \<Rightarrow> None)
     | [] \<Rightarrow> None)"

definition link_at :: "jstr \<Rightarrow> (jstr \<times> jstr) option" where
  "link_at s = (case s of u # t \<Rightarrow> if u = 33 then bracket_link t else bracket_link s | [] \<Rightarrow> None)"

lemma dropWhile_rest: "dropWhile p s = u # rest \<Longrightarrow> length rest < length s"
  using length_dropWhile_le [of p s] by simp

lemma link_target_length: "link_target s = Some r \<Longrightarrow> length r < length s"
  by (cases s) (auto simp: link_target_def Let_def intro: less_SucI split: list.splits if_splits dest!: dropWhile_rest)

lemma bracket_link_length: "bracket_link s = Some (l, r) \<Longrightarrow> length r < length s"
proof -
  assume "bracket_link s = Some (l, r)"
  then obtain t v w rest where s: "s = 91 # t" and d: "drop (length l) t = v # w # rest" and r: "link_target rest = Some r"
    by (auto simp: bracket_link_def Let_def split: list.splits if_splits)
  have "length rest < length t" using arg_cong [OF d, of length] by simp
  then show ?thesis using link_target_length [OF r] s by simp
qed

lemma link_at_length: "link_at s = Some (l, r) \<Longrightarrow> length r < length s"
  by (cases s) (auto simp: link_at_def split: if_splits dest!: bracket_link_length)

function visibleUserMessageText :: "jstr \<Rightarrow> jstr" where
  "visibleUserMessageText [] = []"
| "visibleUserMessageText (u # s) = (case link_at (u # s) of
       Some (label, rest) \<Rightarrow> label @ visibleUserMessageText rest
     | None \<Rightarrow> u # visibleUserMessageText s)"
  by pat_completeness auto

termination visibleUserMessageText
  by (relation "measure length") (auto dest: link_at_length)

definition shouldCollapseUserMessage :: "jstr \<Rightarrow> bool" where
  "shouldCollapseUserMessage content =
     (let visible = visibleUserMessageText content in
      if trim visible = [] then False
      else 600 < length visible \<or> 8 < length (filter (\<lambda>u. u = 10) visible) + 1)"

record body_view =
  mb_shown :: bool
  mb_canCollapse :: bool
  mb_collapsed :: bool
  mb_button :: "jstr option"

definition message_body :: "jstr \<Rightarrow> bool \<Rightarrow> body_view" where
  "message_body content expanded =
     (let visible = (0 < length (trim content)); canCollapse = (visible \<and> shouldCollapseUserMessage content) in
      \<lparr>mb_shown = visible, mb_canCollapse = canCollapse, mb_collapsed = (canCollapse \<and> \<not> expanded),
       mb_button = (if canCollapse then Some (js (if expanded then ''Show less'' else ''Show full message'')) else None)\<rparr>)"

subsection \<open>Expanded tools\<close>

text \<open>\<open>JSON.stringify(value, null, 2)\<close>.\<close>

definition new_line :: "nat \<Rightarrow> jstr" where
  "new_line depth = 10 # replicate (2 * depth) 32"

fun pretty :: "nat \<Rightarrow> json \<Rightarrow> jstr" where
  "pretty d (JArr xs) = (if xs = [] then js ''[]''
     else [91] @ new_line (Suc d) @ join (44 # new_line (Suc d)) (map (pretty (Suc d)) xs) @ new_line d @ [93])"
| "pretty d (JObj ps) = (if ps = [] then js ''{}''
     else [123] @ new_line (Suc d) @ join (44 # new_line (Suc d)) (map (\<lambda>(k, v). quote k @ js '': '' @ pretty (Suc d) v) ps)
       @ new_line d @ [125])"
| "pretty d v = stringify v"

definition shown_block_json :: "shown_block \<Rightarrow> json" where
  "shown_block_json b = (case b of
       ShownImage mime w h \<Rightarrow> obj [text_tag ''image'', (''mimeType'', Some (printed_json image_name mime)),
         (''width'', Some (JNum (IntNum w))), (''height'', Some (JNum (IntNum h)))]
     | ShownBlock block \<Rightarrow> tool_content_json block)"

definition outcome_text :: "tool_outcome \<Rightarrow> jstr" where
  "outcome_text r = (case r of
       ToolError message \<Rightarrow> message
     | ToolOutput blocks structured \<Rightarrow>
         pretty 0 (obj [(''content'', Some (JArr (map shown_block_json blocks))), (''structuredContent'', structured)]))"

text \<open>\<open>typeof change.kind === 'string' ? change.kind : change.kind?.type\<close>: an array around a kind has no \<open>type\<close>.\<close>

definition kind_text :: "change_kind printed \<Rightarrow> jstr option" where
  "kind_text k = (case k of Exactly c \<Rightarrow> Some (js (change_name c)) | Printed xs \<Rightarrow> None)"

definition change_lines :: "file_change \<Rightarrow> jstr list" where
  "change_lines change =
     join [32] (map (get_or []) (filter truthy [kind_text (fc_kind change), Some (fc_path change),
        (if truthy (fc_movePath change) then Some ([8594, 32] @ get_or [] (fc_movePath change)) else None)]))
     # (if fc_diff change \<noteq> [] then [fc_diff change] else [])"

definition labelled :: "string \<Rightarrow> jstr option \<Rightarrow> jstr list" where
  "labelled label value = (case value of None \<Rightarrow> [] | Some t \<Rightarrow> [js label @ t])"

definition expandedToolBody :: "timeline_work \<Rightarrow> jstr" where
  "expandedToolBody entry =
     (let data = get_or no_tool_data (tw_toolData entry) in
      join [10, 10]
       ((if truthy (td_command data) \<or> truthy (tw_command entry) then [get_or (get_or [] (tw_command entry)) (td_command data)] else [])
        @ labelled ''Working directory: '' (kept (td_cwd data))
        @ labelled ''Exit code: '' (map_option (\<lambda>n. number_text (IntNum n)) (td_exitCode data))
        @ (case td_durationMs data of None \<Rightarrow> [] | Some n \<Rightarrow> [js ''Duration: '' @ number_text (IntNum n) @ js '' ms''])
        @ labelled '''' (kept (tw_detail entry))
        @ concat (map change_lines (get_or [] (td_changes data)))
        @ (case td_arguments data of None \<Rightarrow> [] | Some v \<Rightarrow> [js ''Arguments'' @ [10] @ pretty 0 v])
        @ (case td_result data of None \<Rightarrow> [] | Some r \<Rightarrow> [js ''Result'' @ [10] @ outcome_text r])))"

definition can_expand :: "timeline_work \<Rightarrow> bool" where
  "can_expand entry =
     (let data = get_or no_tool_data (tw_toolData entry) in
      truthy (td_command data) \<or> truthy (tw_command entry) \<or> truthy (td_cwd data) \<or> td_exitCode data \<noteq> None
      \<or> td_durationMs data \<noteq> None \<or> truthy (tw_detail entry) \<or> get_or [] (td_changes data) \<noteq> []
      \<or> td_arguments data \<noteq> None \<or> td_result data \<noteq> None)"

record work_view =
  wr_canExpand :: bool
  wr_body :: jstr \<comment> \<open>shown where it is not empty\<close>
  wr_failed :: bool
  wr_warning :: bool
  wr_status :: "jstr option"
  wr_images :: "tool_image list"

definition work_row :: "bool \<Rightarrow> timeline_work \<Rightarrow> work_view" where
  "work_row expanded entry =
     \<lparr>wr_canExpand = can_expand entry, wr_body = (if expanded then expandedToolBody entry else []),
      wr_failed = (tw_tone entry = ErrorTone \<or> tw_status entry = Some (js ''failed'')),
      wr_warning = (tw_tone entry = WarningTone), wr_status = kept (tw_status entry),
      wr_images = (case tw_toolData entry of None \<Rightarrow> [] | Some d \<Rightarrow> td_images d)\<rparr>"

subsection \<open>Message rows\<close>

definition timestamp_shown :: "date_parser \<Rightarrow> jstr option \<Rightarrow> bool" where
  "timestamp_shown dp value \<longleftrightarrow> truthy value \<and> dp (get_or [] value) \<noteq> None"

record message_row =
  mr_busy :: bool
  mr_text :: jstr
  mr_delivery :: "(jstr \<times> jstr option) option"
  mr_copy :: bool
  mr_timestamp :: "jstr option"
  mr_notice :: bool \<comment> \<open>the note on truncation\<close>

definition user_row :: "date_parser \<Rightarrow> timeline_message \<Rightarrow> message_row" where
  "user_row dp m =
     \<lparr>mr_busy = (tm_optimistic m \<and> map_option fst (tm_delivery m) \<noteq> Some Failed), mr_text = tm_text m,
      mr_delivery = map_option snd (tm_delivery m), mr_copy = (tm_text m \<noteq> []),
      mr_timestamp = (if timestamp_shown dp (tm_createdAt m) then tm_createdAt m else None),
      mr_notice = (tm_truncated m = Some True)\<rparr>"

definition assistant_row :: "date_parser \<Rightarrow> timeline_message \<Rightarrow> message_row" where
  "assistant_row dp m =
     (let stamp = or_else (tm_updatedAt m) (tm_createdAt m) in
      \<lparr>mr_busy = False,
       mr_text = (if tm_text m \<noteq> [] then tm_text m else if tm_streaming m = Some True then [] else js ''(empty response)''),
       mr_delivery = None, mr_copy = (tm_text m \<noteq> []),
       mr_timestamp = (if tm_streaming m \<noteq> Some True \<and> timestamp_shown dp stamp then stamp else None),
       mr_notice = (tm_truncated m = Some True)\<rparr>)"

subsection \<open>Following the end\<close>

record scroll_node =
  sc_scrollHeight :: rat
  sc_scrollTop :: rat
  sc_clientHeight :: rat

record timeline_state =
  ts_pinnedToBottom :: bool
  ts_expandedItems :: "bool js_record"

definition empty_timeline_state :: timeline_state where
  "empty_timeline_state = \<lparr>ts_pinnedToBottom = True, ts_expandedItems = []\<rparr>"

definition end_threshold :: rat where "end_threshold = 1 / 100"

definition isTimelinePinnedToBottom :: "scroll_node \<Rightarrow> bool" where
  "isTimelinePinnedToBottom n \<longleftrightarrow>
     sc_scrollHeight n - sc_scrollTop n - sc_clientHeight n \<le> max 2 (sc_clientHeight n * end_threshold)"

text \<open>\<open>follow\<close>: where the viewport is scrolled to, and whether smoothly.\<close>

definition follow_end :: "bool \<Rightarrow> bool \<Rightarrow> bool \<Rightarrow> bool \<Rightarrow> scroll_node \<Rightarrow> (rat \<times> bool) option" where
  "follow_end active pinned streaming reducedMotion n =
     (if \<not> active \<or> \<not> pinned then None
      else
        (let bottom = sc_scrollHeight n - sc_clientHeight n in
         if \<bar>sc_scrollTop n - bottom\<bar> < 1 then None else Some (bottom, streaming \<and> \<not> reducedMotion)))"

text \<open>A scroll of the conversation's own viewport: a nested one (\<open>inside\<close>) is not it.\<close>

definition timeline_scrolled :: "bool \<Rightarrow> bool \<Rightarrow> scroll_node \<Rightarrow> timeline_state \<Rightarrow> timeline_state option" where
  "timeline_scrolled active inside n s =
     (if \<not> active \<or> sc_clientHeight n \<le> 0 \<or> inside then None
      else if isTimelinePinnedToBottom n \<noteq> ts_pinnedToBottom s
      then Some (s\<lparr>ts_pinnedToBottom := isTimelinePinnedToBottom n\<rparr>) else None)"

subsection \<open>Disclosure\<close>

text \<open>\<open>Boolean(expandedItems[id])\<close>.\<close>

definition is_expanded :: "bool js_record \<Rightarrow> jstr \<Rightarrow> bool" where
  "is_expanded expanded i = (case member_get expanded i of Own b \<Rightarrow> b | Inherited \<Rightarrow> True | Missing \<Rightarrow> False)"

definition toggle_expanded :: "jstr \<Rightarrow> timeline_state \<Rightarrow> timeline_state" where
  "toggle_expanded i s = s\<lparr>ts_expandedItems := prop_put i (\<not> is_expanded (ts_expandedItems s) i) (ts_expandedItems s)\<rparr>"

text \<open>The listeners of each row, in the order of their registration; a listener is an identity.\<close>

type_synonym listeners = "(jstr \<times> nat list) list"

definition subscribe_row :: "jstr \<Rightarrow> nat \<Rightarrow> listeners \<Rightarrow> listeners" where
  "subscribe_row i l ls = (case map_of ls i of
       None \<Rightarrow> ls @ [(i, [l])]
     | Some found \<Rightarrow> map (\<lambda>(j, g). (j, if j = i \<and> l \<notin> set g then g @ [l] else g)) ls)"

definition unsubscribe_row :: "jstr \<Rightarrow> nat \<Rightarrow> listeners \<Rightarrow> listeners" where
  "unsubscribe_row i l ls = filter (\<lambda>(j, g). j \<noteq> i \<or> g \<noteq> [])
     (map (\<lambda>(j, g). (j, if j = i then filter (\<lambda>x. x \<noteq> l) g else g)) ls)"

definition notified :: "listeners \<Rightarrow> bool js_record \<Rightarrow> bool js_record \<Rightarrow> nat list" where
  "notified ls previous following =
     concat (map (\<lambda>(i, found). if is_expanded previous i \<noteq> is_expanded following i then found else []) ls)"

text \<open>A host may own the state; then it only hears of changes.\<close>

definition change_timeline :: "timeline_state option \<Rightarrow> timeline_state \<Rightarrow> timeline_state \<Rightarrow> timeline_state" where
  "change_timeline controlled local following = (if controlled = None then following else local)"

definition visible_timeline :: "timeline_state option \<Rightarrow> timeline_state \<Rightarrow> timeline_state" where
  "visible_timeline controlled local = get_or local controlled"

end
