(* ===== verification/Timeline_Properties.thy ===== *)
theory Timeline_Properties
  imports Timeline_View
begin

text \<open>
  A row of the timeline can be expanded exactly where it has something to show, and toggling one row
  tells the listeners of that row alone.
\<close>

lemma join_eq_Nil: "sep \<noteq> [] \<Longrightarrow> join sep xs = [] \<longleftrightarrow> xs = [] \<or> xs = [[]]"
  by (induction sep xs rule: join.induct) auto

lemma join_ne: "sep \<noteq> [] \<Longrightarrow> [] \<notin> set xs \<Longrightarrow> join sep xs = [] \<longleftrightarrow> xs = []"
  by (auto simp: join_eq_Nil)

lemma labelled_lines: "[] \<notin> set (labelled label (kept v))" "labelled label (kept v) = [] \<longleftrightarrow> \<not> truthy v"
  by (auto simp: labelled_def kept_def split: option.splits)

lemma labelled_text: "label \<noteq> '''' \<Longrightarrow> [] \<notin> set (labelled label v)" "labelled label v = [] \<longleftrightarrow> v = None"
  by (auto simp: labelled_def js_def split: option.splits)

definition printable :: "file_change \<Rightarrow> bool" where
  "printable c \<longleftrightarrow> truthy (kind_text (fc_kind c))"

lemma change_lines_ne: "printable c \<Longrightarrow> change_lines c \<noteq> [] \<and> [] \<notin> set (change_lines c)"
  by (cases "kind_text (fc_kind c)") (auto simp: change_lines_def printable_def join_eq_Nil)

text \<open>
  A tool row can be expanded exactly if there is something to show: for the rows that the adapter
  builds, whose command is that of the tool data and whose changes have a printable kind, the row is
  expandable if and only if its expanded text is not empty.
\<close>

theorem expandable_rows_show_something:
  assumes "tw_command entry = Option.bind (tw_toolData entry) td_command"
    and "\<forall>c \<in> set (get_or [] (Option.bind (tw_toolData entry) td_changes)). printable c"
  shows "can_expand entry \<longleftrightarrow> expandedToolBody entry \<noteq> []"
proof -
  define d where "d = get_or no_tool_data (tw_toolData entry)"
  have cmd: "tw_command entry = td_command d"
    using assms(1) by (cases "tw_toolData entry") (simp_all add: d_def no_tool_data_def)
  have pr: "\<forall>c \<in> set (get_or [] (td_changes d)). printable c"
    using assms(2) by (cases "tw_toolData entry") (simp_all add: d_def no_tool_data_def)
  define cs where "cs = concat (map change_lines (get_or [] (td_changes d)))"
  define l1 where "l1 = (if truthy (td_command d) \<or> truthy (tw_command entry) then [get_or (get_or [] (tw_command entry)) (td_command d)] else [])"
  define l2 where "l2 = labelled ''Working directory: '' (kept (td_cwd d))"
  define l3 where "l3 = labelled ''Exit code: '' (map_option (\<lambda>n. number_text (IntNum n)) (td_exitCode d))"
  define l4 where "l4 = (case td_durationMs d of None \<Rightarrow> [] | Some n \<Rightarrow> [js ''Duration: '' @ number_text (IntNum n) @ js '' ms''])"
  define l5 where "l5 = labelled '''' (kept (tw_detail entry))"
  define l7 where "l7 = (case td_arguments d of None \<Rightarrow> [] | Some v \<Rightarrow> [js ''Arguments'' @ [10] @ pretty 0 v])"
  define l8 where "l8 = (case td_result d of None \<Rightarrow> [] | Some r \<Rightarrow> [js ''Result'' @ [10] @ outcome_text r])"
  have body: "expandedToolBody entry = join [10, 10] (l1 @ l2 @ l3 @ l4 @ l5 @ cs @ l7 @ l8)"
    unfolding expandedToolBody_def Let_def d_def [symmetric] l1_def l2_def l3_def l4_def l5_def l7_def l8_def cs_def by simp
  have c: "[] \<notin> set cs" "cs = [] \<longleftrightarrow> get_or [] (td_changes d) = []"
    using pr change_lines_ne by (auto simp: cs_def)
  have e1: "[] \<notin> set l1" "l1 = [] \<longleftrightarrow> \<not> truthy (td_command d)"
    unfolding l1_def cmd by (cases "td_command d"; simp)+
  have e4: "[] \<notin> set l4" "l4 = [] \<longleftrightarrow> td_durationMs d = None" by (auto simp: l4_def js_def split: option.splits)
  have e7: "[] \<notin> set l7" "l7 = [] \<longleftrightarrow> td_arguments d = None" by (auto simp: l7_def split: option.splits)
  have e8: "[] \<notin> set l8" "l8 = [] \<longleftrightarrow> td_result d = None" by (auto simp: l8_def split: option.splits)
  have e3: "[] \<notin> set l3" "l3 = [] \<longleftrightarrow> td_exitCode d = None" unfolding l3_def by (simp_all add: labelled_text)
  have e2: "[] \<notin> set l2" "l2 = [] \<longleftrightarrow> \<not> truthy (td_cwd d)" unfolding l2_def by (simp_all add: labelled_lines)
  have e5: "[] \<notin> set l5" "l5 = [] \<longleftrightarrow> \<not> truthy (tw_detail entry)" unfolding l5_def by (simp_all add: labelled_lines)
  have "can_expand entry \<longleftrightarrow> l1 @ l2 @ l3 @ l4 @ l5 @ cs @ l7 @ l8 \<noteq> []"
    unfolding can_expand_def Let_def d_def [symmetric] cmd using c(2) e1(2) e2(2) e3(2) e4(2) e5(2) e7(2) e8(2) by simp
  moreover have "[] \<notin> set (l1 @ l2 @ l3 @ l4 @ l5 @ cs @ l7 @ l8)"
    using c(1) e1(1) e2(1) e3(1) e4(1) e5(1) e7(1) e8(1) by simp
  ultimately show ?thesis unfolding body using join_ne [of "[10, 10]" "l1 @ l2 @ l3 @ l4 @ l5 @ cs @ l7 @ l8"] by simp
qed

definition sample_work :: timeline_work where
  "sample_work = \<lparr>tw_id = js ''w'', tw_title = js ''Edit'', tw_detail = None, tw_command = None, tw_status = None, tw_tone = ToolTone,
     tw_toolData = Some (no_tool_data\<lparr>td_changes := Some [\<lparr>fc_path = js ''a'', fc_kind = Exactly AddChange, fc_movePath = None, fc_diff = []\<rparr>]\<rparr>),
     tw_truncated = None\<rparr>"

theorem expandable_rows_show_something_witness: "can_expand sample_work \<and> expandedToolBody sample_work \<noteq> []"
proof -
  have "can_expand sample_work" by (simp add: can_expand_def sample_work_def no_tool_data_def)
  moreover have "tw_command sample_work = Option.bind (tw_toolData sample_work) td_command"
    "\<forall>c \<in> set (get_or [] (Option.bind (tw_toolData sample_work) td_changes)). printable c"
    by (simp_all add: sample_work_def no_tool_data_def printable_def kind_text_def js_def)
  ultimately show ?thesis using expandable_rows_show_something by blast
qed

lemma is_expanded_put: "is_expanded (prop_put i b m) j = (if j = i then b else is_expanded m j)"
  by (simp add: is_expanded_def member_get_def)

text \<open>Toggling a row tells its listeners, and changes no other row.\<close>

lemma toggle_notifies_its_row:
  assumes "distinct (map fst ls)"
  shows "notified ls (ts_expandedItems s) (ts_expandedItems (toggle_expanded i s)) = get_or [] (map_of ls i)"
proof -
  let ?b = "\<not> is_expanded (ts_expandedItems s) i"
  have "notified ls (ts_expandedItems s) (prop_put i ?b (ts_expandedItems s)) = concat (map (\<lambda>(j, g). if j = i then g else []) ls)"
    unfolding notified_def is_expanded_put by (intro arg_cong [where f = concat] map_cong) auto
  also have "\<dots> = get_or [] (map_of ls i)" using assms
  proof (induction ls)
    case Nil
    then show ?case by simp
  next
    case (Cons p ls)
    obtain j g where p: "p = (j, g)" by fastforce
    have "concat (map (\<lambda>(j, g). if j = i then g else []) ls) = []" if "i \<notin> fst ` set ls"
      using that by (induction ls) auto
    moreover have "map_of ls i = None" if "i \<notin> fst ` set ls" using that by (simp add: map_of_eq_None_iff)
    ultimately show ?case using Cons p by auto
  qed
  finally show ?thesis by (simp add: toggle_expanded_def)
qed

end
