(* ===== verification/Markdown.thy ===== *)
theory Markdown
  imports Js_Value
begin

text \<open>
  Incremental parsing of streaming Markdown (\<open>upstream/t3/markdown-incremental.ts\<close>). The parser
  itself is a library and a parameter, a function from a text to its tree; the model has the trees,
  the test for a closed fence, the cache and the processors of the plugin. \<open>structuredClone\<close> makes
  trees values here.
\<close>

subsection \<open>Trees\<close>

record md_point =
  mp_line :: nat
  mp_column :: nat
  mp_offset :: "nat option"

record md_position =
  ms_start :: md_point
  ms_end :: md_point

text \<open>\<open>RootContent\<close>: type, position, children where the node has them, and its other members.\<close>

datatype md_node = MdNode (md_type: jstr) (md_position: "md_position option") (md_children: "md_node list option") (md_members: json)

record md_root =
  rt_children :: "md_node list"
  rt_position :: "md_position option"

type_synonym md_parser = "jstr \<Rightarrow> md_root"

fun hasDefinitions :: "md_node \<Rightarrow> bool" where
  "hasDefinitions (MdNode t p None d) \<longleftrightarrow> t = js ''definition'' \<or> t = js ''footnoteDefinition''"
| "hasDefinitions (MdNode t p (Some ns) d) \<longleftrightarrow> t = js ''definition'' \<or> t = js ''footnoteDefinition'' \<or> list_ex hasDefinitions ns"

definition root_definitions :: "md_root \<Rightarrow> bool" where
  "root_definitions root \<longleftrightarrow> list_ex hasDefinitions (rt_children root)"

definition shift_point :: "nat \<Rightarrow> nat \<Rightarrow> md_point \<Rightarrow> md_point" where
  "shift_point offset lines p = p\<lparr>mp_offset := map_option (\<lambda>k. k + offset) (mp_offset p), mp_line := mp_line p + lines\<rparr>"

definition shift_position :: "nat \<Rightarrow> nat \<Rightarrow> md_position \<Rightarrow> md_position" where
  "shift_position offset lines p = \<lparr>ms_start = shift_point offset lines (ms_start p), ms_end = shift_point offset lines (ms_end p)\<rparr>"

fun shiftPositions :: "nat \<Rightarrow> nat \<Rightarrow> md_node \<Rightarrow> md_node" where
  "shiftPositions offset lines (MdNode t p None d) = MdNode t (map_option (shift_position offset lines) p) None d"
| "shiftPositions offset lines (MdNode t p (Some ns) d) =
     MdNode t (map_option (shift_position offset lines) p) (Some (map (shiftPositions offset lines) ns)) d"

subsection \<open>Closed fences\<close>

text \<open>
  \<open>/^ {0,3}(`{3,}|~{3,})[^\n]*\n/\<close>: the unit and the length of the fence. A repetition of one unit is
  followed by something else, so no repetition gives back a unit.
\<close>

definition fence_run :: "jstr \<Rightarrow> (code_unit \<times> nat \<times> jstr) option" where \<comment> \<open>unit, length and what follows\<close>
  "fence_run s =
     (if 3 < length (takeWhile (\<lambda>u. u = 32) s) then None
      else case dropWhile (\<lambda>u. u = 32) s of
          [] \<Rightarrow> None
        | c # t \<Rightarrow> Some (c, Suc (length (takeWhile (\<lambda>u. u = c) t)), dropWhile (\<lambda>u. u = c) t))"

definition opening_fence :: "jstr \<Rightarrow> (code_unit \<times> nat) option" where
  "opening_fence s = (case fence_run s of
       Some (c, n, rest) \<Rightarrow> if (c = 96 \<or> c = 126) \<and> 3 \<le> n \<and> 10 \<in> set rest then Some (c, n) else None
     | None \<Rightarrow> None)"

definition is_blank :: "code_unit \<Rightarrow> bool" where
  "is_blank u \<longleftrightarrow> u = 32 \<or> u = 9"

definition closes_fence :: "code_unit \<Rightarrow> nat \<Rightarrow> jstr \<Rightarrow> bool" where
  "closes_fence c n line = (case fence_run line of Some (d, m, rest) \<Rightarrow> d = c \<and> n \<le> m \<and> list_all is_blank rest | None \<Rightarrow> False)"

definition last_line :: "jstr \<Rightarrow> jstr" where
  "last_line s = rev (takeWhile (\<lambda>u. u \<noteq> 10) (rev s))"

definition separator_length :: "jstr \<Rightarrow> nat option" where \<comment> \<open>\<open>/^\n[ \t]*\n/\<close>\<close>
  "separator_length s = (case s of
       [] \<Rightarrow> None
     | u # t \<Rightarrow> if u \<noteq> 10 then None
         else (case dropWhile is_blank t of
             v # _ \<Rightarrow> if v = 10 then Some (length (takeWhile is_blank t) + 2) else None
           | [] \<Rightarrow> None))"

text \<open>Start, end and last line of a code node, and the offset after the separator that follows it.\<close>

definition code_span :: "md_node \<Rightarrow> (nat \<times> nat \<times> nat) option" where
  "code_span node =
     (if md_type node \<noteq> js ''code'' then None
      else case md_position node of
          None \<Rightarrow> None
        | Some p \<Rightarrow> (case (mp_offset (ms_start p), mp_offset (ms_end p)) of
            (Some a, Some b) \<Rightarrow> Some (a, b, mp_line (ms_end p)) | _ \<Rightarrow> None))"

definition fence_end :: "jstr \<Rightarrow> nat \<Rightarrow> nat \<Rightarrow> nat option" where
  "fence_end source a b =
     (let code = take (b - a) (drop a source) in
      case opening_fence code of
        None \<Rightarrow> None
      | Some (c, n) \<Rightarrow> (case separator_length (drop b source) of
            Some m \<Rightarrow> if closes_fence c n (last_line code) then Some (b + m) else None
          | None \<Rightarrow> None))"

subsection \<open>The cache\<close>

record parsed_prefix =
  px_source :: jstr
  px_offset :: nat
  px_line :: nat
  px_children :: "md_node list"

text \<open>The loop from the last node down; \<open>floor\<close> is the offset of the prefix in use.\<close>

fun find_prefix :: "jstr \<Rightarrow> nat option \<Rightarrow> md_node list \<Rightarrow> nat \<Rightarrow> parsed_prefix option" where
  "find_prefix source lowest nodes 0 = None"
| "find_prefix source lowest nodes (Suc index) = (case code_span (nodes ! index) of
       None \<Rightarrow> find_prefix source lowest nodes index
     | Some (a, b, line) \<Rightarrow>
         if (case lowest of None \<Rightarrow> False | Some k \<Rightarrow> b < k) then None
         else (case fence_end source a b of
             None \<Rightarrow> find_prefix source lowest nodes index
           | Some offset \<Rightarrow> Some \<lparr>px_source = take offset source, px_offset = offset, px_line = line + 2,
               px_children = take (Suc index) nodes\<rparr>))"

definition document_start :: md_point where
  "document_start = \<lparr>mp_line = 1, mp_column = 1, mp_offset = Some 0\<rparr>"

text \<open>The tree of the rest behind the nodes of the prefix.\<close>

definition join_prefix :: "parsed_prefix \<Rightarrow> md_root \<Rightarrow> md_root" where
  "join_prefix prefix root =
     \<lparr>rt_children = px_children prefix @ map (shiftPositions (px_offset prefix) (px_line prefix - 1)) (rt_children root),
      rt_position = map_option (\<lambda>p. (shift_position (px_offset prefix) (px_line prefix - 1) p)\<lparr>ms_start := document_start\<rparr>)
        (rt_position root)\<rparr>"

definition incremental :: "jstr \<Rightarrow> bool" where \<comment> \<open>neither \<open>\r\<close> nor a byte order mark\<close>
  "incremental source \<longleftrightarrow> 13 \<notin> set source \<and> 65279 \<notin> set source"

definition usable_prefix :: "jstr \<Rightarrow> parsed_prefix option \<Rightarrow> parsed_prefix option" where
  "usable_prefix source cached = (case cached of
       Some prefix \<Rightarrow> if startsWith source (px_source prefix) then Some prefix else None
     | None \<Rightarrow> None)"

definition remember_prefix :: "jstr \<Rightarrow> nat option \<Rightarrow> md_root \<Rightarrow> parsed_prefix option \<Rightarrow> md_root \<times> parsed_prefix option" where
  "remember_prefix source lowest root cached =
     (root, or_else (find_prefix source lowest (rt_children root) (length (rt_children root))) cached)"

definition parse_incrementally :: "md_parser \<Rightarrow> jstr \<Rightarrow> parsed_prefix option \<Rightarrow> md_root \<times> parsed_prefix option" where
  "parse_incrementally parse source cached =
     (if \<not> incremental source then (parse source, cached)
      else case usable_prefix source cached of
          Some prefix \<Rightarrow>
            (let root = parse (drop (px_offset prefix) source) in
             if root_definitions root then (parse source, cached)
             else remember_prefix source (Some (px_offset prefix)) (join_prefix prefix root) cached)
        | None \<Rightarrow>
            (let root = parse source in
             if root_definitions root then (root, cached) else remember_prefix source None root cached))"

subsection \<open>The plugin\<close>

text \<open>
  Each render makes a processor. Its first parse is the document and goes through the cache that the
  renders share; later parses of the same processor do not.
\<close>

definition processor_parse ::
  "md_parser \<Rightarrow> jstr \<Rightarrow> bool \<times> parsed_prefix option \<Rightarrow> md_root \<times> bool \<times> parsed_prefix option" where
  "processor_parse original source st = (case st of (documentParsed, cached) \<Rightarrow>
     if documentParsed then (original source, True, cached)
     else (let (root, cached') = parse_incrementally original source cached in (root, True, cached')))"

fun processor_run ::
  "md_parser \<Rightarrow> jstr list \<Rightarrow> bool \<times> parsed_prefix option \<Rightarrow> md_root list \<times> bool \<times> parsed_prefix option" where
  "processor_run original [] st = ([], st)"
| "processor_run original (source # sources) st =
     (let (root, st') = processor_parse original source st; (roots, st'') = processor_run original sources st' in (root # roots, st''))"

fun render_all :: "md_parser \<Rightarrow> jstr list list \<Rightarrow> parsed_prefix option \<Rightarrow> md_root list list" where
  "render_all original [] cached = []"
| "render_all original (sources # renders) cached =
     (let (roots, _, cached') = processor_run original sources (False, cached) in roots # render_all original renders cached')"

end
