(* ===== verification/Markdown_Properties.thy ===== *)
theory Markdown_Properties
  imports Markdown
begin

text \<open>
  Reusing a parsed prefix changes nothing, provided that the parser names true lines and treats a closed
  fence followed by a blank line as a boundary. A small parser of fences and paragraphs shows that this
  can hold.
\<close>

subsection \<open>Cached functions\<close>

text \<open>
  A step with a cache computes a function, if under a condition on the cache it returns the value of
  the function and keeps the condition.
\<close>

locale cached_function =
  fixes f :: "'a \<Rightarrow> 'b"
    and cached_step :: "'a \<Rightarrow> 'c \<Rightarrow> 'b \<times> 'c"
    and valid :: "'c \<Rightarrow> bool"
  assumes step_valid: "valid c \<Longrightarrow> cached_step x c = (y, c') \<Longrightarrow> y = f x \<and> valid c'"
begin

lemma step_value: "valid c \<Longrightarrow> fst (cached_step x c) = f x"
  using step_valid [of c x "fst (cached_step x c)" "snd (cached_step x c)"] by simp

lemma step_keeps: "valid c \<Longrightarrow> valid (snd (cached_step x c))"
  using step_valid [of c x "fst (cached_step x c)" "snd (cached_step x c)"] by simp

end

subsection \<open>What is assumed of the parser\<close>

text \<open>
  Two laws of a Markdown parser, in terms of texts and trees alone. The first: the line of a position is
  one more than the newlines before it. The second: a closed fence at the top level, followed by a blank
  line, is a boundary. If neither the text it was found in nor the rest that is put after it has
  definitions, the tree of the whole is the nodes up to the fence followed by the nodes of the rest,
  moved by the length and the lines of what precedes it.
\<close>

definition newlines :: "jstr \<Rightarrow> nat" where
  "newlines s = length (filter (\<lambda>u. u = 10) s)"

lemma newlines_simps [simp]: "newlines [] = 0" "newlines (u # s) = (if u = 10 then Suc (newlines s) else newlines s)"
    "newlines (s @ t) = newlines s + newlines t"
  by (simp_all add: newlines_def)

definition true_lines :: "md_parser \<Rightarrow> bool" where
  "true_lines parse \<longleftrightarrow> (\<forall>source n p b. 13 \<notin> set source \<longrightarrow> n \<in> set (rt_children (parse source)) \<longrightarrow> md_position n = Some p \<longrightarrow>
     mp_offset (ms_end p) = Some b \<longrightarrow> b \<le> length source \<and> mp_line (ms_end p) = 1 + newlines (take b source))"

text \<open>An opening line, full lines and a closing line of at least as many of the same unit.\<close>

definition closed_fence :: "jstr \<Rightarrow> bool" where
  "closed_fence code \<longleftrightarrow> (\<exists>c i n info body j m trail.
     code = replicate i 32 @ replicate n c @ info @ [10] @ body @ replicate j 32 @ replicate m c @ trail
     \<and> c \<in> {96, 126} \<and> i \<le> 3 \<and> 3 \<le> n \<and> 10 \<notin> set info \<and> (info = [] \<or> hd info \<noteq> c)
     \<and> (body = [] \<or> last body = 10) \<and> j \<le> 3 \<and> n \<le> m \<and> set trail \<subseteq> {32, 9})"

definition blank_separator :: "jstr \<Rightarrow> bool" where
  "blank_separator sep \<longleftrightarrow> (\<exists>blanks. sep = 10 # blanks @ [10] \<and> set blanks \<subseteq> {32, 9})"

text \<open>Trees without definitions, and trees whose positions are moved.\<close>

inductive has_node :: "md_node \<Rightarrow> md_node \<Rightarrow> bool" where
  here: "has_node n n"
| below: "m \<in> set ns \<Longrightarrow> has_node m x \<Longrightarrow> has_node (MdNode t p (Some ns) d) x"

definition definition_free :: "md_root \<Rightarrow> bool" where
  "definition_free root \<longleftrightarrow> (\<forall>n \<in> set (rt_children root). \<forall>x. has_node n x \<longrightarrow> md_type x \<noteq> js ''definition'' \<and> md_type x \<noteq> js ''footnoteDefinition'')"

definition moved_point :: "nat \<Rightarrow> nat \<Rightarrow> md_point \<Rightarrow> md_point \<Rightarrow> bool" where
  "moved_point k l p p' \<longleftrightarrow> mp_line p' = l + mp_line p \<and> mp_column p' = mp_column p \<and> mp_offset p' = map_option ((+) k) (mp_offset p)"

definition moved_position :: "nat \<Rightarrow> nat \<Rightarrow> md_position \<Rightarrow> md_position \<Rightarrow> bool" where
  "moved_position k l p p' \<longleftrightarrow> moved_point k l (ms_start p) (ms_start p') \<and> moved_point k l (ms_end p) (ms_end p')"

inductive moved_node :: "nat \<Rightarrow> nat \<Rightarrow> md_node \<Rightarrow> md_node \<Rightarrow> bool" for k l where
  leaf: "rel_option (moved_position k l) p p' \<Longrightarrow> moved_node k l (MdNode t p None d) (MdNode t p' None d)"
| parent: "rel_option (moved_position k l) p p' \<Longrightarrow> list_all2 (moved_node k l) ns ns' \<Longrightarrow>
    moved_node k l (MdNode t p (Some ns) d) (MdNode t p' (Some ns') d)"

definition fences_are_boundaries :: "md_parser \<Rightarrow> bool" where
  "fences_are_boundaries parse \<longleftrightarrow> (\<forall>before fence sep tail rest i p source prefix.
     source = before @ fence @ sep @ tail \<longrightarrow> prefix = before @ fence @ sep \<longrightarrow> closed_fence fence \<longrightarrow> blank_separator sep \<longrightarrow>
     set (source @ rest) \<inter> {13, 65279} = {} \<longrightarrow> definition_free (parse source) \<longrightarrow> definition_free (parse rest) \<longrightarrow>
     i < length (rt_children (parse source)) \<longrightarrow> md_type (rt_children (parse source) ! i) = js ''code'' \<longrightarrow>
     md_position (rt_children (parse source) ! i) = Some p \<longrightarrow>
     mp_offset (ms_start p) = Some (length before) \<longrightarrow> mp_offset (ms_end p) = Some (length (before @ fence)) \<longrightarrow>
     (\<exists>moved. list_all2 (moved_node (length prefix) (newlines prefix)) (rt_children (parse rest)) moved
        \<and> rt_children (parse (prefix @ rest)) = take (Suc i) (rt_children (parse source)) @ moved)
     \<and> rel_option (\<lambda>q q'. ms_start q' = \<lparr>mp_line = 1, mp_column = 1, mp_offset = Some 0\<rparr>
          \<and> moved_point (length prefix) (newlines prefix) (ms_end q) (ms_end q'))
        (rt_position (parse rest)) (rt_position (parse (prefix @ rest))))"

definition markdown_laws :: "md_parser \<Rightarrow> bool" where
  "markdown_laws parse \<longleftrightarrow> true_lines parse \<and> fences_are_boundaries parse"

subsection \<open>The code's tests are these notions\<close>

lemma hasDefinitions_node: "hasDefinitions n \<longleftrightarrow> (\<exists>x. has_node n x \<and> (md_type x = js ''definition'' \<or> md_type x = js ''footnoteDefinition''))"
proof (induction n rule: hasDefinitions.induct)
  case (1 t p d)
  have "has_node (MdNode t p None d) x \<longleftrightarrow> x = MdNode t p None d" for x by (auto elim: has_node.cases intro: has_node.here)
  then show ?case by simp
next
  case (2 t p ns d)
  have "has_node (MdNode t p (Some ns) d) x \<longleftrightarrow> x = MdNode t p (Some ns) d \<or> (\<exists>m \<in> set ns. has_node m x)" for x
    by (auto elim: has_node.cases intro: has_node.intros)
  then show ?case using 2 by (auto simp: list_ex_iff)
qed

lemma root_definitions_free: "root_definitions root \<longleftrightarrow> \<not> definition_free root"
  by (auto simp: root_definitions_def definition_free_def list_ex_iff hasDefinitions_node)

lemma moved_point_shift: "moved_point k l p p' \<longleftrightarrow> p' = shift_point k l p"
  by (cases p; cases p'; cases "mp_offset p") (auto simp: moved_point_def shift_point_def)

lemma moved_position_shift: "moved_position k l p p' \<longleftrightarrow> p' = shift_position k l p"
  by (cases p') (auto simp: moved_position_def shift_position_def moved_point_shift)

lemma rel_option_moved: "rel_option (moved_position k l) p p' \<Longrightarrow> p' = map_option (shift_position k l) p"
  by (cases p; cases p') (auto simp: moved_position_shift)

lemma moved_node_shift: "moved_node k l n n' \<Longrightarrow> n' = shiftPositions k l n"
proof (induction rule: moved_node.induct)
  case (parent p p' ns ns' t d)
  then have "ns' = map (shiftPositions k l) ns" by (auto simp: list_all2_conv_all_nth intro: nth_equalityI)
  then show ?case using rel_option_moved [OF parent.hyps(1)] by simp
qed (auto dest: rel_option_moved)

lemma moved_nodes_shift: "list_all2 (moved_node k l) ns ns' \<Longrightarrow> ns' = map (shiftPositions k l) ns"
  by (rule nth_equalityI) (auto simp: list_all2_conv_all_nth intro: moved_node_shift)

lemma shifted_moved: "moved_node k l n (shiftPositions k l n)"
proof (induction k l n rule: shiftPositions.induct)
  case (1 k l t p d)
  then show ?case by (cases p) (auto intro: moved_node.leaf simp: moved_position_shift)
next
  case (2 k l t p ns d)
  then have "list_all2 (moved_node k l) ns (map (shiftPositions k l) ns)" by (simp add: list_all2_conv_all_nth)
  then show ?case by (cases p) (auto intro: moved_node.parent simp: moved_position_shift)
qed

lemma fence_run_text:
  assumes "fence_run s = Some (c, n, rest)"
  obtains i where "s = replicate i 32 @ replicate n c @ rest" and "i \<le> 3" and "rest = [] \<or> hd rest \<noteq> c"
proof -
  define i where "i = length (takeWhile (\<lambda>u. u = 32) s)"
  obtain t where t: "dropWhile (\<lambda>u. u = 32) s = c # t" "n = Suc (length (takeWhile (\<lambda>u. u = c) t))" "rest = dropWhile (\<lambda>u. u = c) t"
    using assms by (auto simp: fence_run_def split: if_splits list.splits)
  have run: "takeWhile (\<lambda>u. u = x) xs = replicate (length (takeWhile (\<lambda>u. u = x) xs)) x" for x :: code_unit and xs
    by (induction xs) auto
  have "s = replicate i 32 @ c # t" using run [of 32 s] t(1) unfolding i_def by (metis takeWhile_dropWhile_id)
  moreover have "t = replicate (length (takeWhile (\<lambda>u. u = c) t)) c @ rest" using run [of c t] unfolding t(3) by (metis takeWhile_dropWhile_id)
  ultimately have "s = replicate i 32 @ replicate n c @ rest" using t(2) by simp
  moreover have "i \<le> 3" using assms by (auto simp: fence_run_def i_def split: if_splits)
  moreover have "rest = [] \<or> hd rest \<noteq> c" using hd_dropWhile [of "\<lambda>u. u = c" t] t(3) by auto
  ultimately show thesis using that by blast
qed

lemma last_line_text:
  assumes "10 \<notin> set opening"
  obtains body where "others = body @ last_line (opening @ 10 # others)" and "body = [] \<or> last body = 10"
proof -
  have l: "last_line (opening @ 10 # others) = last_line others"
  proof (cases "10 \<in> set others")
    case False
    then have w: "takeWhile (\<lambda>u. u \<noteq> 10) (rev others) = rev others" by (auto simp: takeWhile_eq_all_conv)
    have "\<forall>x\<in>set others. x \<noteq> 10" using False by blast
    then show ?thesis by (simp add: last_line_def takeWhile_append w)
  qed (auto simp: last_line_def takeWhile_append)
  define body where "body = rev (dropWhile (\<lambda>u. u \<noteq> 10) (rev others))"
  have "others = body @ last_line others" unfolding body_def last_line_def by (metis rev_append rev_rev_ident takeWhile_dropWhile_id)
  moreover have "body = [] \<or> last body = 10" using hd_dropWhile [of "\<lambda>u. u \<noteq> 10" "rev others"] unfolding body_def by (auto simp: last_rev)
  ultimately show thesis using that l by simp
qed

lemma closed_fence_code:
  assumes "opening_fence code = Some (c, n)" and "closes_fence c n (last_line code)"
  shows "closed_fence code"
proof -
  obtain rest where run: "fence_run code = Some (c, n, rest)" and c: "c \<in> {96, 126}" "3 \<le> n" "10 \<in> set rest"
    using assms(1) by (auto simp: opening_fence_def split: option.splits prod.splits if_splits)
  obtain i where i: "code = replicate i 32 @ replicate n c @ rest" "i \<le> 3" "rest = [] \<or> hd rest \<noteq> c" by (rule fence_run_text [OF run])
  obtain info others where info: "rest = info @ 10 # others" "10 \<notin> set info" using split_list_first [OF c(3)] by blast
  have code: "code = (replicate i 32 @ replicate n c @ info) @ 10 # others" using i(1) info(1) by simp
  have "10 \<notin> set (replicate i 32 @ replicate n c @ info)" using c(1) info(2) by auto
  then obtain body where body: "others = body @ last_line code" "body = [] \<or> last body = 10" unfolding code by (rule last_line_text)
  obtain m trail where close: "fence_run (last_line code) = Some (c, m, trail)" "n \<le> m" "list_all is_blank trail"
    using assms(2) by (auto simp: closes_fence_def split: option.splits prod.splits)
  obtain j where j: "last_line code = replicate j 32 @ replicate m c @ trail" "j \<le> 3" by (rule fence_run_text [OF close(1)])
  have "code = replicate i 32 @ replicate n c @ info @ [10] @ body @ replicate j 32 @ replicate m c @ trail"
    using i(1) info(1) body(1) j(1) by simp
  moreover have "info = [] \<or> hd info \<noteq> c" using i(3) info(1) by (cases info) auto
  moreover have "set trail \<subseteq> {32, 9}" using close(3) by (auto simp: list_all_iff is_blank_def)
  ultimately show ?thesis unfolding closed_fence_def using c(1,2) i(2) info(2) body(2) j(2) close(2) by blast
qed

lemma separator_text:
  assumes "separator_length s = Some m"
  obtains sep tail where "s = sep @ tail" and "length sep = m" and "blank_separator sep"
proof -
  obtain t r where t: "s = 10 # t" "dropWhile is_blank t = 10 # r" "m = length (takeWhile is_blank t) + 2"
    using assms by (auto simp: separator_length_def split: list.splits if_splits)
  have "set (takeWhile is_blank t) \<subseteq> {32, 9}" by (auto simp: is_blank_def dest: set_takeWhileD)
  then have "blank_separator (10 # takeWhile is_blank t @ [10])" by (auto simp: blank_separator_def)
  moreover have "s = (10 # takeWhile is_blank t @ [10]) @ r" using t(1,2) by (metis append_Cons append_assoc append_Nil takeWhile_dropWhile_id)
  ultimately show thesis using that [of "10 # takeWhile is_blank t @ [10]" r] t(3) by simp
qed

lemma fence_end_text:
  assumes "fence_end source a b = Some offset" and "b \<le> length source"
  obtains before fence sep tail where "source = before @ fence @ sep @ tail" and "length before = a" and "length (before @ fence) = b"
    and "length (before @ fence @ sep) = offset" and "closed_fence fence" and "blank_separator sep"
proof -
  obtain c n m where f: "opening_fence (take (b - a) (drop a source)) = Some (c, n)" "separator_length (drop b source) = Some m"
    "closes_fence c n (last_line (take (b - a) (drop a source)))" "offset = b + m"
    using assms(1) by (auto simp: fence_end_def Let_def split: option.splits prod.splits if_splits)
  have "a < b" using f(1) by (cases "a < b") (auto simp: opening_fence_def fence_run_def)
  obtain sep tail where sep: "drop b source = sep @ tail" "length sep = m" "blank_separator sep" by (rule separator_text [OF f(2)])
  have "source = take a source @ take (b - a) (drop a source) @ drop b source"
    using \<open>a < b\<close> by (metis append_take_drop_id drop_drop le_add_diff_inverse2 less_imp_le_nat)
  then have "source = take a source @ take (b - a) (drop a source) @ sep @ tail" using sep(1) by simp
  moreover have "length (take a source) = a" "length (take a source @ take (b - a) (drop a source)) = b" using assms(2) \<open>a < b\<close> by auto
  moreover have "length (take a source @ take (b - a) (drop a source) @ sep) = offset" using assms(2) \<open>a < b\<close> sep(2) f(4) by auto
  ultimately show thesis using that closed_fence_code [OF f(1,3)] sep(3) by blast
qed

subsection \<open>Prefixes\<close>

definition prefix_at :: "md_parser \<Rightarrow> jstr \<Rightarrow> nat \<Rightarrow> nat \<Rightarrow> nat \<Rightarrow> parsed_prefix" where
  "prefix_at parse source index offset line =
     \<lparr>px_source = take offset source, px_offset = offset, px_line = line + 2, px_children = take (Suc index) (rt_children (parse source))\<rparr>"

definition closed_fence_at :: "md_parser \<Rightarrow> jstr \<Rightarrow> nat \<Rightarrow> nat \<Rightarrow> nat \<Rightarrow> bool" where
  "closed_fence_at parse source index offset line \<longleftrightarrow>
     incremental source \<and> \<not> root_definitions (parse source) \<and> index < length (rt_children (parse source))
     \<and> (\<exists>a b. code_span (rt_children (parse source) ! index) = Some (a, b, line) \<and> fence_end source a b = Some offset)"

text \<open>In the code's terms: behind a prefix that the code has found, joining gives the tree of the whole.\<close>

definition fence_is_boundary :: "md_parser \<Rightarrow> bool" where
  "fence_is_boundary parse \<longleftrightarrow> (\<forall>source index offset line rest.
     closed_fence_at parse source index offset line \<longrightarrow> incremental (take offset source @ rest) \<longrightarrow> \<not> root_definitions (parse rest) \<longrightarrow>
     parse (take offset source @ rest) = join_prefix (prefix_at parse source index offset line) (parse rest))"

text \<open>So the tree that the code joins is the tree of the whole.\<close>

lemma laws_boundary:
  assumes "markdown_laws parse"
  shows "fence_is_boundary parse"
  unfolding fence_is_boundary_def
proof (intro allI impI)
  fix source index offset line rest
  assume at: "closed_fence_at parse source index offset line" and whole: "incremental (take offset source @ rest)"
    and free: "\<not> root_definitions (parse rest)"
  let ?ns = "rt_children (parse source)"
  obtain a b where i: "incremental source" "definition_free (parse source)" "index < length ?ns" and c: "code_span (?ns ! index) = Some (a, b, line)"
    and e: "fence_end source a b = Some offset"
    using at by (auto simp: closed_fence_at_def root_definitions_free)
  obtain p where p: "md_type (?ns ! index) = js ''code''" "md_position (?ns ! index) = Some p" "mp_offset (ms_start p) = Some a"
    "mp_offset (ms_end p) = Some b" "mp_line (ms_end p) = line"
    using c by (auto simp: code_span_def split: if_splits option.splits)
  have line: "b \<le> length source" "line = 1 + newlines (take b source)"
    using assms i(1,3) p(2,4,5) nth_mem [OF i(3)] unfolding markdown_laws_def true_lines_def incremental_def by blast+
  obtain before fence sep tail where t: "source = before @ fence @ sep @ tail" "length before = a" "length (before @ fence) = b"
    "length (before @ fence @ sep) = offset" "closed_fence fence" "blank_separator sep" by (rule fence_end_text [OF e line(1)])
  let ?prefix = "before @ fence @ sep"
  have take: "take offset source = ?prefix" "take b source = before @ fence" using t(1,3,4) by (simp_all flip: append_assoc)
  have "newlines sep = 2" using t(6) by (auto simp: blank_separator_def newlines_def filter_empty_conv)
  then have lines: "newlines ?prefix = line + 1" using line(2) take(2) by simp
  have no: "set (source @ rest) \<inter> {13, 65279} = {}" using i(1) whole by (auto simp: incremental_def)
  from assms have "fences_are_boundaries parse" by (simp add: markdown_laws_def)
  note law = this [unfolded fences_are_boundaries_def, rule_format, OF t(1) refl t(5,6) no i(2) _ i(3) p(1,2)]
  obtain moved where m: "list_all2 (moved_node offset (line + 1)) (rt_children (parse rest)) moved"
      "rt_children (parse (?prefix @ rest)) = take (Suc index) ?ns @ moved"
    and r: "rel_option (\<lambda>q q'. ms_start q' = document_start \<and> moved_point offset (line + 1) (ms_end q) (ms_end q'))
      (rt_position (parse rest)) (rt_position (parse (?prefix @ rest)))"
    using law free p(3,4) t(2,3) unfolding root_definitions_free lines t(4) document_start_def by blast
  have "rt_position (parse (?prefix @ rest)) = map_option (\<lambda>q. (shift_position offset (line + 1) q)\<lparr>ms_start := document_start\<rparr>) (rt_position (parse rest))"
    using r by (cases rule: option.rel_cases) (auto simp: moved_point_shift shift_position_def)
  then show "parse (take offset source @ rest) = join_prefix (prefix_at parse source index offset line) (parse rest)"
    unfolding take using m(2) moved_nodes_shift [OF m(1)]
    by (cases "parse (before @ fence @ sep @ rest)") (simp add: join_prefix_def prefix_at_def)
qed

definition prefix_ok :: "md_parser \<Rightarrow> parsed_prefix \<Rightarrow> bool" where
  "prefix_ok parse prefix \<longleftrightarrow> (\<exists>source index offset line.
     closed_fence_at parse source index offset line \<and> prefix = prefix_at parse source index offset line)"

definition cache_ok :: "md_parser \<Rightarrow> parsed_prefix option \<Rightarrow> bool" where
  "cache_ok parse cached \<longleftrightarrow> fence_is_boundary parse \<and> (\<forall>prefix. cached = Some prefix \<longrightarrow> prefix_ok parse prefix)"

lemma separator_length_le: "separator_length s = Some m \<Longrightarrow> m \<le> length s"
proof (cases s)
  case (Cons u t)
  moreover assume "separator_length s = Some m"
  ultimately obtain v r where "dropWhile is_blank t = v # r" "m = length (takeWhile is_blank t) + 2" "s = u # t"
    by (auto simp: separator_length_def split: list.splits if_splits)
  moreover have "length (takeWhile is_blank t) + length (dropWhile is_blank t) = length t"
    by (metis length_append takeWhile_dropWhile_id)
  ultimately show ?thesis by simp
qed (simp add: separator_length_def)

lemma fence_end_le: "fence_end source a b = Some offset \<Longrightarrow> offset \<le> length source"
proof -
  assume "fence_end source a b = Some offset"
  then obtain m where m: "separator_length (drop b source) = Some m" "offset = b + m"
    by (auto simp: fence_end_def Let_def split: option.splits prod.splits if_splits)
  have "drop b source \<noteq> []" using m(1) by (auto simp: separator_length_def)
  then show ?thesis using separator_length_le [OF m(1)] m(2) by simp
qed

lemma shift_definitions [simp]: "hasDefinitions (shiftPositions k l n) = hasDefinitions n"
  by (induction n rule: hasDefinitions.induct) (auto simp: list_ex_iff)

lemma join_definitions: "root_definitions (join_prefix prefix root) \<longleftrightarrow> list_ex hasDefinitions (px_children prefix) \<or> root_definitions root"
  by (simp add: root_definitions_def join_prefix_def list_ex_iff bex_Un)

lemma prefix_no_definitions: "prefix_ok parse prefix \<Longrightarrow> \<not> list_ex hasDefinitions (px_children prefix)"
  by (auto simp: prefix_ok_def prefix_at_def closed_fence_at_def root_definitions_def list_ex_iff dest!: in_set_takeD)

text \<open>What the loop finds is a closed fence of the document.\<close>

lemma find_prefix_ok:
  assumes "find_prefix source lowest (rt_children (parse source)) n = Some prefix" "n \<le> length (rt_children (parse source))"
    "incremental source" "\<not> root_definitions (parse source)"
  shows "prefix_ok parse prefix"
  using assms(1,2)
proof (induction n)
  case (Suc n)
  show ?case
  proof (cases "find_prefix source lowest (rt_children (parse source)) n = Some prefix")
    case True
    then show ?thesis using Suc by simp
  next
    case False
    then obtain a b l offset where "code_span (rt_children (parse source) ! n) = Some (a, b, l)" "fence_end source a b = Some offset"
      "prefix = prefix_at parse source n offset l"
      using Suc.prems(1) by (auto simp: prefix_at_def split: option.splits if_splits prod.splits)
    then show ?thesis using assms(3,4) Suc.prems(2) unfolding prefix_ok_def closed_fence_at_def by (intro exI conjI) auto
  qed
qed simp

lemma remembered_ok:
  assumes "remember_prefix source lowest (parse source) cached = (root, cached')" "cache_ok parse cached" "incremental source"
    "\<not> root_definitions (parse source)"
  shows "root = parse source \<and> cache_ok parse cached'"
proof -
  have "root = parse source" "cached' = or_else (find_prefix source lowest (rt_children (parse source)) (length (rt_children (parse source)))) cached"
    using assms(1) unfolding remember_prefix_def prod.inject by blast+
  then show ?thesis using find_prefix_ok [where parse = parse and source = source, OF _ le_refl assms(3,4)] assms(2)
    by (auto simp: cache_ok_def or_else_def split: option.splits)
qed

text \<open>With a usable prefix the joined tree is the tree of the document.\<close>

lemma joined_tree:
  assumes "cache_ok parse (Some prefix)" "startsWith source (px_source prefix)" "incremental source"
    "\<not> root_definitions (parse (drop (px_offset prefix) source))"
  shows "join_prefix prefix (parse (drop (px_offset prefix) source)) = parse source"
proof -
  obtain s i k l where s: "closed_fence_at parse s i k l" and p: "prefix = prefix_at parse s i k l"
    using assms(1) by (auto simp: cache_ok_def prefix_ok_def)
  have "k \<le> length s" using s by (auto simp: closed_fence_at_def dest: fence_end_le)
  then have "source = take k s @ drop k source"
    using assms(2) p by (metis append_take_drop_id length_take min.absorb2 parsed_prefix.select_convs(1) prefix_at_def startsWith_def)
  moreover have "px_offset prefix = k" by (simp add: p prefix_at_def)
  ultimately show ?thesis
    using assms(1,3,4) s unfolding cache_ok_def fence_is_boundary_def p by metis
qed

lemma incremental_step:
  assumes "cache_ok parse cached" "parse_incrementally parse source cached = (root, cached')"
  shows "root = parse source \<and> cache_ok parse cached'"
proof (cases "incremental source")
  case True
  show ?thesis
  proof (cases "usable_prefix source cached")
    case None
    then show ?thesis using assms True remembered_ok [OF _ assms(1) True]
      by (auto simp: parse_incrementally_def Let_def split: if_splits)
  next
    case (Some prefix)
    then have c: "cached = Some prefix" "startsWith source (px_source prefix)"
      by (auto simp: usable_prefix_def split: option.splits if_splits)
    show ?thesis
    proof (cases "root_definitions (parse (drop (px_offset prefix) source))")
      case False
      have j: "join_prefix prefix (parse (drop (px_offset prefix) source)) = parse source"
        using joined_tree [of parse prefix source, OF _ c(2) True False] assms(1) c(1) by simp
      moreover have "\<not> root_definitions (parse source)"
        unfolding j [symmetric] join_definitions using False prefix_no_definitions assms(1) c(1) by (auto simp: cache_ok_def)
      moreover have "remember_prefix source (Some (px_offset prefix)) (join_prefix prefix (parse (drop (px_offset prefix) source))) cached = (root, cached')"
        using assms(2) True Some False by (simp add: parse_incrementally_def Let_def)
      ultimately show ?thesis using remembered_ok [OF _ assms(1) True] by simp
    qed (use assms True Some in \<open>auto simp: parse_incrementally_def Let_def\<close>)
  qed
qed (use assms in \<open>auto simp: parse_incrementally_def\<close>)

interpretation markdown: cached_function parse "parse_incrementally parse" "cache_ok parse" for parse
  by unfold_locales (rule incremental_step)

lemma processor_step:
  assumes "cache_ok parse cached"
  shows "fst (processor_parse parse source (parsed, cached)) = parse source
     \<and> cache_ok parse (snd (snd (processor_parse parse source (parsed, cached))))"
  using markdown.step_value [OF assms, of source] markdown.step_keeps [OF assms, of source] assms
  by (auto simp: processor_parse_def split: prod.splits)

interpretation processor: cached_function parse "processor_parse parse" "\<lambda>st. cache_ok parse (snd st)" for parse
  by unfold_locales (metis fst_conv prod.collapse processor_step snd_conv)

lemma processor_trees:
  "cache_ok parse (snd st) \<Longrightarrow> fst (processor_run parse sources st) = map parse sources
     \<and> cache_ok parse (snd (snd (processor_run parse sources st)))"
proof (induction sources arbitrary: st)
  case (Cons source sources)
  then show ?case using processor.step_value [OF Cons.prems, of source] processor.step_keeps [OF Cons.prems, of source]
    by (auto simp: Let_def split: prod.splits) (metis fst_conv snd_conv)+
qed simp

text \<open>
  C12. Incremental parsing is parsing. For a parser whose positions name the true lines and for which a
  closed fence followed by a blank line is a boundary, whatever texts the renders parse in whatever
  order, each parse returns the tree, with its positions, that the parser returns for that text alone.
\<close>

theorem incremental_parse_is_parse:
  assumes "markdown_laws parse"
  shows "render_all parse renders None = map (map parse) renders"
proof -
  have "cache_ok parse cached \<Longrightarrow> render_all parse renders cached = map (map parse) renders" for cached
  proof (induction renders arbitrary: cached)
    case (Cons sources renders)
    then show ?case using processor_trees [of parse "(False, cached)" sources] by (auto simp: Let_def split: prod.splits)
  qed simp
  then show ?thesis using laws_boundary [OF assms] by (simp add: cache_ok_def)
qed

subsection \<open>A parser for which this holds\<close>

text \<open>
  Blocks \<open>```\<close>, newline, \<open>```\<close>, newline, newline as code nodes; what follows is a paragraph.
\<close>

definition sample_fence :: jstr where
  "sample_fence = [96, 96, 96, 10, 96, 96, 96, 10, 10]"

definition sample_position :: "nat \<Rightarrow> nat \<Rightarrow> nat \<Rightarrow> nat \<Rightarrow> md_position" where
  "sample_position a la b lb = \<lparr>ms_start = \<lparr>mp_line = la, mp_column = 1, mp_offset = Some a\<rparr>,
     ms_end = \<lparr>mp_line = lb, mp_column = 4, mp_offset = Some b\<rparr>\<rparr>"

definition sample_code :: "nat \<Rightarrow> nat \<Rightarrow> md_node" where
  "sample_code offset line = MdNode (js ''code'') (Some (sample_position offset line (offset + 7) (line + 1))) None JNull"

definition sample_paragraph :: "nat \<Rightarrow> nat \<Rightarrow> jstr \<Rightarrow> md_node" where
  "sample_paragraph offset line s =
     MdNode (js ''paragraph'') (Some (sample_position offset line (offset + length s) (line + newlines s))) (Some []) (JStr s)"

function sample_blocks :: "nat \<Rightarrow> nat \<Rightarrow> jstr \<Rightarrow> md_node list" where
  "sample_blocks offset line s =
     (if s = [] then []
      else if take 9 s = sample_fence then sample_code offset line # sample_blocks (offset + 9) (line + 3) (drop 9 s)
      else [sample_paragraph offset line s])"
  by pat_completeness auto

termination sample_blocks
  by (relation "measure (\<lambda>(offset, line, s). length s)") auto

declare sample_blocks.simps [simp del]

definition sample_parser :: md_parser where
  "sample_parser s = \<lparr>rt_children = sample_blocks 0 1 s, rt_position = None\<rparr>"

definition fences :: "nat \<Rightarrow> jstr" where
  "fences n = concat (replicate n sample_fence)"

lemma length_fences [simp]: "length (fences n) = 9 * n"
  by (induction n) (simp_all add: fences_def sample_fence_def)

lemma fences_Suc: "fences (Suc n) = sample_fence @ fences n" "fences (Suc n) = fences n @ sample_fence"
proof -
  show "fences (Suc n) = sample_fence @ fences n" by (simp add: fences_def)
  show "fences (Suc n) = fences n @ sample_fence" by (induction n) (simp_all add: fences_def)
qed

lemma blocks_fence: "sample_blocks offset line (sample_fence @ s) = sample_code offset line # sample_blocks (offset + 9) (line + 3) s"
  by (subst sample_blocks.simps) (simp add: sample_fence_def)

lemma blocks_shift: "sample_blocks (offset + k) (line + l) s = map (shiftPositions k l) (sample_blocks offset line s)"
proof (induction offset line s rule: sample_blocks.induct)
  case (1 offset line s)
  have p: "shiftPositions k l (sample_paragraph offset line s) = sample_paragraph (offset + k) (line + l) s"
    "shiftPositions k l (sample_code offset line) = sample_code (offset + k) (line + l)"
    by (simp_all add: sample_paragraph_def sample_code_def sample_position_def shift_position_def shift_point_def)
  show ?case using 1 p
    by (subst (1 2) sample_blocks.simps) (auto simp: ac_simps)
qed

text \<open>The children of fences and a rest.\<close>

lemma blocks_fences: "sample_blocks offset line (fences n @ s)
    = map (\<lambda>i. sample_code (offset + 9 * i) (line + 3 * i)) [0..<n] @ sample_blocks (offset + 9 * n) (line + 3 * n) s"
proof (induction n arbitrary: s)
  case (Suc n)
  show ?case unfolding fences_Suc(2) append_assoc Suc blocks_fence by (simp add: ac_simps)
qed (simp add: fences_def)

lemma code_blocks:
  "i < length (sample_blocks offset line s) \<Longrightarrow> md_type (sample_blocks offset line s ! i) = js ''code'' \<Longrightarrow> \<exists>r. s = fences (Suc i) @ r"
proof (induction offset line s arbitrary: i rule: sample_blocks.induct)
  case (1 offset line s)
  have s: "s \<noteq> []" "take 9 s = sample_fence"
    using 1(2,3) by (subst (asm) (1 2) sample_blocks.simps; auto simp: sample_paragraph_def split: if_splits)+
  have d: "s = sample_fence @ drop 9 s" using s(2) by (metis append_take_drop_id)
  have b: "sample_blocks offset line s = sample_code offset line # sample_blocks (offset + 9) (line + 3) (drop 9 s)"
    using s by (subst sample_blocks.simps) simp
  show ?case
  proof (cases i)
    case 0
    then show ?thesis using d by (auto simp: fences_def)
  next
    case (Suc j)
    then obtain r where "drop 9 s = fences (Suc j) @ r" using 1(1) [OF s] 1(2,3) b by auto
    then show ?thesis using d Suc by (metis append_assoc fences_Suc(1))
  qed
qed

text \<open>Its positions are true, and its fences are boundaries.\<close>

lemma blocks_lines:
  "n \<in> set (sample_blocks offset line s) \<Longrightarrow> md_position n = Some p \<Longrightarrow> mp_offset (ms_end p) = Some b \<Longrightarrow>
     offset \<le> b \<and> b \<le> offset + length s \<and> mp_line (ms_end p) = line + newlines (take (b - offset) s)"
proof (induction offset line s rule: sample_blocks.induct)
  case (1 offset line s)
  show ?case
  proof (cases "s \<noteq> [] \<and> take 9 s = sample_fence")
    case True
    then have t: "s = sample_fence @ drop 9 s" by (metis append_take_drop_id)
    have c: "sample_blocks offset line s = sample_code offset line # sample_blocks (offset + 9) (line + 3) (drop 9 s)"
      using True by (subst sample_blocks.simps) simp
    have fence: "length sample_fence = 9" "newlines sample_fence = 3" "newlines (take 7 sample_fence) = 1"
      by (simp_all add: sample_fence_def)
    have len: "9 \<le> length s" using fence(1) t by (metis le_add1 length_append)
    consider "n = sample_code offset line" | "n \<in> set (sample_blocks (offset + 9) (line + 3) (drop 9 s))" using 1(2) c by auto
    then show ?thesis
    proof cases
      case first: 1
      then have "b = offset + 7" "mp_line (ms_end p) = line + 1" using 1(3,4) by (auto simp: sample_code_def sample_position_def)
      moreover have "newlines (take 7 (sample_fence @ drop 9 s)) = 1" using fence by simp
      then have "newlines (take 7 s) = 1" by (subst t)
      ultimately show ?thesis using len by simp
    next
      case 2
      then have r: "offset + 9 \<le> b" "b \<le> offset + 9 + length (drop 9 s)"
        "mp_line (ms_end p) = line + 3 + newlines (take (b - (offset + 9)) (drop 9 s))" using 1(1,3,4) True by blast+
      have "take (b - offset) (sample_fence @ drop 9 s) = sample_fence @ take (b - (offset + 9)) (drop 9 s)" using r(1) fence(1) by simp
      then have "take (b - offset) s = sample_fence @ take (b - (offset + 9)) (drop 9 s)" using t by metis
      then show ?thesis using r len fence(2) by simp
    qed
  next
    case False
    then have "sample_blocks offset line s = (if s = [] then [] else [sample_paragraph offset line s])" by (subst sample_blocks.simps) auto
    then show ?thesis using 1(2-4) by (auto simp: sample_paragraph_def sample_position_def split: if_splits)
  qed
qed

lemma sample_fences_are_boundaries: "fences_are_boundaries sample_parser"
  unfolding fences_are_boundaries_def
proof (intro allI impI)
  fix before fence sep tail rest i p source prefix
  assume s: "source = before @ fence @ sep @ tail" and pre: "prefix = before @ fence @ sep" and blank: "blank_separator sep"
    and i: "i < length (rt_children (sample_parser source))" and code: "md_type (rt_children (sample_parser source) ! i) = js ''code''"
    and p: "md_position (rt_children (sample_parser source) ! i) = Some p"
    and ab: "mp_offset (ms_start p) = Some (length before)" "mp_offset (ms_end p) = Some (length (before @ fence))"
  let ?ns = "sample_blocks 0 1 source"
  have ic: "i < length ?ns" "md_type (?ns ! i) = js ''code''" using i code by (simp_all add: sample_parser_def)
  obtain r where r: "source = fences (Suc i) @ r" using code_blocks [OF ic] by blast
  have ns: "?ns = map (\<lambda>i. sample_code (9 * i) (1 + 3 * i)) [0..<Suc i] @ sample_blocks (9 * Suc i) (1 + 3 * Suc i) r"
    unfolding r using blocks_fences [of 0 1 "Suc i" r] by simp
  have "?ns ! i = sample_code (9 * i) (1 + 3 * i)" unfolding ns by (simp add: nth_append del: upt_Suc)
  then have len: "length before = 9 * i" "length (before @ fence) = 9 * i + 7"
    using p ab by (auto simp: sample_parser_def sample_code_def sample_position_def)
  have "before @ fence = take (9 * i + 7) source" unfolding s using len(2) by simp
  also have "\<dots> = fences i @ take 7 sample_fence" unfolding r fences_Suc(2) by (simp add: sample_fence_def)
  finally have bf: "before @ fence = fences i @ take 7 sample_fence" .
  have "sep @ tail = drop (9 * i + 7) source" unfolding s using len(2) by simp
  also have "\<dots> = 10 # 10 # r" unfolding r fences_Suc(2) by (simp add: sample_fence_def)
  finally have "sep = [10, 10]" using blank by (auto simp: blank_separator_def Cons_eq_append_conv append_eq_Cons_conv)
  then have prefix: "prefix = fences (Suc i)" using bf unfolding pre fences_Suc(2) by (simp add: sample_fence_def)
  have lines: "newlines (fences n) = 3 * n" for n by (induction n) (simp_all add: fences_def sample_fence_def)
  have "sample_blocks 0 1 (prefix @ rest) = take (Suc i) ?ns @ map (shiftPositions (9 * Suc i) (3 * Suc i)) (sample_blocks 0 1 rest)"
    unfolding prefix using blocks_fences [of 0 1 "Suc i" rest] blocks_shift [of 0 "9 * Suc i" 1 "3 * Suc i" rest]
    unfolding ns by (simp add: ac_simps)
  moreover have "list_all2 (moved_node k l) xs (map (shiftPositions k l) xs)" for k l xs
    by (simp add: list_all2_conv_all_nth shifted_moved)
  ultimately show "(\<exists>moved. list_all2 (moved_node (length prefix) (newlines prefix)) (rt_children (sample_parser rest)) moved
        \<and> rt_children (sample_parser (prefix @ rest)) = take (Suc i) (rt_children (sample_parser source)) @ moved)
     \<and> rel_option (\<lambda>q q'. ms_start q' = \<lparr>mp_line = 1, mp_column = 1, mp_offset = Some 0\<rparr>
          \<and> moved_point (length prefix) (newlines prefix) (ms_end q) (ms_end q'))
        (rt_position (sample_parser rest)) (rt_position (sample_parser (prefix @ rest)))"
    unfolding prefix lines length_fences by (auto simp: sample_parser_def)
qed

lemma sample_laws: "markdown_laws sample_parser"
proof -
  have "true_lines sample_parser" unfolding true_lines_def
    using blocks_lines [of _ 0 1] by (force simp: sample_parser_def)
  then show ?thesis using sample_fences_are_boundaries by (simp add: markdown_laws_def)
qed

theorem incremental_parse_is_parse_witness:
  "render_all sample_parser [[sample_fence @ js ''a''], [sample_fence @ js ''ab'', js ''c'']] None
   = [[sample_parser (sample_fence @ js ''a'')], [sample_parser (sample_fence @ js ''ab''), sample_parser (js ''c'')]]
   \<and> snd (parse_incrementally sample_parser (sample_fence @ js ''a'') None) \<noteq> None"
proof -
  have "snd (parse_incrementally sample_parser (sample_fence @ js ''a'') None) \<noteq> None" by code_simp
  then show ?thesis
    using incremental_parse_is_parse [OF sample_laws, of "[[sample_fence @ js ''a''], [sample_fence @ js ''ab'', js ''c'']]"] by simp
qed

end
