(* ===== verification/Prompt_Queue.thy ===== *)
theory Prompt_Queue
  imports Js_Text Machine
begin

text \<open>
  The list of queued prompts (\<open>AgentPromptQueue.tsx\<close>): rows that wait in the service's queue, and
  local rows that the host has not delivered. React renders after every discrete event, so a handler
  sees the current state; the host may render new props at any time.
\<close>

record queue_row =
  qr_id :: jstr
  qr_text :: jstr
  qr_local :: bool
  qr_sending :: bool
  qr_error :: "jstr option"

record queue_props =
  qp_items :: "queue_row list"
  qp_paused :: bool
  qp_disabled :: bool

record queue_state =
  qs_editing :: jstr
  qs_draft :: jstr
  qs_dragged :: jstr
  qs_busy :: bool
  qs_error :: jstr

definition fresh_queue :: queue_state where
  "fresh_queue = \<lparr>qs_editing = [], qs_draft = [], qs_dragged = [], qs_busy = False, qs_error = []\<rparr>"

datatype queue_call =
    EditCall jstr jstr
  | RemoveCall jstr
  | ReorderCall "jstr list"
  | PauseCall bool
  | RetryCall jstr

text \<open>\<open>act\<close> up to the call and after it: editing ends where the edit succeeded.\<close>

definition queue_act :: "queue_props \<Rightarrow> queue_call \<Rightarrow> queue_state \<Rightarrow> queue_state \<times> queue_call option" where
  "queue_act p c s =
     (if qs_busy s \<or> qp_disabled p then (s, None) else (s\<lparr>qs_busy := True, qs_error := []\<rparr>, Some c))"

definition queue_settled :: "queue_call \<Rightarrow> jstr option \<Rightarrow> queue_state \<Rightarrow> queue_state" where
  "queue_settled c failure s =
     (let told = (case failure of
          None \<Rightarrow> (case c of EditCall _ _ \<Rightarrow> s\<lparr>qs_editing := []\<rparr> | _ \<Rightarrow> s)
        | Some message \<Rightarrow> s\<lparr>qs_error := message\<rparr>)
      in told\<lparr>qs_busy := False\<rparr>)"

subsection \<open>Reordering\<close>

definition durable_ids :: "queue_row list \<Rightarrow> jstr list" where
  "durable_ids items = map qr_id (filter (\<lambda>row. \<not> qr_local row) items)"

definition position_of :: "'a \<Rightarrow> 'a list \<Rightarrow> nat option" where \<comment> \<open>\<open>indexOf\<close>\<close>
  "position_of x xs = (let n = length (takeWhile (\<lambda>y. y \<noteq> x) xs) in if n < length xs then Some n else None)"

definition moved_order :: "queue_row list \<Rightarrow> jstr \<Rightarrow> jstr \<Rightarrow> jstr list option" where
  "moved_order items i target =
     (let order = durable_ids items in
      case (position_of i order, position_of target order) of
        (Some origin, Some index) \<Rightarrow>
          if origin = index then None
          else (let rest = take origin order @ drop (Suc origin) order in Some (take index rest @ i # drop index rest))
      | _ \<Rightarrow> None)"

definition queue_move :: "queue_props \<Rightarrow> jstr \<Rightarrow> jstr \<Rightarrow> queue_state \<Rightarrow> queue_state \<times> queue_call option" where
  "queue_move p i target s = (case moved_order (qp_items p) i target of
       None \<Rightarrow> (s, None)
     | Some order \<Rightarrow> queue_act p (ReorderCall order) s)"

subsection \<open>Buttons\<close>

definition queue_locked :: "queue_props \<Rightarrow> queue_state \<Rightarrow> bool" where
  "queue_locked p s \<longleftrightarrow> qp_disabled p \<or> qs_busy s"

text \<open>A neighbour that exists and waits in the service's queue too: up for the row before, down for the next.\<close>

definition neighbour :: "queue_row list \<Rightarrow> nat \<Rightarrow> bool \<Rightarrow> queue_row option" where
  "neighbour items index up =
     (if (if up then index = 0 else Suc index = length items) then None
      else (let row = items ! (if up then index - 1 else Suc index) in if qr_local row then None else Some row))"

text \<open>What can be clicked for a row, besides moving it.\<close>

definition can_retry :: "queue_props \<Rightarrow> queue_state \<Rightarrow> queue_row \<Rightarrow> bool" where
  "can_retry p s row \<longleftrightarrow> (case qr_error row of None \<Rightarrow> False | Some e \<Rightarrow> e \<noteq> []) \<and> \<not> queue_locked p s"

definition can_change :: "queue_props \<Rightarrow> queue_state \<Rightarrow> queue_row \<Rightarrow> bool" where \<comment> \<open>edit or remove\<close>
  "can_change p s row \<longleftrightarrow> \<not> queue_locked p s \<and> \<not> qr_sending row"

definition can_drag :: "queue_props \<Rightarrow> queue_state \<Rightarrow> queue_row \<Rightarrow> bool" where
  "can_drag p s row \<longleftrightarrow> \<not> queue_locked p s \<and> \<not> qr_local row"

definition can_save :: "queue_props \<Rightarrow> queue_state \<Rightarrow> bool" where
  "can_save p s \<longleftrightarrow> \<not> queue_locked p s \<and> trim (qs_draft s) \<noteq> []"

datatype queue_action =
    QueueRendered queue_props
  | PauseClicked
  | MoveClicked nat bool
  | DragStarted nat
  | DragEnded
  | DroppedOn nat
  | RetryClicked nat
  | EditClicked nat
  | RemoveClicked nat
  | DraftTyped jstr
  | SaveClicked nat
  | EditCancelled
  | QueueSettled queue_call "jstr option"

definition row_at :: "queue_props \<Rightarrow> nat \<Rightarrow> queue_row option" where
  "row_at p n = (if n < length (qp_items p) then Some (qp_items p ! n) else None)"

text \<open>What an action of the operator does, if its control can be used.\<close>

definition queue_row_act :: "queue_props \<Rightarrow> queue_state \<Rightarrow> queue_action \<Rightarrow> nat \<Rightarrow> queue_row \<Rightarrow> (queue_state \<times> queue_call option) option" where
  "queue_row_act p s a n row = (case a of
       MoveClicked _ up \<Rightarrow> (case neighbour (qp_items p) n up of
           Some other \<Rightarrow> if queue_locked p s \<or> qr_local row then None else Some (queue_move p (qr_id row) (qr_id other) s)
         | None \<Rightarrow> None)
     | DragStarted _ \<Rightarrow> if can_drag p s row then Some (s\<lparr>qs_dragged := qr_id row\<rparr>, None) else None
     | DroppedOn _ \<Rightarrow> (case queue_move p (qs_dragged s) (qr_id row) s of (s', c) \<Rightarrow> Some (s'\<lparr>qs_dragged := []\<rparr>, c))
     | RetryClicked _ \<Rightarrow> if can_retry p s row then Some (queue_act p (RetryCall (qr_id row)) s) else None
     | EditClicked _ \<Rightarrow> if can_change p s row then Some (s\<lparr>qs_editing := qr_id row, qs_draft := qr_text row\<rparr>, None) else None
     | RemoveClicked _ \<Rightarrow> if can_change p s row then Some (queue_act p (RemoveCall (qr_id row)) s) else None
     | SaveClicked _ \<Rightarrow> if qs_editing s = qr_id row \<and> can_save p s then Some (queue_act p (EditCall (qr_id row) (qs_draft s)) s) else None
     | _ \<Rightarrow> None)"

fun action_row :: "queue_action \<Rightarrow> nat option" where
  "action_row (MoveClicked n _) = Some n"
| "action_row (DragStarted n) = Some n"
| "action_row (DroppedOn n) = Some n"
| "action_row (RetryClicked n) = Some n"
| "action_row (EditClicked n) = Some n"
| "action_row (RemoveClicked n) = Some n"
| "action_row (SaveClicked n) = Some n"
| "action_row _ = None"

definition editor_open :: "queue_props \<Rightarrow> queue_state \<Rightarrow> bool" where
  "editor_open p s \<longleftrightarrow> list_ex (\<lambda>row. qr_id row = qs_editing s) (qp_items p)"

definition queue_action_act :: "queue_props \<Rightarrow> queue_action \<Rightarrow> queue_state \<Rightarrow> (queue_state \<times> queue_call option) option" where
  "queue_action_act p a s = (case a of
       PauseClicked \<Rightarrow> if durable_ids (qp_items p) \<noteq> [] \<and> \<not> queue_locked p s
         then Some (queue_act p (PauseCall (\<not> qp_paused p)) s) else None
     | DragEnded \<Rightarrow> Some (s\<lparr>qs_dragged := []\<rparr>, None)
     | DraftTyped t \<Rightarrow> if editor_open p s then Some (s\<lparr>qs_draft := t\<rparr>, None) else None
     | EditCancelled \<Rightarrow> if editor_open p s then Some (s\<lparr>qs_editing := []\<rparr>, None) else None
     | _ \<Rightarrow> Option.bind (action_row a) (\<lambda>n. Option.bind (row_at p n) (queue_row_act p s a n)))"

record queue_machine =
  qm_props :: queue_props
  qm_state :: queue_state
  qm_call :: "queue_call option" \<comment> \<open>under way\<close>

definition mounted_queue :: "queue_props \<Rightarrow> queue_machine" where
  "mounted_queue p = \<lparr>qm_props = p, qm_state = fresh_queue, qm_call = None\<rparr>"

inductive queue_step :: "queue_machine \<Rightarrow> queue_action \<times> queue_call option \<Rightarrow> queue_machine \<Rightarrow> bool" where
  rendered: "queue_step m (QueueRendered p, None) (m\<lparr>qm_props := p\<rparr>)"
| acted: "queue_action_act (qm_props m) a (qm_state m) = Some (s, c) \<Longrightarrow>
    queue_step m (a, c) (m\<lparr>qm_state := s, qm_call := (case c of None \<Rightarrow> qm_call m | Some x \<Rightarrow> Some x)\<rparr>)"
| settled: "qm_call m = Some c \<Longrightarrow>
    queue_step m (QueueSettled c failure, None) (m\<lparr>qm_state := queue_settled c failure (qm_state m), qm_call := None\<rparr>)"

end
