(* ===== verification/Queue_Properties.thy ===== *)
theory Queue_Properties
  imports Prompt_Queue "HOL-Library.Multiset"
begin

text \<open>
  The prompt queue makes one call at a time, and a new order is the old one with one prompt moved to
  the place of another.
\<close>

lemma position_of_nth: "position_of x xs = Some n \<Longrightarrow> n < length xs \<and> xs ! n = x"
  by (auto simp: position_of_def Let_def split: if_splits dest: nth_length_takeWhile)

lemma position_of_set: "position_of x xs = Some n \<Longrightarrow> x \<in> set xs"
  using position_of_nth by (metis nth_mem)

lemma position_of_distinct: "distinct xs \<Longrightarrow> n < length xs \<Longrightarrow> position_of (xs ! n) xs = Some n"
proof -
  assume d: "distinct xs" "n < length xs"
  have "takeWhile (\<lambda>y. y \<noteq> xs ! n) xs = take n xs"
    using d by (intro takeWhile_eq_take_P_nth) (auto simp: nth_eq_iff_index_eq)
  then show ?thesis using d(2) by (simp add: position_of_def Let_def)
qed

lemma take_drop_remove1: "distinct xs \<Longrightarrow> n < length xs \<Longrightarrow> take n xs @ drop (Suc n) xs = remove1 (xs ! n) xs"
proof -
  assume d: "distinct xs" "n < length xs"
  have "xs ! n \<notin> set (take n xs)"
    using d by (auto simp: in_set_conv_nth nth_eq_iff_index_eq)
  then have "remove1 (xs ! n) (take n xs @ xs ! n # drop (Suc n) xs) = take n xs @ drop (Suc n) xs"
    by (simp add: remove1_append)
  then show ?thesis using id_take_nth_drop [OF d(2)] by simp
qed

lemma moved_order_facts:
  assumes "moved_order items i target = Some order" and "distinct (durable_ids items)"
  shows "mset order = mset (durable_ids items) \<and> remove1 i order = remove1 i (durable_ids items)
     \<and> position_of i order = position_of target (durable_ids items) \<and> i \<in> set (durable_ids items)"
proof -
  let ?ids = "durable_ids items"
  obtain a b where a: "position_of i ?ids = Some a" and b: "position_of target ?ids = Some b"
    and o: "order = take b (take a ?ids @ drop (Suc a) ?ids) @ i # drop b (take a ?ids @ drop (Suc a) ?ids)"
    using assms(1) by (auto simp: moved_order_def Let_def split: option.splits if_splits)
  have i: "a < length ?ids" "?ids ! a = i" "i \<in> set ?ids" using position_of_nth [OF a] position_of_set [OF a] by auto
  have rest: "take a ?ids @ drop (Suc a) ?ids = remove1 i ?ids" using take_drop_remove1 [OF assms(2) i(1)] i(2) by simp
  have o': "order = take b (remove1 i ?ids) @ i # drop b (remove1 i ?ids)" using o unfolding rest .
  have ni: "i \<notin> set (remove1 i ?ids)" using assms(2) by simp
  have "i \<notin> set (take b (remove1 i ?ids))" using ni in_set_takeD by fastforce
  then have r: "remove1 i order = remove1 i ?ids" unfolding o' by (simp add: remove1_append)
  have "mset order = add_mset i (mset (remove1 i ?ids))" unfolding o' by (metis append_take_drop_id mset.simps(2) mset_append union_mset_add_mset_right)
  then have m: "mset order = mset ?ids" using i(3) by simp
  have "b < length order" using position_of_nth [OF b] m mset_eq_length by metis
  moreover have "length (remove1 i ?ids) = length ?ids - 1" "b < length ?ids" using position_of_nth [OF b] i(3) by (simp_all add: length_remove1)
  then have "b \<le> length (remove1 i ?ids)" by linarith
  then have "order ! b = i" unfolding o' by (simp add: nth_append)
  moreover have "distinct order" using m assms(2) mset_eq_imp_distinct_iff by blast
  ultimately have "position_of i order = Some b" using position_of_distinct by blast
  then show ?thesis using m r b i(3) by simp
qed

definition queue_calls :: "queue_action \<times> queue_call option \<Rightarrow> bool" where
  "queue_calls l \<longleftrightarrow> snd l \<noteq> None"

definition queue_settles :: "queue_action \<times> queue_call option \<Rightarrow> bool" where
  "queue_settles l \<longleftrightarrow> (\<exists>c failure. fst l = QueueSettled c failure)"

lemma queue_act_cases:
  "queue_act p c s = (s', d) \<Longrightarrow>
     (d = None \<and> s' = s) \<or> (d = Some c \<and> \<not> qs_busy s \<and> \<not> qp_disabled p \<and> qs_busy s')"
  by (auto simp: queue_act_def split: if_splits)

lemma queue_move_cases:
  "queue_move p i target s = (s', d) \<Longrightarrow> (d = None \<and> s' = s)
     \<or> (\<exists>order. d = Some (ReorderCall order) \<and> moved_order (qp_items p) i target = Some order
          \<and> \<not> qs_busy s \<and> \<not> qp_disabled p \<and> qs_busy s')"
  by (auto simp: queue_move_def split: option.splits dest: queue_act_cases)

text \<open>What an action does to the busy state, and where a new order comes from.\<close>

lemma queue_row_act_cases:
  assumes "queue_row_act p s a n row = Some (s', c)"
  shows "(c = None \<and> qs_busy s' = qs_busy s) \<or> (c \<noteq> None \<and> \<not> qs_busy s \<and> \<not> qp_disabled p \<and> qs_busy s'
      \<and> (\<forall>order. c = Some (ReorderCall order) \<longrightarrow> (\<exists>i target. moved_order (qp_items p) i target = Some order)))"
  using assms unfolding queue_row_act_def
  by (cases a) (auto split: option.splits if_splits prod.splits dest!: queue_act_cases queue_move_cases)

lemma queue_action_cases:
  assumes "queue_action_act p a s = Some (s', c)"
  shows "(c = None \<and> qs_busy s' = qs_busy s) \<or> (c \<noteq> None \<and> \<not> qs_busy s \<and> \<not> qp_disabled p \<and> qs_busy s'
      \<and> (\<forall>order. c = Some (ReorderCall order) \<longrightarrow> (\<exists>i target. moved_order (qp_items p) i target = Some order)))"
  using assms unfolding queue_action_act_def
  by (cases a) (auto split: if_splits simp: bind_eq_Some_conv dest!: queue_act_cases queue_row_act_cases)

lemma settled_busy: "qs_busy (queue_settled c failure s) = False"
  by (simp add: queue_settled_def Let_def split: option.splits queue_call.splits)

lemma no_act_settles: "queue_action_act p (QueueSettled c failure) s = None"
  by (simp add: queue_action_act_def)

definition queue_inv :: "queue_machine \<Rightarrow> bool" where
  "queue_inv m \<longleftrightarrow> (qm_call m \<noteq> None \<longleftrightarrow> qs_busy (qm_state m))"

lemma queue_step_inv: "queue_inv m \<Longrightarrow> queue_step m l m' \<Longrightarrow> queue_inv m'"
proof -
  assume inv: "queue_inv m"
  assume st: "queue_step m l m'"
  from st inv show ?thesis
    by (cases rule: queue_step.cases) (auto simp: queue_inv_def settled_busy split: option.splits dest: queue_action_cases)
qed

interpretation queue: machine queue_step queue_inv
  by unfold_locales (rule queue_step_inv)

interpretation queue_call: flight_machine "\<lambda>m l m'. queue_inv m \<and> queue_step m l m'" queue_calls queue_settles "\<lambda>m. qm_call m \<noteq> None"
proof unfold_locales
  fix m l m'
  assume st: "queue_inv m \<and> queue_step m l m'"
  have n: "\<not> (queue_calls l \<and> queue_settles l)"
    using st by (auto simp: queue_calls_def queue_settles_def no_act_settles elim!: queue_step.cases)
  { assume "queue_calls l"
    with st n show "\<not> qm_call m \<noteq> None \<and> qm_call m' \<noteq> None \<and> \<not> queue_settles l"
      by (auto simp: queue_calls_def queue_inv_def elim!: queue_step.cases dest!: queue_action_cases) }
  { assume "queue_settles l"
    with st show "qm_call m \<noteq> None \<and> \<not> qm_call m' \<noteq> None"
      by (auto simp: queue_settles_def no_act_settles elim!: queue_step.cases) }
  { assume "\<not> queue_calls l" "\<not> queue_settles l"
    with st show "(qm_call m' \<noteq> None) = (qm_call m \<noteq> None)"
      by (auto simp: queue_calls_def queue_settles_def elim!: queue_step.cases) }
qed

lemma queue_runs_inv: "runs queue_step m ls m' \<Longrightarrow> queue_inv m \<Longrightarrow> runs (\<lambda>m l m'. queue_inv m \<and> queue_step m l m') m ls m'"
proof (induction rule: runs.induct)
  case (step m ls m' l m'')
  have "queue_inv m'" using queue.runs_inv [OF step.hyps(1) step.prems] .
  then show ?case using step runs.step [of "\<lambda>m l m'. queue_inv m \<and> queue_step m l m'" m ls m' l m''] by blast
qed (rule runs.start)

text \<open>
  C30. The queue changes by one move at a time. However the operator acts and the host renders, the list
  has one call under way at most and makes none while it is disabled; and a new order that it sends
  holds the prompts of the service's queue with one of them moved to the place of another, all others
  in their order.
\<close>

theorem queue_moves_one_prompt:
  assumes "runs queue_step (mounted_queue p) ls m"
  shows "length (filter queue_calls ls) = length (filter queue_settles ls) + (if qm_call m \<noteq> None then 1 else 0)
     \<and> (\<forall>a c m'. queue_step m (a, Some c) m' \<longrightarrow> qm_call m = None \<and> \<not> qp_disabled (qm_props m))
     \<and> (\<forall>a order m'. queue_step m (a, Some (ReorderCall order)) m' \<longrightarrow> distinct (durable_ids (qp_items (qm_props m))) \<longrightarrow>
          (\<exists>i target. i \<in> set order \<and> mset order = mset (durable_ids (qp_items (qm_props m)))
             \<and> remove1 i order = remove1 i (durable_ids (qp_items (qm_props m)))
             \<and> position_of i order = position_of target (durable_ids (qp_items (qm_props m)))))"
proof (intro conjI allI impI)
  have inv0: "queue_inv (mounted_queue p)" by (simp add: queue_inv_def mounted_queue_def fresh_queue_def)
  show "length (filter queue_calls ls) = length (filter queue_settles ls) + (if qm_call m \<noteq> None then 1 else 0)"
    using queue_call.one_flight [OF queue_runs_inv [OF assms inv0]] by (simp add: mounted_queue_def)
  have inv: "queue_inv m" using queue.runs_inv [OF assms inv0] .
  fix a m'
  show "qm_call m = None" if "queue_step m (a, Some c) m'" for c
    using that inv by (cases rule: queue_step.cases) (auto simp: queue_inv_def dest!: queue_action_cases)
  show "\<not> qp_disabled (qm_props m)" if "queue_step m (a, Some c) m'" for c
    using that by (cases rule: queue_step.cases) (auto dest!: queue_action_cases)
  show "\<exists>i target. i \<in> set order \<and> mset order = mset (durable_ids (qp_items (qm_props m)))
      \<and> remove1 i order = remove1 i (durable_ids (qp_items (qm_props m)))
      \<and> position_of i order = position_of target (durable_ids (qp_items (qm_props m)))"
    if "queue_step m (a, Some (ReorderCall order)) m'" and d: "distinct (durable_ids (qp_items (qm_props m)))" for order
  proof -
    from that(1) obtain i target where "moved_order (qp_items (qm_props m)) i target = Some order"
      by (cases rule: queue_step.cases) (auto dest!: queue_action_cases)
    note f = moved_order_facts [OF this d]
    then have "i \<in> set order" by (metis mset_eq_setD)
    then show ?thesis using f by blast
  qed
qed

definition sample_queue :: queue_props where
  "sample_queue = \<lparr>qp_items = map (\<lambda>i. \<lparr>qr_id = js i, qr_text = js ''t'', qr_local = False, qr_sending = False, qr_error = None\<rparr>)
     [''a'', ''b'', ''c''], qp_paused = False, qp_disabled = False\<rparr>"

lemma sample_queue_moves:
  "queue_step (mounted_queue sample_queue) (MoveClicked 2 True, Some (ReorderCall [js ''a'', js ''c'', js ''b'']))
     \<lparr>qm_props = sample_queue, qm_state = fresh_queue\<lparr>qs_busy := True\<rparr>, qm_call = Some (ReorderCall [js ''a'', js ''c'', js ''b''])\<rparr>"
proof -
  have "queue_action_act sample_queue (MoveClicked 2 True) fresh_queue
      = Some (fresh_queue\<lparr>qs_busy := True\<rparr>, Some (ReorderCall [js ''a'', js ''c'', js ''b'']))"
    by (simp add: queue_action_act_def queue_row_act_def row_at_def sample_queue_def neighbour_def queue_locked_def fresh_queue_def
        queue_move_def moved_order_def durable_ids_def position_of_def queue_act_def numeral_2_eq_2)
  then show ?thesis using queue_step.acted [of "mounted_queue sample_queue"] by (fastforce simp: mounted_queue_def)
qed

theorem queue_moves_one_prompt_witness:
  "\<exists>m i. queue_step (mounted_queue sample_queue) (MoveClicked 2 True, Some (ReorderCall [js ''a'', js ''c'', js ''b''])) m
     \<and> remove1 i [js ''a'', js ''c'', js ''b''] = remove1 i (durable_ids (qp_items sample_queue))"
proof -
  have "distinct (durable_ids (qp_items (qm_props (mounted_queue sample_queue))))"
    by (simp add: mounted_queue_def sample_queue_def durable_ids_def)
  then have "\<exists>i. remove1 i [js ''a'', js ''c'', js ''b''] = remove1 i (durable_ids (qp_items (qm_props (mounted_queue sample_queue))))"
    using queue_moves_one_prompt [OF runs.start [of queue_step "mounted_queue sample_queue"]] sample_queue_moves by blast
  then show ?thesis using sample_queue_moves by (auto simp: mounted_queue_def)
qed

end
