(* ===== verification/Prompt_Editor.thy ===== *)
theory Prompt_Editor
  imports Js_Library Machine
begin

text \<open>
  Text inputs: the prompt editor (\<open>upstream/t3/ComposerPromptEditor.tsx\<close>) and the input that commits
  on blur (\<open>upstream/t3/useCommitOnBlur.ts\<close>, used by \<open>ui/draft-input.tsx\<close>). The rich text library of the
  editor is a parameter: its documents, the document of one paragraph and the text of a document.
\<close>

subsection \<open>Plain text in a paragraph\<close>

datatype leaf = TextLeaf jstr | BreakLeaf

fun split_lines :: "jstr \<Rightarrow> jstr list" where \<comment> \<open>\<open>text.split("\n")\<close>\<close>
  "split_lines [] = [[]]"
| "split_lines (u # s) = (if u = 10 then [] # split_lines s
     else (case split_lines s of line # lines \<Rightarrow> (u # line) # lines | [] \<Rightarrow> [[u]]))"

definition appendTextWithLineBreaks :: "leaf list \<Rightarrow> jstr \<Rightarrow> leaf list" where
  "appendTextWithLineBreaks parent content =
     (let lines = split_lines content in
      parent @ concat (map (\<lambda>(index, line). (if 0 < length line then [TextLeaf line] else [])
        @ (if Suc index < length lines then [BreakLeaf] else [])) (enumerate 0 lines)))"

record 'd rich_text =
  make_document :: "leaf list \<Rightarrow> 'd" \<comment> \<open>a root with one paragraph of these leaves\<close>
  document_text :: "'d \<Rightarrow> jstr" \<comment> \<open>\<open>$getRoot().getTextContent()\<close>\<close>

definition replacePlainText :: "'d rich_text \<Rightarrow> jstr \<Rightarrow> 'd" where
  "replacePlainText lib value = make_document lib (appendTextWithLineBreaks [] value)"

subsection \<open>The controlled editor\<close>

datatype editor_selection = NoSelection | EndSelected | OtherSelection nat

record 'd prompt_editor =
  pe_document :: 'd
  pe_selection :: editor_selection
  pe_editable :: bool
  pe_value :: jstr \<comment> \<open>of the last render\<close>

definition mounted_editor :: "'d rich_text \<Rightarrow> jstr \<Rightarrow> bool \<Rightarrow> 'd prompt_editor" where
  "mounted_editor lib value disabled =
     \<lparr>pe_document = replacePlainText lib value, pe_selection = NoSelection, pe_editable = (\<not> disabled), pe_value = value\<rparr>"

text \<open>\<open>ControlledTextPlugin\<close>: the effect of a value.\<close>

definition synchronize :: "'d rich_text \<Rightarrow> jstr \<Rightarrow> bool \<Rightarrow> 'd prompt_editor \<Rightarrow> 'd prompt_editor" where
  "synchronize lib value focused ed =
     (if document_text lib (pe_document ed) = value then ed
      else ed\<lparr>pe_document := replacePlainText lib value, pe_selection := (if focused then EndSelected else NoSelection)\<rparr>)"

text \<open>A render: each effect runs where what it depends on has changed.\<close>

definition editor_rendered :: "'d rich_text \<Rightarrow> jstr \<Rightarrow> bool \<Rightarrow> bool \<Rightarrow> 'd prompt_editor \<Rightarrow> 'd prompt_editor" where
  "editor_rendered lib value disabled focused ed =
     (let enabled = ed\<lparr>pe_editable := \<not> disabled\<rparr> in
      if value = pe_value ed then enabled else (synchronize lib value focused enabled)\<lparr>pe_value := value\<rparr>)"

text \<open>An edit of the operator, and what \<open>onChange\<close> reports of it.\<close>

definition editor_edited :: "'d rich_text \<Rightarrow> 'd \<Rightarrow> editor_selection \<Rightarrow> 'd prompt_editor \<Rightarrow> 'd prompt_editor \<times> jstr" where
  "editor_edited lib following selected ed = (ed\<lparr>pe_document := following, pe_selection := selected\<rparr>, document_text lib following)"

inductive editor_step :: "'d rich_text \<Rightarrow> 'd prompt_editor \<Rightarrow> jstr option \<Rightarrow> 'd prompt_editor \<Rightarrow> bool" for lib where
  rendered: "editor_step lib ed None (editor_rendered lib value disabled focused ed)"
| edited: "editor_edited lib following selected ed = (ed', reported) \<Longrightarrow> editor_step lib ed (Some reported) ed'"

subsection \<open>Keys\<close>

text \<open>The answer to a command key: whether it is taken, and what was done to the event.\<close>

record command_answer =
  ca_handled :: bool
  ca_prevented :: bool
  ca_stopped :: bool

text \<open>\<open>handler\<close> is \<open>onCommandKeyDown\<close>, \<open>composing\<close> stands for \<open>isComposing || keyCode === 229\<close>.\<close>

definition handleCommand :: "(jstr \<Rightarrow> bool) option \<Rightarrow> bool \<Rightarrow> jstr \<Rightarrow> bool \<Rightarrow> command_answer" where
  "handleCommand handler hasEvent key composing = (case handler of
       None \<Rightarrow> \<lparr>ca_handled = False, ca_prevented = False, ca_stopped = False\<rparr>
     | Some handle \<Rightarrow>
         if \<not> hasEvent then \<lparr>ca_handled = False, ca_prevented = False, ca_stopped = False\<rparr>
         else if key = js ''Enter'' \<and> composing then \<lparr>ca_handled = True, ca_prevented = False, ca_stopped = True\<rparr>
         else (let handled = handle key in \<lparr>ca_handled = handled, ca_prevented = handled, ca_stopped = handled\<rparr>))"

text \<open>\<open>/mac|iphone|ipad|ipod/i\<close>.\<close>

definition ascii_lower :: "code_unit \<Rightarrow> code_unit" where
  "ascii_lower u = (if is_upper u then u + 32 else u)"

definition isMacPlatform :: "jstr \<Rightarrow> bool" where
  "isMacPlatform platform \<longleftrightarrow> list_ex (\<lambda>name. index_of (map ascii_lower platform) (js name) \<noteq> None) [''mac'', ''iphone'', ''ipad'', ''ipod'']"

record home_end_key =
  he_key :: jstr
  he_shift :: bool
  he_modified :: bool \<comment> \<open>\<open>altKey || metaKey || ctrlKey || isComposing\<close>\<close>
  he_inside :: bool \<comment> \<open>the selection is anchored inside the editor\<close>
  he_ranges :: nat
  he_canModify :: bool

text \<open>How Home and End move the selection on a Mac: alteration and direction.\<close>

definition home_end :: "jstr \<Rightarrow> home_end_key \<Rightarrow> (jstr \<times> jstr) option" where
  "home_end platform e =
     (if \<not> isMacPlatform platform then None
      else if he_key e \<noteq> js ''Home'' \<and> he_key e \<noteq> js ''End'' then None
      else if he_modified e \<or> \<not> he_inside e \<or> he_ranges e = 0 \<or> \<not> he_canModify e then None
      else Some (js (if he_shift e then ''extend'' else ''move''), js (if he_key e = js ''Home'' then ''backward'' else ''forward'')))"

subsection \<open>Committing on blur\<close>

text \<open>The draft of a focused input; the value belongs to the host.\<close>

record commit_input =
  ci_value :: jstr
  ci_draft :: "jstr option"

definition shown_input :: "commit_input \<Rightarrow> jstr" where
  "shown_input s = get_or (ci_value s) (ci_draft s)"

definition input_blurred :: "commit_input \<Rightarrow> commit_input \<times> jstr option" where
  "input_blurred s = (s\<lparr>ci_draft := None\<rparr>, if shown_input s \<noteq> ci_value s then Some (shown_input s) else None)"

datatype commit_action = InputFocused | InputTyped jstr | InputBlurred | EnterPressed bool | HostRendered jstr

fun commit_act :: "commit_action \<Rightarrow> commit_input \<Rightarrow> commit_input \<times> jstr option" where
  "commit_act InputFocused s = (s\<lparr>ci_draft := Some (ci_value s)\<rparr>, None)"
| "commit_act (InputTyped t) s = (s\<lparr>ci_draft := Some t\<rparr>, None)"
| "commit_act InputBlurred s = input_blurred s"
| "commit_act (EnterPressed composing) s = (if composing then (s, None) else input_blurred s)"
| "commit_act (HostRendered v) s = (s\<lparr>ci_value := v\<rparr>, None)"

fun commit_run :: "commit_action list \<Rightarrow> commit_input \<Rightarrow> commit_input \<times> jstr list" where
  "commit_run [] s = (s, [])"
| "commit_run (a # as) s =
     (case commit_act a s of (s', c) \<Rightarrow> case commit_run as s' of (s'', cs) \<Rightarrow> (s'', (case c of None \<Rightarrow> cs | Some t \<Rightarrow> t # cs)))"

end
