(* ===== verification/Input_Properties.thy ===== *)
theory Input_Properties
  imports Prompt_Editor Composer_Send
begin

text \<open>
  The prompt editor shows the host's text and keeps what the operator types; an input that commits on
  blur commits a finished edit once.
\<close>

subsection \<open>The prompt editor\<close>

primrec leaf_text :: "leaf \<Rightarrow> jstr" where
  "leaf_text (TextLeaf t) = t"
| "leaf_text BreakLeaf = [10]"

text \<open>What the editor library documents: a text node contributes its text, a line break a newline.\<close>

definition text_of_leaves :: "'d rich_text \<Rightarrow> bool" where
  "text_of_leaves lib \<longleftrightarrow> (\<forall>ls. document_text lib (make_document lib ls) = concat (map leaf_text ls))"

lemma split_lines_ne: "split_lines s \<noteq> []"
  by (induction s) (auto split: list.splits)

lemma split_lines_join: "join [10] (split_lines s) = s"
proof (induction s)
  case (Cons u s)
  obtain l ls where "split_lines s = l # ls" using split_lines_ne [of s] by (cases "split_lines s") auto
  then show ?case using Cons by (cases ls) auto
qed simp

lemma leaves_text:
  "lines \<noteq> [] \<Longrightarrow> concat (map leaf_text (concat (map (\<lambda>(index, line). (if 0 < length line then [TextLeaf line] else [])
      @ (if Suc index < n + length lines then [BreakLeaf] else [])) (enumerate n lines)))) = join [10] lines"
proof (induction lines arbitrary: n)
  case (Cons line lines)
  show ?case
  proof (cases lines)
    case (Cons l ls)
    then show ?thesis using Cons.IH [of "Suc n"] by (simp add: enumerate_simps)
  qed (simp add: enumerate_simps)
qed simp

lemma append_text: "concat (map leaf_text (appendTextWithLineBreaks [] s)) = s"
  using leaves_text [of "split_lines s" 0] by (simp add: appendTextWithLineBreaks_def Let_def split_lines_ne split_lines_join)

lemma replaced_text: "text_of_leaves lib \<Longrightarrow> document_text lib (replacePlainText lib value) = value"
  by (simp add: text_of_leaves_def replacePlainText_def append_text)

text \<open>
  C35. The editor shows the host's text and never rewrites a keystroke. A mounted editor spells the value
  it was given, line breaks included; after a render with another value it spells that value; and a
  render that gives back what the editor has just reported changes neither document nor selection.
\<close>

theorem editor_shows_the_value:
  assumes "text_of_leaves lib"
  shows "document_text lib (pe_document (mounted_editor lib value disabled)) = value
     \<and> (value \<noteq> pe_value ed \<longrightarrow> document_text lib (pe_document (editor_rendered lib value disabled focused ed)) = value)
     \<and> (editor_edited lib following selected ed = (ed', reported) \<longrightarrow>
          pe_document (editor_rendered lib reported disabled focused ed') = following
          \<and> pe_selection (editor_rendered lib reported disabled focused ed') = selected)"
proof (intro conjI impI)
  note r = replaced_text [OF assms, of "value"]
  show "document_text lib (pe_document (mounted_editor lib value disabled)) = value" by (simp add: mounted_editor_def r)
  show "document_text lib (pe_document (editor_rendered lib value disabled focused ed)) = value" if "value \<noteq> pe_value ed"
    using that r by (simp add: editor_rendered_def synchronize_def Let_def)
next
  assume "editor_edited lib following selected ed = (ed', reported)"
  then have e: "ed' = ed\<lparr>pe_document := following, pe_selection := selected\<rparr>" "document_text lib following = reported"
    by (simp_all add: editor_edited_def)
  then have s: "synchronize lib reported focused (ed'\<lparr>pe_editable := \<not> disabled\<rparr>) = ed'\<lparr>pe_editable := \<not> disabled\<rparr>"
    by (simp add: synchronize_def)
  show "pe_document (editor_rendered lib reported disabled focused ed') = following"
    "pe_selection (editor_rendered lib reported disabled focused ed') = selected"
    unfolding editor_rendered_def Let_def s by (simp_all add: e(1))
qed

definition plain_text :: "leaf list rich_text" where
  "plain_text = \<lparr>make_document = (\<lambda>ls. ls), document_text = (\<lambda>ls. concat (map leaf_text ls))\<rparr>"

theorem editor_shows_the_value_witness:
  "document_text plain_text (pe_document (editor_rendered plain_text (js ''a'' @ [10, 10] @ js ''b'') False True
     (mounted_editor plain_text [] False))) = js ''a'' @ [10, 10] @ js ''b''"
proof -
  have "text_of_leaves plain_text" by (simp add: text_of_leaves_def plain_text_def)
  moreover have "js ''a'' @ [10, 10] @ js ''b'' \<noteq> pe_value (mounted_editor plain_text [] False)" by (simp add: mounted_editor_def)
  ultimately show ?thesis
    using editor_shows_the_value [of plain_text "js ''a'' @ [10, 10] @ js ''b''" False "mounted_editor plain_text [] False" True] by blast
qed

subsection \<open>Committing on blur\<close>

text \<open>An edit: what was typed last, and the value the host rendered last.\<close>

definition editing :: "commit_action \<Rightarrow> bool" where
  "editing a \<longleftrightarrow> (case a of InputTyped _ \<Rightarrow> True | HostRendered _ \<Rightarrow> True | EnterPressed composing \<Rightarrow> composing | _ \<Rightarrow> False)"

definition last_typed :: "commit_action list \<Rightarrow> jstr \<Rightarrow> jstr" where
  "last_typed as t = foldl (\<lambda>t a. case a of InputTyped u \<Rightarrow> u | _ \<Rightarrow> t) t as"

definition last_value :: "commit_action list \<Rightarrow> jstr \<Rightarrow> jstr" where
  "last_value as v = foldl (\<lambda>v a. case a of HostRendered w \<Rightarrow> w | _ \<Rightarrow> v) v as"

lemma editing_run:
  "list_all editing as \<Longrightarrow> commit_run as \<lparr>ci_value = v, ci_draft = Some t\<rparr> = (\<lparr>ci_value = last_value as v, ci_draft = Some (last_typed as t)\<rparr>, [])"
proof (induction as arbitrary: v t)
  case (Cons a as)
  then show ?case by (cases a) (auto simp: editing_def last_value_def last_typed_def)
qed (simp add: last_value_def last_typed_def)

lemma commit_run_append:
  "commit_run (as @ bs) s = (let (t, cs) = commit_run as s; (u, ds) = commit_run bs t in (u, cs @ ds))"
  by (induction as arbitrary: s) (auto simp: Let_def split: prod.splits option.splits)

text \<open>
  A finished edit is committed once. From focus to blur, or to Enter outside a composition, the
  input shows what was typed last whatever the host renders meanwhile; the end commits that text once
  if it differs from the host's value then, else nothing; and afterwards the host's value is shown.
\<close>

theorem edit_commits_once:
  assumes "list_all editing as" and "finish \<in> {InputBlurred, EnterPressed False}"
  shows "shown_input (fst (commit_run (InputFocused # as) s)) = last_typed as (ci_value s)
     \<and> snd (commit_run (InputFocused # as @ [finish]) s)
        = (if last_typed as (ci_value s) \<noteq> last_value as (ci_value s) then [last_typed as (ci_value s)] else [])
     \<and> shown_input (fst (commit_run (InputFocused # as @ [finish]) s)) = last_value as (ci_value s)"
proof -
  have s: "s\<lparr>ci_draft := Some (ci_value s)\<rparr> = \<lparr>ci_value = ci_value s, ci_draft = Some (ci_value s)\<rparr>" by simp
  have f: "commit_act finish t = input_blurred t" for t using assms(2) by auto
  note run = editing_run [OF assms(1), of "ci_value s" "ci_value s"]
  show ?thesis using run
    by (simp add: s commit_run_append f shown_input_def input_blurred_def)
qed

theorem edit_commits_once_witness:
  "snd (commit_run [InputFocused, InputTyped (js ''a''), HostRendered (js ''x''), EnterPressed True, InputTyped (js ''ab''), EnterPressed False]
     \<lparr>ci_value = [], ci_draft = None\<rparr>) = [js ''ab'']"
proof -
  have "list_all editing [InputTyped (js ''a''), HostRendered (js ''x''), EnterPressed True, InputTyped (js ''ab'')]"
    by (simp add: editing_def)
  from edit_commits_once [OF this, of "EnterPressed False" "\<lparr>ci_value = [], ci_draft = None\<rparr>"]
  show ?thesis by (simp add: last_typed_def last_value_def)
qed

text \<open>Enter sends the prompt only outside a composition and without Shift.\<close>

lemma enter_sends:
  "ca_prevented (handleCommand (Some (\<lambda>key. command_key key shift composing \<noteq> KeyIgnored)) True key composing)
   \<longleftrightarrow> command_key key shift composing = KeySends"
  by (auto simp: handleCommand_def command_key_def Let_def)

end
