(* ===== verification/Chat_Markdown.thy ===== *)
theory Chat_Markdown
  imports Prompt_Editor
begin

text \<open>
  The parts of \<open>upstream/t3/ChatMarkdown.tsx\<close> that are not library calls: unmatched inline \<open><A>\<close>
  placeholders become text before raw HTML is parsed, when parsing is incremental, and which links
  have text.
\<close>

subsection \<open>Tags in raw HTML\<close>

text \<open>
  \<open>/<!--[\s\S]*?(?:-->|$)|<\/?[A-Za-z](?:[^"'<>]|"[^"]*"|'[^']*')*>/g\<close>. The alternatives of the repetition
  start with different units and none starts with the closing \<open>>\<close>, so no repetition gives back a unit.
\<close>

definition is_ascii_letter :: "code_unit \<Rightarrow> bool" where
  "is_ascii_letter u \<longleftrightarrow> is_upper u \<or> is_lower u"

function attributes_end :: "jstr \<Rightarrow> jstr option" where \<comment> \<open>what follows the closing \<open>>\<close>\<close>
  "attributes_end [] = None"
| "attributes_end (u # s) =
     (if u = 62 then Some s
      else if u = 60 then None
      else if u = 34 \<or> u = 39 then (case dropWhile (\<lambda>v. v \<noteq> u) s of [] \<Rightarrow> None | _ # rest \<Rightarrow> attributes_end rest)
      else attributes_end s)"
  by pat_completeness auto

lemma dropWhile_tail: "dropWhile p s = u # rest \<Longrightarrow> length rest < length s"
  using length_dropWhile_le [of p s] by simp

termination attributes_end
  by (relation "measure length") (auto dest!: dropWhile_tail)

fun comment_end :: "jstr \<Rightarrow> jstr" where \<comment> \<open>what follows \<open>-->\<close>, or the end of the text\<close>
  "comment_end [] = []"
| "comment_end (u # s) = (if startsWith (u # s) (js ''-->'') then drop 3 (u # s) else comment_end s)"

definition tag_at :: "jstr \<Rightarrow> jstr option" where \<comment> \<open>the rest after a comment or a tag that starts here\<close>
  "tag_at s =
     (if startsWith s (js ''<!--'') then Some (comment_end (drop 4 s))
      else case s of
          [] \<Rightarrow> None
        | u # t \<Rightarrow> if u \<noteq> 60 then None
            else (case (case t of v # r \<Rightarrow> if v = 47 then r else t | [] \<Rightarrow> t) of
                [] \<Rightarrow> None
              | w # r \<Rightarrow> if is_ascii_letter w then attributes_end r else None))"

fun next_tag :: "jstr \<Rightarrow> (jstr \<times> jstr) option" where \<comment> \<open>the first match and the rest after it\<close>
  "next_tag [] = None"
| "next_tag (u # s) = (case tag_at (u # s) of
       Some rest \<Rightarrow> Some (take (length (u # s) - length rest) (u # s), rest)
     | None \<Rightarrow> next_tag s)"

text \<open>\<open></name\s*>\<close> without regard to case; a name is made of lower-case letters.\<close>

definition raw_close_at :: "jstr \<Rightarrow> jstr \<Rightarrow> jstr option" where
  "raw_close_at name s =
     (if startsWith (map ascii_lower s) (js ''</'' @ name)
      then (case dropWhile is_space (drop (2 + length name) s) of u # rest \<Rightarrow> if u = 62 then Some rest else None | [] \<Rightarrow> None)
      else None)"

fun next_raw_close :: "jstr \<Rightarrow> jstr \<Rightarrow> jstr option" where
  "next_raw_close name [] = None"
| "next_raw_close name (u # s) = (case raw_close_at name (u # s) of Some rest \<Rightarrow> Some rest | None \<Rightarrow> next_raw_close name s)"

text \<open>The lower-case name of a closing tag \<open>/^<\/([a-z]+)\s*>$/i\<close> and of an opening one \<open>/^<([a-z]+)(?:\s|\/?>)/i\<close>.\<close>

definition closing_name :: "jstr \<Rightarrow> jstr option" where
  "closing_name tag =
     (if \<not> startsWith tag (js ''</'') then None
      else (let name = takeWhile is_ascii_letter (drop 2 tag) in
        if name \<noteq> [] \<and> dropWhile is_space (drop (2 + length name) tag) = [62] then Some (map ascii_lower name) else None))"

definition opening_name :: "jstr \<Rightarrow> jstr option" where
  "opening_name tag = (case tag of
       [] \<Rightarrow> None
     | u # s \<Rightarrow>
         (let name = takeWhile is_ascii_letter s in
          if u \<noteq> 60 \<or> name = [] then None
          else case drop (length name) s of
              [] \<Rightarrow> None
            | v # r \<Rightarrow> if is_space v \<or> v = 62 \<or> (v = 47 \<and> (case r of w # _ \<Rightarrow> w = 62 | [] \<Rightarrow> False))
                then Some (map ascii_lower name) else None))"

definition bare_anchor :: "jstr \<Rightarrow> bool" where \<comment> \<open>\<open>/^<a\s*\/?>$/i\<close>\<close>
  "bare_anchor tag \<longleftrightarrow> startsWith (map ascii_lower tag) (js ''<a'')
     \<and> dropWhile is_space (drop 2 tag) \<in> {[62], [47, 62]}"

definition raw_text_names :: "jstr list" where
  "raw_text_names = map js [''script'', ''style'', ''textarea'', ''title'', ''xmp'', ''iframe'', ''noembed'', ''noframes'', ''plaintext'']"

datatype anchor_event = AnchorOpened bool | AnchorClosed \<comment> \<open>opened: whether the whole node is a bare tag\<close>

definition tag_effect :: "jstr \<Rightarrow> jstr \<Rightarrow> anchor_event list \<times> jstr option" where
  "tag_effect node_text tag =
     (if startsWith tag (js ''<!--'') then ([], None)
      else case opening_name tag of
          Some name \<Rightarrow>
            if name \<in> set raw_text_names then ([], Some name)
            else if name = js ''a'' then ([AnchorOpened (node_text = tag \<and> bare_anchor tag)], None)
            else if closing_name tag = Some (js ''a'') then ([AnchorClosed], None) else ([], None)
        | None \<Rightarrow> if closing_name tag = Some (js ''a'') then ([AnchorClosed], None) else ([], None))"

lemma attributes_end_length: "attributes_end s = Some r \<Longrightarrow> length r < length s"
proof (induction s rule: attributes_end.induct)
  case (2 u s)
  then show ?case by (fastforce split: if_splits list.splits dest: dropWhile_tail)
qed simp

lemma comment_end_length: "length (comment_end s) \<le> length s"
  by (induction s) auto

lemma tag_at_length: "tag_at s = Some r \<Longrightarrow> length r < length s"
proof (cases "startsWith s (js ''<!--'')")
  case True
  assume "tag_at s = Some r"
  moreover have "4 \<le> length s" using arg_cong [OF True [unfolded startsWith_def], of length] by simp
  ultimately show ?thesis using True comment_end_length [of "drop 4 s"] by (auto simp: tag_at_def)
next
  case False
  assume "tag_at s = Some r"
  then show ?thesis using False
    by (auto simp: tag_at_def split: list.splits if_splits dest!: attributes_end_length)
qed

lemma next_tag_length: "next_tag s = Some (tag, r) \<Longrightarrow> length r < length s"
  by (induction s) (auto split: option.splits dest: tag_at_length)

lemma next_raw_close_length: "next_raw_close name s = Some r \<Longrightarrow> length r < length s"
proof (induction s)
  case (Cons u s)
  have "length t < length (u # s)" if "raw_close_at name (u # s) = Some t" for t
    using that by (auto simp: raw_close_at_def split: if_splits list.splits dest!: dropWhile_tail)
  then show ?case using Cons by (auto split: option.splits)
qed simp

text \<open>The loop over one node, from the raw text element that is open; \<open>plaintext\<close> never ends.\<close>

function scan_tags :: "jstr \<Rightarrow> jstr option \<Rightarrow> jstr \<Rightarrow> anchor_event list \<times> jstr option" where
  "scan_tags node_text raw s =
     (case raw of
        Some name \<Rightarrow>
          if name = js ''plaintext'' then ([], raw)
          else (case next_raw_close name s of None \<Rightarrow> ([], raw) | Some rest \<Rightarrow> scan_tags node_text None rest)
      | None \<Rightarrow> (case next_tag s of
            None \<Rightarrow> ([], None)
          | Some (tag, rest) \<Rightarrow>
              (let (events, raw') = tag_effect node_text tag; (later, raw'') = scan_tags node_text raw' rest in (events @ later, raw''))))"
  by pat_completeness auto

termination scan_tags
  by (relation "measure (\<lambda>(_, _, s). length s)") (auto dest: next_raw_close_length next_tag_length)

declare scan_tags.simps [simp del]

subsection \<open>Placeholders\<close>

datatype hast = Hast (hn_type: jstr) (hn_value: "jstr option") (hn_tag: "jstr option") (hn_children: "hast list")

text \<open>Nodes are visited in preorder; an anchor on the stack is the number of a bare node, or none.\<close>

fun preorder :: "hast \<Rightarrow> hast list" where
  "preorder (Hast t v g ns) = Hast t v g ns # concat (map preorder ns)"

type_synonym placeholder_state = "nat option list \<times> jstr option"

definition anchor_event_act :: "nat \<Rightarrow> nat option list \<Rightarrow> anchor_event \<Rightarrow> nat option list" where
  "anchor_event_act n anchors e = (case e of
       AnchorOpened bare \<Rightarrow> (if bare then Some n else None) # anchors
     | AnchorClosed \<Rightarrow> tl anchors)"

definition visit_node :: "placeholder_state \<Rightarrow> nat \<times> hast \<Rightarrow> placeholder_state" where
  "visit_node st numbered = (case (st, numbered) of ((anchors, raw), (n, node)) \<Rightarrow>
     if hn_type node = js ''raw'' then (case hn_value node of
         None \<Rightarrow> st
       | Some v \<Rightarrow> (case scan_tags v raw v of (events, raw') \<Rightarrow> (foldl (anchor_event_act n) anchors events, raw')))
     else st)"

text \<open>The marked nodes become text.\<close>

fun node_count :: "hast \<Rightarrow> nat" where
  "node_count (Hast t v g ns) = Suc (sum_list (map node_count ns))"

fun retype :: "(nat \<Rightarrow> bool) \<Rightarrow> nat \<Rightarrow> hast \<Rightarrow> hast" and retype_all :: "(nat \<Rightarrow> bool) \<Rightarrow> nat \<Rightarrow> hast list \<Rightarrow> hast list" where
  "retype p n (Hast t v g ns) = Hast (if p n then js ''text'' else t) v g (retype_all p (Suc n) ns)"
| "retype_all p n [] = []"
| "retype_all p n (x # xs) = retype p n x # retype_all p (n + node_count x) xs"

definition preserveBareAnchorPlaceholders :: "hast \<Rightarrow> hast" where
  "preserveBareAnchorPlaceholders tree =
     (let anchors = fst (foldl visit_node ([], None) (enumerate 0 (preorder tree))) in retype (\<lambda>n. Some n \<in> set anchors) 0 tree)"

subsection \<open>Links and streaming\<close>

fun hastHasText :: "hast \<Rightarrow> bool" where
  "hastHasText (Hast t v g ns) \<longleftrightarrow>
     (t = js ''text'' \<and> (case v of Some s \<Rightarrow> trim s \<noteq> [] | None \<Rightarrow> False)) \<or> list_ex hastHasText ns"

text \<open>\<open>/(?:^|\n) {0,3}(?:`{3}|~{3})/\<close>.\<close>

definition fence_starts :: "jstr \<Rightarrow> bool" where
  "fence_starts s \<longleftrightarrow> length (takeWhile (\<lambda>u. u = 32) s) \<le> 3
     \<and> take 3 (dropWhile (\<lambda>u. u = 32) s) \<in> {[96, 96, 96], [126, 126, 126]}"

definition has_fence :: "jstr \<Rightarrow> bool" where
  "has_fence content \<longleftrightarrow> list_ex fence_starts (split_lines content)"

definition parses_incrementally :: "bool option \<Rightarrow> jstr \<Rightarrow> bool" where
  "parses_incrementally isStreaming content \<longleftrightarrow> isStreaming = Some True \<and> has_fence content"

definition list_items :: "hast \<Rightarrow> nat" where \<comment> \<open>\<open>itemCount\<close> of an ordered list\<close>
  "list_items node = length (filter (\<lambda>child. hn_type child = js ''element'' \<and> hn_tag child = Some (js ''li'')) (hn_children node))"

subsection \<open>The gutter of ordered lists\<close>

definition parse_int :: "jstr \<Rightarrow> int option" where \<comment> \<open>\<open>Number.parseInt(text, 10)\<close>; \<open>None\<close> is \<open>NaN\<close>\<close>
  "parse_int content =
     (let s = trimStart content;
          negative = (case s of u # _ \<Rightarrow> u = 45 | [] \<Rightarrow> False);
          signed = (case s of u # _ \<Rightarrow> u = 45 \<or> u = 43 | [] \<Rightarrow> False);
          digits = takeWhile is_digit (if signed then tl s else s);
          n = foldl (\<lambda>n u. 10 * n + (int (unat u) - 48)) 0 digits
      in if digits = [] then None else Some (if negative then - n else n))"

text \<open>
  The widest marker and the gutter for it. The sums are exact, as those of the code are for starts below
  \<open>2 ^ 53\<close>; Markdown has nine digits at most.
\<close>

definition marker_width :: "nat \<Rightarrow> js_number option \<Rightarrow> nat" where
  "marker_width itemCount start =
     (let firstNumber = get_or 1 (parse_int (number_text (get_or (IntNum 1) start)));
          lastNumber = firstNumber + int (itemCount - 1)
      in max (length (number_text (IntNum firstNumber))) (length (number_text (IntNum lastNumber))))"

definition orderedListGutterStyle :: "nat \<Rightarrow> js_number option \<Rightarrow> jstr option" where
  "orderedListGutterStyle itemCount start =
     (if marker_width itemCount start \<le> 1 then None
      else Some (number_text (IntNum (int (marker_width itemCount start + 2))) @ js ''ch''))"

end
