(* ===== verification/Chat_Properties.thy ===== *)
theory Chat_Properties
  imports Chat_Markdown
begin

text \<open>
  Which placeholders become text: the stack of \<open>rehypePreserveBareAnchorPlaceholders\<close> against the
  matching of brackets.
\<close>

subsection \<open>Brackets\<close>

type_synonym numbered_event = "nat \<times> anchor_event"

definition closes :: "numbered_event \<Rightarrow> bool" where
  "closes e \<longleftrightarrow> snd e = AnchorClosed"

text \<open>An opening is never closed, if no part of what follows closes more than it opens.\<close>

definition never_closed :: "numbered_event list \<Rightarrow> bool" where
  "never_closed es \<longleftrightarrow> (\<forall>k. length (filter closes (take k es)) \<le> length (filter (\<lambda>e. \<not> closes e) (take k es)))"

definition unclosed :: "numbered_event list \<Rightarrow> nat \<Rightarrow> bool" where
  "unclosed es n \<longleftrightarrow> (\<exists>before later. es = before @ (n, AnchorOpened True) # later \<and> never_closed later)"

text \<open>How many openings before it a list closes.\<close>

fun excess :: "numbered_event list \<Rightarrow> nat" where
  "excess [] = 0"
| "excess (e # es) = (if closes e then Suc (excess es) else excess es - 1)"

lemma excess_le: "excess es \<le> d \<longleftrightarrow>
    (\<forall>k. length (filter closes (take k es)) \<le> length (filter (\<lambda>e. \<not> closes e) (take k es)) + d)"
proof (induction es arbitrary: d)
  case (Cons e es)
  have all: "(\<forall>k. P k) \<longleftrightarrow> P 0 \<and> (\<forall>k. P (Suc k))" for P :: "nat \<Rightarrow> bool" by (metis nat.exhaust)
  show ?case
  proof (cases "closes e")
    case True
    show ?thesis
    proof (cases d)
      case 0
      then show ?thesis using True by (subst all) (auto intro: exI [of _ 0])
    next
      case (Suc c)
      then show ?thesis using True Cons [of c] by (subst all) simp
    qed
  next
    case False
    then show ?thesis using Cons [of "Suc d"] by (subst all) (simp add: le_diff_conv)
  qed
qed simp

lemma never_closed_excess: "never_closed es \<longleftrightarrow> excess es = 0"
  using excess_le [of es 0] by (simp add: never_closed_def)

definition stack_act :: "nat option list \<Rightarrow> numbered_event \<Rightarrow> nat option list" where
  "stack_act anchors e = anchor_event_act (fst e) anchors (snd e)"

fun left_open :: "numbered_event list \<Rightarrow> nat option list" where
  "left_open [] = []"
| "left_open ((n, AnchorClosed) # es) = left_open es"
| "left_open ((n, AnchorOpened bare) # es) = left_open es @ (if excess es = 0 then [if bare then Some n else None] else [])"

lemma stack_run: "foldl stack_act anchors es = left_open es @ drop (excess es) anchors"
proof (induction es arbitrary: anchors rule: left_open.induct)
  case (2 n es)
  then show ?case by (simp add: stack_act_def anchor_event_act_def closes_def drop_Suc)
next
  case (3 n bare es)
  then show ?case by (cases "excess es") (simp_all add: stack_act_def anchor_event_act_def closes_def)
qed simp

lemma left_open_iff: "Some n \<in> set (left_open es) \<longleftrightarrow> unclosed es n"
proof (induction es rule: left_open.induct)
  case 1
  then show ?case by (simp add: unclosed_def)
next
  case (2 m es)
  then show ?case by (auto simp: unclosed_def Cons_eq_append_conv)
next
  case (3 m bare es)
  then show ?case by (auto simp: unclosed_def Cons_eq_append_conv never_closed_excess)
qed

subsection \<open>The events of a tree\<close>

fun tree_events :: "jstr option \<Rightarrow> (nat \<times> hast) list \<Rightarrow> numbered_event list" where
  "tree_events raw [] = []"
| "tree_events raw ((n, node) # nodes) =
     (if hn_type node = js ''raw'' then (case hn_value node of
          None \<Rightarrow> tree_events raw nodes
        | Some v \<Rightarrow> (case scan_tags v raw v of (events, raw') \<Rightarrow> map (Pair n) events @ tree_events raw' nodes))
      else tree_events raw nodes)"

lemma stack_node: "foldl stack_act anchors (map (Pair n) events) = foldl (anchor_event_act n) anchors events"
  by (induction events arbitrary: anchors) (simp_all add: stack_act_def)

lemma visit_events: "fst (foldl visit_node (anchors, raw) nodes) = foldl stack_act anchors (tree_events raw nodes)"
proof (induction raw nodes arbitrary: anchors rule: tree_events.induct)
  case (2 raw n node nodes)
  show ?case
  proof (cases "hn_type node = js ''raw''")
    case True
    show ?thesis
    proof (cases "hn_value node")
      case None
      then show ?thesis using True 2 by (simp add: visit_node_def)
    next
      case (Some v)
      obtain events raw' where "scan_tags v raw v = (events, raw')" by fastforce
      then show ?thesis using True Some 2(2) [OF True Some] by (simp add: visit_node_def stack_node)
    qed
  qed (use 2 in \<open>simp add: visit_node_def\<close>)
qed simp

subsection \<open>Retyping\<close>

lemma preorder_length [simp]: "length (preorder t) = node_count t"
  by (induction t rule: preorder.induct) (simp add: length_concat comp_def cong: map_cong)

lemma retype_preorder:
  "map hn_type (preorder (retype p n t)) = map (\<lambda>(i, x). if p i then js ''text'' else hn_type x) (enumerate n (preorder t))"
  "map hn_type (concat (map preorder (retype_all p n ts)))
     = map (\<lambda>(i, x). if p i then js ''text'' else hn_type x) (enumerate n (concat (map preorder ts)))"
proof (induction p n t and p n ts rule: retype_retype_all.induct)
  case (3 p n x xs)
  then show ?case by (simp add: enumerate_append_eq)
qed (simp_all add: enumerate_simps)

text \<open>
  C36. A bare anchor becomes text exactly if it is never closed. In preorder, the nodes of the tree keep
  their types, except that a raw node which is a lone \<open><a>\<close> tag becomes text where no closing anchor tag
  after it belongs to it, as brackets match, over all tags of all raw nodes.
\<close>

theorem unclosed_anchors_become_text:
  "map hn_type (preorder (preserveBareAnchorPlaceholders tree))
   = map (\<lambda>(n, node). if unclosed (tree_events None (enumerate 0 (preorder tree))) n then js ''text'' else hn_type node)
       (enumerate 0 (preorder tree))"
proof -
  have "Some n \<in> set (fst (foldl visit_node ([], None) (enumerate 0 (preorder tree))))
      \<longleftrightarrow> unclosed (tree_events None (enumerate 0 (preorder tree))) n" for n
    unfolding visit_events stack_run by (simp add: left_open_iff)
  then show ?thesis by (simp add: preserveBareAnchorPlaceholders_def Let_def retype_preorder(1))
qed

text \<open>A node with an opening that counts as bare is that tag and nothing else.\<close>

lemma scan_bare: "scan_tags v raw s = (events, raw') \<Longrightarrow> AnchorOpened True \<in> set events \<Longrightarrow> bare_anchor v"
proof (induction v raw s arbitrary: events raw' rule: scan_tags.induct)
  case (1 v raw s)
  show ?case
  proof (cases raw)
    case (Some name)
    then show ?thesis using 1(2) [OF Some] 1(3,4)
      by (subst (asm) scan_tags.simps) (auto split: if_splits option.splits)
  next
    case None
    obtain tag rest ev r later r'' where t: "next_tag s = Some (tag, rest)" "tag_effect v tag = (ev, r)" "scan_tags v r rest = (later, r'')"
      and e: "events = ev @ later"
      using 1(3,4) None by (subst (asm) scan_tags.simps) (auto simp: Let_def split: option.splits prod.splits)
    show ?thesis
    proof (cases "AnchorOpened True \<in> set later")
      case True
      then show ?thesis using 1(1) [OF None t(1) refl t(2) [symmetric] refl] t(3) by blast
    next
      case False
      then have "AnchorOpened True \<in> set ev" using 1(4) e by simp
      then show ?thesis using t(2) by (auto simp: tag_effect_def split: if_splits option.splits)
    qed
  qed
qed

subsection \<open>The gutter of ordered lists\<close>

definition digits_value :: "jstr \<Rightarrow> int" where
  "digits_value ds = foldl (\<lambda>n u. 10 * n + (int (unat u) - 48)) 0 ds"

lemma digit_unit: "n < 10 \<Longrightarrow> is_digit (48 + word_of_nat n) \<and> uint (48 + word_of_nat n :: code_unit) = 48 + int n"
proof -
  assume "n < 10"
  then have "n = 0 \<or> n = 1 \<or> n = 2 \<or> n = 3 \<or> n = 4 \<or> n = 5 \<or> n = 6 \<or> n = 7 \<or> n = 8 \<or> n = 9" by arith
  then show ?thesis by (elim disjE) (simp_all add: is_digit_def)
qed

lemma decimal_digits: "list_all is_digit (decimal n) \<and> decimal n \<noteq> [] \<and> digits_value (decimal n) = int n"
proof (induction n rule: decimal.induct)
  case (1 n)
  show ?case
  proof (cases "n < 10")
    case True
    then show ?thesis using digit_unit by (subst (1 2 3) decimal.simps) (simp add: digits_value_def)
  next
    case False
    note d = digit_unit [of "n mod 10"]
    have "int n = 10 * int (n div 10) + int (n mod 10)" by (metis mult_div_mod_eq of_nat_add of_nat_mult of_nat_numeral)
    then show ?thesis using 1 False d by (subst (1 2 3) decimal.simps) (simp add: digits_value_def)
  qed
qed

lemma decimal_mono: "n \<le> m \<Longrightarrow> length (decimal n) \<le> length (decimal m)"
proof (induction m arbitrary: n rule: decimal.induct)
  case (1 m)
  show ?case
  proof (cases "n < 10")
    case True
    have "decimal m \<noteq> []" using decimal_digits by blast
    then show ?thesis using True by (subst decimal.simps) (simp add: Suc_le_eq)
  next
    case False
    then have "\<not> m < 10" "length (decimal (n div 10)) \<le> length (decimal (m div 10))" using 1 div_le_mono by auto
    then show ?thesis using False by (subst (1 2) decimal.simps) simp
  qed
qed

lemma decimal_bound: "n < 10 ^ Suc k \<Longrightarrow> length (decimal n) \<le> Suc k"
proof (induction k arbitrary: n)
  case 0
  then show ?case by (subst decimal.simps) simp
next
  case (Suc k)
  then have "n div 10 < 10 ^ Suc k" by (simp add: less_mult_imp_div_less mult.commute)
  then show ?case using Suc.IH by (subst decimal.simps) auto
qed

definition list_number :: "int \<Rightarrow> bool" where \<comment> \<open>exact in the code\<close>
  "list_number i \<longleftrightarrow> \<bar>i\<bar> \<le> max_safe"

lemma whole_decimal: "n \<le> nat max_safe \<Longrightarrow> whole_text n = decimal n"
proof -
  assume "n \<le> nat max_safe"
  then have "n < 10 ^ Suc 19" by (simp add: max_safe_def)
  then have "length (decimal n) \<le> 20" using decimal_bound [of n 19] by simp
  then show ?thesis by (simp add: whole_text_def)
qed

lemma printed_number:
  "list_number i \<Longrightarrow> number_text (IntNum i) = (if i < 0 then 45 # decimal (nat (- i)) else decimal (nat i))"
  by (auto simp: number_text_def signed_text_def list_number_def whole_decimal)

lemma parse_printed: "list_number i \<Longrightarrow> parse_int (number_text (IntNum i)) = Some i"
proof -
  assume i: "list_number i"
  let ?ds = "decimal (nat \<bar>i\<bar>)"
  have d: "list_all is_digit ?ds" "?ds \<noteq> []" "digits_value ?ds = \<bar>i\<bar>" using decimal_digits [of "nat \<bar>i\<bar>"] by auto
  have t: "takeWhile is_digit ?ds = ?ds" using d(1) by (simp add: list_all_iff takeWhile_eq_all_conv)
  obtain u us where u: "?ds = u # us" using d(2) by (cases ?ds) auto
  then have c: "\<not> is_space u" "u \<noteq> 45" "u \<noteq> 43" using d(1) by (auto simp: is_digit_def is_space_def word_le_nat_alt)
  show ?thesis
  proof (cases "i < 0")
    case True
    then have a: "nat \<bar>i\<bar> = nat (- i)" by simp
    have "\<not> is_space 45" by (simp add: is_space_def)
    then show ?thesis using True d(2,3) [unfolded a] unfolding printed_number [OF i]
      by (simp add: parse_int_def trimStart_def digits_value_def Let_def t [unfolded a])
  next
    case False
    have us: "takeWhile is_digit us = us" using t u by (simp split: if_splits)
    show ?thesis using False d c u unfolding printed_number [OF i]
      by (simp add: parse_int_def trimStart_def digits_value_def Let_def us)
  qed
qed

text \<open>
  The gutter fits every marker. For a list that starts at an integer, no number of the list is wider
  than the width from which the gutter is computed, and without a gutter all of them have one digit.
\<close>

theorem gutter_fits_every_marker:
  assumes "list_number i" and "list_number (i + int itemCount)" and "k < itemCount"
  shows "length (number_text (IntNum (i + int k))) \<le> marker_width itemCount (Some (IntNum i))
     \<and> (orderedListGutterStyle itemCount (Some (IntNum i)) = None \<longrightarrow> length (number_text (IntNum (i + int k))) = 1)"
proof -
  have l: "list_number (i + int (itemCount - 1))" "list_number (i + int k)" using assms by (auto simp: list_number_def)
  have m: "marker_width itemCount (Some (IntNum i)) = max (length (number_text (IntNum i))) (length (number_text (IntNum (i + int (itemCount - 1)))))"
    by (simp add: marker_width_def Let_def parse_printed [OF assms(1)])
  have w: "length (number_text (IntNum (i + int k))) \<le> marker_width itemCount (Some (IntNum i))"
  proof (cases "i + int k < 0")
    case True
    then have "nat (- (i + int k)) \<le> nat (- i)" "i < 0" by auto
    then show ?thesis using True decimal_mono [of "nat (- (i + int k))" "nat (- i)"]
      unfolding m printed_number [OF assms(1)] printed_number [OF l(2)] by simp
  next
    case False
    then have "nat (i + int k) \<le> nat (i + int (itemCount - 1))" "\<not> i + int (itemCount - 1) < 0" using assms(3) by auto
    then show ?thesis using False decimal_mono [of "nat (i + int k)" "nat (i + int (itemCount - 1))"]
      unfolding m printed_number [OF l(1)] printed_number [OF l(2)] by (simp add: le_max_iff_disj)
  qed
  have "number_text (IntNum (i + int k)) \<noteq> []" unfolding printed_number [OF l(2)] using decimal_digits by auto
  then have "Suc 0 \<le> length (number_text (IntNum (i + int k)))" by (cases "number_text (IntNum (i + int k))") auto
  then show ?thesis using w by (auto simp: orderedListGutterStyle_def split: if_splits)
qed

theorem gutter_fits_every_marker_witness:
  "length (number_text (IntNum 12)) \<le> marker_width 5 (Some (IntNum 8)) \<and> list_number 8"
proof -
  have l: "list_number 8" "list_number (8 + int 5)" "4 < (5 :: nat)" by (simp_all add: list_number_def max_safe_def)
  show ?thesis using gutter_fits_every_marker [OF l] l(1) by simp
qed

end
