(* ===== verification/Row_Views.thy ===== *)
theory Row_Views
  imports Timeline_View Conversation_Items Settings_Editor Composer_Controls
begin

text \<open>
  What the remaining components show: the rows of the timeline and the comparison that skips their
  renders (\<open>upstream/t3/MessagesTimeline.tsx\<close>), \<open>DecisionCard.tsx\<close>, \<open>AgentToolImages.tsx\<close>,
  \<open>upstream/t3/MessageCopyButton.tsx\<close>, the list of providers (\<open>upstream/t3/settings/ProviderSettingsPanel.tsx\<close>),
  the login status of \<open>AgentProviderSettings.tsx\<close> and the row variants of \<open>ProviderSettingsForm.tsx\<close>.
\<close>

subsection \<open>Timeline rows\<close>

definition timeline_item_id :: "timeline_item \<Rightarrow> jstr" where \<comment> \<open>\<open>timelineItemKey\<close>\<close>
  "timeline_item_id item = (case item of
       Message m \<Rightarrow> tm_id m | Work w \<Rightarrow> tw_id w | Plan p \<Rightarrow> tp_id p | Custom c \<Rightarrow> tc_id c)"

definition timelineItemKind :: "timeline_item \<Rightarrow> jstr" where
  "timelineItemKind item = (case item of
       Message m \<Rightarrow> js ''message:'' @ js (role_name (tm_role m))
     | Work _ \<Rightarrow> js ''work'' | Plan _ \<Rightarrow> js ''plan'' | Custom _ \<Rightarrow> js ''custom'')"

text \<open>Whether a response streams, which makes the scroll to the end smooth.\<close>

definition timeline_streaming :: "timeline_item list \<Rightarrow> bool" where
  "timeline_streaming items = list_ex (\<lambda>item. case item of Message m \<Rightarrow> tm_streaming m = Some True | _ \<Rightarrow> False) items"

text \<open>A row; what a custom row shows belongs to the host and stands for its item.\<close>

datatype row_content =
    CustomContent timeline_custom
  | UserContent message_row jstr "(jstr \<times> jstr) option" \<comment> \<open>with the identity of its parts and the retry\<close>
  | AssistantContent message_row jstr
  | WorkContent timeline_work
  | PlanContent jstr bool

definition timeline_row :: "date_parser \<Rightarrow> jstr \<Rightarrow> timeline_item \<Rightarrow> jstr \<times> row_content" where
  "timeline_row dp identity item = (identity @ js '':'' @ timeline_item_id item, case item of
       Custom c \<Rightarrow> CustomContent c
     | Message m \<Rightarrow> if tm_role m = UserRole then UserContent (user_row dp m) (tm_id m) (tm_retry m) else AssistantContent (assistant_row dp m) (tm_id m)
     | Work w \<Rightarrow> WorkContent w
     | Plan p \<Rightarrow> PlanContent (tp_text p) (tp_truncated p))"

text \<open>
  The comparison: \<open>same\<close> whether the items are one object, \<open>sameDelivery\<close> and \<open>sameRetry\<close> whether those
  members are.
\<close>

definition row_unchanged :: "bool \<Rightarrow> bool \<Rightarrow> bool \<Rightarrow> jstr \<Rightarrow> jstr \<Rightarrow> timeline_item \<Rightarrow> timeline_item \<Rightarrow> bool" where
  "row_unchanged same sameDelivery sameRetry identity identity' previous following =
     (if identity \<noteq> identity' then False
      else if same then True
      else case (previous, following) of
          (Message a, Message b) \<Rightarrow> tm_id a = tm_id b \<and> tm_role a = tm_role b \<and> tm_text a = tm_text b
            \<and> tm_createdAt a = tm_createdAt b \<and> tm_updatedAt a = tm_updatedAt b \<and> tm_streaming a = tm_streaming b
            \<and> tm_truncated a = tm_truncated b \<and> tm_optimistic a = tm_optimistic b \<and> sameDelivery \<and> sameRetry
        | _ \<Rightarrow> False)"

text \<open>\<open>MessageRetry\<close>: its busy flag is that of the render.\<close>

record retry_state =
  rs_busy :: bool
  rs_error :: jstr

definition retry_clicked :: "retry_state \<Rightarrow> retry_state \<Rightarrow> retry_state \<times> bool" where \<comment> \<open>whether the call is made\<close>
  "retry_clicked shown s = (if rs_busy shown then (s, False) else (s\<lparr>rs_busy := True, rs_error := []\<rparr>, True))"

definition retry_settled :: "jstr option \<Rightarrow> retry_state \<Rightarrow> retry_state" where
  "retry_settled failure s = (case failure of None \<Rightarrow> s | Some message \<Rightarrow> s\<lparr>rs_error := message\<rparr>)\<lparr>rs_busy := False\<rparr>"

text \<open>\<open>MessageCopyButton\<close>: the clipboard answers with nothing or with the message of its error, if it has one.\<close>

record copy_state =
  cy_copied :: bool
  cy_error :: jstr

definition copy_settled :: "jstr option option \<Rightarrow> copy_state \<Rightarrow> copy_state" where
  "copy_settled failure s = (case failure of
       None \<Rightarrow> s\<lparr>cy_copied := True, cy_error := []\<rparr>
     | Some message \<Rightarrow> s\<lparr>cy_error := get_or (js ''Unable to copy'') message\<rparr>)"

definition copy_label :: "copy_state \<Rightarrow> jstr" where
  "copy_label s = (if cy_error s \<noteq> [] then cy_error s else if cy_copied s then js ''Copied'' else js ''Copy message'')"

subsection \<open>Cards and images\<close>

record card_frame =
  cf_label :: "jstr option"
  cf_role :: jstr
  cf_id :: jstr
  cf_state :: card_state
  cf_busy :: bool
  cf_time :: "jstr option"
  cf_body :: bool
  cf_details :: "jstr option" \<comment> \<open>their label\<close>
  cf_status :: bool
  cf_actions :: bool

text \<open>\<open>DecisionCard\<close> for a title that is a text, with what the host passes as nodes reduced to its presence.\<close>

definition decision_card_frame ::
  "jstr \<Rightarrow> jstr \<Rightarrow> jstr option \<Rightarrow> card_state option \<Rightarrow> jstr option \<Rightarrow> jstr option \<Rightarrow> jstr option \<Rightarrow> jstr option
     \<Rightarrow> bool \<Rightarrow> bool \<Rightarrow> bool \<Rightarrow> bool \<Rightarrow> card_frame" where
  "decision_card_frame identity title label state timestamp roleAttribute idAttribute detailsLabel hasBody hasDetails hasStatus hasActions =
     \<lparr>cf_label = Some (get_or title label), cf_role = get_or (js ''decision-card'') roleAttribute, cf_id = get_or identity idAttribute,
      cf_state = get_or CardPending state, cf_busy = (get_or CardPending state = CardSubmitted), cf_time = kept timestamp,
      cf_body = hasBody, cf_details = (if hasDetails then Some (get_or (js ''Details'') detailsLabel) else None),
      cf_status = hasStatus, cf_actions = hasActions\<rparr>"

text \<open>\<open>AgentToolImages\<close>: identity, source, label, size and the time it was observed.\<close>

definition tool_figures :: "jstr \<Rightarrow> tool_image list \<Rightarrow> (jstr \<times> jstr \<times> jstr \<times> int \<times> int \<times> jstr option) list" where
  "tool_figures identity images = map (\<lambda>(index, image). (identity @ js '':'' @ number_text (IntNum (int index)),
     ti_src image, ti_label image, ti_width image, ti_height image, kept (ti_observedAt image))) (enumerate 0 images)"

subsection \<open>Providers\<close>

definition provider_availability :: "agent_locale \<Rightarrow> provider_configuration \<Rightarrow> jstr" where
  "provider_availability loc p =
     (if \<not> pc_enabled p then (case loc of Zh \<Rightarrow> [24050, 20572, 29992] | En \<Rightarrow> js ''Disabled'')
      else if pc_available p then (case loc of Zh \<Rightarrow> [21487, 29992] | En \<Rightarrow> js ''Available'')
      else if truthy (pc_detail p) then get_or [] (pc_detail p)
      else (case loc of Zh \<Rightarrow> [19981, 21487, 29992] | En \<Rightarrow> js ''Unavailable''))"

definition provider_list :: "agent_locale \<Rightarrow> jstr \<Rightarrow> provider_configuration list \<Rightarrow> (jstr \<times> bool \<times> jstr \<times> jstr) list" where
  "provider_list loc selectedId ps =
     map (\<lambda>p. (pc_id p, selectedId = pc_id p, js (provider_label (pc_provider p)), provider_availability loc p)) ps"

definition login_line :: "agent_locale \<Rightarrow> provider_configuration \<Rightarrow> jstr" where
  "login_line loc p =
     (case fst (pc_login p) of
        Exactly Authenticated \<Rightarrow> (case loc of Zh \<Rightarrow> [24050, 30331, 24405] | En \<Rightarrow> js ''Signed in'')
      | Exactly Unauthenticated \<Rightarrow> (case loc of Zh \<Rightarrow> [26410, 30331, 24405] | En \<Rightarrow> js ''Not signed in'')
      | _ \<Rightarrow> (case loc of Zh \<Rightarrow> [30331, 24405, 29366, 24577, 26410, 30693] | En \<Rightarrow> js ''Login status unknown''))
     @ (if snd (pc_login p) \<noteq> [] then [32, 183, 32] @ snd (pc_login p) else [])
     @ (if pc_available p \<and> pc_version p \<noteq> [] then [32, 183, 32] @ pc_version p else [])"

subsection \<open>Form rows\<close>

datatype form_variant = CardVariant | DialogVariant | SettingsVariant

text \<open>Only a text of the variant \<open>card\<close> buffers its draft; every other control reports each change.\<close>

datatype form_control = Immediate control_view | Buffered bool jstr

record form_line =
  fl_id :: jstr
  fl_label :: jstr
  fl_labels :: bool \<comment> \<open>whether the label is a \<open>label\<close> of the control\<close>
  fl_description :: "jstr option"
  fl_describedBy :: "jstr option"
  fl_placeholder :: "jstr option"
  fl_control :: form_control

definition line_id :: "jstr \<Rightarrow> field_model \<Rightarrow> jstr" where
  "line_id idPrefix f = idPrefix @ js ''-'' @ fm_key f"

definition line_placeholder :: "field_model \<Rightarrow> jstr option" where
  "line_placeholder f = (case fm_control f of SwitchField \<Rightarrow> None | SelectField \<Rightarrow> None | _ \<Rightarrow> fm_placeholder f)"

definition settings_line :: "jstr \<Rightarrow> field_model \<Rightarrow> unknown \<Rightarrow> form_line" where
  "settings_line idPrefix f config =
     \<lparr>fl_id = line_id idPrefix f, fl_label = fm_label f, fl_labels = (fm_control f \<noteq> SwitchField), fl_description = kept (fm_description f),
      fl_describedBy = (if fm_control f = SelectField \<or> kept (fm_description f) = None then None
        else Some (line_id idPrefix f @ js ''-description'')),
      fl_placeholder = line_placeholder f, fl_control = Immediate (row_control f config)\<rparr>"

definition plain_line :: "bool \<Rightarrow> jstr \<Rightarrow> field_model \<Rightarrow> unknown \<Rightarrow> form_line" where \<comment> \<open>whether it is a card\<close>
  "plain_line isCard idPrefix f config =
     \<lparr>fl_id = line_id idPrefix f, fl_label = fm_label f, fl_labels = (fm_control f \<noteq> SwitchField), fl_description = kept (fm_description f),
      fl_describedBy = None, fl_placeholder = line_placeholder f,
      fl_control = (if isCard \<and> fm_control f \<in> {TextField, PasswordField}
        then Buffered (fm_control f = PasswordField) (readProviderConfigString config (fm_key f))
        else Immediate (row_control f config))\<rparr>"

definition form_row :: "form_variant \<Rightarrow> jstr \<Rightarrow> field_model \<Rightarrow> unknown \<Rightarrow> form_line" where
  "form_row variant idPrefix f config = (case variant of
       SettingsVariant \<Rightarrow> settings_line idPrefix f config
     | CardVariant \<Rightarrow> plain_line True idPrefix f config
     | DialogVariant \<Rightarrow> plain_line False idPrefix f config)"

definition provider_form :: "form_variant \<Rightarrow> jstr \<Rightarrow> field_model list \<Rightarrow> unknown \<Rightarrow> form_line list" where
  "provider_form variant idPrefix rows config = map (\<lambda>f. form_row variant idPrefix f config) rows"

text \<open>What a changed control reports.\<close>

definition form_changed :: "unknown \<Rightarrow> field_model \<Rightarrow> field_value \<Rightarrow> js_object option" where
  "form_changed config f value = (case (fm_control f, value) of
       (SelectField, TextValue t) \<Rightarrow> select_changed config f t
     | _ \<Rightarrow> nextProviderConfigWithFieldValue config f value)"

subsection \<open>The settings editor as it is shown\<close>

record settings_section =
  sv_title :: jstr
  sv_refresh :: "bool option" \<comment> \<open>a button if there is one, and whether it is disabled\<close>
  sv_login :: jstr
  sv_authenticated :: bool
  sv_disabled :: bool
  sv_form :: "form_line list"
  sv_save :: "bool option"
  sv_discard :: "bool option"
  sv_error :: "jstr option"
  sv_status :: jstr

definition editor_select :: "jstr \<Rightarrow> editor \<Rightarrow> editor" where
  "editor_select i s = s\<lparr>ed_selected := i\<rparr>"

definition shown_section :: "agent_locale \<Rightarrow> editor_props \<Rightarrow> editor \<Rightarrow> provider_configuration \<Rightarrow> settings_section" where
  "shown_section loc p s c =
     (let zh = (loc = Zh); locked = editor_locked p s; config = edited_config s c;
          undrafted = (edited_draft s c = Missing); message = prop_get (ed_messages s) (pc_id c);
          failure = Option.bind message (\<lambda>m. kept (sm_error m))
      in \<lparr>sv_title = js (provider_label (pc_provider c)), sv_refresh = (if ep_canRefresh p then Some locked else None),
          sv_login = login_line loc c, sv_authenticated = (fst (pc_login c) = Exactly Authenticated),
          sv_disabled = (locked \<or> \<not> ep_canSave p),
          sv_form = provider_form SettingsVariant (pc_id c) (fieldsFor c config zh) (Some (JObj config)),
          sv_save = (if ep_canSave p then Some (locked \<or> undrafted) else None),
          sv_discard = (if ep_canSave p then Some (locked \<or> undrafted) else None),
          sv_error = failure,
          sv_status = (if failure = None \<and> Option.bind message sm_saved = Some True
            then in_locale zh ''Saved'' [24050, 20445, 23384] else [])\<rparr>)"

definition editor_view :: "agent_locale \<Rightarrow> editor_props \<Rightarrow> editor \<Rightarrow> (jstr \<times> bool \<times> jstr \<times> jstr) list \<times> settings_section option" where
  "editor_view loc p s =
     (provider_list loc (case edited_provider p s of Some c \<Rightarrow> pc_id c | None \<Rightarrow> []) (as_providers (ep_settings p)),
      map_option (shown_section loc p s) (edited_provider p s))"

end
