(* ===== verification/Row_Properties.thy ===== *)
theory Row_Properties
  imports Row_Views Editor_Properties
begin

text \<open>
  The comparison that skips the render of a row skips no change of what the row shows, and the settings
  form shows each edit where it was made and nowhere else.
\<close>

text \<open>
  C38. A skipped row is current. Where the comparison of two renders of a row says that nothing changed,
  the row shows the same in both: every member that a row reads is compared. Members compared as
  objects are equal where they are one object.
\<close>

theorem skipped_rows_are_current:
  assumes "row_unchanged same sameDelivery sameRetry identity identity' previous following"
    and "same \<Longrightarrow> previous = following"
    and "\<And>a b. previous = Message a \<Longrightarrow> following = Message b \<Longrightarrow> sameDelivery \<Longrightarrow> tm_delivery a = tm_delivery b"
    and "\<And>a b. previous = Message a \<Longrightarrow> following = Message b \<Longrightarrow> sameRetry \<Longrightarrow> tm_retry a = tm_retry b"
  shows "timeline_row dp identity previous = timeline_row dp identity' following"
proof (cases same)
  case True
  then show ?thesis using assms(1,2) by (simp add: row_unchanged_def split: if_splits)
next
  case False
  then obtain a b where m: "previous = Message a" "following = Message b"
    using assms(1) by (auto simp: row_unchanged_def split: if_splits timeline_item.splits)
  then show ?thesis using assms(1) assms(3) [OF m] assms(4) [OF m] False
    by (auto simp: row_unchanged_def timeline_row_def timeline_item_id_def user_row_def assistant_row_def split: if_splits)
qed

definition sample_message :: timeline_message where
  "sample_message = \<lparr>tm_id = js ''m'', tm_role = AssistantRole, tm_text = js ''t'', tm_createdAt = None, tm_updatedAt = None,
     tm_streaming = None, tm_truncated = None, tm_delivery = None, tm_optimistic = False, tm_retry = None\<rparr>"

theorem skipped_rows_are_current_witness:
  "row_unchanged False True True [] [] (Message sample_message) (Message (sample_message\<lparr>tm_text := js ''t''\<rparr>))
   \<and> timeline_row (\<lambda>_. None) [] (Message sample_message) = timeline_row (\<lambda>_. None) [] (Message (sample_message\<lparr>tm_text := js ''t''\<rparr>))"
proof -
  have u: "row_unchanged False True True [] [] (Message sample_message) (Message (sample_message\<lparr>tm_text := js ''t''\<rparr>))"
    by (simp add: row_unchanged_def sample_message_def)
  show ?thesis using u skipped_rows_are_current [OF u, of "\<lambda>_. None"] by (auto simp: sample_message_def)
qed

subsection \<open>The settings form\<close>

lemma form_keys:
  assumes "f \<in> set (fieldsFor c config zh)"
  shows "fm_key f \<in> js ` {''enabled'', ''binaryPath'', ''model'', ''effort'', ''permission''}"
  using assms by (auto simp: fieldsFor_def choice_field_def split: option.splits if_splits)

lemma form_key_plain: "k \<in> js ` {''enabled'', ''binaryPath'', ''model'', ''effort'', ''permission''} \<Longrightarrow> k \<noteq> js ''__proto__''"
  by (auto simp: js_def)

lemma get_or_nonempty: "get_or [] (if 0 < length ps then Some ps else None) = ps"
  by (cases ps) auto

definition clears :: "field_model \<Rightarrow> field_value \<Rightarrow> bool" where
  "clears f value = (case value of
       BoolValue b \<Rightarrow> fm_clearWhenEmpty f = OmitEmpty \<and> b = get_or False (fm_defaultBoolean f)
     | TextValue t \<Rightarrow> fm_clearWhenEmpty f = OmitEmpty \<and> length (trim t) = 0)"

definition json_value :: "field_value \<Rightarrow> json" where
  "json_value value = (case value of BoolValue b \<Rightarrow> JBool b | TextValue t \<Rightarrow> JStr t)"

lemma next_value:
  "get_or [] (nextProviderConfigWithFieldValue (Some (JObj config)) f value) =
     (if clears f value then prop_delete (fm_key f) config else prop_assign (fm_key f) (json_value value) config)"
  unfolding nextProviderConfigWithFieldValue_def Let_def get_or_nonempty
  by (simp add: config_entries_def clears_def json_value_def)

text \<open>What a key holds after an edit.\<close>

lemma edited_lookup:
  assumes "fm_key f \<noteq> js ''__proto__''"
  shows "prop_get (edited_next config (nextProviderConfigWithFieldValue (Some (JObj config)) f value)) k =
     (if k = fm_key f then if clears f value then None else Some (json_value value)
      else if k = js ''effort'' \<and> fm_key f = js ''model'' \<and>
          (if clears f value then None else Some (json_value value)) \<noteq> prop_get config (js ''model'') then None
      else prop_get config k)"
  using assms keys_differ(8)
  by (auto simp: edited_next_def next_value field_def prop_assign_def Let_def)

text \<open>What a control shows for a value that was entered in it.\<close>

definition entered :: "field_model \<Rightarrow> field_value \<Rightarrow> control_view option" where
  "entered f value = (case (fm_control f, value) of
       (SwitchField, BoolValue b) \<Rightarrow> Some (SwitchControl b)
     | (TextField, TextValue t) \<Rightarrow> Some (InputControl False t)
     | (SelectField, TextValue t) \<Rightarrow> if t \<noteq> [] \<and> trim t = [] then None
         else Some (SelectControl t (case find (\<lambda>(v, _). v = t) (get_or [] (fm_options f)) of Some (_, l) \<Rightarrow> l | None \<Rightarrow> t) (get_or [] (fm_options f)))
     | _ \<Rightarrow> None)"

lemma form_field_kinds:
  assumes "f \<in> set (fieldsFor c config zh)"
  shows "(fm_control f = SwitchField \<and> fm_clearWhenEmpty f = PersistEmpty) \<or> (fm_control f = TextField \<and> fm_clearWhenEmpty f = PersistEmpty)
     \<or> (fm_control f = SelectField \<and> fm_clearWhenEmpty f = OmitEmpty \<and> select_fallback f = [])"
  using assms by (auto simp: fieldsFor_def choice_field_def select_fallback_def split: option.splits if_splits)

lemma row_control_of_lookup:
  assumes "prop_get config (fm_key f) = prop_get config' (fm_key f)"
  shows "row_control f (Some (JObj config)) = row_control f (Some (JObj config'))"
  using assms
  by (simp add: row_control_def select_shown_def readProviderConfigString_def readProviderConfigBoolean_def Let_def config_entries_def
      cong: field_kind.case_cong)

text \<open>
  C40. The form shows an edit where it was made. After a value was entered in a control of the settings
  form (any text in a text control, an identity that is no white space or the empty default in a
  selection, a position of a switch), that control shows this value, and every other control shows what
  it showed before, except that a changed default model resets the thinking effort.
\<close>

theorem form_shows_the_edit:
  assumes "f \<in> set (fieldsFor c config zh)" and "entered f value = Some shown_value"
    and "g \<in> set (fieldsFor c config zh)" and "fm_key g \<noteq> fm_key f"
    and "fm_key f = js ''model'' \<Longrightarrow> fm_key g \<noteq> js ''effort''"
  shows "row_control f (Some (JObj (edited_next config (form_changed (Some (JObj config)) f value)))) = shown_value
     \<and> row_control g (Some (JObj (edited_next config (form_changed (Some (JObj config)) f value)))) = row_control g (Some (JObj config))"
proof -
  have plain: "fm_key f \<noteq> js ''__proto__''" using form_key_plain [OF form_keys [OF assms(1)]] .
  have changed: "form_changed (Some (JObj config)) f value = nextProviderConfigWithFieldValue (Some (JObj config)) f value"
    using form_field_kinds [OF assms(1)] assms(2)
    by (auto simp: form_changed_def select_changed_def entered_def split: field_kind.splits field_value.splits if_splits)
  note look = edited_lookup [OF plain, of config "value"]
  have own: "row_control f (Some (JObj (edited_next config (nextProviderConfigWithFieldValue (Some (JObj config)) f value)))) = shown_value"
    using form_field_kinds [OF assms(1)] assms(2) look [of "fm_key f"] keys_differ(8)
    by (auto simp: row_control_def entered_def clears_def json_value_def select_shown_def readProviderConfigString_def
        readProviderConfigBoolean_def config_entries_def Let_def trim_eq_Nil_iff split: field_value.splits if_splits cong: option.case_cong)
  have "row_control g (Some (JObj (edited_next config (nextProviderConfigWithFieldValue (Some (JObj config)) f value)))) = row_control g (Some (JObj config))"
    using look [of "fm_key g"] assms(4,5) by (intro row_control_of_lookup) auto
  then show ?thesis using own changed by simp
qed

theorem form_shows_the_edit_witness:
  "\<exists>c. entered (hd (fieldsFor c (configOf c) False)) (BoolValue False) = Some (SwitchControl False)
     \<and> row_control (hd (fieldsFor c (configOf c) False)) (Some (JObj (edited_next (configOf c)
          (form_changed (Some (JObj (configOf c))) (hd (fieldsFor c (configOf c) False)) (BoolValue False))))) = SwitchControl False"
proof -
  obtain c :: provider_configuration where True by blast
  let ?fs = "fieldsFor c (configOf c) False"
  have m: "hd ?fs \<in> set ?fs" "?fs ! 1 \<in> set ?fs" by (simp_all add: fieldsFor_def)
  have e: "entered (hd ?fs) (BoolValue False) = Some (SwitchControl False)" by (simp add: entered_def fieldsFor_def)
  have d: "fm_key (?fs ! 1) \<noteq> fm_key (hd ?fs)" "fm_key (hd ?fs) \<noteq> js ''model''"
    using keys_differ by (auto simp: fieldsFor_def)
  show ?thesis using e form_shows_the_edit [OF m(1) e m(2) d(1)] d(2) by blast
qed

end
