(* ===== verification/Composer_Views.thy ===== *)
theory Composer_Views
  imports Composer_Controls Machine
begin

text \<open>
  What the controls of the composer show, and the model picker as a machine:
  \<open>upstream/t3/ProviderModelPicker.tsx\<close>, \<open>upstream/t3/ComposerOptionControls.tsx\<close> and the row of
  \<open>AgentComposerControls.tsx\<close>.
\<close>

subsection \<open>Identities and icons\<close>

definition within_identity :: "jstr option \<Rightarrow> jstr \<Rightarrow> jstr" where
  "within_identity identityId i = (case kept identityId of None \<Rightarrow> i | Some outer \<Rightarrow> outer @ js '':'' @ i)"

definition profile_or_unselected :: "jstr \<Rightarrow> jstr" where
  "profile_or_unselected profileId = (if profileId \<noteq> [] then profileId else js ''unselected'')"

datatype permission_icon = LockGlyph | PenLineGlyph | LockOpenGlyph

definition permissionIcons :: "permission_icon js_record" where
  "permissionIcons = [(js ''approval-required'', LockGlyph), (js ''auto-accept-edits'', PenLineGlyph), (js ''full-access'', LockOpenGlyph)]"

text \<open>\<open>permissionIcons[value] ?? LockIcon\<close>: what is found for an inherited name is no icon.\<close>

definition permission_icon_of :: "jstr option \<Rightarrow> permission_icon option" where
  "permission_icon_of value = (case member_get permissionIcons (get_or (js ''undefined'') value) of
       Own icon \<Rightarrow> Some icon | Missing \<Rightarrow> Some LockGlyph | Inherited \<Rightarrow> None)"

subsection \<open>The picker\<close>

record picker_trigger =
  pt_label :: jstr
  pt_disabled :: bool
  pt_identity :: jstr
  pt_icon :: "agent_provider option"
  pt_title :: jstr
  pt_tooltip :: jstr
  pt_unavailable :: bool

definition provider_and_model :: "agent_locale \<Rightarrow> jstr" where
  "provider_and_model loc = (case loc of Zh \<Rightarrow> [24037, 20316, 32773, 19982, 27169, 22411] | En \<Rightarrow> js ''Provider and model'')"

definition show_trigger ::
  "agent_locale \<Rightarrow> jstr option \<Rightarrow> bool \<Rightarrow> provider_configuration list \<Rightarrow> jstr \<Rightarrow> jstr option \<Rightarrow> picker_trigger" where
  "show_trigger loc identityId disabled configs profileId model =
     (let entry = find (\<lambda>p. pc_id p = profileId) configs; title = fst (picker_title loc configs profileId model)
      in \<lparr>pt_label = provider_and_model loc, pt_disabled = disabled,
          pt_identity = within_identity identityId (profile_or_unselected profileId), pt_icon = map_option pc_provider entry,
          pt_title = title,
          pt_tooltip = (case entry of Some p \<Rightarrow> js (provider_label (pc_provider p)) @ [32, 183, 32] @ title | None \<Rightarrow> title),
          pt_unavailable = snd (picker_title loc configs profileId model)\<rparr>)"

record picker_content =
  pn_sidebar :: "(jstr \<times> bool \<times> jstr) list" \<comment> \<open>label, whether it is pressed, identity\<close>
  pn_value :: jstr
  pn_items :: "jstr list"
  pn_options :: "(jstr \<times> jstr \<times> jstr \<times> jstr) list" \<comment> \<open>key, model, provider, identity\<close>
  pn_empty :: bool

definition show_content ::
  "lower_case \<Rightarrow> jstr option \<Rightarrow> provider_configuration list \<Rightarrow> jstr \<Rightarrow> jstr option \<Rightarrow> picker_state \<Rightarrow> picker_content" where
  "show_content lower identityId configs profileId model s =
     (let offered = pickable configs; shown_rows = filtered_rows lower offered (pk_selected s) (pk_query s)
      in \<lparr>pn_sidebar = map (\<lambda>p. (js (provider_label (pc_provider p)), pk_selected s = Some (pc_id p), within_identity identityId (pc_id p))) offered,
          pn_value = stringify (JArr [JStr profileId, case model of Some m \<Rightarrow> JStr m | None \<Rightarrow> JNull]),
          pn_items = map pr_key (picker_rows offered),
          pn_options = map (\<lambda>row. (pr_key row, vo_label (pr_model row), js (provider_label (pc_provider (pr_provider row))),
             within_identity identityId (pc_id (pr_provider row) @ js '':'' @ vo_id (pr_model row)))) shown_rows,
          pn_empty = (shown_rows = [])\<rparr>)"

text \<open>
  The machine. The list of the library says which row it highlights and which it was told to choose; a
  key that was typed into the search box acts on the highlighted one.
\<close>

record picker =
  pm_disabled :: bool
  pm_configs :: "provider_configuration list"
  pm_profile :: jstr
  pm_state :: picker_state
  pm_highlighted :: "jstr option"

datatype picker_key = EscapeKey | EnterKey bool \<comment> \<open>whether a composition is under way\<close>

datatype picker_action =
    PickerRendered bool "provider_configuration list" jstr
  | OpenChanged bool
  | SideClicked jstr
  | QueryTyped jstr
  | RowHighlighted "jstr option"
  | RowChosen jstr
  | KeyTyped picker_key

definition mounted_picker :: "bool \<Rightarrow> provider_configuration list \<Rightarrow> jstr \<Rightarrow> picker" where
  "mounted_picker disabled configs profileId =
     \<lparr>pm_disabled = disabled, pm_configs = configs, pm_profile = profileId,
      pm_state = \<lparr>pk_open = False, pk_selected = initial_profile (pickable configs) profileId, pk_query = []\<rparr>, pm_highlighted = None\<rparr>"

definition content_shown :: "picker \<Rightarrow> bool" where
  "content_shown m \<longleftrightarrow> pk_open (pm_state m) \<and> \<not> pm_disabled m"

definition picker_choose :: "lower_case \<Rightarrow> jstr \<Rightarrow> picker \<Rightarrow> picker \<times> (jstr \<times> jstr) option" where
  "picker_choose lower key m =
     (let (s, choice) = picker_select lower (pm_disabled m) (pm_configs m) key (pm_state m) in
      (m\<lparr>pm_state := s, pm_highlighted := (if choice = None then pm_highlighted m else None)\<rparr>, choice))"

definition picker_set_open :: "bool \<Rightarrow> picker \<Rightarrow> picker" where
  "picker_set_open opened m =
     (let s = picker_open (pm_disabled m) (pm_configs m) (pm_profile m) opened (pm_state m) in
      m\<lparr>pm_state := s, pm_highlighted := (if pk_open s = pk_open (pm_state m) then pm_highlighted m else None)\<rparr>)"

definition picker_key_typed :: "lower_case \<Rightarrow> picker_key \<Rightarrow> picker \<Rightarrow> picker \<times> (jstr \<times> jstr) option" where
  "picker_key_typed lower key m = (case key of
       EscapeKey \<Rightarrow> (picker_set_open False m, None)
     | EnterKey composing \<Rightarrow> (case pm_highlighted m of
           Some row \<Rightarrow> if composing \<or> row = [] then (m, None) else picker_choose lower row m
         | None \<Rightarrow> (m, None)))"

definition picker_act :: "lower_case \<Rightarrow> picker_action \<Rightarrow> picker \<Rightarrow> picker \<times> (jstr \<times> jstr) option" where
  "picker_act lower a m = (case a of
       PickerRendered disabled configs profileId \<Rightarrow> (m\<lparr>pm_disabled := disabled, pm_configs := configs, pm_profile := profileId\<rparr>, None)
     | OpenChanged opened \<Rightarrow> (picker_set_open opened m, None)
     | SideClicked i \<Rightarrow> (m\<lparr>pm_state := picker_side i (pm_state m)\<rparr>, None)
     | QueryTyped query \<Rightarrow> (m\<lparr>pm_state := (pm_state m)\<lparr>pk_query := query\<rparr>\<rparr>, None)
     | RowHighlighted row \<Rightarrow> (m\<lparr>pm_highlighted := row\<rparr>, None)
     | RowChosen row \<Rightarrow> picker_choose lower row m
     | KeyTyped key \<Rightarrow> picker_key_typed lower key m)"

text \<open>The trigger and the renders act at any time, the rest only while the content is shown.\<close>

inductive picker_step :: "lower_case \<Rightarrow> picker \<Rightarrow> picker_action \<times> (jstr \<times> jstr) option \<Rightarrow> picker \<Rightarrow> bool" for lower where
  outside: "(case a of PickerRendered _ _ _ \<Rightarrow> True | OpenChanged _ \<Rightarrow> True | _ \<Rightarrow> False) \<Longrightarrow>
    picker_act lower a m = (m', c) \<Longrightarrow> picker_step lower m (a, c) m'"
| inside: "content_shown m \<Longrightarrow> picker_act lower a m = (m', c) \<Longrightarrow> picker_step lower m (a, c) m'"

subsection \<open>The controls for effort and permission\<close>

record option_control =
  oc_name :: jstr
  oc_label :: jstr
  oc_disabled :: bool
  oc_identity :: jstr
  oc_open :: bool
  oc_value :: "jstr option"
  oc_icon :: "permission_icon option"
  oc_tooltip :: jstr
  oc_options :: "(jstr \<times> jstr \<times> jstr \<times> permission_icon option \<times> jstr) list" \<comment> \<open>identity, label, description, icon, identity of the row\<close>

text \<open>\<open>setOpen(!disabled && value)\<close>.\<close>

definition control_opened :: "bool \<Rightarrow> bool \<Rightarrow> bool" where
  "control_opened disabled wanted \<longleftrightarrow> \<not> disabled \<and> wanted"

definition effort_name :: "agent_locale \<Rightarrow> jstr" where
  "effort_name loc = (case loc of En \<Rightarrow> js ''Thinking effort'' | Zh \<Rightarrow> [24605, 32771, 24378, 24230])"

definition permission_name :: "agent_locale \<Rightarrow> jstr" where
  "permission_name loc = (case loc of En \<Rightarrow> js ''Permissions'' | Zh \<Rightarrow> [25191, 34892, 26435, 38480])"

definition permission_control ::
  "agent_locale \<Rightarrow> jstr option \<Rightarrow> jstr \<Rightarrow> permission_option list \<Rightarrow> jstr option \<Rightarrow> bool \<Rightarrow> bool \<Rightarrow> option_control" where
  "permission_control loc identityId profileId offered value disabled opened =
     (let chosen = find (\<lambda>opt. Some (vo_id opt) = value) offered; label = control_label loc (permission_name loc) offered value
      in \<lparr>oc_name = permission_name loc, oc_label = label, oc_disabled = disabled, oc_identity = within_identity identityId profileId,
          oc_open = (opened \<and> \<not> disabled), oc_value = map_option vo_id chosen, oc_icon = permission_icon_of value,
          oc_tooltip = label @ (case Option.bind chosen (\<lambda>opt. kept (Some (po_description opt))) of Some d \<Rightarrow> [32, 183, 32] @ d | None \<Rightarrow> []),
          oc_options = map (\<lambda>opt. (vo_id opt, vo_label opt, po_description opt, permission_icon_of (Some (vo_id opt)),
             within_identity identityId (profileId @ js '':'' @ vo_id opt))) offered\<rparr>)"

definition effort_control ::
  "agent_locale \<Rightarrow> jstr option \<Rightarrow> jstr \<Rightarrow> value_option list \<Rightarrow> jstr option \<Rightarrow> bool \<Rightarrow> bool \<Rightarrow> option_control" where
  "effort_control loc identityId profileId offered value disabled opened =
     (let chosen = find (\<lambda>opt. Some (vo_id opt) = value) offered; label = control_label loc (effort_name loc) offered value
      in \<lparr>oc_name = effort_name loc, oc_label = label, oc_disabled = disabled, oc_identity = within_identity identityId profileId,
          oc_open = (opened \<and> \<not> disabled), oc_value = Some (get_or [] (map_option vo_id chosen)), oc_icon = None,
          oc_tooltip = label,
          oc_options = map (\<lambda>opt. (vo_id opt, vo_label opt, [], None, within_identity identityId (profileId @ js '':'' @ vo_id opt))) offered\<rparr>)"

subsection \<open>The row of controls\<close>

datatype composer_part =
    PickerPart picker_trigger
  | ControlPart option_control
  | DisabledPart jstr jstr jstr jstr \<comment> \<open>name, reason, identity and text\<close>

definition has_model_choices :: "provider_configuration list \<Rightarrow> bool" where
  "has_model_choices configs = list_ex (\<lambda>p. pc_enabled p \<and> pc_available p \<and> 0 < length (pc_models p)) configs"

definition unavailable_reason :: "agent_locale \<Rightarrow> jstr \<Rightarrow> jstr" where
  "unavailable_reason loc disabledReason = (if disabledReason \<noteq> [] then disabledReason
     else (case loc of Zh \<Rightarrow> [24403, 21069, 19981, 21487, 36873, 25321] | En \<Rightarrow> js ''Selection unavailable''))"

definition model_unavailable_reason :: "agent_locale \<Rightarrow> jstr \<Rightarrow> provider_configuration option \<Rightarrow> jstr" where
  "model_unavailable_reason loc disabledReason selected =
     (if map_option (\<lambda>p. length (pc_models p)) selected = Some 0
      then (case loc of Zh \<Rightarrow> [27169, 22411, 30446, 24405, 26410, 35835, 21462] | En \<Rightarrow> js ''Model catalog not loaded'')
      else if disabledReason \<noteq> [] then disabledReason
      else (case loc of Zh \<Rightarrow> [24403, 21069, 19981, 21487, 36873, 25321, 27169, 22411] | En \<Rightarrow> js ''Model selection unavailable''))"

definition model_part :: "agent_locale \<Rightarrow> jstr option \<Rightarrow> jstr \<Rightarrow> composer_props \<Rightarrow> composer_state \<Rightarrow> composer_part" where
  "model_part loc identityId disabledReason p s =
     (let selected = selected_provider p; profileId = sl_profileId (cx_value p); model = opt_model (sl_options (cx_value p)) in
      if has_model_choices (cx_providers p) \<and> (case selected of None \<Rightarrow> True | Some c \<Rightarrow> 0 < length (pc_models c))
      then PickerPart (show_trigger loc identityId (composer_locked p s \<or> map_option pc_enabled selected = Some False)
        (cx_providers p) profileId model)
      else DisabledPart (provider_and_model loc) (model_unavailable_reason loc disabledReason selected)
        (within_identity identityId (profile_or_unselected profileId))
        (get_or (case loc of Zh \<Rightarrow> [20379, 24212, 32773, 40664, 35748, 27169, 22411] | En \<Rightarrow> js ''Provider default model'')
          (or_else (map_option vo_label (selected_model p)) (or_else model (Option.bind selected (\<lambda>c. opt_model (pc_defaults c)))))))"

definition effort_part :: "agent_locale \<Rightarrow> jstr option \<Rightarrow> jstr \<Rightarrow> bool \<Rightarrow> composer_props \<Rightarrow> composer_state \<Rightarrow> composer_part" where
  "effort_part loc identityId disabledReason opened p s = (case (selected_provider p, selected_model p) of
       (Some c, Some m) \<Rightarrow> if mo_efforts m \<noteq> []
         then ControlPart (effort_control loc identityId (pc_id c) (mo_efforts m) (shown_effort p) (provider_locked p s) opened)
         else DisabledPart (effort_name loc) (unavailable_reason loc disabledReason)
           (within_identity identityId (profile_or_unselected (sl_profileId (cx_value p)))) (effort_name loc)
     | _ \<Rightarrow> DisabledPart (effort_name loc) (unavailable_reason loc disabledReason)
           (within_identity identityId (profile_or_unselected (sl_profileId (cx_value p)))) (effort_name loc))"

definition permission_part :: "agent_locale \<Rightarrow> jstr option \<Rightarrow> jstr \<Rightarrow> bool \<Rightarrow> composer_props \<Rightarrow> composer_state \<Rightarrow> composer_part" where
  "permission_part loc identityId disabledReason opened p s =
     (let disabledPart = DisabledPart (permission_name loc) (unavailable_reason loc disabledReason)
           (within_identity identityId (profile_or_unselected (sl_profileId (cx_value p)))) (permission_name loc) in
      case selected_provider p of
        None \<Rightarrow> disabledPart
      | Some c \<Rightarrow> if pc_permissions c \<noteq> []
          then ControlPart (permission_control loc identityId (pc_id c) (pc_permissions c) (shown_permission p) (provider_locked p s) opened)
          else disabledPart)"

definition composer_row ::
  "agent_locale \<Rightarrow> jstr option \<Rightarrow> jstr \<Rightarrow> bool \<Rightarrow> bool \<Rightarrow> composer_props \<Rightarrow> composer_state \<Rightarrow> bool \<times> composer_part list \<times> jstr option" where
  "composer_row loc identityId disabledReason effortOpen permissionOpen p s =
     (\<not> cx_active p,
      [model_part loc identityId disabledReason p s, effort_part loc identityId disabledReason effortOpen p s,
       permission_part loc identityId disabledReason permissionOpen p s],
      kept (Some (cs_error s)))"

end
