(* ===== verification/View_Properties.thy ===== *)
theory View_Properties
  imports Composer_Views Composer_Properties Conversation_Items Presentation_Properties
begin

text \<open>
  The model picker as a machine reports offered models only, and a request that is shown alone is shown
  and answered as in its conversation.
\<close>

subsection \<open>The picker\<close>

definition picker_opens :: "picker_action \<times> (jstr \<times> jstr) option \<Rightarrow> bool" where
  "picker_opens l \<longleftrightarrow> fst l = OpenChanged True"

definition picker_reports :: "picker_action \<times> (jstr \<times> jstr) option \<Rightarrow> bool" where
  "picker_reports l \<longleftrightarrow> snd l \<noteq> None"

lemma picker_choose_cases:
  assumes "picker_choose lower key m = (m', c)"
  shows "(c = None \<and> pk_open (pm_state m') = pk_open (pm_state m))
     \<or> (\<not> pm_disabled m \<and> \<not> pk_open (pm_state m') \<and> c \<noteq> None
        \<and> select_row (filtered_rows lower (pickable (pm_configs m)) (pk_selected (pm_state m)) (pk_query (pm_state m))) key = c)"
proof (cases "select_row (filtered_rows lower (pickable (pm_configs m)) (pk_selected (pm_state m)) (pk_query (pm_state m))) key")
  case None
  then show ?thesis using assms by (auto simp: picker_choose_def picker_select_def)
next
  case (Some choice)
  then show ?thesis using assms by (auto simp: picker_choose_def picker_select_def Some split: if_splits)
qed

lemma select_row_member: "select_row rows key = Some choice \<Longrightarrow> \<exists>row \<in> set rows. choice = (pc_id (pr_provider row), vo_id (pr_model row))"
  by (force simp: select_row_def find_Some_iff)

lemma picker_set_open_state: "pk_open (pm_state (picker_set_open opened m)) \<longleftrightarrow> \<not> pm_disabled m \<and> opened"
  by (auto simp: picker_set_open_def picker_open_def Let_def)

lemma picker_act_cases:
  assumes "picker_act lower a m = (m', c)"
  shows "(c = None \<and> (pk_open (pm_state m') \<longrightarrow> pk_open (pm_state m) \<or> a = OpenChanged True))
     \<or> (\<exists>key. picker_choose lower key m = (m', c) \<and> c \<noteq> None \<and> (\<forall>opened. a \<noteq> OpenChanged opened) \<and> (\<forall>d cs i. a \<noteq> PickerRendered d cs i))"
proof -
  have choose: "?thesis" if "picker_choose lower key m = (m', c)" "\<forall>opened. a \<noteq> OpenChanged opened" "\<forall>d cs i. a \<noteq> PickerRendered d cs i" for key
    using that picker_choose_cases [OF that(1)] by (cases c) auto
  show ?thesis
  proof (cases a)
    case (RowChosen row)
    then show ?thesis using choose [of row] assms by (simp add: picker_act_def)
  next
    case (KeyTyped key)
    then show ?thesis using choose [of "the (pm_highlighted m)"] assms
      by (cases key) (auto simp: picker_act_def picker_key_typed_def picker_set_open_state split: option.splits if_splits)
  qed (use assms in \<open>auto simp: picker_act_def picker_set_open_state picker_side_def\<close>)
qed

lemma picker_step_cases:
  assumes "picker_step lower m (a, c) m'"
  shows "(c = None \<and> (pk_open (pm_state m') \<longrightarrow> pk_open (pm_state m) \<or> a = OpenChanged True))
     \<or> (content_shown m \<and> (\<exists>key. picker_choose lower key m = (m', c)) \<and> c \<noteq> None)"
  using assms
proof (cases rule: picker_step.cases)
  case outside
  then show ?thesis using picker_act_cases [OF outside(2)] by (cases a) auto
next
  case inside
  then show ?thesis using picker_act_cases [OF inside(2)] by blast
qed

lemma picker_counts:
  "runs (picker_step lower) m ls m' \<Longrightarrow>
     length (filter picker_reports ls) + (if pk_open (pm_state m') then 1 else 0)
       \<le> length (filter picker_opens ls) + (if pk_open (pm_state m) then 1 else 0)"
proof (induction rule: runs.induct)
  case (step m ls m' l m'')
  obtain a c where l: "l = (a, c)" by fastforce
  have "(c = None \<and> (pk_open (pm_state m'') \<longrightarrow> pk_open (pm_state m') \<or> a = OpenChanged True))
     \<or> (pk_open (pm_state m') \<and> \<not> pk_open (pm_state m'') \<and> c \<noteq> None)"
    using picker_step_cases [OF step.hyps(2) [unfolded l]] picker_choose_cases by (fastforce simp: content_shown_def)
  then show ?case using step.IH by (auto simp: l picker_reports_def picker_opens_def split: if_splits)
qed simp

lemma pickable_row:
  assumes "row \<in> set (filtered_rows lower (pickable configs) sel q)"
  shows "pr_provider row \<in> set configs \<and> pc_enabled (pr_provider row) \<and> pc_available (pr_provider row)
     \<and> pr_model row \<in> set (pc_models (pr_provider row))"
  using filtered_row [OF assms] by (auto simp: pickable_def)

text \<open>
  C34. The picker reports what it offers. However the operator opens and closes it, types, highlights rows
  and presses keys while the host renders other providers, each report comes from a row that is listed
  then, of a provider that is enabled and available and a model of that provider; it comes only while
  the enabled picker is open, closes it, and so each opening gives one report at most.
\<close>

theorem picker_reports_offered_models:
  assumes "runs (picker_step lower) (mounted_picker disabled configs profileId) ls m"
  shows "length (filter picker_reports ls) + (if pk_open (pm_state m) then 1 else 0) \<le> length (filter picker_opens ls)
     \<and> (\<forall>a choice m'. picker_step lower m (a, Some choice) m' \<longrightarrow> content_shown m \<and> \<not> pk_open (pm_state m')
        \<and> (\<exists>row \<in> set (filtered_rows lower (pickable (pm_configs m)) (pk_selected (pm_state m)) (pk_query (pm_state m))).
            choice = (pc_id (pr_provider row), vo_id (pr_model row)) \<and> pr_provider row \<in> set (pm_configs m)
            \<and> pc_enabled (pr_provider row) \<and> pc_available (pr_provider row) \<and> pr_model row \<in> set (pc_models (pr_provider row))))"
proof (intro conjI allI impI)
  show "length (filter picker_reports ls) + (if pk_open (pm_state m) then 1 else 0) \<le> length (filter picker_opens ls)"
    using picker_counts [OF assms] by (simp add: mounted_picker_def)
  fix a choice m'
  assume step: "picker_step lower m (a, Some choice) m'"
  then obtain key where key: "content_shown m" "picker_choose lower key m = (m', Some choice)"
    using picker_step_cases by blast
  then have chosen: "\<not> pk_open (pm_state m')"
    "select_row (filtered_rows lower (pickable (pm_configs m)) (pk_selected (pm_state m)) (pk_query (pm_state m))) key = Some choice"
    using picker_choose_cases by blast+
  show "content_shown m" "\<not> pk_open (pm_state m')" using key(1) chosen(1) .
  obtain row where row: "row \<in> set (filtered_rows lower (pickable (pm_configs m)) (pk_selected (pm_state m)) (pk_query (pm_state m)))"
    "choice = (pc_id (pr_provider row), vo_id (pr_model row))"
    using select_row_member [OF chosen(2)] by blast
  then show "\<exists>row \<in> set (filtered_rows lower (pickable (pm_configs m)) (pk_selected (pm_state m)) (pk_query (pm_state m))).
      choice = (pc_id (pr_provider row), vo_id (pr_model row)) \<and> pr_provider row \<in> set (pm_configs m)
      \<and> pc_enabled (pr_provider row) \<and> pc_available (pr_provider row) \<and> pr_model row \<in> set (pc_models (pr_provider row))"
    using pickable_row by blast
qed

lemma picker_opening:
  "runs (picker_step lower) (mounted_picker False configs i) [(OpenChanged True, None)] (picker_set_open True (mounted_picker False configs i))"
  by (rule runs_single) (rule picker_step.outside; simp add: picker_act_def)

theorem picker_reports_offered_models_witness:
  "\<exists>configs m m'. runs (picker_step id) (mounted_picker False configs (js ''p1'')) [(OpenChanged True, None)] m
     \<and> picker_step id m (RowChosen (stringify (JArr [JStr (js ''p1''), JStr (js ''m1'')])), Some (js ''p1'', js ''m1'')) m'
     \<and> \<not> pk_open (pm_state m')"
proof -
  obtain c :: provider_configuration and o' :: model_option where c: "pc_enabled c" "pc_available c" "pc_models c = [o']" "vo_id o' = js ''m1''" "pc_id c = js ''p1''"
    using sample_settings_decode by blast
  let ?m = "picker_set_open True (mounted_picker False [c] (js ''p1''))"
  let ?key = "stringify (JArr [JStr (js ''p1''), JStr (js ''m1'')])"
  have state: "pm_state ?m = \<lparr>pk_open = True, pk_selected = Some (js ''p1''), pk_query = []\<rparr>" "pm_disabled ?m = False" "pm_configs ?m = [c]"
    using c by (simp_all add: picker_set_open_def mounted_picker_def picker_open_def initial_profile_def pickable_def Let_def)
  have none: "search_tokens id [] = []" by code_simp
  have "filtered_rows id (pickable [c]) (Some (js ''p1'')) [] = [\<lparr>pr_provider = c, pr_model = o', pr_key = ?key\<rparr>]"
    using c by (simp add: filtered_rows_def picker_rows_def pickable_def row_score_def scoreModelPickerSearch_def none del: stringify.simps)
  then have "snd (picker_act id (RowChosen ?key) ?m) = Some (js ''p1'', js ''m1'')"
    using c by (simp add: picker_act_def picker_choose_def picker_select_def state select_row_def del: stringify.simps)
  then obtain m' where "picker_act id (RowChosen ?key) ?m = (m', Some (js ''p1'', js ''m1''))" by (metis prod.collapse)
  then have step: "picker_step id ?m (RowChosen ?key, Some (js ''p1'', js ''m1'')) m'"
    using picker_step.inside [of ?m] by (simp add: content_shown_def state)
  then have "\<not> pk_open (pm_state m')" using picker_reports_offered_models [OF picker_opening] by blast
  then show ?thesis using picker_opening step by blast
qed

subsection \<open>A request that is shown alone\<close>

definition shown_approvals :: "agent_locale \<Rightarrow> pending_entry js_record \<Rightarrow> pending_approval list" where
  "shown_approvals loc m = List.map_filter (\<lambda>(_, entry). case nativeRequestPresentation loc entry of Inr (Approval a) \<Rightarrow> Some a | _ \<Rightarrow> None) m"

definition shown_inputs :: "agent_locale \<Rightarrow> pending_entry js_record \<Rightarrow> pending_user_input list" where
  "shown_inputs loc m = List.map_filter (\<lambda>(_, entry). case nativeRequestPresentation loc entry of Inr (UserInput u) \<Rightarrow> Some u | _ \<Rightarrow> None) m"

definition own_entries :: "pending_entry js_record \<Rightarrow> bool" where
  "own_entries m \<longleftrightarrow> (\<forall>(k, entry) \<in> set m. \<exists>r b. entry = Pending r b \<and> rq_id r = k)"

text \<open>A request is presented under its identity.\<close>

lemma presented_request:
  "\<exists>p. nativeRequestPresentation loc (Pending r b) = Inr p \<and> (case p of Approval a \<Rightarrow> pa_requestId a | UserInput u \<Rightarrow> pu_requestId u) = rq_id r"
  by (simp add: nativeRequestPresentation_def)

lemma own_entries_Cons:
  assumes "own_entries (e # m)"
  obtains r b p where "e = (rq_id r, Pending r b)" and "own_entries m" and "nativeRequestPresentation loc (Pending r b) = Inr p"
    and "(case p of Approval a \<Rightarrow> pa_requestId a | UserInput u \<Rightarrow> pu_requestId u) = rq_id r"
proof -
  obtain r b where "e = (rq_id r, Pending r b)" using assms by (cases e) (auto simp: own_entries_def)
  moreover have "own_entries m" using assms by (simp add: own_entries_def)
  ultimately show thesis using that presented_request [of loc r b] by blast
qed

lemmas shown_simps = shown_approvals_def shown_inputs_def List.map_filter_simps split_presentation_def

lemma projected_entries:
  "own_entries m \<Longrightarrow> fold_result (\<lambda>acc entry. andThen (nativeRequestPresentation loc entry) (\<lambda>p. Inr (split_presentation acc p))) acc (map snd m)
     = Inr (fst acc @ shown_approvals loc m, snd acc @ shown_inputs loc m)"
proof (induction m arbitrary: acc)
  case (Cons e m)
  from Cons.prems show ?case
  proof (cases rule: own_entries_Cons [of e m loc])
    case (1 r b p)
    then show ?thesis using Cons.IH by (cases p) (simp_all add: shown_simps)
  qed
qed (simp add: shown_simps)

lemma shown_approvals_of_key:
  "own_entries m \<Longrightarrow> filter (\<lambda>a. pa_requestId a = i) (shown_approvals loc m) = shown_approvals loc (filter (\<lambda>(k, _). k = i) m)"
proof (induction m)
  case (Cons e m)
  from Cons.prems show ?case
  proof (cases rule: own_entries_Cons [of e m loc])
    case (1 r b p)
    then show ?thesis using Cons.IH by (cases p) (auto simp: shown_simps)
  qed
qed (simp add: shown_simps)

lemma shown_inputs_of_key:
  "own_entries m \<Longrightarrow> filter (\<lambda>u. pu_requestId u = i) (shown_inputs loc m) = shown_inputs loc (filter (\<lambda>(k, _). k = i) m)"
proof (induction m)
  case (Cons e m)
  from Cons.prems show ?case
  proof (cases rule: own_entries_Cons [of e m loc])
    case (1 r b p)
    then show ?thesis using Cons.IH by (cases p) (auto simp: shown_simps)
  qed
qed (simp add: shown_simps)

lemma filter_key: "distinct_keys m \<Longrightarrow> prop_get m i = Some v \<Longrightarrow> filter (\<lambda>(k, _). k = i) m = [(i, v)]"
proof (induction m)
  case (Cons e m)
  obtain k w where e: "e = (k, w)" by fastforce
  have "filter (\<lambda>(k, _). k = i) m = []" if "k = i"
    using Cons.prems(1) that by (force simp: e distinct_keys_def filter_empty_conv)
  then show ?case using Cons by (auto simp: e distinct_keys_def prop_get_def)
qed (simp add: prop_get_def)

text \<open>What the model of a conversation shows are the entries of a well-formed display state.\<close>

lemma model_entries:
  assumes "stream_ok s" and "nativeConversationModel parse dp s loc = Inr m"
  shows "own_entries (st_pending s)" and "cm_approvals m = shown_approvals loc (st_pending s)"
    and "cm_userInputs m = shown_inputs loc (st_pending s)"
proof -
  have req: "requests_ok s" using assms(1) by (simp add: stream_ok_def)
  obtain as us where pending: "projectPending s loc = Inr (as, us)" "cm_approvals m = as" "cm_userInputs m = us"
    using assms(2) by (auto simp: nativeConversationModel_def result_simps Let_def)
  have stray: "no_stray s" using projectPending_stray pending(1) by fastforce
  show own: "own_entries (st_pending s)" unfolding own_entries_def
  proof (intro ballI, clarify)
    fix k entry
    assume kept: "(k, entry) \<in> set (st_pending s)"
    then have "prop_get (st_pending s) k = Some entry"
      using requests_okD(1) [OF req] by (simp add: prop_get_def distinct_keys_def)
    then have "entry_ok k entry" using requests_okD(3) [OF req] by blast
    moreover have "\<exists>q c. entry = Pending q c" using stray kept by (force simp: no_stray_def prop_values_def)
    ultimately show "\<exists>q c. entry = Pending q c \<and> rq_id q = k" by (auto simp: entry_ok_def)
  qed
  show "cm_approvals m = shown_approvals loc (st_pending s)" "cm_userInputs m = shown_inputs loc (st_pending s)"
    using pending projected_entries [OF own, of loc "([], [])"] by (simp_all add: projectPending_def prop_values_def)
qed

lemma pending_entry:
  assumes "stream_ok s" and "(i, Pending r b) \<in> set (st_pending s)"
  shows "prop_get (st_pending s) i = Some (Pending r b)" and "rq_id r = i" and "request_ok r"
proof -
  have req: "requests_ok s" using assms(1) by (simp add: stream_ok_def)
  then show kept: "prop_get (st_pending s) i = Some (Pending r b)"
    using requests_okD(1) [OF req] assms(2) by (simp add: prop_get_def distinct_keys_def)
  then show "rq_id r = i" "request_ok r" using requests_okD(3) [OF req] by (fastforce simp: entry_ok_def)+
qed

text \<open>The entry behind a question and behind an approval that the conversation shows.\<close>

lemma shown_input_entry:
  assumes "u \<in> set (shown_inputs loc m)"
  obtains k r where "(k, Pending r (pu_submitted u)) \<in> set m" and "rq_id r = pu_requestId u" and "rq_kind r = Exactly QuestionReq"
    and "pu_questions u = map presented_question (rq_questions r)"
proof -
  obtain k entry where e: "(k, entry) \<in> set m" "nativeRequestPresentation loc entry = Inr (UserInput u)"
    using assms by (fastforce simp: shown_inputs_def List.map_filter_def split: sum.splits request_presentation.splits prod.splits)
  from e(2) show thesis using that e(1)
    by (fastforce simp: nativeRequestPresentation_def split: pending_entry.splits if_splits)
qed

lemma shown_approval_entry:
  assumes "a \<in> set (shown_approvals loc m)"
  obtains k r where "(k, Pending r (pa_submitted a)) \<in> set m" and "rq_id r = pa_requestId a" and "rq_kind r \<noteq> Exactly QuestionReq"
    and "map ao_decision (pa_options a) = map do_id (rq_options r)"
proof -
  obtain k entry where e: "(k, entry) \<in> set m" "nativeRequestPresentation loc entry = Inr (Approval a)"
    using assms by (fastforce simp: shown_approvals_def List.map_filter_def split: sum.splits request_presentation.splits prod.splits)
  from e(2) show thesis using that e(1)
    by (fastforce simp: nativeRequestPresentation_def split: pending_entry.splits if_splits)
qed

text \<open>
  C11. A request shown alone is the request of its conversation. Where a well-formed display state holds a
  pending request and the conversation has a model, the model behind a notification
  of it has exactly the approvals and questions that the conversation shows for it, and every decision,
  answer or cancellation is admitted or refused alike.
\<close>

theorem single_request_is_the_same:
  assumes "stream_ok s" and "prop_get (st_pending s) (rq_id r) = Some (Pending r b)"
    and "nativeConversationModel parse dp s loc = Inr m"
  shows "(\<exists>m'. input_model parse dp loc sid r b = Inr m'
        \<and> cm_approvals m' = filter (\<lambda>a. pa_requestId a = rq_id r) (cm_approvals m)
        \<and> cm_userInputs m' = filter (\<lambda>u. pu_requestId u = rq_id r) (cm_userInputs m))
     \<and> nativeApprovalAnswer (input_state sid r b) (rq_id r) decision = nativeApprovalAnswer s (rq_id r) decision
     \<and> nativeQuestionAnswer (input_state sid r b) (rq_id r) answers = nativeQuestionAnswer s (rq_id r) answers
     \<and> nativeCancelAnswer (input_state sid r b) (rq_id r) = nativeCancelAnswer s (rq_id r)"
proof -
  have req: "requests_ok s" using assms(1) by (simp add: stream_ok_def)
  note own = model_entries(1) [OF assms(1,3)] and shown = model_entries(2,3) [OF assms(1,3)]
  have one: "filter (\<lambda>(k, _). k = rq_id r) (st_pending s) = [(rq_id r, Pending r b)]"
    using filter_key [OF requests_okD(1) [OF req] assms(2)] .
  have alone: "projectPending (input_state sid r b) loc
      = Inr (shown_approvals loc [(rq_id r, Pending r b)], shown_inputs loc [(rq_id r, Pending r b)])"
    using projected_entries [of "[(rq_id r, Pending r b)]" loc "([], [])"]
    by (simp add: projectPending_def prop_values_def input_state_def own_entries_def)
  have same: "pendingRequest (input_state sid r b) (rq_id r) = pendingRequest s (rq_id r)"
    using assms(2) by (simp add: pendingRequest_def member_get_def input_state_def prop_get_def)
  show ?thesis using alone shown_approvals_of_key [OF own, of "rq_id r" loc] shown_inputs_of_key [OF own, of "rq_id r" loc] shown one
    by (simp add: input_model_def nativeConversationModel_def nativeApprovalAnswer_def nativeQuestionAnswer_def nativeCancelAnswer_def
        same Let_def)
qed

lemma open_state_ok: "stream_ok open_state"
  by (auto simp: stream_ok_def open_state_def sample_state_def emptyStream_def items_ok_def requests_ok_def notices_ok_def facts_ok_def
      recent_ok_def agrees_def prop_get_def entry_ok_def decision_ok_def request_ok_def sample_approval_def option_list_ok_def distinct_keys_def
      split: if_splits)

theorem single_request_is_the_same_witness:
  "\<exists>m m'. nativeConversationModel (\<lambda>_. None) sample_dates open_state En = Inr m
     \<and> input_model (\<lambda>_. None) sample_dates En (js ''s1'') sample_approval False = Inr m'
     \<and> map pa_requestId (cm_approvals m') = [js ''i1'']"
proof -
  have p: "prop_get (st_pending open_state) (rq_id sample_approval) = Some (Pending sample_approval False)"
    by (simp add: open_state_def prop_get_def sample_approval_def)
  obtain m where m: "nativeConversationModel (\<lambda>_. None) sample_dates open_state En = Inr m"
      and i: "map pa_requestId (filter (\<lambda>a. pa_requestId a = js ''i1'') (cm_approvals m)) = [js ''i1'']"
    by (simp add: nativeConversationModel_def projectPending_def prop_values_def open_state_def nativeRequestPresentation_def
        sample_approval_def split_presentation_def sample_state_def emptyStream_def Let_def)
  have id: "rq_id sample_approval = js ''i1''" by (simp add: sample_approval_def)
  show ?thesis using m i single_request_is_the_same [OF open_state_ok p m, of "js ''s1''", THEN conjunct1] unfolding id by auto
qed

end
