(* ===== verification/Disclosure.thy ===== *)
theory Disclosure
  imports Timeline_View Machine
begin

text \<open>
  The disclosure state of a mounted timeline as a machine: \<open>AgentTimelineStateProvider\<close> and
  \<open>useTimelineDisclosure\<close> of \<open>timelineState.tsx\<close>. The provider renders with the state of the host or its
  own; rows subscribe while they are mounted and show what they read last.
\<close>

text \<open>
  \<open>dc_local\<close> is what \<open>setLocal\<close> was given last, \<open>dc_current\<close> the state of the last render, which
  \<open>current.current\<close> refers to, and \<open>dc_previous\<close> the reference \<open>previousExpanded\<close>. A row has a listener,
  the identity of its item and the value it shows.
\<close>

record disclosure =
  dc_controlled :: "timeline_state option"
  dc_local :: timeline_state
  dc_current :: timeline_state
  dc_previous :: "bool js_record"
  dc_listeners :: listeners
  dc_rows :: "(nat \<times> jstr \<times> bool) list"

definition mounted_provider :: "timeline_state option \<Rightarrow> disclosure" where
  "mounted_provider controlled = (let state = visible_timeline controlled empty_timeline_state in
     \<lparr>dc_controlled = controlled, dc_local = empty_timeline_state, dc_current = state, dc_previous = ts_expandedItems state,
      dc_listeners = [], dc_rows = []\<rparr>)"

definition reads_expanded :: "disclosure \<Rightarrow> jstr \<Rightarrow> bool" where \<comment> \<open>\<open>snapshot\<close>\<close>
  "reads_expanded d i = is_expanded (ts_expandedItems (dc_current d)) i"

text \<open>A render of the provider with its layout effect; a row that is told reads again.\<close>

definition provider_rendered :: "timeline_state option \<Rightarrow> disclosure \<Rightarrow> disclosure" where
  "provider_rendered controlled d =
     (let state = visible_timeline controlled (dc_local d);
          told = notified (dc_listeners d) (dc_previous d) (ts_expandedItems state)
      in d\<lparr>dc_controlled := controlled, dc_current := state, dc_previous := ts_expandedItems state,
           dc_rows := map (\<lambda>(l, i, shown_value). (l, i, if l \<in> set told then is_expanded (ts_expandedItems state) i else shown_value)) (dc_rows d)\<rparr>)"

text \<open>A change goes to the provider's own state, unless the host owns it, and to the host.\<close>

definition disclosure_change :: "timeline_state \<Rightarrow> disclosure \<Rightarrow> disclosure \<times> timeline_state option" where
  "disclosure_change following d = (d\<lparr>dc_local := change_timeline (dc_controlled d) (dc_local d) following\<rparr>, Some following)"

definition row_toggled :: "jstr \<Rightarrow> disclosure \<Rightarrow> disclosure \<times> timeline_state option" where
  "row_toggled i d = disclosure_change (toggle_expanded i (dc_current d)) d"

definition pin_changed :: "bool \<Rightarrow> disclosure \<Rightarrow> disclosure \<times> timeline_state option" where
  "pin_changed pinned d = disclosure_change ((dc_current d)\<lparr>ts_pinnedToBottom := pinned\<rparr>) d"

definition row_mounted :: "nat \<Rightarrow> jstr \<Rightarrow> disclosure \<Rightarrow> disclosure" where
  "row_mounted l i d = d\<lparr>dc_rows := dc_rows d @ [(l, i, reads_expanded d i)], dc_listeners := subscribe_row i l (dc_listeners d)\<rparr>"

definition row_unmounted :: "nat \<Rightarrow> jstr \<Rightarrow> disclosure \<Rightarrow> disclosure" where
  "row_unmounted l i d = d\<lparr>dc_rows := filter (\<lambda>(m, _). m \<noteq> l) (dc_rows d), dc_listeners := unsubscribe_row i l (dc_listeners d)\<rparr>"

datatype disclosure_action =
    ProviderRendered "timeline_state option"
  | RowToggled nat
  | PinChanged bool
  | RowMounted nat jstr
  | RowUnmounted nat

text \<open>A step with what the host hears.\<close>

inductive disclosure_step :: "disclosure \<Rightarrow> disclosure_action \<times> timeline_state option \<Rightarrow> disclosure \<Rightarrow> bool" where
  rendered: "disclosure_step d (ProviderRendered controlled, None) (provider_rendered controlled d)"
| toggled: "(l, i, shown_value) \<in> set (dc_rows d) \<Longrightarrow> row_toggled i d = (d', heard) \<Longrightarrow> disclosure_step d (RowToggled l, heard) d'"
| pinned: "pin_changed p d = (d', heard) \<Longrightarrow> disclosure_step d (PinChanged p, heard) d'"
| mounted: "l \<notin> fst ` set (dc_rows d) \<Longrightarrow> disclosure_step d (RowMounted l i, None) (row_mounted l i d)"
| unmounted: "(l, i, shown_value) \<in> set (dc_rows d) \<Longrightarrow> disclosure_step d (RowUnmounted l, None) (row_unmounted l i d)"

end
