(* ===== verification/Disclosure_Properties.thy ===== *)
theory Disclosure_Properties
  imports Disclosure Timeline_Properties
begin

text \<open>
  The rows of a timeline show its disclosure state, though only the rows that a change concerns are told
  of it, and nothing is left subscribed.
\<close>

subsection \<open>Subscriptions\<close>

definition listens :: "listeners \<Rightarrow> jstr \<Rightarrow> nat \<Rightarrow> bool" where
  "listens ls i l \<longleftrightarrow> (\<exists>g. (i, g) \<in> set ls \<and> l \<in> set g)"

lemma fst_listeners [simp]: "fst \<circ> (\<lambda>(j, g). (j, f j g)) = fst"
  by auto

lemma listens_map: "listens (map (\<lambda>(j, g). (j, f j g)) ls) i l \<longleftrightarrow> (\<exists>g. (i, g) \<in> set ls \<and> l \<in> set (f i g))"
  by (auto simp: listens_def)

lemma listens_nonempty: "listens (filter (\<lambda>(j, g). j \<noteq> i \<or> g \<noteq> []) ls) j l \<longleftrightarrow> listens ls j l"
  by (auto simp: listens_def)

lemma subscribe_row_ok:
  assumes "distinct (map fst ls)"
  shows "distinct (map fst (subscribe_row i l ls))"
    and "listens (subscribe_row i l ls) j k \<longleftrightarrow> listens ls j k \<or> (j = i \<and> k = l)"
proof -
  show "distinct (map fst (subscribe_row i l ls))" using assms
    by (auto simp: subscribe_row_def map_of_eq_None_iff split: option.splits)
  show "listens (subscribe_row i l ls) j k \<longleftrightarrow> listens ls j k \<or> (j = i \<and> k = l)"
  proof (cases "map_of ls i")
    case None
    then show ?thesis by (auto simp: subscribe_row_def listens_def)
  next
    case (Some found)
    then have "(i, found) \<in> set ls" by (rule map_of_SomeD)
    then show ?thesis unfolding subscribe_row_def Some option.case listens_map
      by (cases "j = i") (auto simp: listens_def split: if_splits)
  qed
qed

lemma unsubscribe_row_ok:
  assumes "distinct (map fst ls)"
  shows "distinct (map fst (unsubscribe_row i l ls))"
    and "listens (unsubscribe_row i l ls) j k \<longleftrightarrow> listens ls j k \<and> \<not> (j = i \<and> k = l)"
proof -
  show "distinct (map fst (unsubscribe_row i l ls))" using assms
    unfolding unsubscribe_row_def by (intro distinct_map_filter) simp
  show "listens (unsubscribe_row i l ls) j k \<longleftrightarrow> listens ls j k \<and> \<not> (j = i \<and> k = l)"
    unfolding unsubscribe_row_def listens_nonempty listens_map by (cases "j = i") (auto simp: listens_def)
qed

lemma notified_iff: "l \<in> set (notified ls previous following) \<longleftrightarrow> (\<exists>i. listens ls i l \<and> is_expanded previous i \<noteq> is_expanded following i)"
  by (force simp: notified_def listens_def split: if_splits)

subsection \<open>The invariant\<close>

definition disclosure_inv :: "disclosure \<Rightarrow> bool" where
  "disclosure_inv d \<longleftrightarrow> dc_previous d = ts_expandedItems (dc_current d) \<and> distinct (map fst (dc_rows d)) \<and> distinct (map fst (dc_listeners d))
     \<and> (\<forall>(l, i, shown_value) \<in> set (dc_rows d). shown_value = reads_expanded d i)
     \<and> (\<forall>i l. listens (dc_listeners d) i l \<longleftrightarrow> (\<exists>shown_value. (l, i, shown_value) \<in> set (dc_rows d)))"

text \<open>After a render every row shows the state of that render.\<close>

lemma provider_rendered_rows:
  assumes "disclosure_inv d"
  shows "dc_rows (provider_rendered controlled d)
     = map (\<lambda>(l, i, _). (l, i, is_expanded (ts_expandedItems (visible_timeline controlled (dc_local d))) i)) (dc_rows d)"
proof -
  have told: "(if l \<in> set (notified (dc_listeners d) (dc_previous d) (ts_expandedItems (visible_timeline controlled (dc_local d))))
      then is_expanded (ts_expandedItems (visible_timeline controlled (dc_local d))) i else shown_value)
      = is_expanded (ts_expandedItems (visible_timeline controlled (dc_local d))) i" if row: "(l, i, shown_value) \<in> set (dc_rows d)" for l i shown_value
  proof -
    have "listens (dc_listeners d) i l" "shown_value = is_expanded (dc_previous d) i"
      using assms row by (auto simp: disclosure_inv_def reads_expanded_def)
    then show ?thesis by (auto simp: notified_iff)
  qed
  have "dc_rows (provider_rendered controlled d) = map (\<lambda>(l, i, v). (l, i,
      if l \<in> set (notified (dc_listeners d) (dc_previous d) (ts_expandedItems (visible_timeline controlled (dc_local d))))
      then is_expanded (ts_expandedItems (visible_timeline controlled (dc_local d))) i else v)) (dc_rows d)"
    by (simp add: provider_rendered_def Let_def)
  also have "\<dots> = map (\<lambda>(l, i, _). (l, i, is_expanded (ts_expandedItems (visible_timeline controlled (dc_local d))) i)) (dc_rows d)"
  proof (rule map_cong [OF refl])
    fix row
    assume row: "row \<in> set (dc_rows d)"
    obtain l i v where e: "row = (l, i, v)" by (cases row)
    show "(case row of (l, i, v) \<Rightarrow> (l, i,
        if l \<in> set (notified (dc_listeners d) (dc_previous d) (ts_expandedItems (visible_timeline controlled (dc_local d))))
        then is_expanded (ts_expandedItems (visible_timeline controlled (dc_local d))) i else v))
      = (case row of (l, i, _) \<Rightarrow> (l, i, is_expanded (ts_expandedItems (visible_timeline controlled (dc_local d))) i))"
      unfolding e prod.case told [OF row [unfolded e]] by (rule refl)
  qed
  finally show ?thesis .
qed

lemma disclosure_step_inv:
  assumes "disclosure_inv d" and "disclosure_step d a d'"
  shows "disclosure_inv d'"
  using assms(2)
proof (cases rule: disclosure_step.cases)
  case (rendered controlled)
  have l: "dc_listeners (provider_rendered controlled d) = dc_listeners d" "dc_previous (provider_rendered controlled d) = ts_expandedItems (dc_current (provider_rendered controlled d))"
    "dc_current (provider_rendered controlled d) = visible_timeline controlled (dc_local d)"
    by (simp_all add: provider_rendered_def Let_def)
  have keys: "map fst (dc_rows (provider_rendered controlled d)) = map fst (dc_rows d)"
    unfolding provider_rendered_rows [OF assms(1)] by (simp add: case_prod_unfold comp_def)
  have rows: "(m, i, v) \<in> set (dc_rows (provider_rendered controlled d)) \<longleftrightarrow>
      v = is_expanded (ts_expandedItems (visible_timeline controlled (dc_local d))) i \<and> (\<exists>w. (m, i, w) \<in> set (dc_rows d))" for m i v
    unfolding provider_rendered_rows [OF assms(1)] by force
  show ?thesis using assms(1) unfolding rendered(2) disclosure_inv_def keys l(1,2) reads_expanded_def l(3)
    by (simp add: rows Ball_def)
next
  case (mounted l i)
  have s: "distinct (map fst (dc_listeners d))" using assms(1) by (simp add: disclosure_inv_def)
  show ?thesis using assms(1) mounted(3) subscribe_row_ok [OF s, of i l] unfolding mounted(2) disclosure_inv_def
    by (auto simp: row_mounted_def reads_expanded_def)
next
  case (unmounted l i shown_value)
  have s: "distinct (map fst (dc_listeners d))" and r: "distinct (map fst (dc_rows d))" using assms(1) by (simp_all add: disclosure_inv_def)
  have own: "(l, j, v) \<in> set (dc_rows d) \<Longrightarrow> j = i \<and> v = shown_value" for j v
    using eq_key_imp_eq_value [OF r] unmounted(3) by fast
  show ?thesis using assms(1) distinct_map_filter [OF r] unsubscribe_row_ok [OF s, of i l] own unfolding unmounted(2) disclosure_inv_def
    by (fastforce simp: row_unmounted_def reads_expanded_def)
qed (use assms(1) in \<open>auto simp: row_toggled_def pin_changed_def disclosure_change_def disclosure_inv_def reads_expanded_def\<close>)

interpretation disclosure: machine disclosure_step disclosure_inv
  by unfold_locales (rule disclosure_step_inv)

lemma mounted_provider_inv: "disclosure_inv (mounted_provider controlled)"
  by (simp add: disclosure_inv_def mounted_provider_def listens_def Let_def)

text \<open>
  C37. Rows show the disclosure state. However rows mount, unmount and are toggled and the provider renders
  with its own state or the host's, each mounted row shows what the state of the last render says of
  its item, the listeners are those of the mounted rows and no others, and where the provider owns the
  state, a toggle and a render flip the rows of that item and leave all others.
\<close>

theorem rows_show_the_disclosure:
  assumes "runs disclosure_step (mounted_provider controlled) ls d"
  shows "(\<forall>(l, i, shown_value) \<in> set (dc_rows d). shown_value = is_expanded (ts_expandedItems (dc_current d)) i)
     \<and> (\<forall>i l. listens (dc_listeners d) i l \<longleftrightarrow> (\<exists>shown_value. (l, i, shown_value) \<in> set (dc_rows d)))
     \<and> (\<forall>l i shown_value heard d' d''. (l, i, shown_value) \<in> set (dc_rows d) \<longrightarrow> dc_controlled d = None \<longrightarrow>
          disclosure_step d (RowToggled l, heard) d' \<longrightarrow> disclosure_step d' (ProviderRendered None, None) d'' \<longrightarrow>
          dc_rows d'' = map (\<lambda>(m, j, v). (m, j, if j = i then \<not> v else v)) (dc_rows d))"
proof -
  have inv: "disclosure_inv d" using disclosure.runs_inv [OF assms mounted_provider_inv] .
  have "dc_rows d'' = map (\<lambda>(m, j, v). (m, j, if j = i then \<not> v else v)) (dc_rows d)"
    if row: "(l, i, shown_value) \<in> set (dc_rows d)" and own: "dc_controlled d = None" and toggle: "disclosure_step d (RowToggled l, heard) d'"
      and render: "disclosure_step d' (ProviderRendered None, None) d''" for l i shown_value heard d' d''
  proof -
    obtain j v where j: "(l, j, v) \<in> set (dc_rows d)" "row_toggled j d = (d', heard)" using toggle by (auto elim: disclosure_step.cases)
    then have "j = i" using inv row eq_key_imp_eq_value unfolding disclosure_inv_def by fastforce
    then have d': "d' = d\<lparr>dc_local := toggle_expanded i (dc_current d)\<rparr>"
      using j(2) own by (auto simp: row_toggled_def disclosure_change_def change_timeline_def)
    have d'': "d'' = provider_rendered None d'" using render by (auto elim: disclosure_step.cases)
    have "dc_rows d'' = map (\<lambda>(m, j, _). (m, j, is_expanded (ts_expandedItems (toggle_expanded i (dc_current d))) j)) (dc_rows d)"
      unfolding d'' provider_rendered_rows [OF disclosure_step_inv [OF inv toggle]] by (simp add: d' visible_timeline_def)
    moreover have "(m, j, v) \<in> set (dc_rows d) \<Longrightarrow> v = is_expanded (ts_expandedItems (dc_current d)) j" for m j v
      using inv by (auto simp: disclosure_inv_def reads_expanded_def)
    ultimately show ?thesis by (auto simp: toggle_expanded_def is_expanded_put)
  qed
  then show ?thesis using inv unfolding disclosure_inv_def reads_expanded_def by blast
qed

lemma sample_disclosure:
  "runs disclosure_step (mounted_provider None) [(RowMounted 0 (js ''i1''), None)] (row_mounted 0 (js ''i1'') (mounted_provider None))"
  by (rule runs_single) (rule disclosure_step.mounted; simp add: mounted_provider_def Let_def)

theorem rows_show_the_disclosure_witness:
  "dc_rows (provider_rendered None (fst (row_toggled (js ''i1'') (row_mounted 0 (js ''i1'') (mounted_provider None))))) = [(0, js ''i1'', True)]"
proof -
  let ?d = "row_mounted 0 (js ''i1'') (mounted_provider None)"
  have rows: "dc_rows ?d = [(0, js ''i1'', False)]"
    by (simp add: row_mounted_def mounted_provider_def reads_expanded_def visible_timeline_def empty_timeline_state_def is_expanded_def
        member_get_def prop_get_def object_prototype_keys_def js_def Let_def)
  have own: "dc_controlled ?d = None" by (simp add: row_mounted_def mounted_provider_def Let_def)
  have toggle: "disclosure_step ?d (RowToggled 0, snd (row_toggled (js ''i1'') ?d)) (fst (row_toggled (js ''i1'') ?d))"
    using rows by (intro disclosure_step.toggled [of 0 "js ''i1''" False]) simp_all
  show ?thesis using rows_show_the_disclosure [OF sample_disclosure] toggle own rows disclosure_step.rendered by fastforce
qed

end
