(* ===== verification/Request_Views.thy ===== *)
theory Request_Views
  imports Question_Card Approval_Cards
begin

text \<open>
  What the cards of pending requests show: the panel of a question
  (\<open>upstream/t3/ComposerPendingUserInputPanel.tsx\<close>), its card, the list of pending requests and the frames
  around them (\<open>T3Conversation.tsx\<close>). The button of the card does what its label says.
\<close>

subsection \<open>The panel of a question\<close>

record panel_view =
  pl_identity :: jstr
  pl_collapsed :: bool
  pl_toggle :: jstr
  pl_header :: jstr
  pl_summary :: "jstr option"
  pl_counter :: "jstr option"
  pl_question :: jstr
  pl_hint :: "jstr option"
  pl_options :: "(jstr \<times> option_view) list" \<comment> \<open>with their identities\<close>

definition within :: "jstr list \<Rightarrow> jstr" where \<comment> \<open>a template of identities joined by colons\<close>
  "within parts = join [58] parts"

definition show_panel :: "jstr \<Rightarrow> card_props \<Rightarrow> question_card \<Rightarrow> panel_view option" where
  "show_panel identity p s = (case up_activeQuestion (card_progress p s) of
       None \<Rightarrow> None
     | Some question \<Rightarrow> Some
        \<lparr>pl_identity = within [identity, kp_requestId p], pl_collapsed = is_collapsed p s,
         pl_toggle = (if is_collapsed p s then js ''Show the question and its options'' else js ''Hide the question and its options''),
         pl_header = uq_header question, pl_summary = (if is_collapsed p s then Some (uq_question question) else None),
         pl_counter = (if 1 < length (kp_questions p)
           then Some (number_text (IntNum (ca_questionIndex s + 1)) @ js ''/'' @ number_text (IntNum (int (length (kp_questions p))))) else None),
         pl_question = uq_question question,
         pl_hint = (if uq_multiSelect question = Some True then Some (js ''Select one or more options.'') else None),
         pl_options = map (\<lambda>(index, opt). (within [identity, kp_requestId p, uq_id question, option_value opt], view_option p s question index opt))
           (enumerate 0 (uq_options question))\<rparr>)"

text \<open>The panel shows the first of its prompts.\<close>

definition panel_prompt :: "pending_user_input list \<Rightarrow> pending_user_input option" where
  "panel_prompt prompts = (case prompts of [] \<Rightarrow> None | prompt # _ \<Rightarrow> Some prompt)"

subsection \<open>The card of a question\<close>

datatype answer_field =
    SecretField jstr bool jstr \<comment> \<open>identity, whether it is disabled, value\<close>
  | EditorField jstr bool jstr

record card_view =
  cw_busy :: bool
  cw_title :: "jstr option"
  cw_panel :: "panel_view option"
  cw_answer :: "answer_field option"
  cw_cancel :: bool \<comment> \<open>whether the button is disabled\<close>
  cw_previous :: "bool option"
  cw_primary :: "jstr \<times> bool"
  cw_error :: "jstr option"

definition show_answer :: "jstr \<Rightarrow> card_props \<Rightarrow> question_card \<Rightarrow> answer_field option" where
  "show_answer identity p s =
     (let progress = card_progress p s; question = up_activeQuestion progress in
      if Option.bind question uq_allowCustomAnswer = Some False then None
      else (case question of
          Some q \<Rightarrow> if uq_isSecret q = Some True
            then Some (SecretField (within [identity, kp_requestId p, uq_id q]) (card_locked p s) (up_customAnswer progress))
            else Some (EditorField (within [identity, kp_requestId p, uq_id q]) (card_locked p s) (up_customAnswer progress))
        | None \<Rightarrow> Some (EditorField (within [identity, kp_requestId p, js ''answer'']) (card_locked p s) (up_customAnswer progress))))"

definition primary_label :: "card_props \<Rightarrow> question_card \<Rightarrow> jstr" where
  "primary_label p s = (if up_isLastQuestion (card_progress p s) then js ''Submit answer'' else js ''Next question'')"

definition show_card :: "jstr \<Rightarrow> jstr \<Rightarrow> card_props \<Rightarrow> question_card \<Rightarrow> card_view" where
  "show_card identity title p s =
     \<lparr>cw_busy = (ca_busy s \<or> ca_acknowledged s \<or> kp_submitted p = Some True), cw_title = kept (Some title),
      cw_panel = show_panel identity p s, cw_answer = show_answer identity p s, cw_cancel = card_locked p s,
      cw_previous = (if 0 < ca_questionIndex s then Some (card_locked p s) else None),
      cw_primary = (primary_label p s, primary_disabled p s), cw_error = kept (Some (ca_error s))\<rparr>"

subsection \<open>The pending requests\<close>

text \<open>\<open>carries\<close>: the conversation gives \<open>onDisplacedAnswer\<close> where its composer is enabled, a notification never.\<close>

definition pending_view ::
  "jstr \<Rightarrow> agent_locale \<Rightarrow> bool \<Rightarrow> approvals_props \<Rightarrow> approvals_state \<Rightarrow> pending_approval list \<Rightarrow> pending_user_input list
     \<Rightarrow> approval_view list \<times> card_props list \<times> jstr option" where
  "pending_view sessionKey loc carries p s approvals inputs =
     (map (view_approval sessionKey loc p s) approvals,
      map (\<lambda>u. \<lparr>kp_requestId = pu_requestId u, kp_questions = pu_questions u, kp_submitted = Some (pu_submitted u),
         kp_active = ap_active p, kp_disabled = ap_disabled p, kp_carries = carries\<rparr>) inputs,
      kept (Some (as_error s)))"

text \<open>The frames pause animations while they are inactive.\<close>

definition animation_state :: "bool \<Rightarrow> jstr" where
  "animation_state isActive = (if isActive then js ''running'' else js ''paused'')"

subsection \<open>The button of a card\<close>

lemma primary_click_shown:
  assumes "cw_primary (show_card identity title p shown) = (label, disabled)"
  shows "disabled \<Longrightarrow> primary_click p shown s = (s, None)"
    and "\<not> disabled \<Longrightarrow> label = js ''Submit answer'' \<Longrightarrow> \<exists>answers.
      submitted_answers (kp_questions p) (ca_answers shown) = Some answers
      \<and> snd (primary_click p shown s) = (if ca_inFlight s then None else Some (AnswerCall (kp_requestId p) answers))"
    and "\<not> disabled \<Longrightarrow> label = js ''Next question'' \<Longrightarrow>
      primary_click p shown s = (s\<lparr>ca_questionIndex := ca_questionIndex s + 1\<rparr>, None)"
proof -
  have l: "label = primary_label p shown" "disabled = primary_disabled p shown" using assms by (simp_all add: show_card_def)
  have names: "js ''Submit answer'' \<noteq> js ''Next question''" by (simp add: js_def)
  show "disabled \<Longrightarrow> primary_click p shown s = (s, None)" by (simp add: l primary_click_def)
  show "\<exists>answers. submitted_answers (kp_questions p) (ca_answers shown) = Some answers
      \<and> snd (primary_click p shown s) = (if ca_inFlight s then None else Some (AnswerCall (kp_requestId p) answers))"
    if "\<not> disabled" "label = js ''Submit answer''"
  proof -
    have "up_isLastQuestion (card_progress p shown)" "\<not> card_locked p shown"
      using that names by (auto simp: l primary_label_def primary_disabled_def split: if_splits)
    moreover have "buildPendingUserInputAnswers (kp_questions p) (ca_answers shown) \<noteq> None"
      using that(1) calculation by (auto simp: l primary_disabled_def card_progress_def derivePendingUserInputProgress_def Let_def split: if_splits)
    moreover have "kp_active p" using calculation(2) by (simp add: card_locked_def)
    ultimately show ?thesis using that(1) by (auto simp: l primary_click_def submit_card_def submitted_answers_def)
  qed
  show "primary_click p shown s = (s\<lparr>ca_questionIndex := ca_questionIndex s + 1\<rparr>, None)" if "\<not> disabled" "label = js ''Next question''"
    using that names
    by (auto simp: l primary_label_def primary_click_def primary_disabled_def card_advance_def card_locked_def Let_def split: if_splits)
qed

end
