(* ===== verification/Shared_Objects.thy ===== *)
theory Shared_Objects
  imports Projector_Runs Stream_Delivery
begin

text \<open>
  The objects that display states share. The reducer of \<open>state.ts\<close> makes new objects only for what an event
  changes; \<open>agentPresentation.ts\<close> recognises the rest by identity. Here every object has a reference, its place in a
  store that only grows: nothing that a display state holds is ever mutated. The operations make exactly the
  objects that the source makes, so that what the projector may rely on is proved and not assumed.
\<close>

subsection \<open>The store\<close>

record object_store =
  os_items :: "agent_item list"
  os_details :: "item_details list"
  os_arrays :: "reference list list" \<comment> \<open>arrays of items\<close>
  os_pending :: "pending_entry js_record list"
  os_changes :: recorded_changes \<comment> \<open>\<open>itemArrayChanges\<close>\<close>

definition empty_store :: object_store where
  "empty_store = \<lparr>os_items = [], os_details = [], os_arrays = [], os_pending = [], os_changes = Map.empty\<rparr>"

text \<open>An array of items with the array it comes from and the indices that differ.\<close>

definition add_array :: "reference \<Rightarrow> reference list \<Rightarrow> nat list \<Rightarrow> object_store \<Rightarrow> object_store \<times> reference" where
  "add_array previous refs indices st = (let a = length (os_arrays st) in
     (st\<lparr>os_arrays := os_arrays st @ [refs], os_changes := rememberItemChanges previous a indices (os_changes st)\<rparr>, a))"

subsection \<open>Items\<close>

text \<open>
  An item event makes one item. Its details are the object of the event, or the object that the item had; where
  it has none, the reference stands for nothing.
\<close>

definition share_details :: "object_store \<Rightarrow> seen_state \<Rightarrow> agent_event \<Rightarrow> object_store \<times> reference" where
  "share_details st s e = (case ev_details e of
       Some d \<Rightarrow> (st\<lparr>os_details := os_details st @ [d]\<rparr>, length (os_details st))
     | None \<Rightarrow> (st, case item_index (ss_state s) e of Some i \<Rightarrow> ss_details s ! i | None \<Rightarrow> 0))"

definition share_item :: "object_store \<Rightarrow> seen_state \<Rightarrow> agent_event \<Rightarrow> stream_state \<Rightarrow> object_store \<times> seen_state" where
  "share_item st s e next =
     (let index = item_index (ss_state s) e;
          changed = (case index of None \<Rightarrow> length (st_items (ss_state s)) | Some i \<Rightarrow> i);
          put = (\<lambda>r refs. case index of None \<Rightarrow> refs @ [r] | Some i \<Rightarrow> refs[i := r]);
          (st1, dref) = share_details st s e;
          refs = put (length (os_items st)) (ss_refs s);
          (st2, a) = add_array (ss_array s) refs [changed] (st1\<lparr>os_items := os_items st1 @ [st_items next ! changed]\<rparr>)
      in (st2, s\<lparr>ss_array := a, ss_refs := refs, ss_details := put dref (ss_details s)\<rparr>))"

text \<open>The end of a turn makes an item for each item of the turn, with the details it had.\<close>

definition turn_items :: "stream_state \<Rightarrow> agent_event \<Rightarrow> nat list" where
  "turn_items state e = filter (\<lambda>i. Some (it_turnId (st_items state ! i)) = ev_turnId e) [0..<length (st_items state)]"

definition share_turn :: "object_store \<Rightarrow> seen_state \<Rightarrow> agent_event \<Rightarrow> stream_state \<Rightarrow> object_store \<times> seen_state" where
  "share_turn st s e next =
     (let changed = turn_items (ss_state s) e;
          refs = map (\<lambda>i. if i \<in> set changed then length (os_items st) + length (filter (\<lambda>j. j < i) changed) else ss_refs s ! i)
            [0..<length (st_items (ss_state s))];
          (st1, a) = add_array (ss_array s) refs changed (st\<lparr>os_items := os_items st @ map ((!) (st_items next)) changed\<rparr>)
      in (st1, s\<lparr>ss_array := a, ss_refs := refs\<rparr>))"

definition share_items :: "object_store \<Rightarrow> seen_state \<Rightarrow> agent_event \<Rightarrow> stream_state \<Rightarrow> object_store \<times> seen_state" where
  "share_items st s e next =
     (if is_item_kind (ev_kind e) then share_item st s e next
      else if ev_kind e = TurnEnd then share_turn st s e next else (st, s))"

subsection \<open>Pending requests\<close>

text \<open>Which events assign a new object to \<open>next.pending\<close>; the others keep the object of the state.\<close>

definition replaces_pending :: "stream_state \<Rightarrow> agent_event \<Rightarrow> stream_state \<Rightarrow> bool" where
  "replaces_pending state e next = (case ev_kind e of
       SessionRuntime \<Rightarrow> True
     | SessionState \<Rightarrow> st_worker next \<in> {Closed, Disconnected}
     | InputRequest \<Rightarrow> True
     | InputSubmitted \<Rightarrow> (case ev_itemId e of None \<Rightarrow> False | Some i \<Rightarrow> member_get (st_pending state) i \<noteq> Missing)
     | InputResolved \<Rightarrow> True
     | TurnEnd \<Rightarrow> True
     | _ \<Rightarrow> False)"

definition share_pending :: "object_store \<Rightarrow> seen_state \<Rightarrow> agent_event \<Rightarrow> stream_state \<Rightarrow> object_store \<times> seen_state" where
  "share_pending st s e next =
     (if replaces_pending (ss_state s) e next
      then (st\<lparr>os_pending := os_pending st @ [st_pending next]\<rparr>, s\<lparr>ss_pending := length (os_pending st)\<rparr>)
      else (st, s))"

subsection \<open>Events\<close>

text \<open>\<open>applyEvent\<close> with its objects; a verified repetition returns the state itself.\<close>

definition share_event :: "object_store \<Rightarrow> seen_state \<Rightarrow> agent_event \<Rightarrow> stream_state \<Rightarrow> object_store \<times> seen_state" where
  "share_event st s e next =
     (let (st1, s1) = share_items st s e next; (st2, s2) = share_pending st1 s1 e next in (st2, s2\<lparr>ss_state := next\<rparr>))"

definition apply_shared ::
  "date_parser \<Rightarrow> (byte list \<Rightarrow> byte list) \<Rightarrow> object_store \<times> seen_state \<Rightarrow> unknown \<Rightarrow> (object_store \<times> seen_state) result" where
  "apply_shared dp sha stored raw = (case stored of (st, s) \<Rightarrow>
     andThen (decodeEvent dp raw (st_sessionId (ss_state s)) (st_provider (ss_state s))) (\<lambda>e.
     andThen (apply_decoded (eventFingerprint sha) (ss_state s) e) (\<lambda>next.
     Inr (if ev_seq e \<le> st_cursor (ss_state s) then (st, s) else share_event st s e next))))"

text \<open>
  A display state whose objects are all new, as the empty one and a current seed. (The item array of a seed has a
  record too, of an array that nobody was given; no lookup finds it.)
\<close>

definition install_state :: "stream_state \<Rightarrow> object_store \<Rightarrow> object_store \<times> seen_state" where
  "install_state state st =
     (let items = st_items state; n = length items;
          refs = map (\<lambda>i. length (os_items st) + i) [0..<n];
          drefs = map (\<lambda>i. length (os_details st) + length (filter (\<lambda>x. it_details x \<noteq> None) (take i items))) [0..<n]
      in (\<lparr>os_items = os_items st @ items, os_details = os_details st @ List.map_filter it_details items,
           os_arrays = os_arrays st @ [refs], os_pending = os_pending st @ [st_pending state], os_changes = os_changes st\<rparr>,
          \<lparr>ss_state = state, ss_array = length (os_arrays st), ss_refs = refs, ss_details = drefs,
           ss_pending = length (os_pending st)\<rparr>))"

subsection \<open>A conversation in memory\<close>

text \<open>
  The display states that a conversation was given, the last one being current, and its projector. A hook installs states
  and flushes events into the current one; a flush that fails keeps it. A mounted conversation renders the current state,
  or one it retained; a new session or a new mount makes a new projector (the \<open>useMemo\<close> of \<open>AgentConversation\<close>).
\<close>

record memory =
  mm_store :: object_store
  mm_states :: "seen_state list"
  mm_projector :: projector

definition fresh_memory :: memory where
  "fresh_memory = \<lparr>mm_store = empty_store, mm_states = [], mm_projector = createNativeTimelineProjector\<rparr>"

datatype memory_action =
    Installed stream_state
  | Flushed "unknown list"
  | Remounted
  | Rendered nat agent_locale \<comment> \<open>which of the states\<close>

definition flush_shared :: "date_parser \<Rightarrow> (byte list \<Rightarrow> byte list) \<Rightarrow> unknown list \<Rightarrow> memory \<Rightarrow> memory" where
  "flush_shared dp sha raws m =
     (if mm_states m = [] then m
      else case fold_result (apply_shared dp sha) (mm_store m, last (mm_states m)) raws of
          Inl _ \<Rightarrow> m
        | Inr (st, s) \<Rightarrow> m\<lparr>mm_store := st, mm_states := mm_states m @ [s]\<rparr>)"

fun memory_act ::
  "json_parser \<Rightarrow> date_parser \<Rightarrow> (byte list \<Rightarrow> byte list) \<Rightarrow> memory \<Rightarrow> memory_action \<Rightarrow> memory \<times> projected_model result option" where
  "memory_act parse dp sha m (Installed state) =
     (let (st, s) = install_state state (mm_store m) in (m\<lparr>mm_store := st, mm_states := mm_states m @ [s]\<rparr>, None))"
| "memory_act parse dp sha m (Flushed raws) = (flush_shared dp sha raws m, None)"
| "memory_act parse dp sha m Remounted = (m\<lparr>mm_projector := createNativeTimelineProjector\<rparr>, None)"
| "memory_act parse dp sha m (Rendered k loc) =
     (if k < length (mm_states m)
      then (let (r, p) = projected_conversation parse dp (os_changes (mm_store m)) (mm_states m ! k) loc (mm_projector m)
            in (m\<lparr>mm_projector := p\<rparr>, Some r))
      else (m, None))"

fun memory_renders ::
  "json_parser \<Rightarrow> date_parser \<Rightarrow> (byte list \<Rightarrow> byte list) \<Rightarrow> memory \<Rightarrow> memory_action list \<Rightarrow> projected_model result list" where
  "memory_renders parse dp sha m [] = []"
| "memory_renders parse dp sha m (a # as) = (case memory_act parse dp sha m a of
       (m', None) \<Rightarrow> memory_renders parse dp sha m' as
     | (m', Some r) \<Rightarrow> r # memory_renders parse dp sha m' as)"

text \<open>The same without references and without a projector.\<close>

fun plain_act ::
  "json_parser \<Rightarrow> date_parser \<Rightarrow> (byte list \<Rightarrow> byte list) \<Rightarrow> stream_state list \<Rightarrow> memory_action
     \<Rightarrow> stream_state list \<times> projected_model result option" where
  "plain_act parse dp sha states (Installed state) = (states @ [state], None)"
| "plain_act parse dp sha states (Flushed raws) =
     ((if states = [] then states
       else case apply_all dp sha (last states) raws of Inl _ \<Rightarrow> states | Inr s \<Rightarrow> states @ [s]), None)"
| "plain_act parse dp sha states Remounted = (states, None)"
| "plain_act parse dp sha states (Rendered k loc) =
     (states, if k < length states
        then Some (andThen (nativeConversationModel parse dp (states ! k) loc) (\<lambda>m. Inr (as_projected m))) else None)"

fun plain_renders ::
  "json_parser \<Rightarrow> date_parser \<Rightarrow> (byte list \<Rightarrow> byte list) \<Rightarrow> stream_state list \<Rightarrow> memory_action list \<Rightarrow> projected_model result list" where
  "plain_renders parse dp sha states [] = []"
| "plain_renders parse dp sha states (a # as) = (case plain_act parse dp sha states a of
       (states', None) \<Rightarrow> plain_renders parse dp sha states' as
     | (states', Some r) \<Rightarrow> r # plain_renders parse dp sha states' as)"

end
