(* ===== verification/Shared_Props.thy ===== *)
theory Shared_Props
  imports Shared_Objects
begin

text \<open>
  The store of shared objects: it only grows, every display state that was made stays what it was, and the recorded
  changes of its arrays are sound. So the heap at the end of a run explains every state of the run at once, which is
  what the projector relies on.
\<close>

subsection \<open>Growing stores\<close>

definition grows :: "object_store \<Rightarrow> object_store \<Rightarrow> bool" where
  "grows st st' \<longleftrightarrow> (\<exists>xs. os_items st' = os_items st @ xs) \<and> (\<exists>ds. os_details st' = os_details st @ ds)
     \<and> (\<exists>as. os_arrays st' = os_arrays st @ as) \<and> (\<exists>ps. os_pending st' = os_pending st @ ps)
     \<and> (\<forall>a < length (os_arrays st). os_changes st' a = os_changes st a)"

lemma grows_refl [simp]: "grows st st"
  by (simp add: grows_def)

lemma grows_trans: "grows st st' \<Longrightarrow> grows st' st'' \<Longrightarrow> grows st st''"
  unfolding grows_def by (elim conjE exE) (simp add: append_assoc)

text \<open>What a state shows of the store: its array of items, and its pending requests.\<close>

definition array_in :: "object_store \<Rightarrow> reference \<Rightarrow> reference list \<Rightarrow> reference list \<Rightarrow> agent_item list \<Rightarrow> bool" where
  "array_in st a refs drefs items \<longleftrightarrow> a < length (os_arrays st) \<and> os_arrays st ! a = refs
     \<and> length refs = length items \<and> length drefs = length items
     \<and> (\<forall>i < length items. refs ! i < length (os_items st) \<and> os_items st ! (refs ! i) = items ! i
          \<and> (\<forall>d. it_details (items ! i) = Some d \<longrightarrow> drefs ! i < length (os_details st) \<and> os_details st ! (drefs ! i) = d))"

definition pending_in :: "object_store \<Rightarrow> reference \<Rightarrow> pending_entry js_record \<Rightarrow> bool" where
  "pending_in st p pending \<longleftrightarrow> p < length (os_pending st) \<and> os_pending st ! p = pending"

definition state_in :: "object_store \<Rightarrow> seen_state \<Rightarrow> bool" where
  "state_in st s \<longleftrightarrow> array_in st (ss_array s) (ss_refs s) (ss_details s) (st_items (ss_state s))
     \<and> pending_in st (ss_pending s) (st_pending (ss_state s)) \<and> stream_ok (ss_state s)"

lemma growsD:
  assumes "grows st st'"
  shows "i < length (os_items st) \<Longrightarrow> i < length (os_items st') \<and> os_items st' ! i = os_items st ! i"
    and "i < length (os_details st) \<Longrightarrow> i < length (os_details st') \<and> os_details st' ! i = os_details st ! i"
    and "i < length (os_arrays st) \<Longrightarrow> i < length (os_arrays st') \<and> os_arrays st' ! i = os_arrays st ! i"
    and "i < length (os_pending st) \<Longrightarrow> i < length (os_pending st') \<and> os_pending st' ! i = os_pending st ! i"
    and "i < length (os_arrays st) \<Longrightarrow> os_changes st' i = os_changes st i"
  using assms by (auto simp: grows_def nth_append)

lemma array_in_grows:
  assumes "grows st st'" and "array_in st a refs drefs items"
  shows "array_in st' a refs drefs items"
  using growsD [OF assms(1)] assms(2) unfolding array_in_def by simp

lemma pending_in_grows: "grows st st' \<Longrightarrow> pending_in st p pending \<Longrightarrow> pending_in st' p pending"
  using growsD(4) by (simp add: pending_in_def)

lemma state_in_grows: "grows st st' \<Longrightarrow> state_in st s \<Longrightarrow> state_in st' s"
  unfolding state_in_def using array_in_grows pending_in_grows by blast

text \<open>Recorded changes name arrays of the store and every index at which they differ.\<close>

definition covers :: "nat list \<Rightarrow> reference list \<Rightarrow> reference list \<Rightarrow> bool" where
  "covers indices before after \<longleftrightarrow> (\<forall>i \<in> set indices. i < length after)
     \<and> (\<forall>i < length after. i \<notin> set indices \<longrightarrow> i < length before \<and> after ! i = before ! i)"

definition store_ok :: "object_store \<Rightarrow> bool" where
  "store_ok st \<longleftrightarrow> (\<forall>a b indices. os_changes st b = Some (a, indices) \<longrightarrow>
     b < length (os_arrays st) \<and> a < length (os_arrays st) \<and> covers indices (os_arrays st ! a) (os_arrays st ! b))"

lemma store_ok_more: "store_ok st \<Longrightarrow> os_arrays st' = os_arrays st \<Longrightarrow> os_changes st' = os_changes st \<Longrightarrow> store_ok st'"
  by (simp add: store_ok_def)

lemma empty_store_ok: "store_ok empty_store"
  by (simp add: store_ok_def empty_store_def)

lemma store_ok_array: "store_ok st \<Longrightarrow> os_arrays st' = os_arrays st @ [refs] \<Longrightarrow> os_changes st' = os_changes st \<Longrightarrow> store_ok st'"
  unfolding store_ok_def by (auto simp: nth_append less_Suc_eq)

lemma add_array_ok:
  assumes "store_ok st" and "previous < length (os_arrays st)" and "covers indices (os_arrays st ! previous) refs"
    and "add_array previous refs indices st = (st', a)"
  shows "store_ok st' \<and> grows st st' \<and> a = length (os_arrays st) \<and> os_arrays st' = os_arrays st @ [refs]
    \<and> os_items st' = os_items st \<and> os_details st' = os_details st \<and> os_pending st' = os_pending st"
proof -
  have a: "a = length (os_arrays st)" and st': "st' = st\<lparr>os_arrays := os_arrays st @ [refs],
      os_changes := (os_changes st)(length (os_arrays st) \<mapsto> (previous, indices))\<rparr>"
    using assms(4) unfolding add_array_def Let_def rememberItemChanges_def prod.inject by (rule conjE, simp)+
  have "store_ok st'" using assms(1-3) unfolding store_ok_def st' by (auto simp: nth_append less_Suc_eq split: if_splits)
  then show ?thesis using a by (simp add: st' grows_def)
qed

subsection \<open>Items\<close>

lemma share_details_ok:
  assumes s: "array_in st (ss_array s) (ss_refs s) (ss_details s) (st_items (ss_state s))"
    and "share_details st s e = (st', dref)"
    and "it_details item = or_else (ev_details e) (Option.bind (map_option ((!) (st_items (ss_state s))) (item_index (ss_state s) e)) it_details)"
    and "it_details item = Some d"
  shows "dref < length (os_details st') \<and> os_details st' ! dref = d"
proof (cases "ev_details e")
  case None
  then obtain i where i: "item_index (ss_state s) e = Some i" "it_details (st_items (ss_state s) ! i) = Some d"
    using assms(3,4) by (cases "item_index (ss_state s) e") (auto simp: or_else_def)
  have "i < length (st_items (ss_state s))" using i(1) findIndex_Some unfolding item_index_def by blast
  then show ?thesis using s i assms(2) None by (auto simp: share_details_def array_in_def)
next
  case (Some d')
  then show ?thesis using assms(2-4) by (auto simp: share_details_def or_else_def)
qed

lemma share_details_store:
  assumes "share_details st s e = (st', dref)"
  shows "grows st st'" and "os_items st' = os_items st" and "os_arrays st' = os_arrays st" and "os_pending st' = os_pending st"
    and "os_changes st' = os_changes st"
  using assms by (auto simp: share_details_def grows_def split: option.splits)

lemma next_item_details:
  "next_item e existing = Inr item \<Longrightarrow> it_details item = or_else (ev_details e) (Option.bind existing it_details)"
  by (auto simp: next_item_def result_simps split: option.splits)

lemma share_item_ok:
  assumes ok: "store_ok st" and s: "array_in st (ss_array s) (ss_refs s) (ss_details s) (st_items (ss_state s))"
    and r: "reduceEvent (ss_state s) e = Inr next" and k: "is_item_kind (ev_kind e)" and out: "share_item st s e next = (st', s')"
  shows "store_ok st' \<and> grows st st' \<and> array_in st' (ss_array s') (ss_refs s') (ss_details s') (st_items next)"
proof -
  let ?items = "st_items (ss_state s)" and ?index = "item_index (ss_state s) e"
  obtain item where item: "next_item e (map_option ((!) ?items) ?index) = Inr item"
    "st_items next = (case ?index of None \<Rightarrow> ?items @ [item] | Some i \<Rightarrow> ?items[i := item])"
    using reduce_items_item [OF r k] by blast
  define changed where "changed = (case ?index of None \<Rightarrow> length ?items | Some i \<Rightarrow> i)"
  define refs where "refs = (case ?index of None \<Rightarrow> ss_refs s @ [length (os_items st)] | Some i \<Rightarrow> (ss_refs s)[i := length (os_items st)])"
  obtain st1 dref where d: "share_details st s e = (st1, dref)" by fastforce
  note d1 = share_details_store [OF d]
  define drefs where "drefs = (case ?index of None \<Rightarrow> ss_details s @ [dref] | Some i \<Rightarrow> (ss_details s)[i := dref])"
  let ?st = "st1\<lparr>os_items := os_items st1 @ [st_items next ! changed]\<rparr>"
  obtain st2 a where a: "add_array (ss_array s) refs [changed] ?st = (st2, a)" by fastforce
  have s': "st' = st2" "ss_array s' = a" "ss_refs s' = refs" "ss_details s' = drefs"
    using out d a by (auto simp: share_item_def changed_def refs_def drefs_def Let_def split: option.splits)
  have len: "length (ss_refs s) = length ?items" "length (ss_details s) = length ?items" "os_arrays st ! ss_array s = ss_refs s"
      "ss_array s < length (os_arrays st)" using s by (simp_all add: array_in_def)
  have in_range: "i < length ?items" if "?index = Some i" for i using findIndex_Some that unfolding item_index_def by blast
  have chosen: "st_items next ! changed = item"
    using item(2) in_range by (auto simp: changed_def split: option.splits)
  have "covers [changed] (os_arrays ?st ! ss_array s) refs"
    using len in_range d1(3) by (auto simp: covers_def refs_def changed_def nth_append nth_list_update split: option.splits)
  then have added: "store_ok st2 \<and> grows ?st st2 \<and> a = length (os_arrays ?st) \<and> os_arrays st2 = os_arrays ?st @ [refs]
      \<and> os_items st2 = os_items ?st \<and> os_details st2 = os_details ?st \<and> os_pending st2 = os_pending ?st"
    using add_array_ok [OF _ _ _ a] store_ok_more [OF ok, of ?st] d1 len(4) by simp
  have g1: "grows st1 ?st" by (simp add: grows_def)
  then have g: "grows st st2" using grows_trans d1(1) added by blast
  have new: "os_items st2 ! length (os_items st) = item" "length (os_items st2) = Suc (length (os_items st))"
    using added chosen d1(2) by (simp_all add: nth_append)
  have details: "dref < length (os_details st2) \<and> os_details st2 ! dref = d'" if "it_details item = Some d'" for d'
    using share_details_ok [OF s d next_item_details [OF item(1)] that] added by simp
  have old: "ss_refs s ! i < length (os_items st2) \<and> os_items st2 ! (ss_refs s ! i) = ?items ! i
      \<and> (\<forall>d. it_details (?items ! i) = Some d \<longrightarrow> ss_details s ! i < length (os_details st2) \<and> os_details st2 ! (ss_details s ! i) = d)"
    if "i < length ?items" for i
    using array_in_grows [OF g s] that by (simp add: array_in_def)
  have here: "a < length (os_arrays st2)" "os_arrays st2 ! a = refs" using added by (simp_all add: nth_append)
  have "array_in st2 a refs drefs (st_items next)"
  proof (cases ?index)
    case None
    then show ?thesis using here len(1,2) new details old item(2)
      by (auto simp: array_in_def refs_def drefs_def nth_append less_Suc_eq)
  next
    case (Some i)
    then show ?thesis using here len(1,2) new details old item(2) in_range [OF Some]
      by (auto simp: array_in_def refs_def drefs_def nth_append nth_list_update)
  qed
  then show ?thesis using s' added g by simp
qed

text \<open>The place of an index in a strictly growing list is the number of smaller ones.\<close>

lemma nth_rank:
  "sorted_wrt (<) xs \<Longrightarrow> i \<in> set xs \<Longrightarrow> length (filter (\<lambda>j. j < i) xs) < length xs \<and> xs ! length (filter (\<lambda>j. j < i) xs) = (i::nat)"
proof (induction xs)
  case (Cons x xs)
  show ?case
  proof (cases "i = x")
    case True
    then have "filter (\<lambda>j. j < i) xs = []" using Cons.prems(1) by (auto simp: filter_empty_conv)
    then show ?thesis using True by simp
  next
    case False
    then show ?thesis using Cons by auto
  qed
qed simp

lemma share_turn_ok:
  assumes ok: "store_ok st" and s: "array_in st (ss_array s) (ss_refs s) (ss_details s) (st_items (ss_state s))"
    and r: "reduceEvent (ss_state s) e = Inr next" and k: "ev_kind e = TurnEnd" and out: "share_turn st s e next = (st', s')"
  shows "store_ok st' \<and> grows st st' \<and> array_in st' (ss_array s') (ss_refs s') (ss_details s') (st_items next)"
proof -
  let ?items = "st_items (ss_state s)"
  obtain turnId status where turn: "ev_turnId e = Some turnId"
    "st_items next = map (\<lambda>item. if it_turnId item \<noteq> turnId then item else item\<lparr>it_turnStatus := Some status\<rparr>) ?items"
    using reduce_items_turn_end [OF r k] by blast
  define changed where "changed = turn_items (ss_state s) e"
  have in_changed: "i \<in> set changed \<longleftrightarrow> i < length ?items \<and> it_turnId (?items ! i) = turnId" for i
    by (auto simp: changed_def turn_items_def turn(1))
  define rank where "rank i = length (filter (\<lambda>j. j < i) changed)" for i
  have "sorted_wrt (<) changed" by (simp add: changed_def turn_items_def sorted_wrt_filter)
  then have rank: "rank i < length changed \<and> changed ! rank i = i" if "i \<in> set changed" for i
    using nth_rank that unfolding rank_def by blast
  define refs where "refs = map (\<lambda>i. if i \<in> set changed then length (os_items st) + rank i else ss_refs s ! i) [0..<length ?items]"
  let ?st = "st\<lparr>os_items := os_items st @ map ((!) (st_items next)) changed\<rparr>"
  obtain st1 a where a: "add_array (ss_array s) refs changed ?st = (st1, a)" by fastforce
  have s': "st' = st1" "ss_array s' = a" "ss_refs s' = refs" "ss_details s' = ss_details s"
    using out a unfolding share_turn_def Let_def changed_def [symmetric] rank_def [symmetric] refs_def [symmetric] by auto
  have len: "length (ss_refs s) = length ?items" "length (ss_details s) = length ?items" "os_arrays st ! ss_array s = ss_refs s"
      "ss_array s < length (os_arrays st)" using s by (simp_all add: array_in_def)
  have "covers changed (os_arrays ?st ! ss_array s) refs" using len by (auto simp: covers_def refs_def in_changed)
  then have added: "store_ok st1 \<and> grows ?st st1 \<and> a = length (os_arrays ?st) \<and> os_arrays st1 = os_arrays ?st @ [refs]
      \<and> os_items st1 = os_items ?st \<and> os_details st1 = os_details ?st \<and> os_pending st1 = os_pending ?st"
    using add_array_ok [OF _ _ _ a] store_ok_more [OF ok, of ?st] len(4) by simp
  have "grows st ?st" by (simp add: grows_def)
  then have g: "grows st st1" using grows_trans added by blast
  have here: "a < length (os_arrays st1)" "os_arrays st1 ! a = refs" "length refs = length (st_items next)"
    using added by (simp_all add: nth_append refs_def turn(2))
  have at: "refs ! i < length (os_items st1) \<and> os_items st1 ! (refs ! i) = st_items next ! i
      \<and> (\<forall>d. it_details (st_items next ! i) = Some d \<longrightarrow> ss_details s ! i < length (os_details st1) \<and> os_details st1 ! (ss_details s ! i) = d)"
    if "i < length ?items" for i
  proof -
    have old: "ss_refs s ! i < length (os_items st1) \<and> os_items st1 ! (ss_refs s ! i) = ?items ! i
      \<and> (\<forall>d. it_details (?items ! i) = Some d \<longrightarrow> ss_details s ! i < length (os_details st1) \<and> os_details st1 ! (ss_details s ! i) = d)"
      using array_in_grows [OF g s] that by (simp add: array_in_def)
    have same: "it_details (st_items next ! i) = it_details (?items ! i)" using that by (simp add: turn(2))
    show ?thesis
    proof (cases "i \<in> set changed")
      case True
      then have "refs ! i = length (os_items st) + rank i" using that by (simp add: refs_def)
      moreover have "os_items st1 ! (length (os_items st) + rank i) = st_items next ! i" "length (os_items st) + rank i < length (os_items st1)"
        using added rank [OF True] by simp_all
      ultimately show ?thesis using old same by simp
    next
      case False
      then have "refs ! i = ss_refs s ! i" "st_items next ! i = ?items ! i"
        using that in_changed by (simp_all add: refs_def turn(2))
      then show ?thesis using old by simp
    qed
  qed
  have "array_in st1 a refs (ss_details s) (st_items next)" unfolding array_in_def
    using here len(2) at by (simp add: turn(2))
  then show ?thesis using s' added g by simp
qed

lemma share_items_ok:
  assumes "store_ok st" and "array_in st (ss_array s) (ss_refs s) (ss_details s) (st_items (ss_state s))"
    and "reduceEvent (ss_state s) e = Inr next" and "share_items st s e next = (st', s')"
  shows "store_ok st' \<and> grows st st' \<and> array_in st' (ss_array s') (ss_refs s') (ss_details s') (st_items next)"
proof -
  consider "is_item_kind (ev_kind e)" | "ev_kind e = TurnEnd" | "\<not> is_item_kind (ev_kind e)" "ev_kind e \<noteq> TurnEnd" by blast
  then show ?thesis
  proof cases
    case 1
    then show ?thesis using share_item_ok [OF assms(1-3) 1] assms(4) by (simp add: share_items_def)
  next
    case 2
    then show ?thesis using share_turn_ok [OF assms(1-3) 2] assms(4) by (simp add: share_items_def is_item_kind_iff)
  next
    case 3
    then show ?thesis using reduce_items_other [OF assms(3) 3] assms(1,2,4) by (simp add: share_items_def)
  qed
qed

subsection \<open>Pending requests\<close>

lemma quiet_pending:
  "reduce_item s e n = Inr s' \<Longrightarrow> st_pending s' = st_pending n"
  "reduce_metadata s e n = Inr s' \<Longrightarrow> st_pending s' = st_pending n"
  "reduce_identity s e n = Inr s' \<Longrightarrow> st_pending s' = st_pending n"
  "reduce_queue s e n = Inr s' \<Longrightarrow> st_pending s' = st_pending n"
  "reduce_notice s e n = Inr s' \<Longrightarrow> st_pending s' = st_pending n"
  by (auto simp: reduce_item_eq_Inr Let_def)
    (auto simp: reduce_metadata_def reduce_identity_def reduce_queue_def reduce_notice_def result_simps split: option.splits if_splits)

lemma session_state_pending:
  "reduce_session_state s e n = Inr s' \<Longrightarrow> st_worker s' \<notin> {Closed, Disconnected} \<Longrightarrow> st_pending s' = st_pending n"
  unfolding reduce_session_state_def Let_def by (erule andThenE) (simp split: if_splits; auto)

lemma submitted_pending:
  "reduce_submitted s e n = Inr s' \<Longrightarrow> ev_itemId e = Some i \<Longrightarrow> member_get (st_pending s) i = Missing \<Longrightarrow> st_pending s' = st_pending s"
  by (auto simp: reduce_submitted_def)

lemma kept_pending:
  assumes "reduceEvent s e = Inr next" and "\<not> replaces_pending s e next"
  shows "st_pending next = st_pending s"
proof -
  have r: "reduce_kind (ev_kind e) s e (advance s e) = Inr next" using assms(1) by (simp add: reduceEvent_eq_Inr)
  have n: "st_pending (advance s e) = st_pending s" by (simp add: advance_def)
  show ?thesis
  proof (cases "ev_kind e")
    case InputSubmitted
    then obtain i where "ev_itemId e = Some i" using r by (cases "ev_itemId e") (simp_all add: reduce_kind_def reduce_submitted_def)
    then show ?thesis using r assms(2) InputSubmitted by (simp add: reduce_kind_def replaces_pending_def submitted_pending)
  qed (use r n assms(2) in \<open>auto simp: replaces_pending_def reduce_kind_def dest: quiet_pending session_state_pending\<close>)
qed

lemma share_pending_ok:
  assumes "store_ok st" and "pending_in st (ss_pending s) (st_pending (ss_state s))" and "reduceEvent (ss_state s) e = Inr next"
    and "share_pending st s e next = (st', s')"
  shows "store_ok st' \<and> grows st st' \<and> pending_in st' (ss_pending s') (st_pending next)
    \<and> ss_array s' = ss_array s \<and> ss_refs s' = ss_refs s \<and> ss_details s' = ss_details s"
proof (cases "replaces_pending (ss_state s) e next")
  case True
  then show ?thesis using assms(1,4) store_ok_more [OF assms(1), of st']
    by (auto simp: share_pending_def grows_def pending_in_def)
next
  case False
  then show ?thesis using assms kept_pending by (simp add: share_pending_def)
qed

subsection \<open>Events and new states\<close>

lemma share_event_ok:
  assumes "store_ok st" and "state_in st s" and "reduceEvent (ss_state s) e = Inr next" and "share_event st s e next = (st', s')"
    and "stream_ok n" and "st_items n = st_items next" and "st_pending n = st_pending next"
  shows "store_ok st' \<and> grows st st' \<and> state_in st' (s'\<lparr>ss_state := n\<rparr>)"
proof -
  obtain st1 s1 where 1: "share_items st s e next = (st1, s1)" by fastforce
  obtain st2 s2 where 2: "share_pending st1 s1 e next = (st2, s2)" by fastforce
  have i: "store_ok st1" "grows st st1" "array_in st1 (ss_array s1) (ss_refs s1) (ss_details s1) (st_items next)"
    using share_items_ok [OF assms(1) _ assms(3) 1] assms(2) by (auto simp: state_in_def)
  have "ss_pending s1 = ss_pending s \<and> ss_state s1 = ss_state s"
    using 1 by (auto simp: share_items_def share_item_def share_turn_def Let_def split: if_splits prod.splits)
  then have p: "store_ok st2" "grows st1 st2" "pending_in st2 (ss_pending s2) (st_pending next)" "ss_array s2 = ss_array s1"
      "ss_refs s2 = ss_refs s1" "ss_details s2 = ss_details s1"
    using share_pending_ok [OF i(1) _ _ 2] pending_in_grows [OF i(2)] assms(2,3) by (auto simp: state_in_def)
  have "s' = s2\<lparr>ss_state := next\<rparr>" "st' = st2" using assms(4) 1 2 by (simp_all add: share_event_def)
  then show ?thesis
    using p grows_trans [OF i(2) p(2)] array_in_grows [OF p(2) i(3)] assms(5-7) by (simp add: state_in_def)
qed

text \<open>Remembering a fingerprint makes none of these objects.\<close>

lemma replaces_pending_recent: "replaces_pending s e (n\<lparr>st_recent := recent\<rparr>) = replaces_pending s e n"
  by (cases "ev_kind e") (simp_all add: replaces_pending_def)

lemma share_items_recent: "share_items st s e (n\<lparr>st_recent := recent\<rparr>) = share_items st s e n"
  by (simp add: share_items_def share_item_def share_turn_def)

lemma share_event_recent:
  "share_event st s e (n\<lparr>st_recent := recent\<rparr>) =
     (case share_event st s e n of (st', s') \<Rightarrow> (st', s'\<lparr>ss_state := n\<lparr>st_recent := recent\<rparr>\<rparr>))"
  by (simp add: share_event_def share_items_recent share_pending_def replaces_pending_recent Let_def split: prod.split)

lemma apply_shared_ok:
  assumes "store_ok st" and "state_in st s"
  shows "case applyEvent dp sha (ss_state s) raw of
      Inl x \<Rightarrow> apply_shared dp sha (st, s) raw = Inl x
    | Inr n \<Rightarrow> \<exists>st' s'. apply_shared dp sha (st, s) raw = Inr (st', s') \<and> store_ok st' \<and> grows st st' \<and> state_in st' s' \<and> ss_state s' = n"
proof (cases "applyEvent dp sha (ss_state s) raw")
  case (Inl x)
  then show ?thesis
    by (cases "decodeEvent dp raw (st_sessionId (ss_state s)) (st_provider (ss_state s))") (simp_all add: applyEvent_def apply_shared_def)
next
  case (Inr n)
  then obtain e where e: "decodeEvent dp raw (st_sessionId (ss_state s)) (st_provider (ss_state s)) = Inr e"
      "apply_decoded (eventFingerprint sha) (ss_state s) e = Inr n" by (auto simp: applyEvent_def result_simps)
  have ok: "stream_ok n" using applyEvent_ok [OF _ Inr] assms(2) by (simp add: state_in_def)
  show ?thesis
  proof (cases "ev_seq e \<le> st_cursor (ss_state s)")
    case True
    then have "n = ss_state s" using e(2) by (auto simp: apply_decoded_def split: option.splits if_splits)
    then show ?thesis using e True Inr assms by (simp add: apply_shared_def)
  next
    case False
    then obtain n0 where n0: "reduceEvent (ss_state s) e = Inr n0"
        "n = n0\<lparr>st_recent := remember (ev_seq e) (eventFingerprint sha e) (st_recent (ss_state s))\<rparr>"
      using e(2) by (auto simp: apply_decoded_def result_simps split: if_splits)
    obtain st' s' where out: "share_event st s e n0 = (st', s')" by fastforce
    have kept: "store_ok st' \<and> grows st st' \<and> state_in st' (s'\<lparr>ss_state := n\<rparr>)"
      using share_event_ok [OF assms n0(1) out ok] n0(2) by simp
    then show ?thesis using e False Inr kept out n0(2) share_event_recent [where n = n0] by (simp add: apply_shared_def)
  qed
qed

lemma apply_all_shared_ok:
  assumes "store_ok st" and "state_in st s"
  shows "case apply_all dp sha (ss_state s) raws of
      Inl x \<Rightarrow> fold_result (apply_shared dp sha) (st, s) raws = Inl x
    | Inr n \<Rightarrow> \<exists>st' s'. fold_result (apply_shared dp sha) (st, s) raws = Inr (st', s') \<and> store_ok st' \<and> grows st st' \<and> state_in st' s'
        \<and> ss_state s' = n"
  using assms
proof (induction raws arbitrary: st s)
  case (Cons raw raws)
  show ?case
  proof (cases "applyEvent dp sha (ss_state s) raw")
    case (Inl x)
    then show ?thesis using apply_shared_ok [OF Cons.prems, of dp sha raw] by simp
  next
    case (Inr n)
    then obtain st1 s1 where 1: "apply_shared dp sha (st, s) raw = Inr (st1, s1)" "store_ok st1" "grows st st1" "state_in st1 s1"
        "ss_state s1 = n" using apply_shared_ok [OF Cons.prems, of dp sha raw] by auto
    show ?thesis using Cons.IH [OF 1(2,4)] 1 Inr grows_trans [OF 1(3)] by (cases "apply_all dp sha n raws") auto
  qed
qed simp

lemma nth_map_filter:
  "i < length xs \<Longrightarrow> f (xs ! i) = Some d \<Longrightarrow> length (filter (\<lambda>x. f x \<noteq> None) (take i xs)) < length (List.map_filter f xs)
     \<and> List.map_filter f xs ! length (filter (\<lambda>x. f x \<noteq> None) (take i xs)) = d"
proof (induction xs arbitrary: i)
  case (Cons x xs)
  then show ?case by (cases i) (auto simp: List.map_filter_simps split: option.splits)
qed simp

lemma install_state_ok:
  assumes "store_ok st" and "stream_ok state" and "install_state state st = (st', s)"
  shows "store_ok st' \<and> grows st st' \<and> state_in st' s \<and> ss_state s = state"
proof -
  have g: "grows st st'" using assms(3) by (auto simp: install_state_def Let_def grows_def)
  have "store_ok st'" using assms(3) by (intro store_ok_array [OF assms(1)]) (auto simp: install_state_def Let_def)
  moreover have "state_in st' s" using assms(2,3) nth_map_filter [of _ "st_items state" it_details]
    by (auto simp: install_state_def Let_def state_in_def array_in_def pending_in_def nth_append)
  moreover have "ss_state s = state" using assms(3) by (auto simp: install_state_def Let_def)
  ultimately show ?thesis using g by blast
qed

end
