(* ===== verification/Shared_Properties.thy ===== *)
theory Shared_Properties
  imports Shared_Props Presentation_Props Stream_Properties
begin

text \<open>
  What a mounted conversation renders, over the objects that its display states really share: the cached projection is the
  plain one, whatever was installed, flushed, retained and rendered in whatever order.
\<close>

subsection \<open>The heap at the end\<close>

definition heap_of :: "object_store \<Rightarrow> object_heap" where
  "heap_of st = \<lparr>oh_item = (!) (os_items st), oh_details = (!) (os_details st), oh_array = (!) (os_arrays st),
     oh_pending = (!) (os_pending st)\<rparr>"

lemma state_in_coherent:
  assumes "state_in st s"
  shows "coherent (heap_of st) s"
proof -
  have a: "array_in st (ss_array s) (ss_refs s) (ss_details s) (st_items (ss_state s))"
    and ok: "\<forall>x \<in> set (st_items (ss_state s)). item_ok x"
    using assms by (simp_all add: state_in_def stream_ok_def items_ok_def)
  have "map ((!) (os_items st)) (ss_refs s) = st_items (ss_state s)"
    by (rule nth_equalityI) (use a in \<open>simp_all add: array_in_def\<close>)
  then show ?thesis using a ok assms by (simp add: coherent_def heap_of_def array_in_def state_in_def pending_in_def)
qed

lemma store_sound_changes: "store_ok st \<Longrightarrow> sound_changes (heap_of st) (os_changes st)"
  unfolding store_ok_def sound_changes_def covers_def heap_of_def by simp

text \<open>A projection looks up the record of the array that it shows, and no other.\<close>

lemma projected_conversation_cong:
  assumes "recorded (ss_array s) = recorded' (ss_array s)"
  shows "projected_conversation parse dp recorded s loc p = projected_conversation parse dp recorded' s loc p"
proof -
  have "presentationItemChanges recorded a (ss_array s) = presentationItemChanges recorded' a (ss_array s)" for a
    using assms by (simp add: presentationItemChanges_def)
  then show ?thesis by (simp only: projected_conversation_def projector_items_def)
qed

subsection \<open>Runs\<close>

definition memory_in :: "memory \<Rightarrow> stream_state list \<Rightarrow> bool" where
  "memory_in m states \<longleftrightarrow> store_ok (mm_store m) \<and> map ss_state (mm_states m) = states
     \<and> (\<forall>s \<in> set (mm_states m). state_in (mm_store m) s)"

definition installs_ok :: "memory_action \<Rightarrow> bool" where
  "installs_ok a \<longleftrightarrow> (\<forall>state. a = Installed state \<longrightarrow> stream_ok state)"

lemma fresh_memory_in: "memory_in fresh_memory []"
  by (simp add: memory_in_def fresh_memory_def empty_store_ok)

lemma memory_in_added:
  assumes "memory_in m states" and "store_ok st" and "grows (mm_store m) st" and "state_in st s"
  shows "memory_in (m\<lparr>mm_store := st, mm_states := mm_states m @ [s]\<rparr>) (states @ [ss_state s])"
  using assms state_in_grows [OF assms(3)] by (auto simp: memory_in_def)

lemma memory_act_in:
  assumes "memory_in m states" and "installs_ok a"
  shows "memory_in (fst (memory_act parse dp sha m a)) (fst (plain_act parse dp sha states a))
    \<and> grows (mm_store m) (mm_store (fst (memory_act parse dp sha m a)))"
proof (cases a)
  case (Installed state)
  obtain st s where s: "install_state state (mm_store m) = (st, s)" by fastforce
  have "store_ok st \<and> grows (mm_store m) st \<and> state_in st s \<and> ss_state s = state"
    using install_state_ok [OF _ _ s] assms by (simp add: memory_in_def installs_ok_def Installed)
  then show ?thesis using memory_in_added [OF assms(1), of st s] by (simp add: Installed s)
next
  case (Flushed raws)
  show ?thesis
  proof (cases "mm_states m = []")
    case True
    then show ?thesis using assms(1) by (auto simp: Flushed flush_shared_def memory_in_def)
  next
    case False
    then have ok: "store_ok (mm_store m)" "state_in (mm_store m) (last (mm_states m))" "states \<noteq> []"
        "last states = ss_state (last (mm_states m))"
      using assms(1) by (auto simp: memory_in_def last_map)
    note all = apply_all_shared_ok [OF ok(1,2), of dp sha raws]
    show ?thesis
    proof (cases "apply_all dp sha (last states) raws")
      case (Inl x)
      then show ?thesis using all ok False assms(1) by (simp add: Flushed flush_shared_def)
    next
      case (Inr n)
      then obtain st s where "fold_result (apply_shared dp sha) (mm_store m, last (mm_states m)) raws = Inr (st, s)"
          "store_ok st" "grows (mm_store m) st" "state_in st s" "ss_state s = n" using all ok(4) by auto
      then show ?thesis using memory_in_added [OF assms(1), of st s] Inr ok(3) False by (simp add: Flushed flush_shared_def)
    qed
  qed
next
  case Remounted
  then show ?thesis using assms(1) by (simp add: memory_in_def)
next
  case (Rendered k loc)
  then show ?thesis using assms(1) by (auto simp: memory_in_def split: prod.splits)
qed

fun last_store :: "json_parser \<Rightarrow> date_parser \<Rightarrow> (byte list \<Rightarrow> byte list) \<Rightarrow> memory \<Rightarrow> memory_action list \<Rightarrow> object_store" where
  "last_store parse dp sha m [] = mm_store m"
| "last_store parse dp sha m (a # as) = last_store parse dp sha (fst (memory_act parse dp sha m a)) as"

lemma last_store_grows:
  assumes "memory_in m states" and "\<forall>a \<in> set as. installs_ok a"
  shows "grows (mm_store m) (last_store parse dp sha m as) \<and> store_ok (last_store parse dp sha m as)"
  using assms
proof (induction as arbitrary: m states)
  case Nil
  then show ?case by (simp add: memory_in_def)
next
  case (Cons a as)
  have a: "memory_in (fst (memory_act parse dp sha m a)) (fst (plain_act parse dp sha states a))"
    "grows (mm_store m) (mm_store (fst (memory_act parse dp sha m a)))"
    using memory_act_in [OF Cons.prems(1)] Cons.prems(2) by simp_all
  show ?case using Cons.IH [OF a(1)] Cons.prems(2) grows_trans [OF a(2)] by simp
qed

lemma plain_projection_no_stray:
  assumes "andThen (nativeConversationModel parse dp s loc) (\<lambda>m. Inr (as_projected m)) = Inr r"
  shows "no_stray s"
proof (rule ccontr)
  assume "\<not> no_stray s"
  from projectPending_stray [OF this] show False using assms by (simp add: nativeConversationModel_def)
qed

lemma flushed_projector: "mm_projector (flush_shared dp sha raws m) = mm_projector m"
  by (simp add: flush_shared_def split: sum.split prod.split)

lemma memory_renders_plain:
  assumes "memory_in m states" and "\<forall>a \<in> set as. installs_ok a"
    and "\<forall>r \<in> set (plain_renders parse dp sha states as). \<exists>m. r = Inr m"
    and "projector_ok parse dp (heap_of (last_store parse dp sha m as)) (mm_projector m)"
    and "others_ok (heap_of (last_store parse dp sha m as)) (mm_projector m)"
  shows "memory_renders parse dp sha m as = plain_renders parse dp sha states as"
  using assms
proof (induction as arbitrary: m states)
  case (Cons a as)
  let ?m = "fst (memory_act parse dp sha m a)" and ?states = "fst (plain_act parse dp sha states a)"
  let ?final = "last_store parse dp sha m (a # as)"
  have act: "memory_in ?m ?states" "grows (mm_store m) (mm_store ?m)" using memory_act_in [OF Cons.prems(1)] Cons.prems(2) by simp_all
  have last: "grows (mm_store m) ?final" "store_ok ?final" using last_store_grows [OF Cons.prems(1,2)] by simp_all
  have quiet: ?case if "snd (memory_act parse dp sha m a) = None" "snd (plain_act parse dp sha states a) = None"
      "projector_ok parse dp (heap_of ?final) (mm_projector ?m)" "others_ok (heap_of ?final) (mm_projector ?m)"
    using Cons.IH [OF act(1)] Cons.prems(2,3) that by (auto split: prod.splits)
  show ?case
  proof (cases a)
    case (Installed state)
    show ?thesis by (rule quiet; cases "install_state state (mm_store m)") (use Cons.prems(4,5) Installed in simp_all)
  next
    case (Flushed raws)
    show ?thesis by (rule quiet) (use Cons.prems(4,5) Flushed flushed_projector in simp_all)
  next
    case Remounted
    show ?thesis by (rule quiet) (use Remounted new_projector_ok in simp_all)
  next
    case (Rendered k loc)
    have states: "states = map ss_state (mm_states m)" using Cons.prems(1) by (simp add: memory_in_def)
    show ?thesis
    proof (cases "k < length states")
      case False
      show ?thesis by (rule quiet) (use Cons.prems(4,5) Rendered states False in simp_all)
    next
      case True
      let ?s = "mm_states m ! k"
      have s: "state_in (mm_store m) ?s" "ss_state ?s = states ! k" using Cons.prems(1) True states by (simp_all add: memory_in_def)
      have "coherent (heap_of ?final) ?s" using state_in_coherent state_in_grows [OF last(1) s(1)] by blast
      moreover have "no_stray (ss_state ?s)"
        using Cons.prems(3) True s(2) Rendered plain_projection_no_stray by (auto simp: states)
      ultimately obtain c q where c: "projected_conversation parse dp (os_changes ?final) ?s loc (mm_projector m) = (Inr (as_projected c), q)"
          "nativeConversationModel parse dp (states ! k) loc = Inr c" "projector_ok parse dp (heap_of ?final) q" "others_ok (heap_of ?final) q"
        using projected_conversation_ok [OF Cons.prems(4,5) _ store_sound_changes [OF last(2)]] s(2) by metis
      have "ss_array ?s < length (os_arrays (mm_store m))" using s(1) by (simp add: state_in_def array_in_def)
      then have "projected_conversation parse dp (os_changes (mm_store m)) ?s loc (mm_projector m) = (Inr (as_projected c), q)"
        using projected_conversation_cong [of "os_changes (mm_store m)" ?s "os_changes ?final"] growsD(5) [OF last(1)] c(1) by metis
      then have m: "memory_act parse dp sha m a = (m\<lparr>mm_projector := q\<rparr>, Some (Inr (as_projected c)))"
        using True states Rendered by simp
      have p: "plain_act parse dp sha states a = (states, Some (Inr (as_projected c)))" using True Rendered c(2) by simp
      have rest: "memory_in (m\<lparr>mm_projector := q\<rparr>) states" using act(1) m p by simp
      have heap: "last_store parse dp sha m (a # as) = last_store parse dp sha (m\<lparr>mm_projector := q\<rparr>) as" using m by simp
      have "memory_renders parse dp sha (m\<lparr>mm_projector := q\<rparr>) as = plain_renders parse dp sha states as"
        by (rule Cons.IH [OF rest]) (use Cons.prems(2,3) c(3,4) p heap in auto)
      then show ?thesis using m p by simp
    qed
  qed
qed simp

subsection \<open>The property\<close>

text \<open>
  C10. The caches of a mounted conversation change nothing. Whatever display states a hook installs, whatever batches of
  events it flushes into the current one, and whichever of those states, the current or a retained one, a
  conversation renders in whatever locale and after whatever remounts, each model that the cached projector
  returns is the plain projection of the state rendered. Which objects the states share is what the reducer
  makes; the installed states are well-formed, as seeds are, and the plain projections exist.
\<close>

theorem caches_change_nothing:
  assumes "\<forall>state. Installed state \<in> set actions \<longrightarrow> stream_ok state"
    and "\<forall>r \<in> set (plain_renders parse dp sha [] actions). \<exists>m. r = Inr m"
  shows "memory_renders parse dp sha fresh_memory actions = plain_renders parse dp sha [] actions"
proof (rule memory_renders_plain [OF fresh_memory_in _ assms(2)])
  show "\<forall>a \<in> set actions. installs_ok a" using assms(1) by (auto simp: installs_ok_def)
qed (simp_all add: fresh_memory_def new_projector_ok)

text \<open>A session that runs a turn; the state before it is retained and rendered again after it.\<close>

definition sample_renders :: "memory_action list" where
  "sample_renders = [Installed sample_state, Rendered 0 En, Flushed sample_run, Rendered 1 Zh, Rendered 0 En, Remounted, Rendered 1 En]"

lemma no_pending_model: "st_pending s = [] \<Longrightarrow> \<exists>m. nativeConversationModel parse dp s loc = Inr m"
  by (simp add: nativeConversationModel_def projectPending_def prop_values_def Let_def)

theorem caches_change_nothing_witness:
  "memory_renders (\<lambda>_. None) sample_dates id fresh_memory sample_renders = plain_renders (\<lambda>_. None) sample_dates id [] sample_renders
     \<and> length (plain_renders (\<lambda>_. None) sample_dates id [] sample_renders) = 4"
proof -
  obtain s' where s': "apply_all sample_dates id sample_state sample_run = Inr s'" "st_pending s' = []"
    using sample_run_applies by blast
  have s: "st_pending sample_state = []" by (simp add: sample_state_def emptyStream_def)
  obtain c0 c1 c2 where c: "nativeConversationModel (\<lambda>_. None) sample_dates sample_state En = Inr c0"
      "nativeConversationModel (\<lambda>_. None) sample_dates s' Zh = Inr c1" "nativeConversationModel (\<lambda>_. None) sample_dates s' En = Inr c2"
    using no_pending_model s s'(2) by metis
  have plain: "plain_renders (\<lambda>_. None) sample_dates id [] sample_renders
      = [Inr (as_projected c0), Inr (as_projected c1), Inr (as_projected c0), Inr (as_projected c2)]"
    using s'(1) c by (simp add: sample_renders_def)
  have "\<forall>r \<in> set (plain_renders (\<lambda>_. None) sample_dates id [] sample_renders). \<exists>m. r = Inr m" by (simp add: plain)
  moreover have "\<forall>state. Installed state \<in> set sample_renders \<longrightarrow> stream_ok state" by (simp add: sample_renders_def)
  ultimately show ?thesis using caches_change_nothing [of sample_renders] plain by simp
qed

end
