(* ===== verification/Timeline_Keys.thy ===== *)
theory Timeline_Keys
  imports Items_Properties Presentation_Props Stream_Runs
begin

text \<open>
  The keys of the timeline: every row of a conversation, whatever it comes from, has an identity of its own. The
  list that shows the rows relies on it (\<open>timelineItemKey\<close>), and so does the state of expanded rows.
\<close>

subsection \<open>Merged rows\<close>

lemma mset_merged: "mset (mergeTimelineItems dp ns as) = mset ns + mset as"
  using mset_shuffles [OF merge_dated_shuffle [of dp ns "dated_items dp as"]] dated_items_mset [of dp as]
  by (simp add: mergeTimelineItems_def)

lemma set_merged: "set (mergeTimelineItems dp ns as) = set ns \<union> set as"
  using arg_cong [OF mset_merged, of set_mset dp ns as] by simp

text \<open>The identities of the rows of a conversation, by their sources.\<close>

lemma conversation_items_ids:
  assumes "conversation_items parse dp p = Inr items"
  obtains m decided where "nativeConversationModel parse dp (cp_state p) (cp_locale p) = Inr m"
    and "decisions (cp_state p) (cp_locale p) = Inr decided"
    and "mset (map row_id items) = mset (map row_id (cm_items m) @ map (tc_id \<circ> fst) decided
       @ map (tc_id \<circ> fr_row) (failures (cp_state p) (cp_locale p)) @ map row_id (cp_additionalItems p)
       @ map tm_id (optimisticTimelineItems (st_sessionId (cp_state p)) (st_items (cp_state p)) (cp_optimistic p) (cp_locale p) (cp_canRetry p)))"
proof -
  obtain m decided where m: "nativeConversationModel parse dp (cp_state p) (cp_locale p) = Inr m"
    "decisions (cp_state p) (cp_locale p) = Inr decided"
    using assms by (auto simp: conversation_items_def Let_def result_simps)
  define own where "own = map (\<lambda>d. Custom (fst d)) decided @ map (\<lambda>f. Custom (fr_row f)) (failures (cp_state p) (cp_locale p))
     @ cp_additionalItems p @ map Message (optimisticTimelineItems (st_sessionId (cp_state p)) (st_items (cp_state p))
         (cp_optimistic p) (cp_locale p) (cp_canRetry p))"
  have "items = (if own = [] then cm_items m else mergeTimelineItems dp (cm_items m) own)"
    using assms m by (auto simp: conversation_items_def Let_def own_def split: if_splits)
  then have "mset items = mset (cm_items m @ own)" by (cases "own = []") (simp_all add: mset_merged)
  then have "mset (map row_id items) = mset (map row_id (cm_items m @ own))" by (metis mset_map)
  then show thesis by (intro that [OF m]) (simp add: own_def comp_def)
qed

subsection \<open>Identities by source\<close>

lemma native_ids:
  assumes "items_ok s" and "is_safe_id (st_sessionId s)" and "nativeConversationModel parse dp s loc = Inr m"
  shows "distinct (map row_id (cm_items m))"
    and "set (map row_id (cm_items m)) \<subseteq> timeline_id s ` set (st_items s) \<union> {st_sessionId s @ js '':last-turn''}"
proof -
  have "st_sessionId s \<noteq> []" "hd (st_sessionId s) \<noteq> 91"
    using assms(2) by (auto simp: is_safe_id_def char_class_defs split: list.splits)
  from last_turn_row [OF this] rows_distinct [OF assms(1)]
  show "distinct (map row_id (cm_items m))" using assms(3)
    by (auto simp: nativeConversationModel_def Let_def result_simps plain_items_def comp_def split: prod.splits)
  show "set (map row_id (cm_items m)) \<subseteq> timeline_id s ` set (st_items s) \<union> {st_sessionId s @ js '':last-turn''}" using assms(3)
    by (auto simp: nativeConversationModel_def Let_def result_simps row_id_item lastTurnPresentation_def split: if_splits)
qed

lemma decision_ids:
  assumes "requests_ok s" and "decisions s loc = Inr decided"
  shows "distinct (map (tc_id \<circ> fst) decided)" and "\<forall>i \<in> set (map (tc_id \<circ> fst) decided). \<exists>k. i = js ''decision:'' @ st_sessionId s @ js '':'' @ k"
proof -
  define row where "row k = js ''decision:'' @ st_sessionId s @ js '':'' @ k" for k :: jstr
  have entries: "map (tc_id \<circ> fst) out = map (row \<circ> fst) es"
    if "traverse (decision_history s loc) (map snd es) = Inr out" "\<forall>(k, d) \<in> set es. decision_ok k d" for es out
    using that
  proof (induction es arbitrary: out)
    case (Cons e es)
    obtain k d where e: "e = (k, d)" by fastforce
    obtain x xs where x: "decision_history s loc d = Inr x" "traverse (decision_history s loc) (map snd es) = Inr xs" "out = x # xs"
      using Cons.prems(1) e by (auto simp: result_simps)
    have "tc_id (fst x) = row k"
      using x(1) Cons.prems(2) e by (auto simp: decision_history_def decision_ok_def row_def result_simps split: option.splits)
    then show ?case using Cons.IH [OF x(2)] Cons.prems(2) x(3) e by simp
  qed simp
  let ?settled = "\<lambda>d. dr_status d = AnsweredDecision \<or> dr_status d = ExpiredDecision"
  define es where "es = filter (\<lambda>e. ?settled (snd e)) (st_decisions s)"
  have "filter ?settled (prop_values (st_decisions s)) = map snd es"
    unfolding prop_values_def es_def by (simp add: filter_map comp_def)
  then have t: "traverse (decision_history s loc) (map snd es) = Inr decided" using assms(2) by (simp add: decisions_def)
  have dis: "distinct_keys (st_decisions s)" and all: "\<forall>k d. prop_get (st_decisions s) k = Some d \<longrightarrow> decision_ok k d"
    using assms(1) by (simp_all add: requests_ok_def)
  have "\<forall>(k, d) \<in> set es. decision_ok k d" using dis all by (auto simp: es_def distinct_keys_def prop_get_def)
  note ids = entries [OF t this]
  have "distinct (map fst es)" using dis by (simp add: es_def distinct_keys_def distinct_map_filter)
  moreover have "inj row" by (rule injI) (simp add: row_def)
  ultimately show "distinct (map (tc_id \<circ> fst) decided)" unfolding ids
    by (metis distinct_map inj_on_subset list.map_comp subset_UNIV)
  show "\<forall>i \<in> set (map (tc_id \<circ> fst) decided). \<exists>k. i = js ''decision:'' @ st_sessionId s @ js '':'' @ k" unfolding ids by (auto simp: row_def)
qed

lemma failure_ids:
  assumes "distinct_keys (get_or [] (st_turnFailures s))"
  shows "distinct (map (tc_id \<circ> fr_row) (failures s loc))" and "\<forall>i \<in> set (map (tc_id \<circ> fr_row) (failures s loc)).
         \<exists>k. i = js ''failure:'' @ st_sessionId s @ js '':'' @ k"
proof -
  define row where "row k = js ''failure:'' @ st_sessionId s @ js '':'' @ k" for k :: jstr
  have ids: "map (tc_id \<circ> fr_row) (failures s loc) = map row (map fst (get_or [] (st_turnFailures s)))"
    by (auto simp: failures_def failure_row_of_def row_def split: prod.splits)
  have "inj row" by (rule injI) (simp add: row_def)
  then show "distinct (map (tc_id \<circ> fr_row) (failures s loc))" unfolding ids
    using assms by (metis distinct_keys_def distinct_map inj_on_subset subset_UNIV)
  show "\<forall>i \<in> set (map (tc_id \<circ> fr_row) (failures s loc)).
         \<exists>k. i = js ''failure:'' @ st_sessionId s @ js '':'' @ k" unfolding ids by (auto simp: row_def)
qed

text \<open>The identity of an optimistic row is that of the message it stands for, or names the prompt.\<close>

lemma optimistic_ids:
  assumes "r \<in> set (optimisticTimelineItems (st_sessionId s) (st_items s) out loc retry)"
    and "\<forall>x \<in> set (st_items s). it_id x = js ''user'' \<longrightarrow> it_role x = UserRole"
  shows "tm_id r \<notin> timeline_id s ` set (st_items s)"
    and "hd (tm_id r) = 91 \<or> (\<exists>k. tm_id r = js ''optimistic:'' @ k)"
proof -
  obtain m where m: "wanted (st_sessionId s) (received_turns (st_items s)) m" "tm_id r = optimistic_id (st_sessionId s) m"
    using optimistic_rows_ok [of "st_sessionId s" "received_turns (st_items s)" loc retry out] assms(1)
    by (auto simp: rows_ok_def optimisticTimelineItems_def)
  have "optimistic_id (st_sessionId s) m \<noteq> timeline_id s x" if "x \<in> set (st_items s)" for x
  proof (cases "it_role x = UserRole")
    case True
    then show ?thesis using optimistic_id_canonical [OF m(1) that] by blast
  next
    case False
    then have "it_id x \<noteq> js ''user''" using assms(2) that by blast
    then have "stringify (JArr [JStr (st_sessionId s), JStr t, JStr (js ''user'')]) \<noteq> timeline_id s x" for t
      using stringify_texts_inject [of "[st_sessionId s, t, js ''user'']" "[st_sessionId s, it_turnId x, it_id x]"]
      by (auto simp: timeline_id_def)
    moreover have "js ''optimistic:'' @ om_id m \<noteq> timeline_id s x" by (simp add: timeline_id_def js_def)
    ultimately show ?thesis by (auto simp: optimistic_id_def split: option.splits list.splits)
  qed
  then show "tm_id r \<notin> timeline_id s ` set (st_items s)" using m(2) by auto
  show "hd (tm_id r) = 91 \<or> (\<exists>k. tm_id r = js ''optimistic:'' @ k)"
    using m(2) by (auto simp: optimistic_id_def split: option.splits list.splits)
qed

text \<open>A safe session id has no colon, so what precedes the first one tells the sources apart.\<close>

lemma safe_id_no_colon: "is_safe_id i \<Longrightarrow> 58 \<notin> set i"
  by (cases i) (auto simp: is_safe_id_def char_class_defs list_all_iff)

lemma last_turn_source:
  assumes "is_safe_id i" and "i @ js '':last-turn'' = t @ 58 # k" and "58 \<notin> set t"
  shows "i = t" and "k = js ''last-turn''"
proof -
  have "takeWhile (\<lambda>c. c \<noteq> 58) (i @ js '':last-turn'') = i"
    using safe_id_no_colon [OF assms(1)] by (subst takeWhile_append2) (auto simp: js_def)
  moreover have "takeWhile (\<lambda>c. c \<noteq> 58) (t @ 58 # k) = t" using assms(3) by (subst takeWhile_append2) auto
  ultimately show "i = t" using assms(2) by simp
  then show "k = js ''last-turn''" using assms(2) by (simp add: js_def)
qed

text \<open>Without the host's rows the identities are distinct; the host's rows are added to them.\<close>

lemma source_ids_apart:
  assumes s: "is_safe_id (st_sessionId s)" "st_sessionId s \<noteq> js ''optimistic''"
    and user: "\<forall>x \<in> set (st_items s). it_id x = js ''user'' \<longrightarrow> it_role x = UserRole"
    and m: "items_ok s" "nativeConversationModel parse dp s loc = Inr m"
    and d: "\<forall>i \<in> set ds. \<exists>k. i = js ''decision:'' @ st_sessionId s @ js '':'' @ k"
    and f: "\<forall>i \<in> set fs. \<exists>k. i = js ''failure:'' @ st_sessionId s @ js '':'' @ k"
    and os: "os = map tm_id (optimisticTimelineItems (st_sessionId s) (st_items s) out loc retry)"
  shows "set (map row_id (cm_items m)) \<inter> (set ds \<union> set fs \<union> set os) = {}"
    and "set ds \<inter> set fs = {}" and "(set ds \<union> set fs) \<inter> set os = {}"
proof -
  have rows: "set (map row_id (cm_items m)) \<subseteq> timeline_id s ` set (st_items s) \<union> {st_sessionId s @ js '':last-turn''}"
    by (rule native_ids(2) [OF m(1) s(1) m(2)])
  have o: "i \<notin> timeline_id s ` set (st_items s)" "hd i = 91 \<or> (\<exists>k. i = js ''optimistic:'' @ k)" if mem: "i \<in> set os" for i
  proof -
    obtain r where r: "r \<in> set (optimisticTimelineItems (st_sessionId s) (st_items s) out loc retry)" "i = tm_id r"
      using mem os by auto
    show "i \<notin> timeline_id s ` set (st_items s)" "hd i = 91 \<or> (\<exists>k. i = js ''optimistic:'' @ k)"
      unfolding r(2) by (fact optimistic_ids [OF r(1) user])+
  qed
  have turn: "hd (st_sessionId s @ js '':last-turn'') \<noteq> 91"
    using s(1) by (auto simp: is_safe_id_def char_class_defs split: list.splits)
  have item: "hd (timeline_id s x) = 91" for x by (simp add: timeline_id_def)
  have heads: "\<forall>i \<in> set ds. hd i = 100" "\<forall>i \<in> set fs. hd i = 102" "\<forall>i \<in> set os. hd i = 91 \<or> hd i = 111"
    using d f by (auto simp: js_def dest!: o(2))
  have "st_sessionId s @ js '':last-turn'' \<notin> set os"
    using o(2) turn last_turn_source(1) [OF s(1), of "js ''optimistic''"] s(2) by (force simp: js_def)
  moreover have "st_sessionId s @ js '':last-turn'' \<notin> set ds"
    using d last_turn_source(2) [OF s(1), of "js ''decision''"] by (force simp: js_def)
  moreover have "st_sessionId s @ js '':last-turn'' \<notin> set fs"
    using f last_turn_source(2) [OF s(1), of "js ''failure''"] by (force simp: js_def)
  moreover have "timeline_id s x \<notin> set ds \<union> set fs" for x using item [of x] heads(1,2) by fastforce
  ultimately show "set (map row_id (cm_items m)) \<inter> (set ds \<union> set fs \<union> set os) = {}"
    using rows o(1) by blast
  show "set ds \<inter> set fs = {}" using heads by fastforce
  show "(set ds \<union> set fs) \<inter> set os = {}" using heads by fastforce
qed

lemma conversation_ids_split:
  assumes "conversation_items parse dp p = Inr items" and "conversation_items parse dp (p\<lparr>cp_additionalItems := []\<rparr>) = Inr own"
  shows "mset (map row_id items) = mset (map row_id own) + mset (map row_id (cp_additionalItems p))"
proof -
  obtain m d where m: "nativeConversationModel parse dp (cp_state p) (cp_locale p) = Inr m" "decisions (cp_state p) (cp_locale p) = Inr d"
    and ids: "mset (map row_id items) = mset (map row_id (cm_items m) @ map (tc_id \<circ> fst) d
       @ map (tc_id \<circ> fr_row) (failures (cp_state p) (cp_locale p)) @ map row_id (cp_additionalItems p)
       @ map tm_id (optimisticTimelineItems (st_sessionId (cp_state p)) (st_items (cp_state p)) (cp_optimistic p) (cp_locale p) (cp_canRetry p)))"
    using conversation_items_ids [OF assms(1)] by blast
  have "mset (map row_id own) = mset (map row_id (cm_items m) @ map (tc_id \<circ> fst) d
       @ map (tc_id \<circ> fr_row) (failures (cp_state p) (cp_locale p))
       @ map tm_id (optimisticTimelineItems (st_sessionId (cp_state p)) (st_items (cp_state p)) (cp_optimistic p) (cp_locale p) (cp_canRetry p)))"
    by (rule conversation_items_ids [OF assms(2)]) (use m in simp)
  with ids show ?thesis by simp
qed

lemma own_ids_distinct:
  assumes "stream_ok (cp_state p)" and "is_safe_id (st_sessionId (cp_state p))" and "st_sessionId (cp_state p) \<noteq> js ''optimistic''"
    and "\<forall>x \<in> set (st_items (cp_state p)). it_id x = js ''user'' \<longrightarrow> it_role x = UserRole"
    and "distinct_keys (get_or [] (st_turnFailures (cp_state p)))"
    and "conversation_items parse dp p = Inr items" and "cp_additionalItems p = []"
  shows "distinct (map row_id items)"
proof -
  let ?s = "cp_state p" and ?out = "optimisticTimelineItems (st_sessionId (cp_state p)) (st_items (cp_state p))
     (cp_optimistic p) (cp_locale p) (cp_canRetry p)"
  obtain m decided where m: "nativeConversationModel parse dp ?s (cp_locale p) = Inr m"
    and d: "decisions ?s (cp_locale p) = Inr decided"
    and ids: "mset (map row_id items) = mset (map row_id (cm_items m) @ map (tc_id \<circ> fst) decided
       @ map (tc_id \<circ> fr_row) (failures ?s (cp_locale p)) @ map row_id (cp_additionalItems p) @ map tm_id ?out)"
    using conversation_items_ids [OF assms(6)] by blast
  have ok: "items_ok ?s" "requests_ok ?s" using assms(1) by (simp_all add: stream_ok_def)
  note apart = source_ids_apart [OF assms(2-4) ok(1) m decision_ids(2) [OF ok(2) d] failure_ids(2) [OF assms(5)] refl]
  have "distinct (map tm_id ?out)"
    using optimistic_rows_ok by (auto simp: rows_ok_def optimisticTimelineItems_def)
  with native_ids(1) [OF ok(1) assms(2) m] decision_ids(1) [OF ok(2) d] failure_ids(1) [OF assms(5)] apart
  have "distinct (map row_id (cm_items m) @ map (tc_id \<circ> fst) decided @ map (tc_id \<circ> fr_row) (failures ?s (cp_locale p)) @ map tm_id ?out)"
    unfolding distinct_append by (simp only: set_append) blast
  then show ?thesis unfolding mset_eq_imp_distinct_iff [OF ids] by (simp add: assms(7))
qed

subsection \<open>One failure for a turn\<close>

text \<open>Only the end of a turn records a failure, under the name of its turn.\<close>

lemma reduce_kind_failures:
  assumes "reduce_kind k s e n = Inr s'" and "st_turnFailures n = st_turnFailures s"
    and "distinct_keys (get_or [] (st_turnFailures s))"
  shows "distinct_keys (get_or [] (st_turnFailures s'))"
proof (cases k)
  case TurnEnd
  then show ?thesis using assms
    by (auto simp: reduce_kind_def reduce_turn_end_def props.inv_put split: option.splits)
next
  case SessionState
  then have "reduce_session_state s e n = Inr s'" using assms(1) by (simp add: reduce_kind_def)
  then have "st_turnFailures s' = st_turnFailures n"
    unfolding reduce_session_state_def Let_def by (elim andThenE) (simp split: if_splits; auto)
  then show ?thesis using assms by simp
qed (use assms in \<open>auto simp: reduce_kind_def reduce_metadata_def reduce_runtime_def reduce_identity_def reduce_item_eq_Inr Let_def
    reduce_request_def reduce_submitted_def reduce_resolved_def reduce_queue_def reduce_notice_def result_simps
    split: option.splits if_splits\<close>)

lemma reduceEvent_failure_keys:
  assumes "reduceEvent s e = Inr s'" and "distinct_keys (get_or [] (st_turnFailures s))"
  shows "distinct_keys (get_or [] (st_turnFailures s'))"
  using assms reduce_kind_failures [of "ev_kind e" s e "advance s e" s'] by (simp add: reduceEvent_eq_Inr advance_def)

subsection \<open>The keys\<close>

text \<open>
  The two names are reserved by the code only. An item \<open>user\<close> that the operator did not write has the key of the
  outgoing message of its turn, and the last turn of a session \<open>optimistic\<close> that of a message \<open>last-turn\<close>.
\<close>

theorem item_named_user_shares_its_key:
  assumes "it_id x = js ''user''" and "om_turnId m = Some (it_turnId x)" and "it_turnId x \<noteq> []"
  shows "tm_id (optimistic_row (st_sessionId s) loc canRetry m) = timeline_id s x"
  using assms by (cases "it_turnId x") (simp_all add: optimistic_id_def timeline_id_def)

theorem session_named_optimistic_shares_its_key:
  assumes "st_sessionId s = js ''optimistic''" and "om_turnId m = None" and "om_id m = js ''last-turn''"
  shows "tm_id (optimistic_row (st_sessionId s) loc canRetry m) = row_id (lastTurnPresentation s loc)"
  using assms by (simp add: optimistic_id_def lastTurnPresentation_def js_def)

definition keyed_sample :: conversation_presentation where
  "keyed_sample = \<lparr>cp_state = sample_state\<lparr>st_lastTurnStatus := js ''unknown''\<rparr>, cp_locale = En,
     cp_additionalItems = [Custom \<lparr>tc_id = js ''host:1'', tc_createdAt = None\<rparr>], cp_optimistic = sample_outgoing,
     cp_canRetry = False, cp_canRefresh = False\<rparr>"

text \<open>
  C15. Every row of a conversation has a key of its own, whatever it comes from. In a well-formed display state
  that has at most one failure for a turn, of a session with a safe identity other than \<open>optimistic\<close>, and
  where an item named \<open>user\<close> is a message of the user, the provider's items, the last turn's notice, settled
  decisions, failed turns and optimistic messages never share a key, so the keys of the list are distinct exactly
  when the rows the host adds have distinct keys and none of the conversation's. Without the conditions on
  the two names it is false, as the two theorems above show.
\<close>

theorem rows_have_distinct_ids:
  assumes "stream_ok (cp_state p)" and "distinct_keys (get_or [] (st_turnFailures (cp_state p)))"
    and "is_safe_id (st_sessionId (cp_state p))" and "st_sessionId (cp_state p) \<noteq> js ''optimistic''"
    and "\<forall>x \<in> set (st_items (cp_state p)). it_id x = js ''user'' \<longrightarrow> it_role x = UserRole"
    and "conversation_items parse dp (p\<lparr>cp_additionalItems := []\<rparr>) = Inr own" and "conversation_items parse dp p = Inr items"
  shows "distinct (map row_id own) \<and> (distinct (map row_id items) \<longleftrightarrow>
     distinct (map row_id (cp_additionalItems p)) \<and> row_id ` set (cp_additionalItems p) \<inter> row_id ` set own = {})"
proof -
  have own: "distinct (map row_id own)"
    by (rule own_ids_distinct [where p = "p\<lparr>cp_additionalItems := []\<rparr>"]) (use assms in simp_all)
  have "mset (map row_id items) = mset (map row_id own @ map row_id (cp_additionalItems p))"
    using conversation_ids_split [OF assms(7,6)] by simp
  from mset_eq_imp_distinct_iff [OF this] show ?thesis using own by (auto simp: distinct_append)
qed

theorem rows_have_distinct_ids_witness:
  "\<exists>items. conversation_items (\<lambda>_. None) sample_dates keyed_sample = Inr items \<and> distinct (map row_id items)
     \<and> js ''host:1'' \<in> row_id ` set items"
proof -
  note keyed = keyed_sample_def sample_outgoing_def sample_state_def emptyStream_def
  note eval = conversation_items_def nativeConversationModel_def projectPending_def prop_values_def shows_last_turn_def
    decisions_def failures_def optimisticTimelineItems_def optimistic_step_def plain_items_def
  obtain items where i: "conversation_items (\<lambda>_. None) sample_dates keyed_sample = Inr items"
    by (simp add: eval keyed Let_def)
  have o: "\<exists>own. conversation_items (\<lambda>_. None) sample_dates (keyed_sample\<lparr>cp_additionalItems := []\<rparr>) = Inr own
     \<and> row_id ` set own = {js ''optimistic:o1'', js ''s1:last-turn''}"
    by (simp add: eval keyed Let_def set_merged) (simp add: lastTurnPresentation_def optimistic_id_def js_def insert_commute)
  have "stream_ok (cp_state keyed_sample)" "distinct_keys (get_or [] (st_turnFailures (cp_state keyed_sample)))"
    "is_safe_id (st_sessionId (cp_state keyed_sample))" "st_sessionId (cp_state keyed_sample) \<noteq> js ''optimistic''"
    "\<forall>x \<in> set (st_items (cp_state keyed_sample)). it_id x = js ''user'' \<longrightarrow> it_role x = UserRole"
    using emptyStream_ok [of "js ''s1''" Codex]
    by (simp_all add: keyed distinct_keys_def js_def is_safe_id_def char_class_defs stream_ok_def items_ok_def requests_ok_def
      notices_ok_def facts_ok_def recent_ok_def)
  note keys = rows_have_distinct_ids [OF this _ i]
  from i have "js ''host:1'' \<in> row_id ` set items"
    by (auto simp: eval keyed Let_def set_merged)
  moreover from o keys have "distinct (map row_id items)" by (auto simp: keyed_sample_def js_def)
  ultimately show ?thesis using i by blast
qed

end
