(* ===== verification/Event_Bounds.thy ===== *)
theory Event_Bounds
  imports Decode_Bounds Samples
begin

text \<open>
  The bounds on the texts of an event: every text field of an admitted event, of its request, decision, queue,
  metadata and structured details is at most as long as the protocol allows, and every list as many.
\<close>

definition fits :: "nat \<Rightarrow> jstr \<Rightarrow> bool" where
  "fits n t \<longleftrightarrow> length t \<le> n"

definition opt_fits :: "nat \<Rightarrow> jstr option \<Rightarrow> bool" where
  "opt_fits n = pred_option (fits n)"

definition few :: "nat \<Rightarrow> ('a \<Rightarrow> bool) \<Rightarrow> 'a list \<Rightarrow> bool" where
  "few n ok xs \<longleftrightarrow> length xs \<le> n \<and> list_all ok xs"

lemma string_of_fits: "string_of n v = Inr t \<Longrightarrow> fits n t"
  by (simp add: fits_def string_of_ok)



interpretation texts: sound_decoder "string_of n" "fits n" for n
  by unfold_locales (rule string_of_fits)



lemma optionalText_opt_fits: "optionalText s key n = Inr t \<Longrightarrow> opt_fits n t"
  unfolding optionalText_def opt_fits_def by (rule texts.optional_ok)

context sound_decoder
begin

lemma few_ok: "list_of n decode v = Inr xs \<Longrightarrow> few n ok xs"
  using list_ok by (auto simp: few_def list_all_iff dest: list_of_length)

end


subsection \<open>Requests and decisions\<close>






definition request_details_fit :: "request_details \<Rightarrow> bool" where
  "request_details_fit d \<longleftrightarrow> opt_fits 8192 (rd_command d) \<and> opt_fits 8192 (rd_cwd d) \<and> opt_fits 8192 (rd_reason d)
     \<and> opt_fits 8192 (rd_grantRoot d) \<and> opt_fits 256 (rd_toolName d) \<and> opt_fits 8192 (rd_target d) \<and> opt_fits 16384 (rd_preview d)
     \<and> pred_option (\<lambda>(protocol, host). fits 64 protocol \<and> fits 4096 host) (rd_network d)"

lemma network_fits:
  "(case net of None \<Rightarrow> Inr None
    | Some n \<Rightarrow> andThen (string_of 64 (field n ''protocol'')) (\<lambda>protocol.
                andThen (string_of 4096 (field n ''host'')) (\<lambda>host. Inr (Some (protocol, host))))) = Inr network \<Longrightarrow>
     pred_option (\<lambda>(protocol, host). fits 64 protocol \<and> fits 4096 host) network"
  by (auto simp: result_simps dest: string_of_fits split: option.splits)

interpretation request_details: sound_decoder nativeRequestDetails request_details_fit
proof
  fix v d assume "nativeRequestDetails v = Inr d"
  then show "request_details_fit d"
    unfolding nativeRequestDetails_def
    by (elim andThenE) (auto simp: request_details_fit_def dest: optionalText_opt_fits network_fits)
qed






subsection \<open>Options, queues and metadata\<close>








subsection \<open>Structured details\<close>



















subsection \<open>Events\<close>





subsection \<open>What an admitted event is\<close>



end
