(* ===== verification/Spec2Isabelle.thy ===== *)
theory Spec2Isabelle
  imports Stream_Properties Decode_Properties Seed_Props Presentation_Properties Search_Properties Hook_Properties
    Items_Properties Client_Properties Composer_Properties Editor_Properties Question_Properties Conversation_Properties
    Timeline_Properties Markdown_Properties Queue_Properties Input_Properties Chat_Properties Row_Properties View_Properties Disclosure_Properties Request_Views
    Shared_Properties Timeline_Keys Event_Bounds
begin

text \<open>
  The web client of the agent runtime, \<open>src/web/src\<close>, modelled and verified.

  \<^bold>\<open>The program.\<close> A service keeps the journal of a session with a coding agent: numbered events for the
  texts of items, for requests to the operator, for turns, the prompt queue and the worker. The
  client (\<open>client.ts\<close>) calls the service; \<open>useAgentStream.ts\<close> reads the current seed of a session,
  follows its event stream and keeps a display state; \<open>state.ts\<close> decodes everything that arrives and
  reduces events to that state; \<open>agentPresentation.ts\<close> projects it to the rows and requests that
  \<open>AgentConversation.tsx\<close> merges with other dated facts and \<open>T3Conversation.tsx\<close> shows, with the cards
  that answer requests, the composer that sends prompts and the timeline, whose texts \<open>ChatMarkdown.tsx\<close>
  renders, from a cached prefix while they stream. \<open>AgentPromptQueue.tsx\<close> edits the prompts that wait.
  \<open>providerSettings.ts\<close> and its two users edit the settings and select the model of the next turn.

  \<^bold>\<open>Shared ground.\<close> \<open>Prelude\<close> has the results of throwing code (\<open>error + 'a\<close>), \<open>traverse\<close> and JS objects
  as association lists in the order of insertion; \<open>Js_Value\<close> and \<open>Js_Text\<close> the JSON values, strings
  as lists of UTF-16 code units, \<open>JSON.stringify\<close>, \<open>String\<close> and UTF-8; \<open>Js_Library\<close> some more string
  functions; \<open>Machine\<close> the runs of a step relation, with a locale for invariants and one for state
  machines that have one call under way at most.

  \<^bold>\<open>Theories and files.\<close>
  \<^item> \<open>state.ts\<close>: \<open>Protocol\<close> (types), \<open>Decode\<close> (primitive decoders, turn options), \<open>Details\<close> (structured
    items), \<open>Events\<close> (requests, sessions, queue, events), \<open>Encode\<close> (what \<open>JSON.stringify\<close> writes of them,
    fingerprints), \<open>Stream\<close> (the reducer, one definition per kind of event, and \<open>applyEvent\<close>), \<open>Seed\<close>
    (\<open>decodeCurrentSeed\<close>); \<open>Shared_Objects\<close> for the objects that its states share.
  \<^item> \<open>agentPresentation.ts\<close>: \<open>Presentation\<close>, and \<open>Projector\<close> for the caches over object references.
  \<^item> \<open>upstream/t3/pendingUserInput.ts\<close>: \<open>UserInput\<close>. \<open>searchRanking.ts\<close>, \<open>modelPickerSearch.ts\<close>: \<open>Search\<close>.
  \<^item> \<open>useAgentStream.ts\<close>: \<open>Hook\<close>, one mounted effect as a state machine.
  \<^item> \<open>AgentConversation.tsx\<close>, \<open>optimisticMessages.ts\<close>, \<open>approvalStaleness.ts\<close>, \<open>promptIdentity.ts\<close>:
    \<open>Conversation_Items\<close>; the calls of the host are in \<open>Composer_Send\<close>.
  \<^item> \<open>client.ts\<close>: \<open>Client\<close> (roots, decoders, outcomes) and \<open>Client_Calls\<close> (one definition per operation).
  \<^item> \<open>providerSettings.ts\<close>: \<open>Provider_Settings\<close>. \<open>AgentProviderSettings.tsx\<close> and
    \<open>ProviderSettingsForm.tsx\<close>: \<open>Settings_Editor\<close>.
  \<^item> \<open>AgentComposerControls.tsx\<close>, \<open>ProviderModelPicker.tsx\<close>, \<open>ComposerOptionControls.tsx\<close>:
    \<open>Composer_Controls\<close>, and \<open>Composer_Views\<close> for what they show and the picker as a machine.
  \<^item> \<open>T3Conversation.tsx\<close>: \<open>Question_Card\<close> (with \<open>ComposerPendingUserInputPanel.tsx\<close>), \<open>Approval_Cards\<close>
    (with \<open>ComposerPendingApprovalActions.tsx\<close> and \<open>StaleApprovalNotice.tsx\<close>), \<open>Composer_Send\<close> (with
    \<open>ComposerPrimaryActions.tsx\<close>); what the cards show is in \<open>Request_Views\<close>.
  \<^item> \<open>MessagesTimeline.tsx\<close>, \<open>timelineState.tsx\<close>: \<open>Timeline_View\<close>, with the disclosure state as a machine in
    \<open>Disclosure\<close>. What is shown of the rows and of the
    settings form: \<open>Row_Views\<close>, with \<open>DecisionCard.tsx\<close>, \<open>AgentToolImages.tsx\<close>, \<open>MessageCopyButton.tsx\<close> and
    \<open>ProviderSettingsPanel.tsx\<close>.
  \<^item> \<open>markdown-incremental.ts\<close>: \<open>Markdown\<close>. \<open>ChatMarkdown.tsx\<close>: \<open>Chat_Markdown\<close>.
  \<^item> \<open>AgentPromptQueue.tsx\<close>: \<open>Prompt_Queue\<close>. \<open>ComposerPromptEditor.tsx\<close>, \<open>useCommitOnBlur.ts\<close>: \<open>Prompt_Editor\<close>.

  \<^bold>\<open>How React code is modelled.\<close> A component is a record of props, a record of its state and
  references, and a function per callback. A callback sees the props and state of the render that
  made it and the current references: functions take both states, \<open>shown\<close> for the render and the
  current one. The machines interleave renders, user actions and settlements of calls freely;
  disabled buttons do not click, and a call settles only after the render that its start caused.

  \<^bold>\<open>Parameters\<close>, with what is assumed of them where it is used: \<open>Date.parse\<close> (\<open>date_parser\<close>),
  \<open>JSON.parse\<close>, SHA-256 (of 32 bytes), \<open>toLowerCase\<close>, \<open>localeCompare\<close> (a consistent order), \<open>new URL\<close>,
  the Markdown parser (positions name true lines, a closed fence before a blank line is a boundary), the rich
  text editor (it reads back the text of the leaves it was given), and the transport, which chooses
  the actions of the machines.

  \<^bold>\<open>Lemma groups.\<close> \<open>Stream_Props\<close>, \<open>Stream_Items\<close>, \<open>Stream_Requests\<close>, \<open>Stream_History\<close>, \<open>Stream_Runs\<close>,
  \<open>Stream_Delivery\<close> and \<open>Stream_Properties\<close>: well-formed display states, the text of an item as the
  prefix of what the journal spells, the life of a request, verified repetitions and convergence of
  deliveries. \<open>Decode_Bounds\<close>, \<open>Decode_Props\<close>, \<open>Text_Props\<close>, \<open>Decode_Properties\<close>, \<open>Event_Bounds\<close>: what a
  decoder admits, and how long its texts are.
  \<open>Seed_Props\<close>: a seed is a sound start. \<open>Presentation_Props\<close>, \<open>Projector_Props\<close>,
  \<open>Projector_Runs\<close>, \<open>Presentation_Properties\<close>: cards and answers. \<open>Timeline_Keys\<close>: the
  keys of all rows. \<open>Shared_Props\<close>, \<open>Shared_Properties\<close>: the store of shared objects only grows and
  its recorded changes are sound, so the caches of the projector change nothing. \<open>Search_Props\<close>: the ranking and
  the search. \<open>Hook_Props\<close>, \<open>Hook_Queue\<close>: the hook, the texts that wait and their bounds. \<open>Items_Properties\<close>: merging and optimistic
  rows. \<open>Client_Properties\<close>, \<open>Composer_Properties\<close>, \<open>Editor_Properties\<close>,
  \<open>Question_Properties\<close>, \<open>Conversation_Properties\<close>, \<open>Timeline_Properties\<close>,
  \<open>Markdown_Properties\<close>, \<open>Queue_Properties\<close>, \<open>Input_Properties\<close>,
  \<open>Chat_Properties\<close>, \<open>Row_Properties\<close>, \<open>View_Properties\<close>,
  \<open>Disclosure_Properties\<close>: the parts they name. This
  theory has what holds of the hook, the presentation and the client together.
  \<open>Samples\<close> has the concrete events of the witnesses.

  \<^bold>\<open>Bounds and fuel.\<close> All functions are total by structural recursion or a measure; the binary search
  alone is a \<open>partial_function\<close>, and \<open>insertion_returns\<close> proves that it returns. Limits of the code (text
  lengths, counts, the 64 fingerprints, 256 waiting events, three seed reads) are kept at their value.
  Numbers that the code requires to be safe integers are \<open>nat\<close> or \<open>int\<close>; bytes are \<open>8 word\<close>.

  \<^bold>\<open>Not modelled.\<close> Markup, class names and focus handling; the wrappers in \<open>upstream/t3/ui\<close>,
  \<open>ComposerBanner.tsx\<close>, \<open>ComposerSurface.tsx\<close>, \<open>ComposerControl.tsx\<close> and the icons, which pass props on;
  the rich text editor, the Markdown parser and the virtual list, which belong to libraries; \<open>fetch\<close> and
  the parsing of the event stream, which belong to \<open>@xgc2/xrpc-client\<close>.
\<close>

subsection \<open>From the stream to the service\<close>

text \<open>A request that a hook shows has an identity that the decoder admitted.\<close>

lemma shown_request_is_safe:
  assumes "hook_ok session h" and "pendingRequest (hk_state h) rid = Inr (Found request)"
  shows "is_safe_id rid"
proof -
  have "requests_ok (hk_state h)" using assms(1) by (simp add: hook_ok_def shows_session_def stream_ok_def)
  then show ?thesis using requests_okD(3) assms(2) [unfolded pendingRequest_Found]
    by (fastforce simp: entry_ok_def request_ok_def)
qed

lemma answered_request_is_found:
  assumes "nativeApprovalAnswer s rid decision = Inr answer \<or> nativeQuestionAnswer s rid answers = Inr answer"
  shows "\<exists>request. pendingRequest s rid = Inr (Found request)"
proof -
  obtain found where found: "pendingRequest s rid = Inr found"
    using assms by (auto simp: nativeApprovalAnswer_def nativeQuestionAnswer_def result_simps)
  then show ?thesis using assms by (cases found) (auto simp: nativeApprovalAnswer_def nativeQuestionAnswer_def)
qed

lemma answer_call:
  assumes "is_safe_id i" and "is_safe_id rid"
  shows "answerNativeRequest c i rid answer = Inr (call_request c POST (js ''/sessions/'' @ i @ js ''/inputs/'' @ rid) client_record
     (plain_init\<lparr>in_body := AnswerPayload answer\<rparr>))"
  using encode_ids [OF is_safe_id_units [OF assms(1)]] encode_ids [OF is_safe_id_units [OF assms(2)]]
  by (simp add: answerNativeRequest_def sessionPath_def)

text \<open>
  \<open>posted c i rid answer\<close>: answering the request makes a call of the client, a \<open>POST\<close> to the path of that
  request in that session with the answer as its body.
\<close>

definition posted :: "client \<Rightarrow> jstr \<Rightarrow> jstr \<Rightarrow> agent_answer \<Rightarrow> bool" where
  "posted c i rid answer \<longleftrightarrow> (\<exists>call decode. answerNativeRequest c i rid answer = Inr (call, decode)
     \<and> xc_url call = cl_root c @ js ''/sessions/'' @ i @ js ''/inputs/'' @ rid
     \<and> xc_method call = POST \<and> xc_body call = AnswerPayload answer)"

text \<open>
  Whatever a hook received of its session, an answer that the checks on its display state admit is
  posted: no identity that the stream brings makes the call fail or go elsewhere.
\<close>

lemma admitted_answer_is_posted:
  assumes "hook_ok session h" and "is_safe_id (se_id session)"
    and "nativeApprovalAnswer (hk_state h) rid decision = Inr answer \<or> nativeQuestionAnswer (hk_state h) rid answers = Inr answer"
  shows "posted c (st_sessionId (hk_state h)) rid answer"
proof -
  have i: "st_sessionId (hk_state h) = se_id session" using assms(1) by (auto simp: hook_ok_def shows_session_def)
  obtain request where "pendingRequest (hk_state h) rid = Inr (Found request)"
    using answered_request_is_found [OF assms(3)] by blast
  then show ?thesis using answer_call [OF assms(2) shown_request_is_safe [OF assms(1)]] i
    by (simp add: posted_def call_request_def plain_init_def)
qed

lemma hook_run_ok:
  "hook_run read dp sha session (mount session reload s s lastReload) as h \<Longrightarrow> stream_ok s \<Longrightarrow> hook_ok session h"
  using hook.runs_inv mount_ok by blast

lemma hook_ok_stream: "hook_ok session h \<Longrightarrow> stream_ok (hk_state h)"
  by (simp add: hook_ok_def shows_session_def)

text \<open>
  C8. A click on an approval reaches the service. Whatever the hook of a session received, take any approval that the
  conversation shows for its display state and any enabled button of its card: unless a call for that request is
  already under way, the click makes the call with the decision of that button; the adapter admits that decision, and
  it is posted to the path of that very request in that session.
\<close>

theorem clicked_decision_is_posted:
  assumes "hook_run read dp sha session (mount session reload s s lastReload) as h" and "stream_ok s" and "is_safe_id (se_id session)"
    and "nativeConversationModel parse dp (hk_state h) loc = Inr m" and "a \<in> set (cm_approvals m)"
    and "(decision, label, warning) \<in> set (av_buttons (view_approval (cm_sessionKey m) loc p seen a))" 
    and "\<not> av_locked (view_approval (cm_sessionKey m) loc p seen a)"
  shows "snd (respond_started p seen (pa_requestId a) (Some decision) now)
      = (if pa_requestId a \<in> as_inFlight now then None else Some (ApprovalCall (pa_requestId a) decision))
    \<and> adapter_approval (hk_state h) (pa_requestId a) decision = Inr (AdapterAnswer (pa_requestId a) (ChosenOption decision))
    \<and> posted c (se_id session) (pa_requestId a) (ChosenOption decision)"
proof -
  have ok: "hook_ok session h" using hook_run_ok [OF assms(1,2)] .
  note st = hook_ok_stream [OF ok]
  have i: "st_sessionId (hk_state h) = se_id session" using ok by (auto simp: hook_ok_def shows_session_def)
  have "a \<in> set (shown_approvals loc (st_pending (hk_state h)))" using assms(5) model_entries(2) [OF st assms(4)] by simp
  then obtain k r where r: "(k, Pending r (pa_submitted a)) \<in> set (st_pending (hk_state h))" "rq_id r = pa_requestId a"
    "rq_kind r \<noteq> Exactly QuestionReq" "map ao_decision (pa_options a) = map do_id (rq_options r)" by (rule shown_approval_entry)
  have unlocked: "\<not> approval_locked p seen a" using assms(7) by (simp add: view_approval_def Let_def)
  then have "\<not> pa_submitted a" by (simp add: approval_locked_def awaiting_provider_def)
  then have kept: "prop_get (st_pending (hk_state h)) (pa_requestId a) = Some (Pending r False)"
    using pending_entry [OF st r(1)] r(2) by simp
  have "decision \<in> set (map ao_decision (pa_options a))" using assms(6) by (auto simp: view_approval_def Let_def)
  then have admitted: "nativeApprovalAnswer (hk_state h) (pa_requestId a) decision = Inr (ChosenOption decision)"
    using kept r(3) unfolding r(4) by (simp add: nativeApprovalAnswer_Inr)
  have "snd (respond_started p seen (pa_requestId a) (Some decision) now)
      = (if pa_requestId a \<in> as_inFlight now then None else Some (ApprovalCall (pa_requestId a) decision))"
    using unlocked by (auto simp: respond_started_def approval_call_of_def approval_locked_def awaiting_provider_def Let_def)
  moreover have "posted c (se_id session) (pa_requestId a) (ChosenOption decision)"
    using admitted_answer_is_posted [OF ok assms(3) disjI1 [OF admitted]] i by simp
  ultimately show ?thesis using admitted by (simp add: adapter_approval_def)
qed

theorem clicked_decision_is_posted_witness:
  "(\<exists>p. snd (respond_started p fresh_approvals (js ''i1'') (Some (js ''yes'')) fresh_approvals) = Some (ApprovalCall (js ''i1'') (js ''yes'')))
     \<and> adapter_approval open_state (js ''i1'') (js ''yes'') = Inr (AdapterAnswer (js ''i1'') (ChosenOption (js ''yes'')))
     \<and> posted sample_client (js ''s1'') (js ''i1'') (ChosenOption (js ''yes''))"
proof -
  let ?h = "mount sample_expected 0 open_state open_state 0" and ?s = "fresh_approvals"
  let ?p = "\<lparr>ap_active = True, ap_disabled = False, ap_stale = []\<rparr>"
  have r: "hook_run sample_reader sample_dates id sample_expected ?h [] ?h" by (rule runs.start)
  have s: "hk_state ?h = open_state" by (simp add: mount_def open_state_def sample_state_def emptyStream_def sample_expected_def)
  have i: "is_safe_id (se_id sample_expected)" "se_id sample_expected = js ''s1''" by (simp_all add: sample_expected_def)
  obtain m where m: "nativeConversationModel (\<lambda>_. None) sample_dates (hk_state ?h) En = Inr m" unfolding s
    by (simp add: nativeConversationModel_def projectPending_def prop_values_def open_state_def nativeRequestPresentation_def
        sample_approval_def split_presentation_def sample_state_def emptyStream_def Let_def)
  then have "cm_approvals m = shown_approvals En (st_pending open_state)" using model_entries(2) [OF open_state_ok] unfolding s by blast
  then obtain a where a: "a \<in> set (cm_approvals m)" "pa_requestId a = js ''i1''" "\<not> pa_submitted a"
      "pa_options a = [\<lparr>ao_decision = js ''yes'', ao_label = js ''Yes'', ao_warning = None\<rparr>]"
    by (simp add: shown_approvals_def List.map_filter_simps open_state_def nativeRequestPresentation_def sample_approval_def)
  have b: "(js ''yes'', js ''Yes'', None) \<in> set (av_buttons (view_approval (cm_sessionKey m) En ?p ?s a))"
    by (simp add: view_approval_def Let_def a(4) kept_def)
  have l: "\<not> av_locked (view_approval (cm_sessionKey m) En ?p ?s a)"
    by (simp add: view_approval_def Let_def approval_locked_def awaiting_provider_def fresh_approvals_def a(3))
  note w = clicked_decision_is_posted [OF r open_state_ok i(1) m a(1) b l, of ?s sample_client, unfolded s a(2) i(2)]
  have "as_inFlight ?s = {}" by (simp add: fresh_approvals_def)
  with w show ?thesis by (intro conjI exI [of _ ?p]) simp_all
qed

text \<open>
  C13. A click on the card of a question reaches the service. Whatever the hook of a session received, take the card
  of any question request that the conversation shows for its display state, with questions other than
  \<open>__proto__\<close> and options that are not blank, where its primary button reads ``Submit answer'' and is enabled: unless
  a call is already under way, a click answers this request with the drafts of the card; the adapter admits the answers,
  what is sent has the values of the card under every question, and it is posted to the path of that very request in
  that session.
\<close>

theorem clicked_answer_is_posted:
  assumes "hook_run read dp sha session (mount session reload s s lastReload) as h" and "stream_ok s" and "is_safe_id (se_id session)"
    and "nativeConversationModel parse dp (hk_state h) loc = Inr m"
    and "p \<in> set (fst (snd (pending_view (cm_sessionKey m) loc carries ap approvals (cm_approvals m) (cm_userInputs m))))"
    and "js ''__proto__'' \<notin> set (map uq_id (kp_questions p))"
    and "\<forall>q \<in> set (kp_questions p). \<forall>opt \<in> set (uq_options q). trim (option_value opt) \<noteq> []"
    and "cw_primary (show_card identity title p seen) = (js ''Submit answer'', False)"
  shows "\<exists>answers sent. snd (primary_click p seen now) = (if ca_inFlight now then None else Some (AnswerCall (kp_requestId p) answers))
    \<and> submitted_answers (kp_questions p) (ca_answers seen) = Some answers
    \<and> adapter_input (hk_state h) (kp_requestId p) answers = Inr (AdapterAnswer (kp_requestId p) (Answers sent))
    \<and> (\<forall>q \<in> set (kp_questions p). prop_get sent (uq_id q) = prop_get answers (uq_id q))
    \<and> posted c (se_id session) (kp_requestId p) (Answers sent)"
proof -
  have ok: "hook_ok session h" using hook_run_ok [OF assms(1,2)] .
  note st = hook_ok_stream [OF ok]
  have i: "st_sessionId (hk_state h) = se_id session" using ok by (auto simp: hook_ok_def shows_session_def)
  obtain u where u: "u \<in> set (shown_inputs loc (st_pending (hk_state h)))" "kp_requestId p = pu_requestId u"
      "kp_questions p = pu_questions u" "kp_submitted p = Some (pu_submitted u)"
    using assms(5) model_entries(3) [OF st assms(4)] by (auto simp: pending_view_def)
  obtain k r where r: "(k, Pending r (pu_submitted u)) \<in> set (st_pending (hk_state h))" "rq_id r = pu_requestId u"
    "rq_kind r = Exactly QuestionReq" "pu_questions u = map presented_question (rq_questions r)" using u(1) by (rule shown_input_entry)
  obtain answers where made: "submitted_answers (kp_questions p) (ca_answers seen) = Some answers"
      "snd (primary_click p seen now) = (if ca_inFlight now then None else Some (AnswerCall (kp_requestId p) answers))"
    using primary_click_shown(2) [OF assms(8)] by blast
  have "\<not> card_locked p seen" using assms(8) by (auto simp: show_card_def primary_disabled_def)
  then have "\<not> pu_submitted u" using u(4) by (simp add: card_locked_def)
  then have found: "pendingRequest (hk_state h) (kp_requestId p) = Inr (Found r)"
    using pending_entry [OF st r(1)] r(2) u(2) by (simp add: pendingRequest_Found)
  have q: "distinct (map qu_id (rq_questions r))" using pending_entry(3) [OF st r(1)] by (simp add: request_ok_def)
  have ids: "map uq_id (kp_questions p) = map qu_id (rq_questions r)" by (simp add: u(3) r(4) presented_question_def)
  have blank: "\<forall>q \<in> set (rq_questions r). \<forall>opt \<in> set (qu_options q). trim (do_id opt) \<noteq> []"
    using assms(7) by (auto simp: u(3) r(4) presented_question_def option_value_def)
  have proto: "js ''__proto__'' \<notin> set (map qu_id (rq_questions r))" using assms(6) unfolding ids .
  obtain sent where sent: "nativeQuestionAnswer (hk_state h) (kp_requestId p) answers = Inr (Answers sent)"
    using submitted_answers_pass [OF found r(3) _ q proto blank] made(1) u(3) r(4) by auto
  then have "fold_result (check_question answers) [] (rq_questions r) = Inr sent"
    using found by (auto simp: nativeQuestionAnswer_def result_simps)
  from check_questions_get [OF this proto q]
  have "\<forall>q \<in> set (kp_questions p). prop_get sent (uq_id q) = prop_get answers (uq_id q)"
    by (auto simp: u(3) r(4) presented_question_def)
  moreover have "posted c (se_id session) (kp_requestId p) (Answers sent)"
    using admitted_answer_is_posted [OF ok assms(3) disjI2 [OF sent]] i by simp
  ultimately show ?thesis using made sent by (auto simp: adapter_input_def)
qed

text \<open>A session that asks one question, and a card with an option chosen.\<close>

definition asked_state :: stream_state where
  "asked_state = open_state\<lparr>st_pending := [(js ''i1'', Pending (sample_ask ''q1'') False)],
     st_decisions := []\<rparr>"

lemma asked_state_ok: "stream_ok asked_state"
  by (auto simp: stream_ok_def asked_state_def open_state_def sample_state_def emptyStream_def items_ok_def requests_ok_def notices_ok_def
      facts_ok_def recent_ok_def agrees_def prop_get_def entry_ok_def decision_ok_def request_ok_def sample_ask_def sample_question_def
      sample_approval_def option_list_ok_def question_ok_def distinct_keys_def split: if_splits)

theorem clicked_answer_is_posted_witness:
  "\<exists>p s answers sent. snd (primary_click p s s) = Some (AnswerCall (js ''i1'') answers)
     \<and> adapter_input asked_state (js ''i1'') answers = Inr (AdapterAnswer (js ''i1'') (Answers sent))
     \<and> posted sample_client (js ''s1'') (js ''i1'') (Answers sent)"
proof -
  let ?h = "mount sample_expected 0 asked_state asked_state 0" and ?s = "fresh_card\<lparr>ca_answers := sample_drafts\<rparr>"
  let ?ap = "\<lparr>ap_active = True, ap_disabled = False, ap_stale = []\<rparr>"
  let ?p = "\<lparr>kp_requestId = js ''i1'', kp_questions = [presented_question (sample_question ''q1'')], kp_submitted = Some False,
     kp_active = True, kp_disabled = False, kp_carries = True\<rparr>"
  have r: "hook_run sample_reader sample_dates id sample_expected ?h [] ?h" by (rule runs.start)
  have s: "hk_state ?h = asked_state"
    by (simp add: mount_def asked_state_def open_state_def sample_state_def emptyStream_def sample_expected_def)
  have i: "is_safe_id (se_id sample_expected)" "se_id sample_expected = js ''s1''" by (simp_all add: sample_expected_def)
  obtain m where m: "nativeConversationModel (\<lambda>_. None) sample_dates (hk_state ?h) En = Inr m" unfolding s
    by (simp add: nativeConversationModel_def projectPending_def prop_values_def asked_state_def open_state_def nativeRequestPresentation_def
        sample_ask_def sample_approval_def split_presentation_def sample_state_def emptyStream_def Let_def)
  then have "cm_userInputs m = shown_inputs En (st_pending asked_state)" using model_entries(3) [OF asked_state_ok] unfolding s by blast
  then have p: "?p \<in> set (fst (snd (pending_view (cm_sessionKey m) En True ?ap fresh_approvals (cm_approvals m) (cm_userInputs m))))"
    by (simp add: pending_view_def shown_inputs_def List.map_filter_simps asked_state_def nativeRequestPresentation_def
        sample_ask_def sample_approval_def)
  have q: "js ''__proto__'' \<notin> set (map uq_id (kp_questions ?p))"
    by (simp add: presented_question_def sample_question_def js_def)
  have o1: "\<forall>q \<in> set (kp_questions ?p). \<forall>opt \<in> set (uq_options q). trim (option_value opt) \<noteq> []"
    by (simp add: presented_question_def sample_question_def option_value_def)
  have c: "cw_primary (show_card (js ''k'') [] ?p ?s) = (js ''Submit answer'', False)" by code_simp
  obtain answers sent where "snd (primary_click ?p ?s ?s) = (if ca_inFlight ?s then None else Some (AnswerCall (kp_requestId ?p) answers))"
    "adapter_input asked_state (js ''i1'') answers = Inr (AdapterAnswer (js ''i1'') (Answers sent))"
    "posted sample_client (js ''s1'') (js ''i1'') (Answers sent)"
    using clicked_answer_is_posted [OF r asked_state_ok i(1) m p q o1 c, of ?s sample_client] unfolding s i(2) by auto
  moreover have "\<not> ca_inFlight ?s" by (simp add: fresh_card_def)
  ultimately show ?thesis by (intro exI [of _ ?p] exI [of _ ?s] exI [of _ answers] exI [of _ sent]) simp
qed

end
